(* ===== verification/Prelude.thy ===== *)
theory Prelude
  imports Main "HOL-Library.Char_ord" "HOL-Library.List_Lexorder" "HOL-Library.AList"
    "HOL-Library.State_Monad" "HOL-Library.Sublist"
begin

text \<open>
  Shared vocabulary of the development: the fact collections, Go's strings, numbers, maps and
  error values, the result of a reconcile function, and the program logic for code that talks to
  the outside world.

  \<^item> Strings are byte lists and Go's \<open><\<close> on strings is the lexicographic order on bytes (theories
    \<open>Char_ord\<close> and \<open>List_Lexorder\<close>).  A Go \<open>map[string]string\<close> is an association list
    read through \<^const>\<open>map_of\<close>; the nil map and the empty map are both \<open>[]\<close>.
  \<^item> A Go \<open>int\<close> is an \<^typ>\<open>int\<close> in the 64-bit range; the additions whose overflow is visible go
    through \<open>wrap64\<close>.  Durations are nanoseconds.
  \<^item> Code with effects is a \<open>State_Monad\<close> computation over a \<open>cfg\<close>: the trace of requests made so
    far and the in-memory object that the reconciler mutates through its pointer.
\<close>

section \<open>Fact collections\<close>

named_theorems wp_simps \<open>weakest-precondition equations, used by symbolic execution\<close>
named_theorems emits_intros \<open>structural rules for the requests a computation may emit\<close>
named_theorems naming_simps \<open>equations of the object naming functions\<close>

section \<open>Decimal numerals\<close>

definition digit_char :: "nat \<Rightarrow> char" where
  "digit_char d = char_of (48 + d)"

fun show_nat :: "nat \<Rightarrow> string" where
  "show_nat n = (if n < 10 then [digit_char n] else show_nat (n div 10) @ [digit_char (n mod 10)])"

declare show_nat.simps [simp del]

definition show_int :: "int \<Rightarrow> string" where
  "show_int i = (if i < 0 then CHR ''-'' # show_nat (nat (- i)) else show_nat (nat i))"

definition is_digit :: "char \<Rightarrow> bool" where
  "is_digit c \<longleftrightarrow> 48 \<le> (of_char c :: nat) \<and> (of_char c :: nat) \<le> 57"

fun digits_val :: "nat \<Rightarrow> string \<Rightarrow> nat option" where
  "digits_val acc [] = Some acc"
| "digits_val acc (c # cs) =
     (if is_digit c then digits_val (acc * 10 + (of_char c - 48)) cs else None)"

text \<open>\<open>strconv.Atoi\<close>: an optional sign, at least one decimal digit, and a 64-bit range check.\<close>

definition in_int64 :: "int \<Rightarrow> bool" where
  "in_int64 v \<longleftrightarrow> - (2 ^ 63) \<le> v \<and> v < 2 ^ 63"

definition Atoi :: "string \<Rightarrow> int option" where
  "Atoi s =
     (let neg = (take 1 s = ''-'');
          ds = (if take 1 s = ''-'' \<or> take 1 s = ''+'' then drop 1 s else s)
      in if ds = [] then None
         else case digits_val 0 ds of
                None \<Rightarrow> None
              | Some n \<Rightarrow>
                  let v = (if neg then - int n else int n)
                  in if in_int64 v then Some v else None)"

text \<open>Two's complement wrap-around of a 64-bit Go \<open>int\<close>.\<close>

definition wrap64 :: "int \<Rightarrow> int" where
  "wrap64 x = (x + 2 ^ 63) mod 2 ^ 64 - 2 ^ 63"

lemma wrap64_id [simp]: "in_int64 x \<Longrightarrow> wrap64 x = x"
  by (simp add: wrap64_def in_int64_def)

lemma wrap64_bound: "in_int64 (wrap64 x)"
proof -
  have "0 \<le> (x + 2 ^ 63) mod 2 ^ 64" "(x + 2 ^ 63) mod 2 ^ 64 < (2 ^ 64 :: int)"
    by simp_all
  then show ?thesis
    by (simp add: wrap64_def in_int64_def)
qed

lemma of_char_digit_char: "d < 10 \<Longrightarrow> of_char (digit_char d) = 48 + d"
  by (simp add: digit_char_def)

lemma is_digit_digit_char: "d < 10 \<Longrightarrow> is_digit (digit_char d)"
  by (simp add: is_digit_def of_char_digit_char)

lemma show_nat_nonempty [simp]: "show_nat n \<noteq> []"
  by (subst show_nat.simps) simp

lemma show_nat_digits: "c \<in> set (show_nat n) \<Longrightarrow> is_digit c"
proof (induction n rule: show_nat.induct)
  case (1 n)
  then show ?case
    by (subst (asm) (2) show_nat.simps)
      (auto simp: is_digit_digit_char split: if_splits)
qed

lemma digits_val_append:
  "digits_val acc (xs @ ys) = Option.bind (digits_val acc xs) (\<lambda>a. digits_val a ys)"
  by (induction xs arbitrary: acc) auto

lemma digits_val_show_nat: "digits_val 0 (show_nat n) = Some n"
proof (induction n rule: show_nat.induct)
  case (1 n)
  then show ?case
    by (subst show_nat.simps)
      (simp add: digits_val_append is_digit_digit_char of_char_digit_char)
qed

lemma show_nat_no_dash: "CHR ''-'' \<notin> set (show_nat n)"
  using show_nat_digits [of "CHR ''-''" n] by (auto simp: is_digit_def)

lemma show_nat_inject [simp]: "show_nat m = show_nat n \<longleftrightarrow> m = n"
  by (metis digits_val_show_nat option.inject)

lemma show_nat_head:
  "take 1 (show_nat n) \<noteq> ''-''" "take 1 (show_nat n) \<noteq> ''+''"
proof -
  obtain c cs where c: "show_nat n = c # cs"
    by (cases "show_nat n") auto
  then have "is_digit c"
    using show_nat_digits [of c n] by simp
  then show "take 1 (show_nat n) \<noteq> ''-''" "take 1 (show_nat n) \<noteq> ''+''"
    using c by (auto simp: is_digit_def)
qed

lemma Atoi_show_nat: "n < 2 ^ 63 \<Longrightarrow> Atoi (show_nat n) = Some (int n)"
  using show_nat_head [of n]
  by (simp add: Atoi_def Let_def digits_val_show_nat in_int64_def)

lemma show_int_nonneg: "0 \<le> i \<Longrightarrow> show_int i = show_nat (nat i)"
  by (simp add: show_int_def)

lemma show_int_inject_nonneg:
  "0 \<le> i \<Longrightarrow> 0 \<le> j \<Longrightarrow> show_int i = show_int j \<longleftrightarrow> i = j"
  by (simp add: show_int_def nat_eq_iff)

lemma Atoi_in_int64: "Atoi s = Some v \<Longrightarrow> in_int64 v"
  by (auto simp: Atoi_def Let_def split: if_splits option.splits)

section \<open>Strings\<close>

text \<open>\<open>strings.Split(s, "-")\<close> with a one-byte separator: never an empty slice.\<close>

fun split_on :: "char \<Rightarrow> string \<Rightarrow> string list" where
  "split_on d [] = [[]]"
| "split_on d (c # cs) =
     (if c = d then [] # split_on d cs
      else case split_on d cs of [] \<Rightarrow> [[c]] | w # ws \<Rightarrow> (c # w) # ws)"

lemma split_on_nonempty [simp]: "split_on d s \<noteq> []"
  by (cases s) (auto split: list.splits)

lemma split_on_no_sep: "d \<notin> set s \<Longrightarrow> split_on d s = [s]"
  by (induction s) auto

lemma last_split_on_append: "d \<notin> set t \<Longrightarrow> last (split_on d (s @ d # t)) = t"
proof (induction s)
  case Nil
  then show ?case by (simp add: split_on_no_sep)
next
  case (Cons c s)
  then have IH: "last (split_on d (s @ d # t)) = t" by simp
  have "length (split_on d (s @ d # t)) \<ge> 2"
    by (induction s) (auto split: list.splits simp: Suc_le_eq)
  then obtain w w' ws where "split_on d (s @ d # t) = w # w' # ws"
    by (cases "split_on d (s @ d # t)" rule: list.exhaust; cases "tl (split_on d (s @ d # t))") auto
  with IH show ?case by auto
qed

text \<open>The single-quoted operand of a message.\<close>

definition quoted :: "string \<Rightarrow> string" where
  "quoted s = CHR 0x27 # s @ [CHR 0x27]"

text \<open>\<open>strings.Join\<close>.\<close>

fun str_join :: "string \<Rightarrow> string list \<Rightarrow> string" where
  "str_join sep [] = []"
| "str_join sep [x] = x"
| "str_join sep (x # y # ys) = x @ sep @ str_join sep (y # ys)"

section \<open>Searching lists\<close>

text \<open>\<open>List.find\<close> returns the first hit.\<close>

lemma find_SomeD:
  "List.find P xs = Some x \<Longrightarrow> \<exists>ys zs. xs = ys @ x # zs \<and> P x \<and> (\<forall>y \<in> set ys. \<not> P y)"
proof (induction xs)
  case (Cons a xs)
  show ?case
  proof (cases "P a")
    case True
    with Cons.prems show ?thesis by (intro exI [of _ "[]"] exI [of _ xs]) auto
  next
    case False
    with Cons obtain ys zs where "xs = ys @ x # zs" "P x" "\<forall>y \<in> set ys. \<not> P y" by auto
    with False show ?thesis by (intro exI [of _ "a # ys"] exI [of _ zs]) auto
  qed
qed simp

section \<open>Pointers and string maps\<close>

text \<open>\<open>ptr.Deref\<close>: the value a pointer points to, or a default for nil.\<close>

definition ptr_Deref :: "'a option \<Rightarrow> 'a \<Rightarrow> 'a" where
  "ptr_Deref p d = (case p of None \<Rightarrow> d | Some x \<Rightarrow> x)"

lemma ptr_Deref_simps [simp]: "ptr_Deref None d = d" "ptr_Deref (Some x) d = x"
  by (simp_all add: ptr_Deref_def)

type_synonym strmap = "(string \<times> string) list"

text \<open>\<open>for k, v := range src { dst[k] = v }\<close>.\<close>

definition merge_map :: "strmap \<Rightarrow> strmap \<Rightarrow> strmap" where
  "merge_map dst src = fold (\<lambda>(k, v) m. AList.update k v m) src dst"

lemma map_of_merge_map: "map_of (merge_map dst src) = map_of dst ++ map_of (rev src)"
  unfolding merge_map_def
  by (induction src arbitrary: dst)
    (auto simp: update_conv' map_add_def fun_eq_iff split: option.splits)

lemma merge_map_Nil [simp]: "merge_map dst [] = dst"
  by (simp add: merge_map_def)

lemma map_of_update [simp]: "map_of (AList.update k v m) = (map_of m)(k \<mapsto> v)"
  by (rule update_conv')

section \<open>Error values\<close>

text \<open>
  Go's \<open>error\<close> values as far as the operator inspects them.  \<open>ErrV\<close> is \<open>fmt.Errorf\<close> with
  \<open>%v\<close>, which keeps the text and cuts the chain; \<open>ErrW\<close> is the \<open>%w\<close> form, which keeps it;
  \<open>ErrJoin\<close> is \<open>errors.Join\<close> of non-nil errors.  \<open>ApiErr\<close> is a Kubernetes status error,
  \<open>MySQLErr\<close> a protocol error of the driver, \<open>Sentinel\<close> a package-level \<open>errors.New\<close>
  variable, \<open>Panic\<close> a runtime panic (a nil dereference or a write to a nil map), which no code
  of the operator tests for.
\<close>

datatype kreason = NotFound | Conflict | AlreadyExists | OtherReason

datatype goerr =
    ApiErr kreason string
  | MySQLErr nat string
  | Sentinel string
  | ErrNew string
  | ErrV string goerr
  | ErrW string goerr
  | ErrJoin "goerr list"
  | Panic string

fun errText :: "goerr \<Rightarrow> string" where
  "errText (ApiErr _ m) = m"
| "errText (MySQLErr _ m) = m"
| "errText (Sentinel m) = m"
| "errText (ErrNew m) = m"
| "errText (ErrV m e) = m @ errText e"
| "errText (ErrW m e) = m @ errText e"
| "errText (ErrJoin es) = str_join [CHR 0x0A] (map errText es)"
| "errText (Panic m) = m"

text \<open>\<open>errors.As\<close> for a Kubernetes status error: the first one of the chain, depth first.\<close>

fun as_api :: "goerr \<Rightarrow> kreason option" and as_api_list :: "goerr list \<Rightarrow> kreason option" where
  "as_api (ApiErr r _) = Some r"
| "as_api (ErrW _ e) = as_api e"
| "as_api (ErrJoin es) = as_api_list es"
| "as_api _ = None"
| "as_api_list [] = None"
| "as_api_list (e # es) = (case as_api e of None \<Rightarrow> as_api_list es | Some r \<Rightarrow> Some r)"

definition IsNotFound :: "goerr \<Rightarrow> bool" where
  "IsNotFound e \<longleftrightarrow> as_api e = Some NotFound"

definition IsConflict :: "goerr \<Rightarrow> bool" where
  "IsConflict e \<longleftrightarrow> as_api e = Some Conflict"

text \<open>\<open>errors.Is\<close> against a package-level error variable.\<close>

fun errors_Is :: "goerr \<Rightarrow> string \<Rightarrow> bool" where
  "errors_Is (Sentinel m) t = (m = t)"
| "errors_Is (ErrW _ e) t = errors_Is e t"
| "errors_Is (ErrJoin es) t = (\<exists>e \<in> set es. errors_Is e t)"
| "errors_Is _ t = False"

text \<open>\<open>client.IgnoreNotFound\<close> and \<open>errors.Join\<close> on values that may be nil.\<close>

definition IgnoreNotFound :: "goerr \<Rightarrow> goerr option" where
  "IgnoreNotFound e = (if IsNotFound e then None else Some e)"

definition errors_Join :: "goerr option list \<Rightarrow> goerr option" where
  "errors_Join es =
     (case List.map_filter id es of [] \<Rightarrow> None | ys \<Rightarrow> Some (ErrJoin ys))"

lemma IsNotFound_simps [simp]:
  "IsNotFound (ApiErr r m) \<longleftrightarrow> r = NotFound"
  "IsNotFound (ErrV m e) \<longleftrightarrow> False"
  "IsNotFound (ErrW m e) \<longleftrightarrow> IsNotFound e"
  "IsNotFound (ErrNew m) \<longleftrightarrow> False"
  "IsNotFound (Sentinel m) \<longleftrightarrow> False"
  "IsNotFound (MySQLErr n m) \<longleftrightarrow> False"
  "IsNotFound (Panic m) \<longleftrightarrow> False"
  by (simp_all add: IsNotFound_def)

lemma errors_Join_two:
  "errors_Join [Some e, None] = Some (ErrJoin [e])"
  "errors_Join [None, None] = None"
  "errors_Join [Some e, Some e'] = Some (ErrJoin [e, e'])"
  "errors_Join [None, Some e'] = Some (ErrJoin [e'])"
  by (simp_all add: errors_Join_def map_filter_simps)

section \<open>Results of a reconcile function\<close>

record ctrl_result =
  Requeue :: bool
  RequeueAfter :: int

definition ResultZero :: ctrl_result where
  "ResultZero = \<lparr>Requeue = False, RequeueAfter = 0\<rparr>"

definition ResultRequeue :: ctrl_result where
  "ResultRequeue = \<lparr>Requeue = True, RequeueAfter = 0\<rparr>"

definition Second :: int where
  "Second = 1000000000"

definition ResultAfter :: "int \<Rightarrow> ctrl_result" where
  "ResultAfter d = \<lparr>Requeue = False, RequeueAfter = d\<rparr>"

definition IsZero :: "ctrl_result \<Rightarrow> bool" where
  "IsZero r \<longleftrightarrow> r = ResultZero"

type_synonym outcome = "ctrl_result \<times> goerr option"

lemma IsZero_simps [simp]:
  "IsZero ResultZero" "\<not> IsZero ResultRequeue" "IsZero (ResultAfter d) \<longleftrightarrow> d = 0"
  by (simp_all add: IsZero_def ResultZero_def ResultRequeue_def ResultAfter_def)

lemma Second_pos [simp]: "Second \<noteq> 0" "0 < Second"
  by (simp_all add: Second_def)

section \<open>Computations with requests\<close>

text \<open>
  A computation runs over the trace of requests it has made and the object it works on.  A reply
  is a function of the whole trace: an arbitrary environment, which may fail, change the cluster
  behind the operator's back or answer differently each time, is an arbitrary such function.
\<close>

record ('c, 'o) cfg =
  trace :: "'c list"
  obj :: 'o

type_synonym ('c, 'o, 'a) prog = "(('c, 'o) cfg, 'a) state"

abbreviation ret :: "'a \<Rightarrow> ('s, 'a) state" where
  "ret \<equiv> State_Monad.return"

definition perform :: "'c \<Rightarrow> ('c list \<Rightarrow> 'a) \<Rightarrow> ('c, 'o, 'a) prog" where
  "perform c f = State (\<lambda>s. (f (trace s), s\<lparr>trace := trace s @ [c]\<rparr>))"

definition get_obj :: "('c, 'o, 'o) prog" where
  "get_obj = State (\<lambda>s. (obj s, s))"

definition put_obj :: "'o \<Rightarrow> ('c, 'o, unit) prog" where
  "put_obj x = State (\<lambda>s. ((), s\<lparr>obj := x\<rparr>))"

text \<open>Weakest preconditions: what \<open>p\<close> returns and leaves satisfies \<open>Q\<close>.\<close>

definition wp :: "('s, 'a) state \<Rightarrow> ('a \<Rightarrow> 's \<Rightarrow> bool) \<Rightarrow> 's \<Rightarrow> bool" where
  "wp p Q s = (case run_state p s of (a, s') \<Rightarrow> Q a s')"

lemma wp_return [wp_simps]: "wp (ret a) Q = Q a"
  by (simp add: wp_def fun_eq_iff)

lemma wp_bind [wp_simps]: "wp (State_Monad.bind p f) Q = wp p (\<lambda>a. wp (f a) Q)"
  by (simp add: wp_def fun_eq_iff split: prod.splits)

lemma wp_perform [wp_simps]:
  "wp (perform c f) Q s = Q (f (trace s)) (s\<lparr>trace := trace s @ [c]\<rparr>)"
  by (simp add: wp_def perform_def)

lemma wp_get_obj [wp_simps]: "wp get_obj Q s = Q (obj s) s"
  by (simp add: wp_def get_obj_def)

lemma wp_put_obj [wp_simps]: "wp (put_obj x) Q s = Q () (s\<lparr>obj := x\<rparr>)"
  by (simp add: wp_def put_obj_def)

lemma wp_if [wp_simps]: "wp (if b then p else q) Q s = (if b then wp p Q s else wp q Q s)"
  by simp

lemma wp_case_sum [wp_simps]:
  "wp (case x of Inl e \<Rightarrow> f e | Inr y \<Rightarrow> g y) Q s =
     (case x of Inl e \<Rightarrow> wp (f e) Q s | Inr y \<Rightarrow> wp (g y) Q s)"
  by (simp split: sum.split)

lemma wp_case_option [wp_simps]:
  "wp (case x of None \<Rightarrow> p | Some y \<Rightarrow> g y) Q s =
     (case x of None \<Rightarrow> wp p Q s | Some y \<Rightarrow> wp (g y) Q s)"
  by (simp split: option.split)

lemma wp_case_prod [wp_simps]:
  "wp (case x of (a, b) \<Rightarrow> f a b) Q s = (case x of (a, b) \<Rightarrow> wp (f a b) Q s)"
  by (simp split: prod.split)

lemma wpI: "wp p Q s \<Longrightarrow> run_state p s = (a, s') \<Longrightarrow> Q a s'"
  by (simp add: wp_def)

lemma wp_runI: "(\<And>a s'. run_state p s = (a, s') \<Longrightarrow> Q a s') \<Longrightarrow> wp p Q s"
  by (simp add: wp_def split: prod.splits)

lemma wp_mono: "wp p Q s \<Longrightarrow> (\<And>a s'. Q a s' \<Longrightarrow> R a s') \<Longrightarrow> wp p R s"
  by (simp add: wp_def split: prod.splits)

lemma wp_any: "(\<And>a s'. Q a s') \<Longrightarrow> wp p Q s"
  by (simp add: wp_def split: prod.split)

lemma bind_case_sum:
  "State_Monad.bind (case x of Inl e \<Rightarrow> f e | Inr y \<Rightarrow> g y) h =
     (case x of Inl e \<Rightarrow> State_Monad.bind (f e) h | Inr y \<Rightarrow> State_Monad.bind (g y) h)"
  by (simp split: sum.split)

text \<open>
  \<open>emits P p\<close>: the requests that \<open>p\<close> makes all satisfy \<open>P\<close> and are appended to the trace, on
  every run and in every environment.
\<close>

definition emits :: "('c \<Rightarrow> bool) \<Rightarrow> ('c, 'o, 'a) prog \<Rightarrow> bool" where
  "emits P p \<longleftrightarrow> (\<forall>s. \<exists>t. trace (snd (run_state p s)) = trace s @ t \<and> list_all P t)"

lemma emits_return [emits_intros]: "emits P (ret a)"
  by (simp add: emits_def)

lemma emits_get_obj [emits_intros]: "emits P get_obj"
  by (simp add: emits_def get_obj_def)

lemma emits_put_obj [emits_intros]: "emits P (put_obj x)"
  by (simp add: emits_def put_obj_def)

lemma emits_perform [emits_intros]: "P c \<Longrightarrow> emits P (perform c f)"
  by (simp add: emits_def perform_def)

lemma emits_bind [emits_intros]:
  assumes "emits P p" and "\<And>a. emits P (f a)"
  shows "emits P (State_Monad.bind p f)"
  unfolding emits_def
proof
  fix s
  obtain a s' where p: "run_state p s = (a, s')" by (cases "run_state p s")
  then obtain t where t: "trace s' = trace s @ t" "list_all P t"
    using assms(1) unfolding emits_def by (metis snd_conv)
  obtain t' where t': "trace (snd (run_state (f a) s')) = trace s' @ t'" "list_all P t'"
    using assms(2) unfolding emits_def by blast
  show "\<exists>t. trace (snd (run_state (State_Monad.bind p f) s)) = trace s @ t \<and> list_all P t"
    using p t t' by (intro exI [of _ "t @ t'"]) simp
qed

lemma emits_if [emits_intros]:
  "(b \<Longrightarrow> emits P p) \<Longrightarrow> (\<not> b \<Longrightarrow> emits P q) \<Longrightarrow> emits P (if b then p else q)"
  by simp

lemma emits_case_sum [emits_intros]:
  "(\<And>e. x = Inl e \<Longrightarrow> emits P (f e)) \<Longrightarrow> (\<And>y. x = Inr y \<Longrightarrow> emits P (g y)) \<Longrightarrow>
   emits P (case x of Inl e \<Rightarrow> f e | Inr y \<Rightarrow> g y)"
  by (simp split: sum.split)

lemma emits_case_option [emits_intros]:
  "(x = None \<Longrightarrow> emits P p) \<Longrightarrow> (\<And>y. x = Some y \<Longrightarrow> emits P (g y)) \<Longrightarrow>
   emits P (case x of None \<Rightarrow> p | Some y \<Rightarrow> g y)"
  by (simp split: option.split)

lemma emits_case_prod [emits_intros]:
  "(\<And>a b. x = (a, b) \<Longrightarrow> emits P (f a b)) \<Longrightarrow> emits P (case x of (a, b) \<Rightarrow> f a b)"
  by (simp split: prod.split)

lemma emits_let [emits_intros]: "emits P (f x) \<Longrightarrow> emits P (let y = x in f y)"
  by simp

lemma emits_mono: "emits P p \<Longrightarrow> (\<And>c. P c \<Longrightarrow> Q c) \<Longrightarrow> emits Q p"
  unfolding emits_def by (meson list_all_iff)

lemma emitsD:
  assumes "emits P p" and "run_state p s = (a, s')"
  obtains t where "trace s' = trace s @ t" and "list_all P t"
  using assms unfolding emits_def by (metis snd_conv)

text \<open>A computation whose requests satisfy \<open>P\<close> leaves every other request of the trace alone.\<close>

lemma emits_filter:
  assumes "emits P p" and "run_state p s = (a, s')" and "\<And>c. P c \<Longrightarrow> \<not> Q c"
  shows "filter Q (trace s') = filter Q (trace s)"
proof -
  obtain t where "trace s' = trace s @ t" "list_all P t"
    using assms(1,2) by (rule emitsD)
  moreover from this have "filter Q t = []"
    using assms(3) by (auto simp: list_all_iff filter_empty_conv)
  ultimately show ?thesis by simp
qed

end
