(* ===== verification/Objects.thy ===== *)
theory Objects
  imports Prelude
begin

text \<open>
  The Kubernetes objects that the operator reads and writes, restricted to the fields its code
  touches.  They are data of the Kubernetes API, not code of the repository.  A field that the
  operator only copies from the custom resource into a built object (affinity, tolerations,
  resource lists, security contexts) is an uninterpreted \<open>blob\<close>.  A pointer field is an
  \<^typ>\<open>'a option\<close>, an \<open>int32\<close> is an \<^typ>\<open>int\<close>.
\<close>

type_synonym blob = string
type_synonym quantity = string

definition zero_quantity :: quantity where
  "zero_quantity = ''0''"

section \<open>Names, metadata and conditions\<close>

record namespaced_name =
  nn_name :: string
  nn_namespace :: string

abbreviation nn :: "string \<Rightarrow> string \<Rightarrow> namespaced_name" where
  "nn n ns \<equiv> \<lparr>nn_name = n, nn_namespace = ns\<rparr>"

record object_meta =
  om_name :: string
  om_namespace :: string
  om_uid :: string
  om_labels :: strmap
  om_annotations :: strmap
  om_owner_uids :: "string list"

datatype cond_status = CondTrue | CondFalse | CondUnknown

record condition =
  cond_type :: string
  cond_status :: cond_status
  cond_reason :: string
  cond_message :: string

section \<open>Pods and their templates\<close>

record secret_ref =
  sr_name :: string
  sr_key :: string

datatype env_source = FieldRef string | SecretKeyRef secret_ref

record env_var =
  ev_name :: string
  ev_value :: string
  ev_value_from :: "env_source option"

record container_port =
  cp_port :: int
  cp_name :: string

record volume_mount =
  vm_name :: string
  vm_path :: string

record probe =
  pr_exec :: "string list option"
  pr_initial_delay :: int
  pr_period :: int
  pr_timeout :: int
  pr_success :: int
  pr_failure :: int
  pr_grace :: "int option"

record resource_requirements =
  rr_requests :: strmap
  rr_limits :: strmap

record container =
  ct_name :: string
  ct_image :: string
  ct_pull_policy :: string
  ct_command :: "string list"
  ct_working_dir :: string
  ct_env :: "env_var list"
  ct_resources :: resource_requirements
  ct_ports :: "container_port list"
  ct_mounts :: "volume_mount list"
  ct_readiness :: "probe option"
  ct_liveness :: "probe option"
  ct_pre_stop :: "string list option"

datatype projection =
    ServiceAccountToken string
  | ConfigMapItems string "(string \<times> string) list"
  | DownwardAPI "(string \<times> string) list"

datatype volume = ConfigMapVolume string string | ProjectedVolume string "projection list"

record pod_spec =
  ps_automount_token :: "bool option"
  ps_service_account :: string
  ps_grace_period :: "int option"
  ps_containers :: "container list"
  ps_pull_secrets :: "string list"
  ps_volumes :: "volume list"
  ps_security_context :: blob
  ps_affinity :: "blob option"
  ps_node_selector :: strmap
  ps_tolerations :: "blob list"
  ps_init_containers :: "container list"

record pod_template =
  pt_meta :: object_meta
  pt_spec :: pod_spec

record pod_condition =
  pc_type :: string
  pc_status :: cond_status

record pod =
  pod_meta :: object_meta
  pod_conditions :: "pod_condition list"
  pod_ip :: string
  pod_node :: string

section \<open>Stateful sets and volume claims\<close>

record pvc =
  pvc_meta :: object_meta
  pvc_access_modes :: "string list"
  pvc_request :: "quantity option"
  pvc_data_source :: "(string \<times> string \<times> string) option"
  pvc_storage_class :: "string option"
  pvc_conditions :: "pod_condition list"

record sts =
  sts_meta :: object_meta
  sts_selector :: strmap
  sts_service_name :: string
  sts_update_strategy :: string
  sts_replicas :: "int option"
  sts_template :: pod_template
  sts_claims :: "pvc list"
  sts_retention :: "(string \<times> string) option"
  sts_status_replicas :: int
  sts_ready_replicas :: int
  sts_update_revision :: string

text \<open>The zero \<open>StatefulSet\<close> a failed \<open>Get\<close> leaves behind.\<close>

definition zero_meta :: object_meta where
  "zero_meta = \<lparr>om_name = [], om_namespace = [], om_uid = [], om_labels = [], om_annotations = [],
     om_owner_uids = []\<rparr>"

definition zero_pod_spec :: pod_spec where
  "zero_pod_spec = \<lparr>ps_automount_token = None, ps_service_account = [], ps_grace_period = None,
     ps_containers = [], ps_pull_secrets = [], ps_volumes = [], ps_security_context = [],
     ps_affinity = None, ps_node_selector = [], ps_tolerations = [], ps_init_containers = []\<rparr>"

definition zero_sts :: sts where
  "zero_sts = \<lparr>sts_meta = zero_meta, sts_selector = [], sts_service_name = [],
     sts_update_strategy = [], sts_replicas = None,
     sts_template = \<lparr>pt_meta = zero_meta, pt_spec = zero_pod_spec\<rparr>, sts_claims = [],
     sts_retention = None, sts_status_replicas = 0, sts_ready_replicas = 0,
     sts_update_revision = []\<rparr>"

section \<open>Services, endpoints, config maps and budgets\<close>

record service_port =
  sp_port :: int
  sp_name :: string
  sp_node_port :: int

record service =
  svc_meta :: object_meta
  svc_ports :: "service_port list"
  svc_cluster_ip :: string
  svc_type :: string
  svc_selector :: strmap
  svc_allocate_node_ports :: "bool option"

record endpoint_slice =
  es_ports :: "int option list"
  es_ready :: "bool option list"

record config_map =
  cm_meta :: object_meta
  cm_data :: strmap

record secret =
  sec_meta :: object_meta
  sec_data :: strmap

record pod_disruption_budget =
  pdb_meta :: object_meta
  pdb_min_available :: "string option"
  pdb_max_unavailable :: "string option"
  pdb_selector :: strmap

section \<open>RBAC objects\<close>

record service_account =
  sa_meta :: object_meta

record policy_rule =
  rule_groups :: "string list"
  rule_resources :: "string list"
  rule_verbs :: "string list"

record role =
  role_meta :: object_meta
  role_rules :: "policy_rule list"

record role_ref =
  ref_group :: string
  ref_kind :: string
  ref_name :: string

record role_subject =
  subj_group :: string
  subj_kind :: string
  subj_name :: string
  subj_namespace :: string

record role_binding =
  rb_meta :: object_meta
  rb_subjects :: "role_subject list"
  rb_role_ref :: role_ref

end
