(* ===== verification/Naming.thy ===== *)
theory Naming
  imports Objects
begin

text \<open>
  Package \<open>statefulset\<close> (\<open>src/pkg/statefulset/statefulset.go\<close>): the names and host names of the
  pods of a stateful set, the ordinal recovered from a pod name, and the size of a claim template;
  with the readiness tests of packages \<open>pod\<close> and \<open>pvc\<close>.
\<close>

section \<open>Host names and pod names\<close>

text \<open>The argument \<open>clusterEnv\<close> is the value of the environment variable \<open>CLUSTER_NAME\<close>.\<close>

definition ServiceFQDNWithService :: "string \<Rightarrow> object_meta \<Rightarrow> string \<Rightarrow> string" where
  "ServiceFQDNWithService clusterEnv meta svc =
     (let clusterName = (if clusterEnv = [] then ''cluster.local'' else clusterEnv)
      in svc @ ''.'' @ om_namespace meta @ ''.svc.'' @ clusterName)"

definition ServiceFQDN :: "string \<Rightarrow> object_meta \<Rightarrow> string" where
  "ServiceFQDN clusterEnv meta = ServiceFQDNWithService clusterEnv meta (om_name meta)"

definition PodName :: "object_meta \<Rightarrow> int \<Rightarrow> string" where
  "PodName meta podIndex = om_name meta @ ''-'' @ show_int podIndex"

definition PodFQDNWithService :: "string \<Rightarrow> object_meta \<Rightarrow> int \<Rightarrow> string \<Rightarrow> string" where
  "PodFQDNWithService clusterEnv meta podIndex svc =
     PodName meta podIndex @ ''.'' @ ServiceFQDNWithService clusterEnv meta svc"

definition PodShortFQDNWithServiceAndNamespace :: "object_meta \<Rightarrow> int \<Rightarrow> string \<Rightarrow> string" where
  "PodShortFQDNWithServiceAndNamespace meta podIndex svc =
     PodName meta podIndex @ ''.'' @ svc @ ''.'' @ om_namespace meta"

definition PodIndex :: "string \<Rightarrow> goerr + int" where
  "PodIndex podName =
     (let parts = split_on (CHR ''-'') podName
      in if parts = [] then Inl (ErrNew (''invalid Pod name: '' @ podName))
         else case Atoi (last parts) of
                None \<Rightarrow>
                  Inl (ErrV (''invalid Pod name: '' @ podName @ '', error: '')
                        (ErrNew (''strconv.Atoi: parsing '' @ last parts)))
              | Some index \<Rightarrow> Inr index)"

definition ValidPodName :: "object_meta \<Rightarrow> int \<Rightarrow> string \<Rightarrow> goerr option" where
  "ValidPodName meta replicas podName =
     (if replicas < 0 then Some (ErrNew ''replicas must be positive'')
      else case PodIndex podName of
             Inl err \<Rightarrow> Some (ErrV ''invalid Pod index: '' err)
           | Inr index \<Rightarrow>
               if index < 0 \<or> index \<ge> replicas
               then Some (ErrNew (''index '' @ quoted (show_int index) @ '' out of replicas range''))
               else if \<not> prefix (om_name meta) podName
               then Some (ErrNew (''invalid Pod name: must start with '' @ quoted (om_name meta)))
               else None)"

text \<open>
  \<open>Requests[storage]\<close> of a map without that key is the zero quantity, so the result is nil only
  when no template has the name.
\<close>

fun GetStorageSize :: "pvc list \<Rightarrow> string \<Rightarrow> quantity option" where
  "GetStorageSize [] storageVolume = None"
| "GetStorageSize (vctpl # rest) storageVolume =
     (if om_name (pvc_meta vctpl) = storageVolume then Some (case pvc_request vctpl of None \<Rightarrow> zero_quantity | Some q \<Rightarrow> q)
      else GetStorageSize rest storageVolume)"

section \<open>Readiness of pods, resizing of claims\<close>

fun PodReadyCondition :: "pod_condition list \<Rightarrow> pod_condition option" where
  "PodReadyCondition [] = None"
| "PodReadyCondition (c # cs) = (if pc_type c = ''Ready'' then Some c else PodReadyCondition cs)"

definition PodReady :: "pod \<Rightarrow> bool" where
  "PodReady p = (case PodReadyCondition (pod_conditions p) of
                   None \<Rightarrow> False
                 | Some c \<Rightarrow> pc_status c = CondTrue)"

definition PodUpdated :: "pod \<Rightarrow> string \<Rightarrow> bool" where
  "PodUpdated p updateRevision =
     (case map_of (om_labels (pod_meta p)) ''controller-revision-hash'' of
        None \<Rightarrow> False
      | Some podUpdateRevision \<Rightarrow> podUpdateRevision = updateRevision)"

fun FileSystemResizePendingIn :: "pod_condition list \<Rightarrow> bool" where
  "FileSystemResizePendingIn [] = False"
| "FileSystemResizePendingIn (c # cs) =
     (if pc_status c \<noteq> CondTrue then FileSystemResizePendingIn cs
      else if pc_type c = ''FileSystemResizePending'' then True
      else FileSystemResizePendingIn cs)"

fun ResizingIn :: "pod_condition list \<Rightarrow> bool" where
  "ResizingIn [] = False"
| "ResizingIn (c # cs) =
     (if pc_status c \<noteq> CondTrue then ResizingIn cs
      else if pc_type c = ''Resizing'' \<or> pc_type c = ''FileSystemResizePending'' then True
      else ResizingIn cs)"

definition IsPersistentVolumeClaimFileSystemResizePending :: "pvc \<Rightarrow> bool" where
  "IsPersistentVolumeClaimFileSystemResizePending p = FileSystemResizePendingIn (pvc_conditions p)"

definition IsPersistentVolumeClaimResizing :: "pvc \<Rightarrow> bool" where
  "IsPersistentVolumeClaimResizing p = ResizingIn (pvc_conditions p)"

definition IsResizing :: "pvc \<Rightarrow> bool" where
  "IsResizing p \<longleftrightarrow>
     IsPersistentVolumeClaimFileSystemResizePending p \<or> IsPersistentVolumeClaimResizing p"

section \<open>Lemmas\<close>

lemma PodName_nonneg [naming_simps]:
  "0 \<le> i \<Longrightarrow> PodName meta i = om_name meta @ CHR ''-'' # show_nat (nat i)"
  by (simp add: PodName_def show_int_nonneg)

lemma PodIndex_PodName_nonneg:
  assumes "0 \<le> i" "i < 2 ^ 63"
  shows "PodIndex (PodName meta i) = Inr i"
proof -
  have "last (split_on (CHR ''-'') (PodName meta i)) = show_nat (nat i)"
    using assms by (simp add: PodName_nonneg last_split_on_append show_nat_no_dash)
  moreover have "Atoi (show_nat (nat i)) = Some i"
    using assms Atoi_show_nat [of "nat i"] by (simp add: nat_less_iff)
  ultimately show ?thesis
    by (simp add: PodIndex_def)
qed

lemma PodName_inject:
  "0 \<le> i \<Longrightarrow> 0 \<le> j \<Longrightarrow> PodName meta i = PodName meta j \<longleftrightarrow> i = j"
  by (auto simp: PodName_nonneg)

lemma PodIndex_in_int64: "PodIndex n = Inr i \<Longrightarrow> in_int64 i"
  by (auto simp: PodIndex_def Let_def dest: Atoi_in_int64 split: option.splits)

lemma IsResizing_iff:
  "IsResizing p \<longleftrightarrow>
     (\<exists>c \<in> set (pvc_conditions p). pc_status c = CondTrue \<and>
        (pc_type c = ''Resizing'' \<or> pc_type c = ''FileSystemResizePending''))"
proof -
  have "FileSystemResizePendingIn cs \<longleftrightarrow>
      (\<exists>c \<in> set cs. pc_status c = CondTrue \<and> pc_type c = ''FileSystemResizePending'')" for cs
    by (induction cs) auto
  moreover have "ResizingIn cs \<longleftrightarrow>
      (\<exists>c \<in> set cs. pc_status c = CondTrue \<and>
        (pc_type c = ''Resizing'' \<or> pc_type c = ''FileSystemResizePending''))" for cs
    by (induction cs) auto
  ultimately show ?thesis
    by (auto simp: IsResizing_def IsPersistentVolumeClaimFileSystemResizePending_def
        IsPersistentVolumeClaimResizing_def)
qed

end
