(* ===== verification/Api_Types.thy ===== *)
theory Api_Types
  imports Naming
begin

text \<open>
  The \<open>DoltDB\<close> custom resource (\<open>src/api/v1alpha\<close>): its specification and status, the defaulting
  functions, the keys of the objects it owns, and the validation of its replication settings.
\<close>

section \<open>Server and global configuration\<close>

record MetricsSpec =
  metrics_Enabled :: bool
  metrics_Labels :: strmap
  metrics_Host :: string
  metrics_Port :: int

record ListenerSpec =
  listener_Host :: string
  listener_Port :: int
  listener_MaxConnections :: int

record MCPServerSpec =
  mcp_Port :: int
  mcp_User :: string
  mcp_PasswordSecretKeyRef :: "secret_ref option"
  mcp_Database :: string

record ServerSpec =
  server_EnablePProf :: bool
  server_AutoGCEnable :: bool
  server_LogLevel :: string
  server_Metrics :: "MetricsSpec option"
  server_Listener :: ListenerSpec
  server_RemotesAPIPort :: int
  server_MCPServer :: "MCPServerSpec option"

definition MCPServer_ApplyDefaults :: "MCPServerSpec \<Rightarrow> MCPServerSpec" where
  "MCPServer_ApplyDefaults m = (if mcp_Port m = 0 then m\<lparr>mcp_Port := 7007\<rparr> else m)"

definition Metrics_ApplyDefaults :: "MetricsSpec \<Rightarrow> MetricsSpec" where
  "Metrics_ApplyDefaults m =
     (let m = (if \<not> metrics_Enabled m then m\<lparr>metrics_Enabled := False\<rparr> else m);
          m = (if metrics_Host m = [] then m\<lparr>metrics_Host := ''0.0.0.0''\<rparr> else m);
          m = (if metrics_Port m = 0 then m\<lparr>metrics_Port := 11228\<rparr> else m)
      in m)"

definition Listener_ApplyDefaults :: "ListenerSpec \<Rightarrow> ListenerSpec" where
  "Listener_ApplyDefaults l =
     (let l = (if listener_Host l = [] then l\<lparr>listener_Host := ''0.0.0.0''\<rparr> else l);
          l = (if listener_Port l = 0 then l\<lparr>listener_Port := 3306\<rparr> else l);
          l = (if listener_MaxConnections l = 0 then l\<lparr>listener_MaxConnections := 1024\<rparr> else l)
      in l)"

definition Cluster_ApplyDefaults :: "int \<Rightarrow> int" where
  "Cluster_ApplyDefaults port = (if port = 0 then 50051 else port)"

definition zero_Metrics :: MetricsSpec where
  "zero_Metrics = \<lparr>metrics_Enabled = False, metrics_Labels = [], metrics_Host = [],
     metrics_Port = 0\<rparr>"

definition Server_ApplyDefaults :: "ServerSpec \<Rightarrow> ServerSpec" where
  "Server_ApplyDefaults s =
     (let s = (if server_LogLevel s = [] then s\<lparr>server_LogLevel := ''trace''\<rparr> else s);
          s = s\<lparr>server_Metrics :=
                  Some (Metrics_ApplyDefaults (ptr_Deref (server_Metrics s) zero_Metrics))\<rparr>;
          s = s\<lparr>server_Listener := Listener_ApplyDefaults (server_Listener s)\<rparr>;
          s = s\<lparr>server_RemotesAPIPort := Cluster_ApplyDefaults (server_RemotesAPIPort s)\<rparr>
      in s\<lparr>server_MCPServer := map_option MCPServer_ApplyDefaults (server_MCPServer s)\<rparr>)"

record CommitAuthorSpec =
  author_Name :: string
  author_Email :: string

record GlobalConfigSpec =
  global_DisableClientUsageMetricsCollection :: "bool option"
  global_CommitAuthor :: CommitAuthorSpec

definition CommitAuthor_ApplyDefaults :: "CommitAuthorSpec \<Rightarrow> CommitAuthorSpec" where
  "CommitAuthor_ApplyDefaults c =
     (let c = (if author_Name c = [] then c\<lparr>author_Name := ''dolt kubernetes deployment''\<rparr> else c);
          c = (if author_Email c = [] then c\<lparr>author_Email := ''dolt@kubernetes.deployment''\<rparr> else c)
      in c)"

definition GlobalConfig_ApplyDefaults :: "GlobalConfigSpec \<Rightarrow> GlobalConfigSpec" where
  "GlobalConfig_ApplyDefaults g =
     (let g = (if global_DisableClientUsageMetricsCollection g = None
               then g\<lparr>global_DisableClientUsageMetricsCollection := Some False\<rparr> else g)
      in g\<lparr>global_CommitAuthor := CommitAuthor_ApplyDefaults (global_CommitAuthor g)\<rparr>)"

section \<open>Replication\<close>

record PrimaryReplication =
  primary_PodIndex :: "int option"
  primary_AutomaticFailover :: "bool option"
  primary_MinCaughtUpStandbys :: "int option"

record ReplicationSpec =
  repl_Enabled :: bool
  repl_Primary :: "PrimaryReplication option"

definition DefaultPrimaryReplication :: PrimaryReplication where
  "DefaultPrimaryReplication =
     \<lparr>primary_PodIndex = Some 0, primary_AutomaticFailover = Some True,
      primary_MinCaughtUpStandbys = None\<rparr>"

definition PrimaryReplication_FillWithDefaults :: "PrimaryReplication \<Rightarrow> PrimaryReplication" where
  "PrimaryReplication_FillWithDefaults r =
     (let r = (if primary_PodIndex r = None
               then r\<lparr>primary_PodIndex := primary_PodIndex DefaultPrimaryReplication\<rparr> else r);
          r = (if primary_AutomaticFailover r = None
               then r\<lparr>primary_AutomaticFailover :=
                        primary_AutomaticFailover DefaultPrimaryReplication\<rparr> else r)
      in r)"

definition ReplicationSpec_FillWithDefaults :: "ReplicationSpec \<Rightarrow> ReplicationSpec" where
  "ReplicationSpec_FillWithDefaults r =
     (case repl_Primary r of
        None \<Rightarrow> r\<lparr>repl_Primary := Some DefaultPrimaryReplication\<rparr>
      | Some p \<Rightarrow> r\<lparr>repl_Primary := Some (PrimaryReplication_FillWithDefaults p)\<rparr>)"

definition zero_Replication :: ReplicationSpec where
  "zero_Replication = \<lparr>repl_Enabled = False, repl_Primary = None\<rparr>"

datatype ReplicationState =
  ReplicationStatePrimary | ReplicationStateStandby | ReplicationStateNotConfigured

type_synonym ReplicationStatus = "(string \<times> ReplicationState) list"

text \<open>The loop of \<open>IsReplicationConfigured\<close>, with its accumulator.\<close>

fun replication_configured_loop :: "bool \<Rightarrow> ReplicationState list \<Rightarrow> bool" where
  "replication_configured_loop anyReplicaConfigured [] = anyReplicaConfigured"
| "replication_configured_loop anyReplicaConfigured (state # rest) =
     (if state = ReplicationStateNotConfigured then False
      else if state = ReplicationStateStandby then replication_configured_loop True rest
      else replication_configured_loop anyReplicaConfigured rest)"

definition ReplicationStatus_IsReplicationConfigured :: "ReplicationStatus option \<Rightarrow> bool" where
  "ReplicationStatus_IsReplicationConfigured r =
     replication_configured_loop False (map snd (ptr_Deref r []))"

section \<open>The custom resource\<close>

record ProbesSpec =
  probes_Liveness :: "probe option"
  probes_Readiness :: "probe option"

record StorageSpec =
  storage_Size :: "quantity option"
  storage_StorageClassName :: "string option"
  storage_ResizeInUseVolumes :: "bool option"
  storage_WaitForVolumeResize :: "bool option"
  storage_RetentionPolicy :: "(string \<times> string) option"
  storage_VolumeSnapshot :: string

record DoltDBSpec =
  spec_EngineVersion :: string
  spec_ServiceAccountName :: "string option"
  spec_ServiceAccountAnnotations :: strmap
  spec_Image :: string
  spec_ImagePullSecrets :: "string list"
  spec_PodSecurityContext :: blob
  spec_PodAnnotations :: strmap
  spec_Affinity :: "blob option"
  spec_Tolerations :: "blob list"
  spec_NodeSelector :: strmap
  spec_PodDisruptionBudget :: "blob option"
  spec_Resources :: "resource_requirements option"
  spec_Storage :: StorageSpec
  spec_Replicas :: int
  spec_MaxConnections :: "int option"
  spec_ReplicationStrategy :: string
  spec_AutoMinorVersionUpgrade :: "bool option"
  spec_UpdateStrategy :: string
  spec_Replication :: "ReplicationSpec option"
  spec_TerminationGracePeriodSeconds :: "int option"
  spec_TopologySpreadConstrains :: "blob list"
  spec_Probes :: ProbesSpec
  spec_Server :: ServerSpec
  spec_GlobalConfig :: GlobalConfigSpec
  spec_Env :: "env_var list"

record DoltDBStatus =
  status_Conditions :: "condition list"
  status_CurrentPrimaryPodIndex :: "int option"
  status_CurrentPrimary :: "string option"
  status_Replicas :: int
  status_ReplicationStatus :: "ReplicationStatus option"
  status_ReplicationEpoch :: "int option"

record DoltDB =
  db_meta :: object_meta
  db_spec :: DoltDBSpec
  db_status :: DoltDBStatus

text \<open>
  \<open>Replication()\<close> is an accessor that also writes the defaults into the object it is called on;
  \<open>Replication_fill\<close> is that write and \<open>Replication\<close> the value returned.
\<close>

definition Replication_fill :: "DoltDB \<Rightarrow> DoltDB" where
  "Replication_fill d =
     d\<lparr>db_spec := (db_spec d)\<lparr>spec_Replication :=
        Some (ReplicationSpec_FillWithDefaults
               (ptr_Deref (spec_Replication (db_spec d)) zero_Replication))\<rparr>\<rparr>"

definition Replication :: "DoltDB \<Rightarrow> ReplicationSpec" where
  "Replication d =
     ReplicationSpec_FillWithDefaults (ptr_Deref (spec_Replication (db_spec d)) zero_Replication)"

text \<open>\<open>Replication().Enabled\<close> and the pointer fields reached through \<open>Replication().Primary\<close>.\<close>

abbreviation ReplEnabled :: "DoltDB \<Rightarrow> bool" where
  "ReplEnabled d \<equiv> repl_Enabled (Replication d)"

definition ReplPrimary :: "DoltDB \<Rightarrow> PrimaryReplication" where
  "ReplPrimary d = ptr_Deref (repl_Primary (Replication d)) DefaultPrimaryReplication"

definition set_primary_PodIndex :: "int option \<Rightarrow> DoltDB \<Rightarrow> DoltDB" where
  "set_primary_PodIndex i d =
     (let d = Replication_fill d
      in d\<lparr>db_spec := (db_spec d)\<lparr>spec_Replication :=
            map_option (\<lambda>r. r\<lparr>repl_Primary :=
               map_option (\<lambda>p. p\<lparr>primary_PodIndex := i\<rparr>) (repl_Primary r)\<rparr>)
             (spec_Replication (db_spec d))\<rparr>\<rparr>)"

definition ValidateReplicationSpec :: "DoltDB \<Rightarrow> goerr option" where
  "ValidateReplicationSpec d =
     (if spec_Replicas (db_spec d) = 1 \<and> ReplEnabled d
      then Some (ErrNew
        ''replication cannot be enabled with a single replica; set replicas > 1 or disable replication'')
      else None)"

definition IsReplicationConfigured :: "DoltDB \<Rightarrow> bool" where
  "IsReplicationConfigured d =
     ReplicationStatus_IsReplicationConfigured (status_ReplicationStatus (db_status d))"

section \<open>Update strategies\<close>

definition ReplicasFirstPrimaryLastUpdateType :: string where
  "ReplicasFirstPrimaryLastUpdateType = ''ReplicasFirstPrimaryLast''"

definition RollingUpdateUpdateType :: string where
  "RollingUpdateUpdateType = ''RollingUpdate''"

definition OnDeleteUpdateType :: string where
  "OnDeleteUpdateType = ''OnDelete''"

definition NeverUpdateType :: string where
  "NeverUpdateType = ''Never''"

section \<open>Keys of the owned objects\<close>

definition ObjectKeyFromObject :: "DoltDB \<Rightarrow> namespaced_name" where
  "ObjectKeyFromObject d = nn (om_name (db_meta d)) (om_namespace (db_meta d))"

definition ServiceKey :: "DoltDB \<Rightarrow> namespaced_name" where
  "ServiceKey d = nn (om_name (db_meta d)) (om_namespace (db_meta d))"

definition InternalServiceKey :: "DoltDB \<Rightarrow> namespaced_name" where
  "InternalServiceKey d = nn (om_name (db_meta d) @ ''-internal'') (om_namespace (db_meta d))"

definition PrimaryServiceKey :: "DoltDB \<Rightarrow> namespaced_name" where
  "PrimaryServiceKey d = nn (om_name (db_meta d) @ ''-primary'') (om_namespace (db_meta d))"

definition ReaderServiceKey :: "DoltDB \<Rightarrow> namespaced_name" where
  "ReaderServiceKey d = nn (om_name (db_meta d) @ ''-reader'') (om_namespace (db_meta d))"

definition PodDisruptionBudgetKey :: "DoltDB \<Rightarrow> namespaced_name" where
  "PodDisruptionBudgetKey d = nn (om_name (db_meta d) @ ''-pdb'') (om_namespace (db_meta d))"

definition PVCKey :: "DoltDB \<Rightarrow> string \<Rightarrow> int \<Rightarrow> namespaced_name" where
  "PVCKey d name index =
     nn (name @ ''-'' @ om_name (db_meta d) @ ''-'' @ show_int index) (om_namespace (db_meta d))"

definition DefaultConfigMapKeyRef :: "DoltDB \<Rightarrow> secret_ref" where
  "DefaultConfigMapKeyRef d = \<lparr>sr_name = om_name (db_meta d) @ ''-config'', sr_key = ''dolt-config''\<rparr>"

definition DefaultConfigMapKey :: "DoltDB \<Rightarrow> namespaced_name" where
  "DefaultConfigMapKey d = nn (om_name (db_meta d) @ ''-config'') (om_namespace (db_meta d))"

definition RootPasswordSecretKeyRef :: "DoltDB \<Rightarrow> secret_ref" where
  "RootPasswordSecretKeyRef d =
     \<lparr>sr_name = om_name (db_meta d) @ ''-credentials'', sr_key = ''admin-password''\<rparr>"

definition RootUserSecretKeyRef :: "DoltDB \<Rightarrow> secret_ref" where
  "RootUserSecretKeyRef d =
     \<lparr>sr_name = om_name (db_meta d) @ ''-credentials'', sr_key = ''admin-user''\<rparr>"

definition ServiceAccountKey :: "DoltDB \<Rightarrow> namespaced_name" where
  "ServiceAccountKey d =
     nn (ptr_Deref (spec_ServiceAccountName (db_spec d)) (om_name (db_meta d)))
        (om_namespace (db_meta d))"

section \<open>Lemmas on defaulting\<close>

lemma PrimaryReplication_fill_idem [simp]:
  "PrimaryReplication_FillWithDefaults (PrimaryReplication_FillWithDefaults r) =
     PrimaryReplication_FillWithDefaults r"
  by (simp add: PrimaryReplication_FillWithDefaults_def DefaultPrimaryReplication_def Let_def)

lemma PrimaryReplication_fill_default [simp]:
  "PrimaryReplication_FillWithDefaults DefaultPrimaryReplication = DefaultPrimaryReplication"
  by (simp add: PrimaryReplication_FillWithDefaults_def DefaultPrimaryReplication_def)

lemma ReplicationSpec_fill_idem [simp]:
  "ReplicationSpec_FillWithDefaults (ReplicationSpec_FillWithDefaults r) =
     ReplicationSpec_FillWithDefaults r"
  by (simp add: ReplicationSpec_FillWithDefaults_def split: option.splits)

lemma Replication_of_fill [simp]: "Replication (Replication_fill d) = Replication d"
  by (simp add: Replication_def Replication_fill_def)

lemma Replication_fill_idem [simp]: "Replication_fill (Replication_fill d) = Replication_fill d"
  by (simp add: Replication_fill_def)

lemma ReplPrimary_of_fill [simp]: "ReplPrimary (Replication_fill d) = ReplPrimary d"
  by (simp add: ReplPrimary_def)

lemma Replication_fill_frame [simp]:
  "db_meta (Replication_fill d) = db_meta d"
  "db_status (Replication_fill d) = db_status d"
  "spec_Replicas (db_spec (Replication_fill d)) = spec_Replicas (db_spec d)"
  "spec_Server (db_spec (Replication_fill d)) = spec_Server (db_spec d)"
  by (simp_all add: Replication_fill_def)

lemma repl_Primary_Some: "\<exists>p. repl_Primary (Replication d) = Some p"
  by (simp add: Replication_def ReplicationSpec_FillWithDefaults_def split: option.splits)

text \<open>After defaulting, the primary ordinal and the failover flag are never nil.\<close>

lemma ReplPrimary_filled:
  "primary_PodIndex (ReplPrimary d) \<noteq> None" "primary_AutomaticFailover (ReplPrimary d) \<noteq> None"
  by (auto simp: ReplPrimary_def Replication_def ReplicationSpec_FillWithDefaults_def
      PrimaryReplication_FillWithDefaults_def DefaultPrimaryReplication_def Let_def
      split: option.splits)

lemma set_primary_PodIndex_simps [simp]:
  "db_meta (set_primary_PodIndex i d) = db_meta d"
  "db_status (set_primary_PodIndex i d) = db_status d"
  "spec_Replicas (db_spec (set_primary_PodIndex i d)) = spec_Replicas (db_spec d)"
  by (simp_all add: set_primary_PodIndex_def Let_def)

lemma ReplEnabled_set_primary [simp]: "ReplEnabled (set_primary_PodIndex i d) = ReplEnabled d"
  by (simp add: set_primary_PodIndex_def Replication_fill_def Replication_def Let_def
      ReplicationSpec_FillWithDefaults_def split: option.splits)

lemma ReplPrimary_set_primary [simp]:
  "primary_PodIndex (ReplPrimary (set_primary_PodIndex (Some i) d)) = Some i"
  using repl_Primary_Some [of d]
  by (auto simp: set_primary_PodIndex_def Replication_fill_def Replication_def Let_def ReplPrimary_def
      ReplicationSpec_FillWithDefaults_def PrimaryReplication_FillWithDefaults_def
      split: option.splits)

lemma replication_configured_loop_iff:
  "replication_configured_loop b ss \<longleftrightarrow>
     ReplicationStateNotConfigured \<notin> set ss \<and> (b \<or> ReplicationStateStandby \<in> set ss)"
  by (induction ss arbitrary: b) auto

lemma ReplicationConfigured_iff:
  "ReplicationStatus_IsReplicationConfigured (Some r) \<longleftrightarrow>
     (\<forall>(p, s) \<in> set r. s \<noteq> ReplicationStateNotConfigured) \<and>
     (\<exists>(p, s) \<in> set r. s = ReplicationStateStandby)"
  by (auto simp: ReplicationStatus_IsReplicationConfigured_def replication_configured_loop_iff)
    force+

end
