(* ===== verification/Kube_Client.thy ===== *)
theory Kube_Client
  imports Api_Types
begin

text \<open>
  The outside world as the operator sees it: the library functions it calls, the requests it
  sends to the Kubernetes API server and to the Dolt SQL servers, and the replies.

  None of this is code of the repository, so it is a parameter of the model.  A \<open>lib\<close> collects the
  pure library functions, an \<open>env\<close> adds the replies of the servers, each a function of the trace of
  requests made before.  Every reconcile function of the model takes such an environment as its
  first argument.
\<close>

section \<open>Values exchanged with Dolt\<close>

text \<open>Package \<open>dolt\<close>: the configuration file of a server (\<open>config.go\<close>).\<close>

record StandbyRemote =
  remote_Name :: string
  remote_URLTemplate :: string

record ClusterConfig =
  cluster_StandbyRemotes :: "StandbyRemote list"
  cluster_BootstrapEpoch :: int
  cluster_BootstrapRole :: string
  cluster_RemotesAPIPort :: int

record MetricsConfig =
  mcfg_Labels :: strmap
  mcfg_Host :: string
  mcfg_Port :: int

definition zero_MetricsConfig :: MetricsConfig where
  "zero_MetricsConfig = \<lparr>mcfg_Labels = [], mcfg_Host = [], mcfg_Port = 0\<rparr>"

record MCPConfig =
  mcpcfg_Port :: int
  mcpcfg_User :: string
  mcpcfg_Password :: string
  mcpcfg_Database :: string

record Config =
  config_AutoGCEnable :: bool
  config_LogLevel :: string
  config_Cluster :: "ClusterConfig option"
  config_Listener :: ListenerSpec
  config_Metrics :: MetricsConfig
  config_MCPServer :: "MCPConfig option"

text \<open>
  Package \<open>dolt\<close>: a row of \<open>dolt_cluster_status\<close> and the state of one server (\<open>replication.go\<close>).
  A nullable column is an option; a time is an integer whose value 0 is Go's zero time.
\<close>

record DoltStatus =
  ds_Database :: string
  ds_Role :: string
  ds_Epoch :: int
  ds_Remote :: string
  ds_ReplicationLag :: "int option"
  ds_LastUpdate :: "int option"
  ds_CurrentError :: "string option"

record DBState =
  dbs_Role :: string
  dbs_Epoch :: int
  dbs_Status :: "DoltStatus list"
  dbs_Version :: string
  dbs_Err :: "goerr option"

definition zero_DBState :: DBState where
  "zero_DBState = \<lparr>dbs_Role = [], dbs_Epoch = 0, dbs_Status = [], dbs_Version = [], dbs_Err = None\<rparr>"

definition PrimaryRoleValue :: string where
  "PrimaryRoleValue = ''primary''"

definition StandbyRoleValue :: string where
  "StandbyRoleValue = ''standby''"

lemma role_values_distinct [simp]:
  "PrimaryRoleValue \<noteq> StandbyRoleValue" "StandbyRoleValue \<noteq> PrimaryRoleValue"
  "PrimaryRoleValue \<noteq> []" "StandbyRoleValue \<noteq> []"
  "[] \<noteq> PrimaryRoleValue" "[] \<noteq> StandbyRoleValue"
  by (simp_all add: PrimaryRoleValue_def StandbyRoleValue_def)

text \<open>A row of the result of \<open>DOLT_CLUSTER_TRANSITION_TO_STANDBY\<close>.\<close>

record transition_row =
  tr_CaughtUp :: int
  tr_Database :: string
  tr_Remote :: string
  tr_RemoteURL :: string

text \<open>
  What iterating over a \<open>*sql.Rows\<close> yields: the outcome of \<open>Scan\<close> on each row, then
  \<open>rows.Err()\<close>.
\<close>

type_synonym 'r rows = "(goerr + 'r) list \<times> goerr option"

text \<open>The options a SQL client is opened with, which also name the connection.\<close>

record sql_opts =
  opt_Username :: string
  opt_Password :: string
  opt_Host :: string
  opt_Port :: int
  opt_Database :: string
  opt_Params :: "strmap option"
  opt_Timeout :: "int option"

datatype sql_stmt =
    AssumeClusterRole string int
  | TransitionToStandbyStmt int int
  | SelectRoleAndEpoch
  | SelectClusterStatus
  | SelectVersion

section \<open>Requests\<close>

datatype call =
    CGetDoltDB namespaced_name
  | CGetSts namespaced_name
  | CGetPod namespaced_name
  | CGetConfigMap namespaced_name
  | CGetService namespaced_name
  | CGetPDB namespaced_name
  | CGetSecret namespaced_name
  | CGetServiceAccount namespaced_name
  | CGetRole namespaced_name
  | CGetRoleBinding namespaced_name
  | CGetClusterRoleBinding namespaced_name
  | CListPods string strmap
  | CListPVCs string strmap
  | CListEndpointSlices string string
  | CCreateSts sts
  | CCreateConfigMap config_map
  | CCreateService service
  | CCreatePDB pod_disruption_budget
  | CCreateServiceAccount service_account
  | CCreateRole role
  | CCreateRoleBinding role_binding
  | CCreateClusterRoleBinding role_binding
  | CPatchDoltDB DoltDB DoltDB
  | CPatchDoltDBStatus DoltDB DoltDB
  | CPatchPod pod pod
  | CPatchPVC pvc pvc
  | CPatchSts sts sts
  | CPatchConfigMap config_map config_map
  | CPatchService service service
  | CPatchPDB pod_disruption_budget pod_disruption_budget
  | CPatchServiceAccount service_account service_account
  | CDeletePod namespaced_name
  | CDeleteSts namespaced_name
  | CDeleteService namespaced_name
  | CDeletePDB namespaced_name
  | CEvent string string
  | CSqlOpen sql_opts
  | CSql sql_opts sql_stmt
  | CSqlClose sql_opts

section \<open>The environment\<close>

record lib =
  lib_SetStatusCondition :: "condition list \<Rightarrow> condition \<Rightarrow> condition list"
  lib_FindStatusCondition :: "condition list \<Rightarrow> string \<Rightarrow> condition option"
  lib_IsStatusConditionTrue :: "condition list \<Rightarrow> string \<Rightarrow> bool"
  lib_IsStatusConditionFalse :: "condition list \<Rightarrow> string \<Rightarrow> bool"
  lib_SetControllerReference :: "object_meta \<Rightarrow> object_meta \<Rightarrow> goerr + object_meta"
  lib_QuantityCmp :: "quantity \<Rightarrow> quantity \<Rightarrow> int"
  lib_YamlMarshal :: "Config \<Rightarrow> goerr + string"
  lib_Sha256Hex :: "string \<Rightarrow> string"
  lib_UrlParse :: "string \<Rightarrow> goerr + (string \<times> string)"
  lib_ClusterNameVar :: string

record env = lib +
  env_GetDoltDB :: "call list \<Rightarrow> namespaced_name \<Rightarrow> goerr + DoltDB"
  env_GetSts :: "call list \<Rightarrow> namespaced_name \<Rightarrow> goerr + sts"
  env_GetPod :: "call list \<Rightarrow> namespaced_name \<Rightarrow> goerr + pod"
  env_GetConfigMap :: "call list \<Rightarrow> namespaced_name \<Rightarrow> goerr + config_map"
  env_GetService :: "call list \<Rightarrow> namespaced_name \<Rightarrow> goerr + service"
  env_GetPDB :: "call list \<Rightarrow> namespaced_name \<Rightarrow> goerr + pod_disruption_budget"
  env_GetSecret :: "call list \<Rightarrow> namespaced_name \<Rightarrow> goerr + secret"
  env_GetServiceAccount :: "call list \<Rightarrow> namespaced_name \<Rightarrow> goerr + service_account"
  env_GetRole :: "call list \<Rightarrow> namespaced_name \<Rightarrow> goerr + role"
  env_GetRoleBinding :: "call list \<Rightarrow> namespaced_name \<Rightarrow> goerr + role_binding"
  env_GetClusterRoleBinding :: "call list \<Rightarrow> namespaced_name \<Rightarrow> goerr + role_binding"
  env_ListPods :: "call list \<Rightarrow> string \<Rightarrow> strmap \<Rightarrow> goerr + pod list"
  env_ListPVCs :: "call list \<Rightarrow> string \<Rightarrow> strmap \<Rightarrow> goerr + pvc list"
  env_ListEndpointSlices :: "call list \<Rightarrow> string \<Rightarrow> string \<Rightarrow> goerr + endpoint_slice list"
  env_Write :: "call list \<Rightarrow> call \<Rightarrow> goerr option"
  env_PatchDoltDB :: "call list \<Rightarrow> DoltDB \<Rightarrow> DoltDB \<Rightarrow> goerr + DoltDB"
  env_PatchDoltDBStatus :: "call list \<Rightarrow> DoltDB \<Rightarrow> DoltDB \<Rightarrow> goerr + DoltDB"
  env_SqlOpen :: "call list \<Rightarrow> sql_opts \<Rightarrow> goerr option"
  env_SqlClose :: "call list \<Rightarrow> sql_opts \<Rightarrow> goerr option"
  env_AssumeRole :: "call list \<Rightarrow> sql_opts \<Rightarrow> string \<Rightarrow> int \<Rightarrow> goerr + int rows"
  env_Transition :: "call list \<Rightarrow> sql_opts \<Rightarrow> int \<Rightarrow> int \<Rightarrow> goerr + transition_row rows"
  env_RoleAndEpoch :: "call list \<Rightarrow> sql_opts \<Rightarrow> goerr + (string \<times> int) rows"
  env_ClusterStatus :: "call list \<Rightarrow> sql_opts \<Rightarrow> goerr + DoltStatus rows"
  env_Version :: "call list \<Rightarrow> sql_opts \<Rightarrow> goerr + (goerr + string)"
  env_MapRange :: "call list \<Rightarrow> (string \<times> int) list \<Rightarrow> (string \<times> int) list"
  env_PollRounds :: "call list \<Rightarrow> nat"

text \<open>
  \<open>env_Version\<close> answers \<open>row.Err()\<close> and then \<open>row.Scan\<close>.  \<open>env_MapRange\<close> is the order in which
  Go's \<open>range\<close> visits the entries of a map, which the language leaves open and which may differ
  from one loop to the next.  \<open>env_PollRounds\<close> is the number of times a poll with a deadline gets to
  ask before its context is cancelled.
\<close>

section \<open>Client operations\<close>

text \<open>
  \<open>env_Write\<close> answers the requests whose reply carries nothing but an error: creations, deletions
  and the patches of objects that the code does not use again.
\<close>

definition k_write :: "env \<Rightarrow> call \<Rightarrow> (call, 'o, goerr option) prog" where
  "k_write E c = perform c (\<lambda>h. env_Write E h c)"

definition k_GetDoltDB where "k_GetDoltDB E k = perform (CGetDoltDB k) (\<lambda>h. env_GetDoltDB E h k)"
definition k_GetSts where "k_GetSts E k = perform (CGetSts k) (\<lambda>h. env_GetSts E h k)"
definition k_GetPod where "k_GetPod E k = perform (CGetPod k) (\<lambda>h. env_GetPod E h k)"
definition k_GetConfigMap where
  "k_GetConfigMap E k = perform (CGetConfigMap k) (\<lambda>h. env_GetConfigMap E h k)"
definition k_GetService where "k_GetService E k = perform (CGetService k) (\<lambda>h. env_GetService E h k)"
definition k_GetPDB where "k_GetPDB E k = perform (CGetPDB k) (\<lambda>h. env_GetPDB E h k)"
definition k_GetSecret where "k_GetSecret E k = perform (CGetSecret k) (\<lambda>h. env_GetSecret E h k)"
definition k_GetServiceAccount where
  "k_GetServiceAccount E k = perform (CGetServiceAccount k) (\<lambda>h. env_GetServiceAccount E h k)"
definition k_GetRole where "k_GetRole E k = perform (CGetRole k) (\<lambda>h. env_GetRole E h k)"
definition k_GetRoleBinding where
  "k_GetRoleBinding E k = perform (CGetRoleBinding k) (\<lambda>h. env_GetRoleBinding E h k)"
definition k_GetClusterRoleBinding where
  "k_GetClusterRoleBinding E k =
     perform (CGetClusterRoleBinding k) (\<lambda>h. env_GetClusterRoleBinding E h k)"
definition k_ListPods where
  "k_ListPods E ns sel = perform (CListPods ns sel) (\<lambda>h. env_ListPods E h ns sel)"
definition k_ListPVCs where
  "k_ListPVCs E ns sel = perform (CListPVCs ns sel) (\<lambda>h. env_ListPVCs E h ns sel)"
definition k_ListEndpointSlices where
  "k_ListEndpointSlices E ns svc =
     perform (CListEndpointSlices ns svc) (\<lambda>h. env_ListEndpointSlices E h ns svc)"
definition k_Event :: "string \<Rightarrow> string \<Rightarrow> (call, 'o, unit) prog" where
  "k_Event reason msg = perform (CEvent reason msg) (\<lambda>_. ())"

definition k_PatchDoltDB :: "env \<Rightarrow> DoltDB \<Rightarrow> DoltDB \<Rightarrow> (call, 'o, goerr + DoltDB) prog" where
  "k_PatchDoltDB E base new = perform (CPatchDoltDB base new) (\<lambda>h. env_PatchDoltDB E h base new)"
definition k_PatchDoltDBStatus :: "env \<Rightarrow> DoltDB \<Rightarrow> DoltDB \<Rightarrow> (call, 'o, goerr + DoltDB) prog" where
  "k_PatchDoltDBStatus E base new =
     perform (CPatchDoltDBStatus base new) (\<lambda>h. env_PatchDoltDBStatus E h base new)"

definition k_SqlOpen where "k_SqlOpen E c = perform (CSqlOpen c) (\<lambda>h. env_SqlOpen E h c)"
definition k_SqlClose where "k_SqlClose E c = perform (CSqlClose c) (\<lambda>h. env_SqlClose E h c)"
definition k_AssumeRole where
  "k_AssumeRole E c role epoch =
     perform (CSql c (AssumeClusterRole role epoch)) (\<lambda>h. env_AssumeRole E h c role epoch)"
definition k_Transition where
  "k_Transition E c epoch minCaughtUp =
     perform (CSql c (TransitionToStandbyStmt epoch minCaughtUp))
       (\<lambda>h. env_Transition E h c epoch minCaughtUp)"
definition k_RoleAndEpoch where
  "k_RoleAndEpoch E c = perform (CSql c SelectRoleAndEpoch) (\<lambda>h. env_RoleAndEpoch E h c)"
definition k_ClusterStatus where
  "k_ClusterStatus E c = perform (CSql c SelectClusterStatus) (\<lambda>h. env_ClusterStatus E h c)"
definition k_Version where
  "k_Version E c = perform (CSql c SelectVersion) (\<lambda>h. env_Version E h c)"

lemmas k_defs =
  k_write_def k_GetDoltDB_def k_GetSts_def k_GetPod_def k_GetConfigMap_def k_GetService_def
  k_GetPDB_def k_GetSecret_def k_GetServiceAccount_def k_GetRole_def k_GetRoleBinding_def
  k_GetClusterRoleBinding_def k_ListPods_def k_ListPVCs_def k_ListEndpointSlices_def k_Event_def
  k_PatchDoltDB_def k_PatchDoltDBStatus_def k_SqlOpen_def k_SqlClose_def k_AssumeRole_def
  k_Transition_def k_RoleAndEpoch_def k_ClusterStatus_def k_Version_def

section \<open>The in-memory state of a DoltDB reconcile\<close>

text \<open>
  A DoltDB reconciler works on the object it fetched (through a pointer, so every function sees the
  changes of the ones before) and on the set of SQL clients it has opened, by pod index.
\<close>

record dbst =
  the_db :: DoltDB
  clients :: "(int \<times> sql_opts) list"

type_synonym 'a op = "(call, dbst, 'a) prog"

definition get_db :: "DoltDB op" where
  "get_db = do { s \<leftarrow> get_obj; ret (the_db s) }"

definition modify_db :: "(DoltDB \<Rightarrow> DoltDB) \<Rightarrow> unit op" where
  "modify_db f = do { s \<leftarrow> get_obj; put_obj (s\<lparr>the_db := f (the_db s)\<rparr>) }"

definition get_clients :: "(int \<times> sql_opts) list op" where
  "get_clients = do { s \<leftarrow> get_obj; ret (clients s) }"

definition put_clients :: "(int \<times> sql_opts) list \<Rightarrow> unit op" where
  "put_clients cs = do { s \<leftarrow> get_obj; put_obj (s\<lparr>clients := cs\<rparr>) }"

text \<open>A call of the accessor \<open>Replication()\<close>: it fills the defaults in and returns the value.\<close>

definition call_Replication :: "ReplicationSpec op" where
  "call_Replication = do { modify_db Replication_fill; d \<leftarrow> get_db; ret (Replication d) }"

text \<open>
  The three copies of \<open>PatchStatus\<close> (\<open>pkg/patch\<close>, \<open>pkg/controller/status\<close>, the replication
  controllers): remember the object, mutate its status, send the difference, and take over the
  object the server returns.
\<close>

definition PatchStatus :: "env \<Rightarrow> (DoltDB \<Rightarrow> DoltDB) \<Rightarrow> goerr option op" where
  "PatchStatus E patcher = do {
     base \<leftarrow> get_db;
     modify_db patcher;
     new \<leftarrow> get_db;
     r \<leftarrow> k_PatchDoltDBStatus E base new;
     case r of
       Inl e \<Rightarrow> ret (Some e)
     | Inr d \<Rightarrow> do { modify_db (\<lambda>_. d); ret None }
   }"

definition PatchDoltDB :: "env \<Rightarrow> (DoltDB \<Rightarrow> DoltDB) \<Rightarrow> goerr option op" where
  "PatchDoltDB E patcher = do {
     base \<leftarrow> get_db;
     modify_db patcher;
     new \<leftarrow> get_db;
     r \<leftarrow> k_PatchDoltDB E base new;
     case r of
       Inl e \<Rightarrow> ret (Some e)
     | Inr d \<Rightarrow> do { modify_db (\<lambda>_. d); ret None }
   }"

text \<open>Symbolic execution of these operations.\<close>

lemmas wp_k [wp_simps] = k_defs [THEN arg_cong, of "\<lambda>p. wp p Q s" for Q s, unfolded wp_perform]

lemma wp_get_db [wp_simps]: "wp get_db Q s = Q (the_db (obj s)) s"
  by (simp add: get_db_def wp_simps)

lemma wp_modify_db [wp_simps]:
  "wp (modify_db f) Q s = Q () (s\<lparr>obj := (obj s)\<lparr>the_db := f (the_db (obj s))\<rparr>\<rparr>)"
  by (simp add: modify_db_def wp_simps)

lemma wp_get_clients [wp_simps]: "wp get_clients Q s = Q (clients (obj s)) s"
  by (simp add: get_clients_def wp_simps)

lemma wp_put_clients [wp_simps]:
  "wp (put_clients cs) Q s = Q () (s\<lparr>obj := (obj s)\<lparr>clients := cs\<rparr>\<rparr>)"
  by (simp add: put_clients_def wp_simps)

lemma wp_call_Replication [wp_simps]:
  "wp call_Replication Q s =
     Q (Replication (the_db (obj s)))
       (s\<lparr>obj := (obj s)\<lparr>the_db := Replication_fill (the_db (obj s))\<rparr>\<rparr>)"
  by (simp add: call_Replication_def wp_simps)

lemma emits_k [emits_intros]:
  "P c \<Longrightarrow> emits P (k_write E c)"
  "P (CGetDoltDB k) \<Longrightarrow> emits P (k_GetDoltDB E k)"
  "P (CGetSts k) \<Longrightarrow> emits P (k_GetSts E k)"
  "P (CGetPod k) \<Longrightarrow> emits P (k_GetPod E k)"
  "P (CGetConfigMap k) \<Longrightarrow> emits P (k_GetConfigMap E k)"
  "P (CGetService k) \<Longrightarrow> emits P (k_GetService E k)"
  "P (CGetPDB k) \<Longrightarrow> emits P (k_GetPDB E k)"
  "P (CGetSecret k) \<Longrightarrow> emits P (k_GetSecret E k)"
  "P (CGetServiceAccount k) \<Longrightarrow> emits P (k_GetServiceAccount E k)"
  "P (CGetRole k) \<Longrightarrow> emits P (k_GetRole E k)"
  "P (CGetRoleBinding k) \<Longrightarrow> emits P (k_GetRoleBinding E k)"
  "P (CGetClusterRoleBinding k) \<Longrightarrow> emits P (k_GetClusterRoleBinding E k)"
  "P (CListPods ns sel) \<Longrightarrow> emits P (k_ListPods E ns sel)"
  "P (CListPVCs ns sel) \<Longrightarrow> emits P (k_ListPVCs E ns sel)"
  "P (CListEndpointSlices ns svc) \<Longrightarrow> emits P (k_ListEndpointSlices E ns svc)"
  "P (CEvent r m) \<Longrightarrow> emits P (k_Event r m)"
  "P (CPatchDoltDB b n) \<Longrightarrow> emits P (k_PatchDoltDB E b n)"
  "P (CPatchDoltDBStatus b n) \<Longrightarrow> emits P (k_PatchDoltDBStatus E b n)"
  "P (CSqlOpen o1) \<Longrightarrow> emits P (k_SqlOpen E o1)"
  "P (CSqlClose o1) \<Longrightarrow> emits P (k_SqlClose E o1)"
  "P (CSql o1 (AssumeClusterRole ro ep)) \<Longrightarrow> emits P (k_AssumeRole E o1 ro ep)"
  "P (CSql o1 (TransitionToStandbyStmt ep mi)) \<Longrightarrow> emits P (k_Transition E o1 ep mi)"
  "P (CSql o1 SelectRoleAndEpoch) \<Longrightarrow> emits P (k_RoleAndEpoch E o1)"
  "P (CSql o1 SelectClusterStatus) \<Longrightarrow> emits P (k_ClusterStatus E o1)"
  "P (CSql o1 SelectVersion) \<Longrightarrow> emits P (k_Version E o1)"
  by (simp_all add: k_defs emits_perform)

lemma emits_db [emits_intros]:
  "emits P get_db" "emits P (modify_db f)" "emits P get_clients" "emits P (put_clients cs)"
  "emits P call_Replication"
  by (auto simp: get_db_def modify_db_def get_clients_def put_clients_def call_Replication_def
      intro!: emits_intros)

lemma emits_PatchStatus [emits_intros]:
  "(\<And>b n. P (CPatchDoltDBStatus b n)) \<Longrightarrow> emits P (PatchStatus E f)"
  unfolding PatchStatus_def by (intro emits_intros) auto

lemma emits_PatchDoltDB [emits_intros]:
  "(\<And>b n. P (CPatchDoltDB b n)) \<Longrightarrow> emits P (PatchDoltDB E f)"
  unfolding PatchDoltDB_def by (intro emits_intros) auto

end
