(* ===== verification/Conditions.thy ===== *)
theory Conditions
  imports Kube_Client
begin

text \<open>
  Status conditions: the condition types and reasons (\<open>api/v1alpha/condition_types.go\<close>), the setters
  and patchers of \<open>pkg/conditions\<close>, and the predicates of a DoltDB that read them back.

  A \<open>Conditioner\<close> is an interface with the one method \<open>SetCondition\<close>; its setters are polymorphic
  in the status type and take that method as their first argument.  The locale \<open>conditioner\<close> is the
  contract of the interface, and \<open>condition_library\<close> that of the three functions of
  \<open>k8s.io/apimachinery/pkg/api/meta\<close> on which the implementation of the interface rests.  A
  condition's transition time is not modelled: no code of the operator reads it.
\<close>

section \<open>Condition types and reasons\<close>

definition ConditionTypeReady :: string where
  "ConditionTypeReady = ''Ready''"
definition ConditionTypePrimarySwitched :: string where
  "ConditionTypePrimarySwitched = ''PrimarySwitched''"
definition ConditionTypeComplete :: string where
  "ConditionTypeComplete = ''Complete''"
definition ConditionTypeStorageResized :: string where
  "ConditionTypeStorageResized = ''StorageResized''"
definition ConditionTypeUpdated :: string where
  "ConditionTypeUpdated = ''Updated''"
definition ConditionTypeSnapshotCreated :: string where
  "ConditionTypeSnapshotCreated = ''SnapshotCronJobCreated''"
definition ConditionTypeBackupCompleted :: string where
  "ConditionTypeBackupCompleted = ''BackupCompleted''"
definition ConditionTypeBackupScheduleCreated :: string where
  "ConditionTypeBackupScheduleCreated = ''BackupScheduleCreated''"

definition ConditionReasonSnapshotCreated :: string where
  "ConditionReasonSnapshotCreated = ''SnapshotCronJobCreated''"
definition ConditionReasonStatefulSetNotReady :: string where
  "ConditionReasonStatefulSetNotReady = ''StatefulSetNotReady''"
definition ConditionReasonStatefulSetReady :: string where
  "ConditionReasonStatefulSetReady = ''StatefulSetReady''"
definition ConditionReasonSwitchPrimary :: string where
  "ConditionReasonSwitchPrimary = ''SwitchPrimary''"
definition ConditionReasonResizingStorage :: string where
  "ConditionReasonResizingStorage = ''ResizingStorage''"
definition ConditionReasonWaitStorageResize :: string where
  "ConditionReasonWaitStorageResize = ''WaitStorageResize''"
definition ConditionReasonStorageResized :: string where
  "ConditionReasonStorageResized = ''StorageResized''"
definition ConditionReasonPendingUpdate :: string where
  "ConditionReasonPendingUpdate = ''PendingUpdate''"
definition ConditionReasonUpdating :: string where
  "ConditionReasonUpdating = ''Updating''"
definition ConditionReasonUpdated :: string where
  "ConditionReasonUpdated = ''Updated''"
definition ConditionReasonCreated :: string where
  "ConditionReasonCreated = ''Created''"
definition ConditionReasonHealthy :: string where
  "ConditionReasonHealthy = ''Healthy''"
definition ConditionReasonFailed :: string where
  "ConditionReasonFailed = ''Failed''"
definition ConditionReasonBackupPending :: string where
  "ConditionReasonBackupPending = ''BackupPending''"
definition ConditionReasonBackupRunning :: string where
  "ConditionReasonBackupRunning = ''BackupRunning''"
definition ConditionReasonBackupCompleted :: string where
  "ConditionReasonBackupCompleted = ''BackupCompleted''"
definition ConditionReasonBackupFailed :: string where
  "ConditionReasonBackupFailed = ''BackupFailed''"
definition ConditionReasonBackupScheduleCreated :: string where
  "ConditionReasonBackupScheduleCreated = ''BackupScheduleCreated''"

lemma condition_types_distinct [simp]:
  "ConditionTypeReady \<noteq> ConditionTypePrimarySwitched" "ConditionTypePrimarySwitched \<noteq> ConditionTypeReady"
  "ConditionTypeReady \<noteq> ConditionTypeStorageResized" "ConditionTypeStorageResized \<noteq> ConditionTypeReady"
  "ConditionTypeReady \<noteq> ConditionTypeUpdated" "ConditionTypeUpdated \<noteq> ConditionTypeReady"
  "ConditionTypePrimarySwitched \<noteq> ConditionTypeStorageResized"
  "ConditionTypeStorageResized \<noteq> ConditionTypePrimarySwitched"
  "ConditionTypePrimarySwitched \<noteq> ConditionTypeUpdated"
  "ConditionTypeUpdated \<noteq> ConditionTypePrimarySwitched"
  "ConditionTypeStorageResized \<noteq> ConditionTypeUpdated"
  "ConditionTypeUpdated \<noteq> ConditionTypeStorageResized"
  "ConditionTypeReady \<noteq> ConditionTypeBackupCompleted" "ConditionTypeBackupCompleted \<noteq> ConditionTypeReady"
  "ConditionTypeReady \<noteq> ConditionTypeBackupScheduleCreated"
  "ConditionTypeBackupScheduleCreated \<noteq> ConditionTypeReady"
  by (simp_all add: ConditionTypeReady_def ConditionTypePrimarySwitched_def
      ConditionTypeStorageResized_def ConditionTypeUpdated_def ConditionTypeBackupCompleted_def
      ConditionTypeBackupScheduleCreated_def)

lemma condition_reasons_distinct [simp]:
  "ConditionReasonResizingStorage \<noteq> ConditionReasonWaitStorageResize"
  "ConditionReasonWaitStorageResize \<noteq> ConditionReasonResizingStorage"
  "ConditionReasonPendingUpdate \<noteq> ConditionReasonUpdating"
  "ConditionReasonUpdating \<noteq> ConditionReasonPendingUpdate"
  by (simp_all add: ConditionReasonResizingStorage_def ConditionReasonWaitStorageResize_def
      ConditionReasonPendingUpdate_def ConditionReasonUpdating_def)

section \<open>The setters of a Conditioner\<close>

type_synonym 's set_condition = "condition \<Rightarrow> 's \<Rightarrow> 's"

abbreviation Condition :: "string \<Rightarrow> cond_status \<Rightarrow> string \<Rightarrow> string \<Rightarrow> condition" where
  "Condition ty st reason msg \<equiv>
     \<lparr>cond_type = ty, cond_status = st, cond_reason = reason, cond_message = msg\<rparr>"

definition SetReadyHealthy :: "'s set_condition \<Rightarrow> 's \<Rightarrow> 's" where
  "SetReadyHealthy setc c =
     setc (Condition ConditionTypeReady CondTrue ConditionReasonHealthy ''Healthy'') c"

definition SetReadyUnhealthyWithError :: "'s set_condition \<Rightarrow> 's \<Rightarrow> goerr \<Rightarrow> 's" where
  "SetReadyUnhealthyWithError setc c err =
     setc (Condition ConditionTypeReady CondFalse ConditionReasonHealthy (errText err)) c"

definition SetReadyCreatedWithMessage :: "'s set_condition \<Rightarrow> 's \<Rightarrow> string \<Rightarrow> 's" where
  "SetReadyCreatedWithMessage setc c message =
     setc (Condition ConditionTypeReady CondTrue ConditionReasonCreated message) c"

definition SetReadyCreated :: "'s set_condition \<Rightarrow> 's \<Rightarrow> 's" where
  "SetReadyCreated setc c = SetReadyCreatedWithMessage setc c ''Created''"

definition SetReadyFailedWithMessage :: "'s set_condition \<Rightarrow> 's \<Rightarrow> string \<Rightarrow> 's" where
  "SetReadyFailedWithMessage setc c message =
     setc (Condition ConditionTypeReady CondFalse ConditionReasonFailed message) c"

definition SetReadyFailed :: "'s set_condition \<Rightarrow> 's \<Rightarrow> 's" where
  "SetReadyFailed setc c = SetReadyFailedWithMessage setc c ''Failed''"

definition SetReadyWithStatefulSet :: "'s set_condition \<Rightarrow> 's \<Rightarrow> sts \<Rightarrow> 's" where
  "SetReadyWithStatefulSet setc c ss =
     (if sts_status_replicas ss = 0 \<or> sts_ready_replicas ss \<noteq> sts_status_replicas ss
      then setc (Condition ConditionTypeReady CondFalse ConditionReasonStatefulSetNotReady
                  ''Not ready'') c
      else setc (Condition ConditionTypeReady CondTrue ConditionReasonStatefulSetReady
                  ''Running'') c)"

definition SetReadyStorageResizing :: "'s set_condition \<Rightarrow> 's \<Rightarrow> 's" where
  "SetReadyStorageResizing setc c =
     (let msg = ''Resizing storage'';
          c = setc (Condition ConditionTypeReady CondFalse ConditionReasonResizingStorage msg) c
      in setc (Condition ConditionTypeStorageResized CondFalse ConditionReasonResizingStorage msg) c)"

definition SetReadyWaitingStorageResize :: "'s set_condition \<Rightarrow> 's \<Rightarrow> 's" where
  "SetReadyWaitingStorageResize setc c =
     (let msg = ''Waiting for storage resize'';
          c = setc (Condition ConditionTypeReady CondFalse ConditionReasonWaitStorageResize msg) c
      in setc (Condition ConditionTypeStorageResized CondFalse ConditionReasonWaitStorageResize msg) c)"

definition SetReadyStorageResized :: "'s set_condition \<Rightarrow> 's \<Rightarrow> 's" where
  "SetReadyStorageResized setc c =
     setc (Condition ConditionTypeStorageResized CondTrue ConditionReasonStorageResized
            ''Storage resized'') c"

definition SetReadyWithSnapshotJobCreated :: "'s set_condition \<Rightarrow> 's \<Rightarrow> 's" where
  "SetReadyWithSnapshotJobCreated setc c =
     setc (Condition ConditionTypeSnapshotCreated CondTrue ConditionReasonSnapshotCreated
            ''Snapshot cron job created'') c"

text \<open>\<open>Replication()\<close> fills the pod index in, so its \<open>ptr.Deref\<close> never takes the default.\<close>

definition switchingPrimaryMessage :: "DoltDB \<Rightarrow> string" where
  "switchingPrimaryMessage doltdb =
     ''Switching primary to '' @
       quoted (PodName (db_meta doltdb) (ptr_Deref (primary_PodIndex (ReplPrimary doltdb)) 0))"

definition SetPrimarySwitching :: "'s set_condition \<Rightarrow> 's \<Rightarrow> DoltDB \<Rightarrow> 's" where
  "SetPrimarySwitching setc c doltdb =
     (let msg = switchingPrimaryMessage doltdb;
          c = setc (Condition ConditionTypeReady CondFalse ConditionReasonSwitchPrimary msg) c
      in setc (Condition ConditionTypePrimarySwitched CondFalse ConditionReasonSwitchPrimary msg) c)"

definition SetPrimarySwitched :: "'s set_condition \<Rightarrow> 's \<Rightarrow> 's" where
  "SetPrimarySwitched setc c =
     setc (Condition ConditionTypePrimarySwitched CondTrue ConditionReasonSwitchPrimary
            ''Switchover complete'') c"

definition SetPendingUpdate :: "'s set_condition \<Rightarrow> 's \<Rightarrow> 's" where
  "SetPendingUpdate setc c =
     setc (Condition ConditionTypeUpdated CondFalse ConditionReasonPendingUpdate ''Pending update'') c"

definition SetUpdating :: "'s set_condition \<Rightarrow> 's \<Rightarrow> 's" where
  "SetUpdating setc c =
     setc (Condition ConditionTypeUpdated CondFalse ConditionReasonUpdating ''Updating'') c"

definition SetUpdated :: "'s set_condition \<Rightarrow> 's \<Rightarrow> 's" where
  "SetUpdated setc c =
     setc (Condition ConditionTypeUpdated CondTrue ConditionReasonUpdated ''Updated'') c"

definition SetCompleteFailedWithMessage :: "'s set_condition \<Rightarrow> 's \<Rightarrow> string \<Rightarrow> 's" where
  "SetCompleteFailedWithMessage setc c message =
     setc (Condition ConditionTypeComplete CondFalse ConditionReasonFailed message) c"

definition SetCompleteFailed :: "'s set_condition \<Rightarrow> 's \<Rightarrow> 's" where
  "SetCompleteFailed setc c = SetCompleteFailedWithMessage setc c ''Failed''"

definition SetBackupPending :: "'s set_condition \<Rightarrow> 's \<Rightarrow> 's" where
  "SetBackupPending setc c =
     setc (Condition ConditionTypeReady CondFalse ConditionReasonBackupPending ''Backup pending'') c"

definition SetBackupRunning :: "'s set_condition \<Rightarrow> 's \<Rightarrow> 's" where
  "SetBackupRunning setc c =
     setc (Condition ConditionTypeReady CondFalse ConditionReasonBackupRunning ''Backup running'') c"

definition SetBackupCompleted :: "'s set_condition \<Rightarrow> 's \<Rightarrow> 's" where
  "SetBackupCompleted setc c =
     (let c = setc (Condition ConditionTypeReady CondTrue ConditionReasonBackupCompleted
                     ''Backup completed'') c
      in setc (Condition ConditionTypeBackupCompleted CondTrue ConditionReasonBackupCompleted
                ''Backup completed'') c)"

definition SetBackupFailed :: "'s set_condition \<Rightarrow> 's \<Rightarrow> string \<Rightarrow> 's" where
  "SetBackupFailed setc c message =
     (let c = setc (Condition ConditionTypeReady CondFalse ConditionReasonBackupFailed message) c
      in setc (Condition ConditionTypeBackupCompleted CondFalse ConditionReasonBackupFailed message) c)"

definition SetBackupScheduleCreated :: "'s set_condition \<Rightarrow> 's \<Rightarrow> 's" where
  "SetBackupScheduleCreated setc c =
     (let c = setc (Condition ConditionTypeReady CondTrue ConditionReasonBackupScheduleCreated
                     ''Backup schedule active'') c
      in setc (Condition ConditionTypeBackupScheduleCreated CondTrue
                ConditionReasonBackupScheduleCreated ''Backup schedule created'') c)"

lemmas setter_defs =
  SetReadyHealthy_def SetReadyUnhealthyWithError_def SetReadyCreatedWithMessage_def
  SetReadyCreated_def SetReadyFailedWithMessage_def SetReadyFailed_def SetReadyWithStatefulSet_def
  SetReadyStorageResizing_def SetReadyWaitingStorageResize_def SetReadyStorageResized_def
  SetReadyWithSnapshotJobCreated_def SetPrimarySwitching_def SetPrimarySwitched_def
  SetPendingUpdate_def SetUpdating_def SetUpdated_def SetCompleteFailedWithMessage_def
  SetCompleteFailed_def SetBackupPending_def SetBackupRunning_def SetBackupCompleted_def
  SetBackupFailed_def SetBackupScheduleCreated_def

section \<open>Patchers\<close>

text \<open>
  The methods of \<open>Ready\<close> and \<open>Complete\<close> return closures over a Conditioner; the Go type name of
  the object (\<open>getType\<close>, by reflection) is an argument.
\<close>

definition Ready_PatcherFailed :: "string \<Rightarrow> 's set_condition \<Rightarrow> 's \<Rightarrow> 's" where
  "Ready_PatcherFailed msg setc c = SetReadyFailedWithMessage setc c msg"

definition Ready_PatcherWithError :: "goerr option \<Rightarrow> 's set_condition \<Rightarrow> 's \<Rightarrow> 's" where
  "Ready_PatcherWithError err setc c =
     (case err of None \<Rightarrow> SetReadyCreated setc c | Some _ \<Rightarrow> SetReadyFailed setc c)"

definition Ready_PatcherRefResolver :: "goerr option \<Rightarrow> string \<Rightarrow> 's set_condition \<Rightarrow> 's \<Rightarrow> 's" where
  "Ready_PatcherRefResolver err getType setc c =
     (case err of
        None \<Rightarrow> c
      | Some e \<Rightarrow>
          if IsNotFound e then SetReadyFailedWithMessage setc c (getType @ '' not found'')
          else SetReadyFailedWithMessage setc c (''Error getting '' @ getType))"

definition Ready_PatcherHealthy :: "goerr option \<Rightarrow> 's set_condition \<Rightarrow> 's \<Rightarrow> 's" where
  "Ready_PatcherHealthy err setc c =
     (case err of None \<Rightarrow> SetReadyHealthy setc c | Some e \<Rightarrow> SetReadyUnhealthyWithError setc c e)"

definition Complete_PatcherFailed :: "string \<Rightarrow> 's set_condition \<Rightarrow> 's \<Rightarrow> 's" where
  "Complete_PatcherFailed msg setc c = SetCompleteFailedWithMessage setc c msg"

definition Complete_PatcherRefResolver ::
    "goerr option \<Rightarrow> string \<Rightarrow> 's set_condition \<Rightarrow> 's \<Rightarrow> 's" where
  "Complete_PatcherRefResolver err getType setc c =
     (case err of
        None \<Rightarrow> c
      | Some e \<Rightarrow>
          if IsNotFound e then SetCompleteFailedWithMessage setc c (getType @ '' not found'')
          else SetCompleteFailedWithMessage setc c (''Error getting '' @ getType))"

section \<open>The status of a DoltDB\<close>

definition SetCondition :: "'x lib_scheme \<Rightarrow> condition \<Rightarrow> DoltDBStatus \<Rightarrow> DoltDBStatus" where
  "SetCondition L condition s =
     s\<lparr>status_Conditions := lib_SetStatusCondition L (status_Conditions s) condition\<rparr>"

definition UpdateCurrentPrimary :: "DoltDB \<Rightarrow> int \<Rightarrow> DoltDBStatus \<Rightarrow> DoltDBStatus" where
  "UpdateCurrentPrimary doltdb index s =
     s\<lparr>status_CurrentPrimaryPodIndex := Some index,
       status_CurrentPrimary := Some (PodName (db_meta doltdb) index)\<rparr>"

definition UpdateReplicationEpoch :: "int \<Rightarrow> DoltDBStatus \<Rightarrow> DoltDBStatus" where
  "UpdateReplicationEpoch epoch s =
     (case status_ReplicationEpoch s of
        Some cur \<Rightarrow> if epoch < cur then s else s\<lparr>status_ReplicationEpoch := Some epoch\<rparr>
      | None \<Rightarrow> s\<lparr>status_ReplicationEpoch := Some epoch\<rparr>)"

definition IsSwitchingPrimary :: "'x lib_scheme \<Rightarrow> DoltDB \<Rightarrow> bool" where
  "IsSwitchingPrimary L d =
     lib_IsStatusConditionFalse L (status_Conditions (db_status d)) ConditionTypePrimarySwitched"

definition IsReady :: "'x lib_scheme \<Rightarrow> DoltDB \<Rightarrow> bool" where
  "IsReady L d = lib_IsStatusConditionTrue L (status_Conditions (db_status d)) ConditionTypeReady"

definition IsResizingStorage :: "'x lib_scheme \<Rightarrow> DoltDB \<Rightarrow> bool" where
  "IsResizingStorage L d =
     lib_IsStatusConditionFalse L (status_Conditions (db_status d)) ConditionTypeStorageResized"

definition IsWaitingForStorageResize :: "'x lib_scheme \<Rightarrow> DoltDB \<Rightarrow> bool" where
  "IsWaitingForStorageResize L d =
     (case lib_FindStatusCondition L (status_Conditions (db_status d)) ConditionTypeStorageResized of
        None \<Rightarrow> False
      | Some c \<Rightarrow> cond_status c = CondFalse \<and> cond_reason c = ConditionReasonWaitStorageResize)"

definition HasPendingUpdate :: "'x lib_scheme \<Rightarrow> DoltDB \<Rightarrow> bool" where
  "HasPendingUpdate L d =
     (case lib_FindStatusCondition L (status_Conditions (db_status d)) ConditionTypeUpdated of
        None \<Rightarrow> False
      | Some c \<Rightarrow> cond_status c = CondFalse \<and> cond_reason c = ConditionReasonPendingUpdate)"

definition IsUpdating :: "'x lib_scheme \<Rightarrow> DoltDB \<Rightarrow> bool" where
  "IsUpdating L d =
     (case lib_FindStatusCondition L (status_Conditions (db_status d)) ConditionTypeUpdated of
        None \<Rightarrow> False
      | Some c \<Rightarrow> cond_status c = CondFalse \<and> cond_reason c = ConditionReasonUpdating)"

definition SetReadyWithDoltDB ::
    "'x lib_scheme \<Rightarrow> 's set_condition \<Rightarrow> 's \<Rightarrow> sts \<Rightarrow> DoltDB \<Rightarrow> 's" where
  "SetReadyWithDoltDB L setc c ss doltdb =
     (if IsUpdating L doltdb
      then setc (Condition ConditionTypeReady CondFalse ConditionReasonUpdating ''Updating'') c
      else if sts_status_replicas ss = 0 \<or> sts_ready_replicas ss \<noteq> sts_status_replicas ss
      then setc (Condition ConditionTypeReady CondFalse ConditionReasonStatefulSetNotReady
                  ''Not ready'') c
      else if HasPendingUpdate L doltdb
      then setc (Condition ConditionTypeReady CondTrue ConditionReasonPendingUpdate
                  ''Pending update'') c
      else setc (Condition ConditionTypeReady CondTrue ConditionReasonStatefulSetReady
                  ''Running'') c)"

text \<open>\<open>patcher(&doltdb.Status)\<close> as a change of the whole object.\<close>

definition on_status :: "(DoltDBStatus \<Rightarrow> DoltDBStatus) \<Rightarrow> DoltDB \<Rightarrow> DoltDB" where
  "on_status f d = d\<lparr>db_status := f (db_status d)\<rparr>"

lemma on_status_frame [simp]:
  "db_meta (on_status f d) = db_meta d" "db_spec (on_status f d) = db_spec d"
  "db_status (on_status f d) = f (db_status d)"
  "Replication (on_status f d) = Replication d" "ReplPrimary (on_status f d) = ReplPrimary d"
  by (simp_all add: on_status_def Replication_def ReplPrimary_def)

lemma SetCondition_frame [simp]:
  "status_CurrentPrimaryPodIndex (SetCondition L c s) = status_CurrentPrimaryPodIndex s"
  "status_CurrentPrimary (SetCondition L c s) = status_CurrentPrimary s"
  "status_ReplicationEpoch (SetCondition L c s) = status_ReplicationEpoch s"
  "status_ReplicationStatus (SetCondition L c s) = status_ReplicationStatus s"
  "status_Replicas (SetCondition L c s) = status_Replicas s"
  by (simp_all add: SetCondition_def)

lemma UpdateReplicationEpoch_frame [simp]:
  "status_CurrentPrimaryPodIndex (UpdateReplicationEpoch e s) = status_CurrentPrimaryPodIndex s"
  "status_CurrentPrimary (UpdateReplicationEpoch e s) = status_CurrentPrimary s"
  "status_Conditions (UpdateReplicationEpoch e s) = status_Conditions s"
  by (simp_all add: UpdateReplicationEpoch_def split: option.split)

lemma UpdateCurrentPrimary_simps [simp]:
  "status_CurrentPrimaryPodIndex (UpdateCurrentPrimary d i s) = Some i"
  "status_CurrentPrimary (UpdateCurrentPrimary d i s) = Some (PodName (db_meta d) i)"
  "status_Conditions (UpdateCurrentPrimary d i s) = status_Conditions s"
  "status_ReplicationEpoch (UpdateCurrentPrimary d i s) = status_ReplicationEpoch s"
  by (simp_all add: UpdateCurrentPrimary_def)

lemma UpdateReplicationEpoch_max:
  "status_ReplicationEpoch (UpdateReplicationEpoch e s) =
     Some (case status_ReplicationEpoch s of None \<Rightarrow> e | Some cur \<Rightarrow> max cur e)"
  by (auto simp: UpdateReplicationEpoch_def split: option.split)

section \<open>The contract of a Conditioner\<close>

locale conditioner =
  fixes SetCond :: "condition \<Rightarrow> 's \<Rightarrow> 's"
    and FindCond :: "'s \<Rightarrow> string \<Rightarrow> condition option"
  assumes Find_Set_same: "FindCond (SetCond c s) (cond_type c) = Some c"
    and Find_Set_other: "ty \<noteq> cond_type c \<Longrightarrow> FindCond (SetCond c s) ty = FindCond s ty"
begin

lemma Find_Set:
  "FindCond (SetCond c s) ty = (if ty = cond_type c then Some c else FindCond s ty)"
  using Find_Set_same Find_Set_other by simp

lemma Find_setters:
  "FindCond (SetPrimarySwitched SetCond s) ConditionTypePrimarySwitched =
     Some (Condition ConditionTypePrimarySwitched CondTrue ConditionReasonSwitchPrimary
             ''Switchover complete'')"
  "FindCond (SetPrimarySwitching SetCond s d) ConditionTypePrimarySwitched =
     Some (Condition ConditionTypePrimarySwitched CondFalse ConditionReasonSwitchPrimary
             (switchingPrimaryMessage d))"
  "FindCond (SetReadyStorageResizing SetCond s) ConditionTypeStorageResized =
     Some (Condition ConditionTypeStorageResized CondFalse ConditionReasonResizingStorage
             ''Resizing storage'')"
  "FindCond (SetReadyWaitingStorageResize SetCond s) ConditionTypeStorageResized =
     Some (Condition ConditionTypeStorageResized CondFalse ConditionReasonWaitStorageResize
             ''Waiting for storage resize'')"
  "FindCond (SetReadyStorageResized SetCond s) ConditionTypeStorageResized =
     Some (Condition ConditionTypeStorageResized CondTrue ConditionReasonStorageResized
             ''Storage resized'')"
  "FindCond (SetPendingUpdate SetCond s) ConditionTypeUpdated =
     Some (Condition ConditionTypeUpdated CondFalse ConditionReasonPendingUpdate ''Pending update'')"
  "FindCond (SetUpdating SetCond s) ConditionTypeUpdated =
     Some (Condition ConditionTypeUpdated CondFalse ConditionReasonUpdating ''Updating'')"
  "FindCond (SetUpdated SetCond s) ConditionTypeUpdated =
     Some (Condition ConditionTypeUpdated CondTrue ConditionReasonUpdated ''Updated'')"
  by (simp_all add: setter_defs Find_Set Let_def)

text \<open>A setter touches the conditions it names and no other.\<close>

lemma Find_setters_frame:
  "ty \<noteq> ConditionTypePrimarySwitched \<Longrightarrow> FindCond (SetPrimarySwitched SetCond s) ty = FindCond s ty"
  "ty \<notin> {ConditionTypeReady, ConditionTypePrimarySwitched} \<Longrightarrow>
     FindCond (SetPrimarySwitching SetCond s d) ty = FindCond s ty"
  "ty \<notin> {ConditionTypeReady, ConditionTypeStorageResized} \<Longrightarrow>
     FindCond (SetReadyStorageResizing SetCond s) ty = FindCond s ty"
  "ty \<notin> {ConditionTypeReady, ConditionTypeStorageResized} \<Longrightarrow>
     FindCond (SetReadyWaitingStorageResize SetCond s) ty = FindCond s ty"
  "ty \<noteq> ConditionTypeStorageResized \<Longrightarrow> FindCond (SetReadyStorageResized SetCond s) ty = FindCond s ty"
  "ty \<noteq> ConditionTypeUpdated \<Longrightarrow> FindCond (SetPendingUpdate SetCond s) ty = FindCond s ty"
  "ty \<noteq> ConditionTypeUpdated \<Longrightarrow> FindCond (SetUpdating SetCond s) ty = FindCond s ty"
  "ty \<noteq> ConditionTypeUpdated \<Longrightarrow> FindCond (SetUpdated SetCond s) ty = FindCond s ty"
  "ty \<noteq> ConditionTypeReady \<Longrightarrow> FindCond (SetReadyWithDoltDB L SetCond s ss d) ty = FindCond s ty"
  by (simp_all add: setter_defs SetReadyWithDoltDB_def Find_Set Let_def)

text \<open>The decision table of \<open>SetReadyWithDoltDB\<close>.\<close>

lemma Find_SetReadyWithDoltDB:
  "\<exists>c. FindCond (SetReadyWithDoltDB L SetCond s ss d) ConditionTypeReady = Some c \<and>
     (cond_status c = CondTrue \<longleftrightarrow>
        \<not> IsUpdating L d \<and> sts_status_replicas ss \<noteq> 0 \<and>
        sts_ready_replicas ss = sts_status_replicas ss)"
  by (simp add: SetReadyWithDoltDB_def Find_Set)

end

section \<open>The condition functions of the Kubernetes library\<close>

text \<open>
  The documented behaviour of \<open>meta.SetStatusCondition\<close>, \<open>FindStatusCondition\<close> and
  \<open>IsStatusConditionTrue/False\<close>: setting stores the condition under its type and touches no other
  type; the tests look at the condition that is found.
\<close>

locale condition_library =
  fixes L :: "'x lib_scheme"
  assumes lib_find_set:
      "lib_FindStatusCondition L (lib_SetStatusCondition L cs c) ty =
         (if ty = cond_type c then Some c else lib_FindStatusCondition L cs ty)"
    and lib_is_true:
      "lib_IsStatusConditionTrue L cs ty \<longleftrightarrow>
         (\<exists>c. lib_FindStatusCondition L cs ty = Some c \<and> cond_status c = CondTrue)"
    and lib_is_false:
      "lib_IsStatusConditionFalse L cs ty \<longleftrightarrow>
         (\<exists>c. lib_FindStatusCondition L cs ty = Some c \<and> cond_status c = CondFalse)"

text \<open>\<open>DoltDBStatus\<close> implements the interface whenever the library keeps its contract.\<close>

sublocale condition_library \<subseteq> dolt_status:
    conditioner "SetCondition L" "\<lambda>s. lib_FindStatusCondition L (status_Conditions s)"
  by unfold_locales (simp_all add: SetCondition_def lib_find_set)

context condition_library
begin

lemmas condition_facts = dolt_status.Find_setters dolt_status.Find_setters_frame

text \<open>What the predicates of a DoltDB report after each setter.\<close>

lemma IsSwitching_after_SetPrimarySwitching:
  "db_status d' = SetPrimarySwitching (SetCondition L) s d \<Longrightarrow> IsSwitchingPrimary L d'"
  by (simp add: IsSwitchingPrimary_def lib_is_false condition_facts)

lemma IsSwitching_after_SetPrimarySwitched:
  "db_status d' = SetPrimarySwitched (SetCondition L) s \<Longrightarrow> \<not> IsSwitchingPrimary L d'"
  by (simp add: IsSwitchingPrimary_def lib_is_false condition_facts)

lemma resize_states_after_setters:
  "db_status d' = SetReadyStorageResizing (SetCondition L) s \<Longrightarrow>
     IsResizingStorage L d' \<and> \<not> IsWaitingForStorageResize L d'"
  "db_status d' = SetReadyWaitingStorageResize (SetCondition L) s \<Longrightarrow>
     IsResizingStorage L d' \<and> IsWaitingForStorageResize L d'"
  "db_status d' = SetReadyStorageResized (SetCondition L) s \<Longrightarrow>
     \<not> IsResizingStorage L d' \<and> \<not> IsWaitingForStorageResize L d'"
  by (simp_all add: IsResizingStorage_def IsWaitingForStorageResize_def lib_is_false condition_facts)

lemma update_states_after_setters:
  "db_status d' = SetPendingUpdate (SetCondition L) s \<Longrightarrow> HasPendingUpdate L d' \<and> \<not> IsUpdating L d'"
  "db_status d' = SetUpdating (SetCondition L) s \<Longrightarrow> IsUpdating L d' \<and> \<not> HasPendingUpdate L d'"
  "db_status d' = SetUpdated (SetCondition L) s \<Longrightarrow> \<not> IsUpdating L d' \<and> \<not> HasPendingUpdate L d'"
  by (simp_all add: IsUpdating_def HasPendingUpdate_def condition_facts)

lemma waiting_implies_resizing: "IsWaitingForStorageResize L d \<Longrightarrow> IsResizingStorage L d"
  by (auto simp: IsWaitingForStorageResize_def IsResizingStorage_def lib_is_false
      split: option.splits)

end

section \<open>A library that keeps the contract\<close>

text \<open>
  A concrete library: conditions are replaced in place or appended.  It shows that the contract can
  be met, and it runs the witnesses of the properties that assume it.
\<close>

fun ref_set_condition :: "condition list \<Rightarrow> condition \<Rightarrow> condition list" where
  "ref_set_condition [] c = [c]"
| "ref_set_condition (x # xs) c =
     (if cond_type x = cond_type c then c # xs else x # ref_set_condition xs c)"

fun ref_find_condition :: "condition list \<Rightarrow> string \<Rightarrow> condition option" where
  "ref_find_condition [] ty = None"
| "ref_find_condition (x # xs) ty = (if cond_type x = ty then Some x else ref_find_condition xs ty)"

definition ref_is :: "cond_status \<Rightarrow> condition list \<Rightarrow> string \<Rightarrow> bool" where
  "ref_is st cs ty = (case ref_find_condition cs ty of None \<Rightarrow> False | Some c \<Rightarrow> cond_status c = st)"

definition keeps_contract :: "'x lib_scheme \<Rightarrow> bool" where
  "keeps_contract L \<longleftrightarrow>
     lib_SetStatusCondition L = ref_set_condition \<and> lib_FindStatusCondition L = ref_find_condition \<and>
     lib_IsStatusConditionTrue L = ref_is CondTrue \<and> lib_IsStatusConditionFalse L = ref_is CondFalse"

lemma ref_find_set:
  "ref_find_condition (ref_set_condition cs c) ty =
     (if ty = cond_type c then Some c else ref_find_condition cs ty)"
  by (induction cs) auto

lemma keeps_contract_library: "keeps_contract L \<Longrightarrow> condition_library L"
  by unfold_locales (auto simp: keeps_contract_def ref_find_set ref_is_def split: option.splits)

end
