(* ===== verification/Dolt_Model.thy ===== *)
theory Dolt_Model
  imports Conditions
begin

text \<open>
  Packages \<open>dolt\<close> and the label and metadata parts of \<open>builder\<close>: the labels and annotations of the
  operator, the label builder, the generation of the servers' configuration files
  (\<open>pkg/dolt/generate.go\<close>), and the decisions taken from the states of the servers: which pod is the
  primary, at which epoch, and which standby should be promoted next (\<open>pkg/dolt/replication.go\<close>).
\<close>

section \<open>Labels and annotations\<close>

definition RoleLabel :: string where
  "RoleLabel = ''k8s.dolthub.com/cluster-role''"
definition VolumeRoleLabel :: string where
  "VolumeRoleLabel = ''pvc.k8s.dolthub.com/role''"
definition Annotation :: string where
  "Annotation = ''k8s.dolthub.com/doltdb''"
definition ReplicationAnnotation :: string where
  "ReplicationAnnotation = ''k8s.dolthub.com/replication''"
definition ConfigMapHashAnnotation :: string where
  "ConfigMapHashAnnotation = ''k8s.dolthub.com/configmap-hash''"

definition appLabel :: string where
  "appLabel = ''app.kubernetes.io/name''"
definition instanceLabel :: string where
  "instanceLabel = ''app.kubernetes.io/instance''"
definition statefulSetPodName :: string where
  "statefulSetPodName = ''statefulset.kubernetes.io/pod-name''"
definition versionLabel :: string where
  "versionLabel = ''app.kubernetes.io/version''"
definition partOfLabel :: string where
  "partOfLabel = ''app.kubernetes.io/part-of''"
definition managedByLabel :: string where
  "managedByLabel = ''app.kubernetes.io/managed-by''"

text \<open>A \<open>LabelsBuilder\<close> is the map under construction; a method call is an update of it.\<close>

definition NewLabelsBuilder :: strmap where
  "NewLabelsBuilder = []"

definition WithApp :: "string \<Rightarrow> strmap \<Rightarrow> strmap" where
  "WithApp app b = AList.update appLabel app b"

definition WithPartOf :: "string \<Rightarrow> strmap \<Rightarrow> strmap" where
  "WithPartOf system b = AList.update partOfLabel system b"

definition WithManagedBy :: "string \<Rightarrow> strmap \<Rightarrow> strmap" where
  "WithManagedBy owner b = AList.update managedByLabel owner b"

definition WithVersion :: "string \<Rightarrow> strmap \<Rightarrow> strmap" where
  "WithVersion version b = (if version = [] then b else AList.update versionLabel version b)"

definition WithInstance :: "string \<Rightarrow> strmap \<Rightarrow> strmap" where
  "WithInstance i b = AList.update instanceLabel i b"

definition WithStatefulSetPod :: "DoltDB \<Rightarrow> int \<Rightarrow> strmap \<Rightarrow> strmap" where
  "WithStatefulSetPod doltdb podIndex b =
     AList.update statefulSetPodName (PodName (db_meta doltdb) podIndex) b"

definition WithLabels :: "strmap \<Rightarrow> strmap \<Rightarrow> strmap" where
  "WithLabels labels b = merge_map b labels"

definition WithDoltSelectorLabels :: "DoltDB \<Rightarrow> strmap \<Rightarrow> strmap" where
  "WithDoltSelectorLabels doltdb b = WithApp (om_name (db_meta doltdb)) b"

definition WithPVCRole :: "string \<Rightarrow> strmap \<Rightarrow> strmap" where
  "WithPVCRole r b = AList.update VolumeRoleLabel r b"

definition WithPodPrimaryRole :: "strmap \<Rightarrow> strmap" where
  "WithPodPrimaryRole b = AList.update RoleLabel PrimaryRoleValue b"

definition WithPodStandbyRole :: "strmap \<Rightarrow> strmap" where
  "WithPodStandbyRole b = AList.update RoleLabel StandbyRoleValue b"

text \<open>The selector of all the pods of a DoltDB.\<close>

definition DoltSelector :: "DoltDB \<Rightarrow> strmap" where
  "DoltSelector doltdb = WithDoltSelectorLabels doltdb NewLabelsBuilder"

text \<open>A \<open>MetadataBuilder\<close> is the metadata under construction.\<close>

definition NewMetadataBuilder :: "namespaced_name \<Rightarrow> object_meta" where
  "NewMetadataBuilder key = zero_meta\<lparr>om_name := nn_name key, om_namespace := nn_namespace key\<rparr>"

definition MetaWithLabels :: "strmap \<Rightarrow> object_meta \<Rightarrow> object_meta" where
  "MetaWithLabels labels m = m\<lparr>om_labels := merge_map (om_labels m) labels\<rparr>"

definition MetaWithAnnotations :: "strmap \<Rightarrow> object_meta \<Rightarrow> object_meta" where
  "MetaWithAnnotations annotations m =
     m\<lparr>om_annotations := merge_map (om_annotations m) annotations\<rparr>"

definition MetaWithReleaseLabel :: "string \<Rightarrow> object_meta \<Rightarrow> object_meta" where
  "MetaWithReleaseLabel release m =
     (if release = [] then m else MetaWithLabels [(''release'', release)] m)"

definition MetaWithMetadata :: "object_meta option \<Rightarrow> object_meta \<Rightarrow> object_meta" where
  "MetaWithMetadata meta m =
     (case meta of
        None \<Rightarrow> m
      | Some x \<Rightarrow> m\<lparr>om_labels := merge_map (om_labels m) (om_labels x),
                    om_annotations := merge_map (om_annotations m) (om_annotations x)\<rparr>)"

section \<open>Configuration files\<close>

definition RemotesAPIPort :: int where
  "RemotesAPIPort = 50051"

definition getIntValueOrDefault :: "int \<Rightarrow> int \<Rightarrow> int" where
  "getIntValueOrDefault v d = (if v = 0 then d else v)"

definition getBootstrapRole :: "int \<Rightarrow> string" where
  "getBootstrapRole index = (if index = 0 then PrimaryRoleValue else StandbyRoleValue)"

text \<open>\<open>for i := 0; i < int(doltdb.Spec.Replicas); i++\<close>.\<close>

definition replica_ordinals :: "DoltDB \<Rightarrow> int list" where
  "replica_ordinals doltdb = map int [0..<nat (spec_Replicas (db_spec doltdb))]"

fun standby_remotes_loop :: "int \<Rightarrow> DoltDB \<Rightarrow> int \<Rightarrow> int list \<Rightarrow> StandbyRemote list" where
  "standby_remotes_loop current doltdb remotesAPIPort [] = []"
| "standby_remotes_loop current doltdb remotesAPIPort (i # is) =
     (if i \<noteq> current
      then \<lparr>remote_Name = om_name (db_meta doltdb) @ ''-'' @ show_int i,
            remote_URLTemplate =
              ''http://'' @
              PodShortFQDNWithServiceAndNamespace (db_meta doltdb) i
                (nn_name (InternalServiceKey doltdb)) @
              '':'' @ show_int remotesAPIPort @ ''/{database}''\<rparr>
           # standby_remotes_loop current doltdb remotesAPIPort is
      else standby_remotes_loop current doltdb remotesAPIPort is)"

definition generateStandbyRemotes :: "int \<Rightarrow> DoltDB \<Rightarrow> int \<Rightarrow> StandbyRemote list" where
  "generateStandbyRemotes current doltdb remotesAPIPort =
     standby_remotes_loop current doltdb remotesAPIPort (replica_ordinals doltdb)"

text \<open>The body of the loop of \<open>GenerateConfigMapData\<close>: the configuration of pod \<open>i\<close>.\<close>

definition generateConfig :: "DoltDB \<Rightarrow> int \<Rightarrow> int \<Rightarrow> Config" where
  "generateConfig doltdb remotesAPIPort i =
     (let srv = spec_Server (db_spec doltdb);
          config = \<lparr>config_AutoGCEnable = server_AutoGCEnable srv,
                    config_LogLevel = server_LogLevel srv,
                    config_Cluster = None,
                    config_Listener = server_Listener srv,
                    config_Metrics = zero_MetricsConfig,
                    config_MCPServer = None\<rparr>;
          config = (if ReplEnabled doltdb
                    then config\<lparr>config_Cluster := Some
                           \<lparr>cluster_StandbyRemotes = generateStandbyRemotes i doltdb remotesAPIPort,
                            cluster_BootstrapEpoch = 1,
                            cluster_BootstrapRole = getBootstrapRole i,
                            cluster_RemotesAPIPort = remotesAPIPort\<rparr>\<rparr>
                    else config);
          config = (case server_Metrics srv of
                      None \<Rightarrow> config
                    | Some m \<Rightarrow>
                        if metrics_Enabled m
                        then config\<lparr>config_Metrics :=
                               \<lparr>mcfg_Labels = metrics_Labels m, mcfg_Host = metrics_Host m,
                                mcfg_Port = metrics_Port m\<rparr>\<rparr>
                        else config)
      in case server_MCPServer srv of
           None \<Rightarrow> config
         | Some mcp \<Rightarrow>
             config\<lparr>config_MCPServer := Some
               \<lparr>mcpcfg_Port = mcp_Port mcp,
                mcpcfg_User = (if mcp_User mcp \<noteq> [] then ''${DOLT_MCP_USER}''
                               else ''${DOLT_USERNAME}''),
                mcpcfg_Password = ''${DOLT_MCP_PASSWORD}'',
                mcpcfg_Database = mcp_Database mcp\<rparr>\<rparr>)"

definition configFileName :: "DoltDB \<Rightarrow> int \<Rightarrow> string" where
  "configFileName doltdb i = om_name (db_meta doltdb) @ ''-'' @ show_int i @ ''.yaml''"

fun config_map_loop ::
    "'x lib_scheme \<Rightarrow> DoltDB \<Rightarrow> int \<Rightarrow> int list \<Rightarrow> strmap \<Rightarrow> goerr + strmap" where
  "config_map_loop L doltdb remotesAPIPort [] data = Inr data"
| "config_map_loop L doltdb remotesAPIPort (i # is) data =
     (case lib_YamlMarshal L (generateConfig doltdb remotesAPIPort i) of
        Inl err \<Rightarrow> Inl (ErrV ''error marshaling DoltDB config to YAML: '' err)
      | Inr yamlData \<Rightarrow>
          config_map_loop L doltdb remotesAPIPort is
            (AList.update (configFileName doltdb i) yamlData data))"

definition GenerateConfigMapData :: "'x lib_scheme \<Rightarrow> DoltDB \<Rightarrow> goerr + strmap" where
  "GenerateConfigMapData L doltdb =
     (let remotesAPIPort =
            getIntValueOrDefault (server_RemotesAPIPort (spec_Server (db_spec doltdb))) RemotesAPIPort
      in config_map_loop L doltdb remotesAPIPort (replica_ordinals doltdb) [])"

section \<open>The primary, the epoch, and the next primary\<close>

fun oldestDB_loop :: "int \<Rightarrow> DoltStatus list \<Rightarrow> int" where
  "oldestDB_loop oldestDB [] = oldestDB"
| "oldestDB_loop oldestDB (status # rest) =
     (case ds_LastUpdate status of
        None \<Rightarrow> oldestDB_loop oldestDB rest
      | Some t \<Rightarrow>
          if oldestDB = 0 \<or> t < oldestDB then oldestDB_loop t rest else oldestDB_loop oldestDB rest)"

fun next_primary_loop :: "int \<Rightarrow> int \<Rightarrow> int \<Rightarrow> int \<Rightarrow> DBState list \<Rightarrow> int \<times> int" where
  "next_primary_loop i firstStandby nextPrimary updated [] = (firstStandby, nextPrimary)"
| "next_primary_loop i firstStandby nextPrimary updated (state # rest) =
     (if dbs_Role state = StandbyRoleValue then
        let firstStandby = (if firstStandby = -1 then i else firstStandby);
            oldestDB = oldestDB_loop 0 (dbs_Status state)
        in if oldestDB \<noteq> 0 \<and> (updated = 0 \<or> updated < oldestDB)
           then next_primary_loop (i + 1) firstStandby i oldestDB rest
           else next_primary_loop (i + 1) firstStandby nextPrimary updated rest
      else next_primary_loop (i + 1) firstStandby nextPrimary updated rest)"

definition PickNextPrimary :: "DBState list \<Rightarrow> int" where
  "PickNextPrimary dbstates =
     (case next_primary_loop 0 (-1) (-1) 0 dbstates of
        (firstStandby, nextPrimary) \<Rightarrow> if nextPrimary \<noteq> -1 then nextPrimary else firstStandby)"

fun primary_epoch_loop ::
    "DoltDB \<Rightarrow> int \<Rightarrow> int \<Rightarrow> int \<Rightarrow> DBState list \<Rightarrow> goerr + (int \<times> int)" where
  "primary_epoch_loop doltdb i currentPrimary highestEpoch [] =
     (if currentPrimary = -1 then Inl (ErrNew ''no reachable pod was in role primary'')
      else Inr (currentPrimary, highestEpoch))"
| "primary_epoch_loop doltdb i currentPrimary highestEpoch (state # rest) =
     (let highest = (if dbs_Epoch state > highestEpoch then dbs_Epoch state else highestEpoch)
      in if dbs_Role state = PrimaryRoleValue then
           if currentPrimary \<noteq> -1
           then Inl (ErrNew (''more than one reachable pod was in role primary: '' @
                       PodName (db_meta doltdb) currentPrimary @ '' and '' @
                       PodName (db_meta doltdb) i))
           else primary_epoch_loop doltdb (i + 1) i highest rest
         else primary_epoch_loop doltdb (i + 1) currentPrimary highest rest)"

text \<open>The error case of the source returns \<open>-1, -1\<close> with the error; callers read only the error.\<close>

definition CurrentPrimaryAndEpoch :: "DoltDB \<Rightarrow> DBState list \<Rightarrow> goerr + (int \<times> int)" where
  "CurrentPrimaryAndEpoch doltdb dbstates = primary_epoch_loop doltdb 0 (-1) 0 dbstates"

text \<open>
  \<open>MarkRoleStandby\<close> and \<open>MarkRolePrimary\<close> write into the label map of the pod; a pod without
  labels has a nil map, and the assignment panics.
\<close>

definition set_role_label :: "string \<Rightarrow> pod \<Rightarrow> pod" where
  "set_role_label r p = p\<lparr>pod_meta := (pod_meta p)\<lparr>om_labels :=
     AList.update RoleLabel r (om_labels (pod_meta p))\<rparr>\<rparr>"

definition MarkRole :: "env \<Rightarrow> string \<Rightarrow> pod \<Rightarrow> goerr option op" where
  "MarkRole E r doltPod =
     (if om_labels (pod_meta doltPod) = [] then ret (Some (Panic ''assignment to entry in nil map''))
      else k_write E (CPatchPod doltPod (set_role_label r doltPod)))"

definition MarkRoleStandby :: "env \<Rightarrow> pod \<Rightarrow> goerr option op" where
  "MarkRoleStandby E doltPod = MarkRole E StandbyRoleValue doltPod"

definition MarkRolePrimary :: "env \<Rightarrow> pod \<Rightarrow> goerr option op" where
  "MarkRolePrimary E doltPod = MarkRole E PrimaryRoleValue doltPod"

lemma emits_MarkRole [emits_intros]:
  "P (CPatchPod p (set_role_label StandbyRoleValue p)) \<Longrightarrow> emits P (MarkRoleStandby E p)"
  "P (CPatchPod p (set_role_label PrimaryRoleValue p)) \<Longrightarrow> emits P (MarkRolePrimary E p)"
  unfolding MarkRoleStandby_def MarkRolePrimary_def MarkRole_def by (intro emits_intros; simp)+

section \<open>What the generated configuration contains\<close>

lemma set_replica_ordinals [simp]:
  "set (replica_ordinals d) = {i. 0 \<le> i \<and> i < spec_Replicas (db_spec d)}"
proof -
  have "x \<in> int ` {0..<nat n} \<longleftrightarrow> 0 \<le> x \<and> x < n" for x n
    by (auto simp: image_iff intro: bexI [of _ "nat x"])
  then show ?thesis
    by (auto simp: replica_ordinals_def simp flip: atLeastLessThan_upt)
qed

lemma distinct_replica_ordinals [simp]: "distinct (replica_ordinals d)"
  by (simp add: replica_ordinals_def distinct_map)

lemma length_replica_ordinals [simp]:
  "length (replica_ordinals d) = nat (spec_Replicas (db_spec d))"
  by (simp add: replica_ordinals_def)

lemma configFileName_inject:
  "0 \<le> i \<Longrightarrow> 0 \<le> j \<Longrightarrow> configFileName d i = configFileName d j \<longleftrightarrow> i = j"
  by (simp add: configFileName_def show_int_inject_nonneg)

lemma standby_remotes_loop_eq:
  "map remote_Name (standby_remotes_loop cur d port is) =
     map (PodName (db_meta d)) (filter (\<lambda>i. i \<noteq> cur) is)"
  by (induction "is") (simp_all add: PodName_def)

lemma config_map_loop_map_of:
  assumes "config_map_loop L d port is data = Inr out"
    and "distinct is" and "\<forall>i \<in> set is. 0 \<le> i"
  shows "map_of out k =
     (case List.find (\<lambda>i. configFileName d i = k) is of
        None \<Rightarrow> map_of data k
      | Some i \<Rightarrow> (case lib_YamlMarshal L (generateConfig d port i) of Inr y \<Rightarrow> Some y | Inl _ \<Rightarrow> None))"
  using assms
proof (induction "is" arbitrary: data)
  case Nil
  then show ?case by simp
next
  case (Cons i "is")
  then obtain y where y: "lib_YamlMarshal L (generateConfig d port i) = Inr y"
    and rest: "config_map_loop L d port is (AList.update (configFileName d i) y data) = Inr out"
    by (auto split: sum.splits)
  note IH = Cons.IH [OF rest]
  have "List.find (\<lambda>j. configFileName d j = k) is = None" if "configFileName d i = k"
    using Cons.prems that configFileName_inject by (auto simp: find_None_iff)
  with IH y Cons.prems show ?case
    by (auto split: option.splits)
qed

lemma GenerateConfigMapData_files:
  assumes "GenerateConfigMapData L d = Inr data" and "0 \<le> i" "i < spec_Replicas (db_spec d)"
  shows "\<exists>y. lib_YamlMarshal L (generateConfig d
            (getIntValueOrDefault (server_RemotesAPIPort (spec_Server (db_spec d))) RemotesAPIPort) i)
            = Inr y \<and> map_of data (configFileName d i) = Some y"
proof -
  let ?port = "getIntValueOrDefault (server_RemotesAPIPort (spec_Server (db_spec d))) RemotesAPIPort"
  have ok: "config_map_loop L d ?port (replica_ordinals d) [] = Inr data"
    using assms(1) by (simp add: GenerateConfigMapData_def)
  have "List.find (\<lambda>j. configFileName d j = configFileName d i) (replica_ordinals d) = Some i"
    using assms(2,3)
    by (auto simp: find_Some_iff in_set_conv_nth configFileName_inject replica_ordinals_def
        intro!: exI [of _ "nat i"])
  moreover have "config_map_loop L d p is data' = Inr out \<Longrightarrow> j \<in> set is \<Longrightarrow>
      \<exists>y. lib_YamlMarshal L (generateConfig d p j) = Inr y" for j p "is" data' out
    by (induction "is" arbitrary: data') (auto split: sum.splits)
  ultimately show ?thesis
    using config_map_loop_map_of [OF ok, of "configFileName d i"] ok assms(2,3) by fastforce
qed

section \<open>Correctness of the decisions\<close>

text \<open>
  The freshness of a standby: the oldest of the update times its databases report, or 0 when none
  of them has reported.
\<close>

definition update_times :: "DBState \<Rightarrow> int set" where
  "update_times st = {t. \<exists>s \<in> set (dbs_Status st). ds_LastUpdate s = Some t}"

definition freshness :: "DBState \<Rightarrow> int" where
  "freshness st = (if update_times st = {} then 0 else Min (update_times st))"

lemma finite_update_times: "finite (update_times st)"
proof -
  have "update_times st \<subseteq> (\<lambda>s. the (ds_LastUpdate s)) ` set (dbs_Status st)"
    by (force simp: update_times_def)
  then show ?thesis
    by (rule finite_subset) simp
qed

lemma oldestDB_loop_Min:
  assumes "\<forall>s \<in> set ss. \<forall>t. ds_LastUpdate s = Some t \<longrightarrow> 0 < t" and "0 \<le> acc"
  shows "oldestDB_loop acc ss =
    (let T = {t. \<exists>s \<in> set ss. ds_LastUpdate s = Some t}; A = (if acc = 0 then T else insert acc T)
     in if A = {} then 0 else Min A)"
  using assms
proof (induction ss arbitrary: acc)
  case Nil
  then show ?case by simp
next
  case (Cons s ss)
  let ?T = "{t. \<exists>s \<in> set ss. ds_LastUpdate s = Some t}"
  have fin: "finite ?T"
    using finite_subset [of ?T "(\<lambda>s. the (ds_LastUpdate s)) ` set ss"] by force
  show ?case
  proof (cases "ds_LastUpdate s")
    case None
    then have "{t. \<exists>s \<in> set (s # ss). ds_LastUpdate s = Some t} = ?T" by auto
    with None Cons show ?thesis by simp
  next
    case (Some t)
    then have T: "{t. \<exists>s \<in> set (s # ss). ds_LastUpdate s = Some t} = insert t ?T" by auto
    have t: "0 < t" using Some Cons.prems by auto
    have "Min (insert acc (insert t ?T)) = Min (insert t ?T)" if "t < acc"
      using fin that by (cases "?T = {}") (auto simp: min_def)
    moreover have "Min (insert acc (insert t ?T)) = Min (insert acc ?T)" if "\<not> t < acc"
      using fin that by (cases "?T = {}") (auto simp: min_def)
    ultimately show ?thesis
      using Some Cons t unfolding T by (auto simp: Let_def)
  qed
qed

definition reports_positive :: "DBState list \<Rightarrow> bool" where
  "reports_positive states \<longleftrightarrow> (\<forall>st \<in> set states. \<forall>t \<in> update_times st. 0 < t)"

lemma oldestDB_is_freshness:
  assumes "\<forall>t \<in> update_times st. 0 < t"
  shows "oldestDB_loop 0 (dbs_Status st) = freshness st" "0 \<le> freshness st"
proof -
  show "oldestDB_loop 0 (dbs_Status st) = freshness st"
  proof -
    have "\<forall>s \<in> set (dbs_Status st). \<forall>t. ds_LastUpdate s = Some t \<longrightarrow> 0 < t"
      using assms by (auto simp: update_times_def)
    from oldestDB_loop_Min [OF this, of 0] show ?thesis
      unfolding freshness_def update_times_def Let_def by simp
  qed
  show "0 \<le> freshness st"
    using assms finite_update_times [of st] by (auto simp: freshness_def intro: less_imp_le)
qed

text \<open>The invariant of the loop of \<open>PickNextPrimary\<close> after the states \<open>xs\<close>.\<close>

definition is_standby :: "DBState list \<Rightarrow> nat \<Rightarrow> bool" where
  "is_standby xs i \<longleftrightarrow> i < length xs \<and> dbs_Role (xs ! i) = StandbyRoleValue"

definition pick_inv :: "DBState list \<Rightarrow> int \<Rightarrow> int \<Rightarrow> int \<Rightarrow> bool" where
  "pick_inv xs fs np up \<longleftrightarrow>
     (if fs = -1 then \<forall>i. \<not> is_standby xs i
      else \<exists>n. fs = int n \<and> is_standby xs n \<and> (\<forall>i < n. \<not> is_standby xs i)) \<and>
     (if np = -1 then up = 0 \<and> (\<forall>i. is_standby xs i \<longrightarrow> freshness (xs ! i) = 0)
      else \<exists>n. np = int n \<and> is_standby xs n \<and> freshness (xs ! n) = up \<and> 0 < up \<and>
             (\<forall>i. is_standby xs i \<longrightarrow> freshness (xs ! i) \<le> up \<and> (i < n \<longrightarrow> freshness (xs ! i) < up)))"

lemma is_standby_snoc:
  "is_standby (xs @ [x]) i \<longleftrightarrow>
     is_standby xs i \<or> i = length xs \<and> dbs_Role x = StandbyRoleValue"
  by (auto simp: is_standby_def nth_append less_Suc_eq)

lemma is_standby_less: "is_standby xs i \<Longrightarrow> i < length xs"
  by (simp add: is_standby_def)

lemma nth_snoc_standby: "is_standby xs i \<Longrightarrow> (xs @ [x]) ! i = xs ! i"
  by (simp add: is_standby_def nth_append)

lemma pick_inv_first:
  assumes "pick_inv xs fs np up"
    and that: "fs' = (if dbs_Role x = StandbyRoleValue \<and> fs = -1 then int (length xs) else fs)"
  shows "(if fs' = -1 then \<forall>i. \<not> is_standby (xs @ [x]) i
      else \<exists>n. fs' = int n \<and> is_standby (xs @ [x]) n \<and> (\<forall>i < n. \<not> is_standby (xs @ [x]) i))"
proof -
  have fs: "if fs = -1 then \<forall>i. \<not> is_standby xs i
      else \<exists>n. fs = int n \<and> is_standby xs n \<and> (\<forall>i < n. \<not> is_standby xs i)"
    using assms unfolding pick_inv_def by blast
  show ?thesis
  proof (cases "fs = -1")
    case True
    then show ?thesis using fs that by (auto simp: is_standby_snoc)
  next
    case False
    then obtain n where "fs = int n" "is_standby xs n" "\<forall>i < n. \<not> is_standby xs i"
      using fs by auto
    then show ?thesis
      using that False by (auto simp: is_standby_snoc dest: is_standby_less)
  qed
qed

lemma pick_inv_step:
  assumes inv: "pick_inv xs fs np up" and pos: "\<forall>t \<in> update_times x. 0 < t"
    and sb: "dbs_Role x = StandbyRoleValue"
  shows "pick_inv (xs @ [x]) (if fs = -1 then int (length xs) else fs)
     (if freshness x \<noteq> 0 \<and> (up = 0 \<or> up < freshness x) then int (length xs) else np)
     (if freshness x \<noteq> 0 \<and> (up = 0 \<or> up < freshness x) then freshness x else up)"
proof -
  have f: "0 \<le> freshness x" using oldestDB_is_freshness(2) [OF pos] .
  have np: "if np = -1 then up = 0 \<and> (\<forall>i. is_standby xs i \<longrightarrow> freshness (xs ! i) = 0)
      else \<exists>n. np = int n \<and> is_standby xs n \<and> freshness (xs ! n) = up \<and> 0 < up \<and>
             (\<forall>i. is_standby xs i \<longrightarrow> freshness (xs ! i) \<le> up \<and> (i < n \<longrightarrow> freshness (xs ! i) < up))"
    using inv unfolding pick_inv_def by blast
  show ?thesis
    unfolding pick_inv_def
  proof (rule conjI)
    show "if (if fs = -1 then int (length xs) else fs) = -1 then \<forall>i. \<not> is_standby (xs @ [x]) i
      else \<exists>n. (if fs = -1 then int (length xs) else fs) = int n \<and> is_standby (xs @ [x]) n \<and>
             (\<forall>i < n. \<not> is_standby (xs @ [x]) i)"
      using pick_inv_first [OF inv, of "if fs = -1 then int (length xs) else fs" x] sb by simp
  next
    let ?np = "if freshness x \<noteq> 0 \<and> (up = 0 \<or> up < freshness x) then int (length xs) else np"
    let ?up = "if freshness x \<noteq> 0 \<and> (up = 0 \<or> up < freshness x) then freshness x else up"
    show "if ?np = -1 then ?up = 0 \<and> (\<forall>i. is_standby (xs @ [x]) i \<longrightarrow> freshness ((xs @ [x]) ! i) = 0)
      else \<exists>n. ?np = int n \<and> is_standby (xs @ [x]) n \<and> freshness ((xs @ [x]) ! n) = ?up \<and> 0 < ?up \<and>
             (\<forall>i. is_standby (xs @ [x]) i \<longrightarrow> freshness ((xs @ [x]) ! i) \<le> ?up \<and>
                (i < n \<longrightarrow> freshness ((xs @ [x]) ! i) < ?up))"
    proof (cases "freshness x \<noteq> 0 \<and> (up = 0 \<or> up < freshness x)")
      case True
      then show ?thesis
        using np f sb
        by (cases "np = -1")
          (auto simp: is_standby_snoc nth_snoc_standby dest: is_standby_less
            intro!: exI [of _ "length xs"] intro: order.strict_implies_order le_less_trans)
    next
      case False
      show ?thesis
      proof (cases "np = -1")
        case True
        then show ?thesis
          using False np f sb by (auto simp: is_standby_snoc nth_snoc_standby)
      next
        case np1: False
        then obtain n where n: "np = int n" "is_standby xs n" "freshness (xs ! n) = up" "0 < up"
          "\<forall>i. is_standby xs i \<longrightarrow> freshness (xs ! i) \<le> up \<and> (i < n \<longrightarrow> freshness (xs ! i) < up)"
          using np by auto
        then have "n < length xs" by (simp add: is_standby_less)
        with n np1 False f show ?thesis
          by (auto simp: is_standby_snoc nth_snoc_standby)
      qed
    qed
  qed
qed

lemma pick_inv_skip:
  assumes "pick_inv xs fs np up" and "dbs_Role x \<noteq> StandbyRoleValue"
  shows "pick_inv (xs @ [x]) fs np up"
  using assms unfolding pick_inv_def
  by (auto simp: is_standby_snoc nth_snoc_standby split: if_splits)

lemma next_primary_loop_inv:
  assumes "reports_positive ys" and "pick_inv xs fs np up"
  shows "case next_primary_loop (int (length xs)) fs np up ys of
     (fs', np') \<Rightarrow> \<exists>up'. pick_inv (xs @ ys) fs' np' up'"
  using assms
proof (induction ys arbitrary: xs fs np up)
  case Nil
  then show ?case by auto
next
  case (Cons y ys)
  have pos: "\<forall>t \<in> update_times y. 0 < t" "reports_positive ys"
    using Cons.prems(1) by (auto simp: reports_positive_def)
  show ?case
  proof (cases "dbs_Role y = StandbyRoleValue")
    case True
    then show ?thesis
      using Cons.IH [OF pos(2) pick_inv_step [OF Cons.prems(2) pos(1) True]]
      by (cases "freshness y \<noteq> 0 \<and> (up = 0 \<or> up < freshness y)")
        (auto simp: oldestDB_is_freshness [OF pos(1)] Let_def add.commute)
  next
    case False
    then show ?thesis
      using Cons.IH [OF pos(2) pick_inv_skip [OF Cons.prems(2) False]]
      by (simp add: add.commute)
  qed
qed

lemma PickNextPrimary_cases:
  assumes "reports_positive states"
  shows "PickNextPrimary states = -1 \<and> (\<forall>i. \<not> is_standby states i) \<or>
    (\<exists>n. PickNextPrimary states = int n \<and> is_standby states n \<and>
       (\<forall>i. is_standby states i \<longrightarrow> freshness (states ! i) \<le> freshness (states ! n) \<and>
          (i < n \<longrightarrow> freshness (states ! i) < freshness (states ! n))))"
proof -
  have "pick_inv [] (-1) (-1) 0"
    by (simp add: pick_inv_def is_standby_def)
  with next_primary_loop_inv [OF assms this]
  obtain fs np up where loop: "next_primary_loop 0 (-1) (-1) 0 states = (fs, np)"
    and inv: "pick_inv states fs np up"
    by (auto split: prod.splits)
  show ?thesis
  proof (cases "np = -1")
    case True
    then show ?thesis
      using inv loop unfolding pick_inv_def PickNextPrimary_def by (auto split: if_splits)
  next
    case False
    then show ?thesis
      using inv loop unfolding pick_inv_def PickNextPrimary_def by auto
  qed
qed

text \<open>The invariant of the loop of \<open>CurrentPrimaryAndEpoch\<close>.\<close>

definition primaries :: "DBState list \<Rightarrow> nat list" where
  "primaries xs = filter (\<lambda>i. dbs_Role (xs ! i) = PrimaryRoleValue) [0..<length xs]"

definition highest_epoch :: "DBState list \<Rightarrow> int" where
  "highest_epoch xs = fold max (map dbs_Epoch xs) 0"

lemma primaries_snoc:
  "primaries (xs @ [x]) =
     primaries xs @ (if dbs_Role x = PrimaryRoleValue then [length xs] else [])"
  by (auto simp: primaries_def nth_append intro: filter_cong)

lemma highest_epoch_snoc: "highest_epoch (xs @ [x]) = max (dbs_Epoch x) (highest_epoch xs)"
  by (simp add: highest_epoch_def)

lemma highest_epoch_ge: "x \<in> set xs \<Longrightarrow> dbs_Epoch x \<le> highest_epoch xs" "0 \<le> highest_epoch xs"
  by (induction xs rule: rev_induct) (auto simp: highest_epoch_snoc highest_epoch_def)

lemma highest_epoch_in: "highest_epoch xs \<in> insert 0 (dbs_Epoch ` set xs)"
  by (induction xs rule: rev_induct) (auto simp: highest_epoch_snoc max_def highest_epoch_def)

lemma primaries_append_prefix: "\<exists>zs. primaries (xs @ ys) = primaries xs @ zs"
proof (induction ys rule: rev_induct)
  case Nil
  then show ?case by simp
next
  case (snoc y ys)
  then show ?case
    using primaries_snoc [of "xs @ ys" y] by auto
qed

lemma primary_epoch_loop_spec:
  assumes "cur = (case primaries xs of [] \<Rightarrow> -1 | p # _ \<Rightarrow> int p)" and "length (primaries xs) \<le> 1"
  shows "(case primary_epoch_loop d (int (length xs)) cur (highest_epoch xs) ys of
       Inl _ \<Rightarrow> length (primaries (xs @ ys)) \<noteq> 1
     | Inr (p, e) \<Rightarrow> map int (primaries (xs @ ys)) = [p] \<and> e = highest_epoch (xs @ ys))"
  using assms
proof (induction ys arbitrary: xs cur)
  case Nil
  then show ?case by (cases "primaries xs") auto
next
  case (Cons y ys)
  have high: "(if dbs_Epoch y > highest_epoch xs then dbs_Epoch y else highest_epoch xs) =
      highest_epoch (xs @ [y])"
    by (simp add: highest_epoch_snoc)
  have len: "int (length xs) + 1 = int (length (xs @ [y]))" by simp
  show ?case
  proof (cases "dbs_Role y = PrimaryRoleValue \<and> primaries xs \<noteq> []")
    case True
    then have "length (primaries (xs @ [y])) > 1"
      by (auto simp: primaries_snoc neq_Nil_conv)
    then have "length (primaries ((xs @ [y]) @ ys)) \<noteq> 1"
      using primaries_append_prefix [of "xs @ [y]" ys] by auto
    with True Cons.prems show ?thesis
      by (auto simp: neq_Nil_conv)
  next
    case False
    then have step: "(if dbs_Role y = PrimaryRoleValue then int (length xs) else cur) =
        (case primaries (xs @ [y]) of [] \<Rightarrow> -1 | p # _ \<Rightarrow> int p)"
      "length (primaries (xs @ [y])) \<le> 1"
      using Cons.prems by (auto simp: primaries_snoc split: list.splits)
    note IH = Cons.IH [OF step]
    have cur: "dbs_Role y = PrimaryRoleValue \<Longrightarrow> cur = -1"
      using False Cons.prems by auto
    have "primary_epoch_loop d (int (length xs)) cur (highest_epoch xs) (y # ys) =
        primary_epoch_loop d (int (length (xs @ [y])))
          (if dbs_Role y = PrimaryRoleValue then int (length xs) else cur)
          (highest_epoch (xs @ [y])) ys"
      unfolding primary_epoch_loop.simps high len Let_def using cur by simp
    then show ?thesis
      using IH unfolding append_assoc append.simps by (simp only:)
  qed
qed

lemma CurrentPrimaryAndEpoch_Inr_iff:
  "CurrentPrimaryAndEpoch d states = Inr (p, e) \<longleftrightarrow>
     map int (primaries states) = [p] \<and> e = highest_epoch states"
proof -
  have "case CurrentPrimaryAndEpoch d states of
       Inl _ \<Rightarrow> length (primaries states) \<noteq> 1
     | Inr (p, e) \<Rightarrow> map int (primaries states) = [p] \<and> e = highest_epoch states"
    using primary_epoch_loop_spec [of "-1" "[]" states d, unfolded append.simps]
    by (simp add: CurrentPrimaryAndEpoch_def primaries_def highest_epoch_def)
  then show ?thesis
    by (cases "CurrentPrimaryAndEpoch d states") (auto split: prod.splits)
qed

end
