(* ===== verification/Health.thy ===== *)
theory Health
  imports Dolt_Model
begin

text \<open>
  Package \<open>health\<close> (\<open>src/pkg/health\<close>): whether a stateful set, a replica or a service is healthy,
  which replicas can take over, and the host names of the healthy standbys.
\<close>

section \<open>Options\<close>

definition EndpointPolicyAll :: string where
  "EndpointPolicyAll = ''All''"

definition EndpointPolicyAtLeastOne :: string where
  "EndpointPolicyAtLeastOne = ''AtLeastOne''"

record HealthOpts =
  ho_DesiredReplicas :: int
  ho_Port :: "int option"
  ho_EndpointPolicy :: "string option"

type_synonym HealthOpt = "HealthOpts \<Rightarrow> HealthOpts"

definition WithDesiredReplicas :: "int \<Rightarrow> HealthOpt" where
  "WithDesiredReplicas r ho = ho\<lparr>ho_DesiredReplicas := r\<rparr>"

definition WithPort :: "int \<Rightarrow> HealthOpt" where
  "WithPort p ho = ho\<lparr>ho_Port := Some p\<rparr>"

definition WithEndpointPolicy :: "string \<Rightarrow> HealthOpt" where
  "WithEndpointPolicy e ho = ho\<lparr>ho_EndpointPolicy := Some e\<rparr>"

section \<open>Endpoints\<close>

definition sliceHasPort :: "endpoint_slice \<Rightarrow> int \<Rightarrow> bool" where
  "sliceHasPort slice port \<longleftrightarrow> list_ex (\<lambda>p. p = Some port) (es_ports slice)"

text \<open>The two nested loops: slices that lack the port are skipped, ready endpoints are counted.\<close>

fun countReadyEndpoints :: "endpoint_slice list \<Rightarrow> int \<Rightarrow> int" where
  "countReadyEndpoints [] port = 0"
| "countReadyEndpoints (slice # rest) port =
     (if \<not> sliceHasPort slice port then countReadyEndpoints rest port
      else int (length (filter (\<lambda>r. r = Some True) (es_ready slice))) + countReadyEndpoints rest port)"

definition IsServiceHealthy :: "env \<Rightarrow> namespaced_name \<Rightarrow> (goerr + bool) op" where
  "IsServiceHealthy E serviceKey = do {
     r \<leftarrow> k_ListEndpointSlices E (nn_namespace serviceKey) (nn_name serviceKey);
     case r of
       Inl err \<Rightarrow> ret (Inl err)
     | Inr slices \<Rightarrow>
         if slices = []
         then ret (Inl (ErrNew (quoted (nn_name serviceKey @ ''/'' @ nn_namespace serviceKey) @
                          '' endpoints not ready'')))
         else if list_ex (\<lambda>s. list_ex (\<lambda>r. r = Some True) (es_ready s)) slices then ret (Inr True)
         else ret (Inl (ErrNew (quoted (nn_name serviceKey @ ''/'' @ nn_namespace serviceKey) @
                          '' no ready endpoints'')))
   }"

section \<open>Stateful sets\<close>

definition IsStatefulSetHealthy ::
    "env \<Rightarrow> namespaced_name \<Rightarrow> namespaced_name \<Rightarrow> HealthOpt list \<Rightarrow> (goerr + bool) op" where
  "IsStatefulSetHealthy E key serviceKey opts = do {
     r \<leftarrow> k_GetSts E key;
     case r of
       Inl err \<Rightarrow> ret (case IgnoreNotFound err of None \<Rightarrow> Inr False | Some e \<Rightarrow> Inl e)
     | Inr ss \<Rightarrow>
         let healthOpts = fold (\<lambda>setOpt ho. setOpt ho) opts
               \<lparr>ho_DesiredReplicas = ptr_Deref (sts_replicas ss) 1, ho_Port = None,
                ho_EndpointPolicy = Some EndpointPolicyAll\<rparr>
         in if sts_ready_replicas ss \<noteq> ho_DesiredReplicas healthOpts then ret (Inr False)
            else case ho_Port healthOpts of
              None \<Rightarrow> ret (Inr True)
            | Some port \<Rightarrow>
                (case ho_EndpointPolicy healthOpts of
                   None \<Rightarrow> ret (Inr True)
                 | Some policy \<Rightarrow> do {
                     l \<leftarrow> k_ListEndpointSlices E (nn_namespace serviceKey) (nn_name serviceKey);
                     case l of
                       Inl err \<Rightarrow> ret (Inl err)
                     | Inr slices \<Rightarrow>
                         if slices = [] then ret (Inr False)
                         else
                           let readyCount = countReadyEndpoints slices port
                           in if policy = EndpointPolicyAll
                              then ret (Inr (readyCount = ho_DesiredReplicas healthOpts))
                              else if policy = EndpointPolicyAtLeastOne
                              then ret (Inr (readyCount > 0))
                              else ret (Inl (ErrNew (''unsupported EndpointPolicy '' @ quoted policy)))
                   })
   }"

section \<open>Replicas\<close>

text \<open>\<open>sortPodList\<close> sorts by the name as a string, so \<open>dolt-10\<close> comes before \<open>dolt-2\<close>.\<close>

definition sortPodList :: "pod list \<Rightarrow> pod list" where
  "sortPodList items = sort_key (\<lambda>p. om_name (pod_meta p)) items"

fun healthy_replica_loop :: "int \<Rightarrow> pod list \<Rightarrow> goerr + int" where
  "healthy_replica_loop current [] = Inl (Sentinel ''no healthy instances available'')"
| "healthy_replica_loop current (p # ps) =
     (case PodIndex (om_name (pod_meta p)) of
        Inl err \<Rightarrow>
          Inl (ErrV (''error getting index for Pod '' @ quoted (om_name (pod_meta p)) @ '': '') err)
      | Inr index \<Rightarrow>
          if index = current then healthy_replica_loop current ps
          else if PodReady p then Inr index
          else healthy_replica_loop current ps)"

definition HealthyDoltDBReplica :: "env \<Rightarrow> (goerr + int) op" where
  "HealthyDoltDBReplica E = do {
     doltdb \<leftarrow> get_db;
     case status_CurrentPrimaryPodIndex (db_status doltdb) of
       None \<Rightarrow> ret (Inl (ErrNew (quoted ''status.currentPrimaryPodIndex'' @ '' must be set'')))
     | Some current \<Rightarrow> do {
         r \<leftarrow> k_ListPods E (om_namespace (db_meta doltdb)) (DoltSelector doltdb);
         case r of
           Inl err \<Rightarrow> ret (Inl (ErrV ''error listing Pods: '' err))
         | Inr items \<Rightarrow> ret (healthy_replica_loop current (sortPodList items))
       }
   }"

definition IsDoltDBReplicaHealthy :: "env \<Rightarrow> int \<Rightarrow> (goerr + (pod \<times> bool)) op" where
  "IsDoltDBReplicaHealthy E podIndex = do {
     doltdb \<leftarrow> get_db;
     r \<leftarrow> k_GetPod E (nn (PodName (db_meta doltdb) podIndex) (om_namespace (db_meta doltdb)));
     ret (case r of Inl err \<Rightarrow> Inl err | Inr doltPod \<Rightarrow> Inr (doltPod, PodReady doltPod))
   }"

text \<open>The current primary's index is dereferenced without a nil check.\<close>

fun healthy_standbys_loop :: "int option \<Rightarrow> pod list \<Rightarrow> pod list \<Rightarrow> goerr + pod list" where
  "healthy_standbys_loop current pods [] = Inr pods"
| "healthy_standbys_loop current pods (p # ps) =
     (case PodIndex (om_name (pod_meta p)) of
        Inl err \<Rightarrow>
          Inl (ErrV (''error getting index for Pod '' @ quoted (om_name (pod_meta p)) @ '': '') err)
      | Inr index \<Rightarrow>
          (case current of
             None \<Rightarrow> Inl (Panic ''nil pointer dereference'')
           | Some c \<Rightarrow>
               if index = c then healthy_standbys_loop current pods ps
               else if PodReady p then healthy_standbys_loop current (pods @ [p]) ps
               else healthy_standbys_loop current pods ps))"

definition HealthyDoltDBStandbys :: "env \<Rightarrow> (goerr + pod list) op" where
  "HealthyDoltDBStandbys E = do {
     doltdb \<leftarrow> get_db;
     r \<leftarrow> k_ListPods E (om_namespace (db_meta doltdb)) (DoltSelector doltdb);
     case r of
       Inl err \<Rightarrow> ret (Inl (ErrV ''error listing Pods: '' err))
     | Inr items \<Rightarrow>
         ret (healthy_standbys_loop (status_CurrentPrimaryPodIndex (db_status doltdb)) []
                (sortPodList items))
   }"

fun standby_hosts_loop :: "DoltDB \<Rightarrow> pod list \<Rightarrow> goerr + string list" where
  "standby_hosts_loop doltdb [] = Inr []"
| "standby_hosts_loop doltdb (standby # rest) =
     (case PodIndex (om_name (pod_meta standby)) of
        Inl err \<Rightarrow>
          Inl (ErrV (''error getting index for Pod '' @ quoted (om_name (pod_meta standby)) @ '': '') err)
      | Inr podIndex \<Rightarrow>
          (case standby_hosts_loop doltdb rest of
             Inl e \<Rightarrow> Inl e
           | Inr hosts \<Rightarrow>
               Inr (PodShortFQDNWithServiceAndNamespace (db_meta doltdb) podIndex
                      (nn_name (InternalServiceKey doltdb)) # hosts)))"

definition StandbyHostFQDNs :: "env \<Rightarrow> (goerr + string list) op" where
  "StandbyHostFQDNs E = do {
     r \<leftarrow> HealthyDoltDBStandbys E;
     case r of
       Inl err \<Rightarrow> ret (Inl (ErrV ''error getting healthy standbys: '' err))
     | Inr healthyStandbys \<Rightarrow>
         if healthyStandbys = [] then ret (Inl (ErrNew ''no healthy standbys available''))
         else do { doltdb \<leftarrow> get_db; ret (standby_hosts_loop doltdb healthyStandbys) }
   }"

section \<open>Lemmas\<close>

text \<open>All of these only read.\<close>

definition is_read :: "call \<Rightarrow> bool" where
  "is_read c = (case c of
      CGetDoltDB _ \<Rightarrow> True | CGetSts _ \<Rightarrow> True | CGetPod _ \<Rightarrow> True | CGetConfigMap _ \<Rightarrow> True
    | CGetService _ \<Rightarrow> True | CGetPDB _ \<Rightarrow> True | CGetSecret _ \<Rightarrow> True
    | CGetServiceAccount _ \<Rightarrow> True | CGetRole _ \<Rightarrow> True | CGetRoleBinding _ \<Rightarrow> True
    | CGetClusterRoleBinding _ \<Rightarrow> True | CListPods _ _ \<Rightarrow> True | CListPVCs _ _ \<Rightarrow> True
    | CListEndpointSlices _ _ \<Rightarrow> True | _ \<Rightarrow> False)"

lemma is_read_simps [simp]:
  "is_read (CGetSts k)" "is_read (CGetPod k)" "is_read (CListPods ns sel)"
  "is_read (CListEndpointSlices ns svc)" "is_read (CGetConfigMap k)" "is_read (CGetService k)"
  "is_read (CGetPDB k)" "is_read (CGetSecret k)" "is_read (CListPVCs ns sel)" "is_read (CGetDoltDB k)"
  "is_read (CGetServiceAccount k)" "is_read (CGetRole k)" "is_read (CGetRoleBinding k)"
  "is_read (CGetClusterRoleBinding k)"
  by (simp_all add: is_read_def)

lemma emits_health [emits_intros]:
  "emits is_read (IsServiceHealthy E key)"
  "emits is_read (IsStatefulSetHealthy E key skey opts)"
  "emits is_read (HealthyDoltDBReplica E)"
  "emits is_read (IsDoltDBReplicaHealthy E i)"
  "emits is_read (HealthyDoltDBStandbys E)"
  "emits is_read (StandbyHostFQDNs E)"
proof -
  show "emits is_read (HealthyDoltDBStandbys E)" for E
    unfolding HealthyDoltDBStandbys_def by (intro emits_intros) simp_all
  then show "emits is_read (StandbyHostFQDNs E)"
    unfolding StandbyHostFQDNs_def by (intro emits_intros) simp_all
qed (unfold IsServiceHealthy_def IsStatefulSetHealthy_def HealthyDoltDBReplica_def
      IsDoltDBReplicaHealthy_def Let_def; intro emits_intros; simp)+

lemma set_sortPodList [simp]: "set (sortPodList ps) = set ps"
  by (simp add: sortPodList_def)

lemma healthy_replica_loop_Inr:
  "healthy_replica_loop cur ps = Inr i \<Longrightarrow>
     i \<noteq> cur \<and> (\<exists>p \<in> set ps. PodIndex (om_name (pod_meta p)) = Inr i \<and> PodReady p)"
  by (induction ps) (auto split: sum.splits if_splits)

lemma healthy_standbys_loop_Inr:
  "healthy_standbys_loop cur acc ps = Inr out \<Longrightarrow>
     out = acc @ filter (\<lambda>p. PodReady p \<and> PodIndex (om_name (pod_meta p)) \<noteq> Inr (the cur)) ps"
  by (induction ps arbitrary: acc) (force split: sum.splits if_splits option.splits)+

lemma standby_hosts_loop_Inr:
  "standby_hosts_loop d ps = Inr hosts \<Longrightarrow>
     list_all2 (\<lambda>p h. \<exists>i. PodIndex (om_name (pod_meta p)) = Inr i \<and>
        h = PodShortFQDNWithServiceAndNamespace (db_meta d) i (nn_name (InternalServiceKey d))) ps hosts"
  by (induction ps arbitrary: hosts) (auto split: sum.splits)

end
