(* ===== verification/Frame_Rules.thy ===== *)
theory Frame_Rules
  imports Kube_Client
begin

text \<open>
  The frame calculus of the DoltDB reconcilers: which requests a computation may make while it
  leaves the object in memory alone up to defaults and keeps the client cache consistent.
\<close>

section \<open>Objects up to defaults, and consistent caches\<close>

text \<open>
  Two objects are the same up to the defaults of their replication settings.  Most operations leave
  the object alone up to this relation: only the patches of the DoltDB itself bring in another one.
\<close>

definition eq_fill :: "DoltDB \<Rightarrow> DoltDB \<Rightarrow> bool" where
  "eq_fill d d' \<longleftrightarrow> Replication_fill d = Replication_fill d'"

lemma eq_fill_refl [simp]: "eq_fill d d" "eq_fill d (Replication_fill d)" "eq_fill (Replication_fill d) d"
  by (simp_all add: eq_fill_def)

lemma eq_fill_trans: "eq_fill a b \<Longrightarrow> eq_fill b c \<Longrightarrow> eq_fill a c"
  by (simp add: eq_fill_def)

lemma eq_fillD:
  assumes "eq_fill d d'"
  shows "db_meta d' = db_meta d" "db_status d' = db_status d" "Replication d' = Replication d"
    "ReplPrimary d' = ReplPrimary d" "spec_Replicas (db_spec d') = spec_Replicas (db_spec d)"
    "spec_Server (db_spec d') = spec_Server (db_spec d)"
  using assms unfolding eq_fill_def
  by (metis Replication_fill_frame Replication_of_fill ReplPrimary_of_fill)+

text \<open>The host name under which pod \<open>i\<close> is reached, and the key of its pod.\<close>

definition pod_host :: "'x lib_scheme \<Rightarrow> object_meta \<Rightarrow> int \<Rightarrow> string" where
  "pod_host L m i = PodFQDNWithService (lib_ClusterNameVar L) m i (om_name m @ ''-internal'')"

definition pod_key :: "object_meta \<Rightarrow> int \<Rightarrow> namespaced_name" where
  "pod_key m i = nn (PodName m i) (om_namespace m)"

text \<open>Every cached client is connected to the pod it is cached for.\<close>

definition cache_ok :: "env \<Rightarrow> dbst \<Rightarrow> bool" where
  "cache_ok E s \<longleftrightarrow>
     (\<forall>(i, c) \<in> set (clients s). opt_Host c = pod_host E (db_meta (the_db s)) i)"

lemma cache_ok_eq:
  "cache_ok E s \<Longrightarrow> clients s' = clients s \<Longrightarrow> db_meta (the_db s') = db_meta (the_db s) \<Longrightarrow> cache_ok E s'"
  by (simp add: cache_ok_def)

section \<open>The calculus\<close>

text \<open>
  \<open>keeps E P p\<close>: on every run, \<open>p\<close> makes only requests that satisfy \<open>P\<close>, keeps the object up to
  defaults, and keeps the cache consistent.
\<close>

definition framed :: "env \<Rightarrow> (call \<Rightarrow> bool) \<Rightarrow> (call, dbst) cfg \<Rightarrow> (call, dbst) cfg \<Rightarrow> bool" where
  "framed E P s s' \<longleftrightarrow>
     (\<exists>t. trace s' = trace s @ t \<and> list_all P t) \<and> eq_fill (the_db (obj s)) (the_db (obj s')) \<and>
     (cache_ok E (obj s) \<longrightarrow> cache_ok E (obj s'))"

definition keeps :: "env \<Rightarrow> (call \<Rightarrow> bool) \<Rightarrow> 'a op \<Rightarrow> bool" where
  "keeps E P p \<longleftrightarrow> (\<forall>s. wp p (\<lambda>_. framed E P s) s)"

named_theorems keeps_intros \<open>structural rules for computations that keep the object\<close>

lemma framed_refl [simp]: "framed E P s s"
  by (simp add: framed_def)

lemma framed_trans:
  assumes "framed E P s s'" and "framed E P s' s''"
  shows "framed E P s s''"
proof -
  obtain t t' where "trace s' = trace s @ t" "list_all P t" "trace s'' = trace s' @ t'" "list_all P t'"
    using assms by (auto simp: framed_def)
  then have "\<exists>t. trace s'' = trace s @ t \<and> list_all P t"
    by (intro exI [of _ "t @ t'"]) simp
  then show ?thesis
    using assms unfolding framed_def by (blast intro: eq_fill_trans)
qed

lemma framed_mono: "framed E P s s' \<Longrightarrow> (\<And>c. P c \<Longrightarrow> Q c) \<Longrightarrow> framed E Q s s'"
  by (auto simp: framed_def list_all_iff)

lemma keeps_wp: "keeps E P p \<Longrightarrow> (\<And>a s'. framed E P s s' \<Longrightarrow> Q a s') \<Longrightarrow> wp p Q s"
  unfolding keeps_def by (blast intro: wp_mono)

lemma keeps_bind [keeps_intros]:
  assumes "keeps E P p" and "\<And>a. keeps E P (f a)"
  shows "keeps E P (State_Monad.bind p f)"
  unfolding keeps_def wp_bind
  by (intro allI keeps_wp [OF assms(1)] keeps_wp [OF assms(2)]) (rule framed_trans)

lemma framed_db:
  "framed E P s (s\<lparr>obj := (obj s)\<lparr>the_db := Replication_fill (the_db (obj s))\<rparr>\<rparr>)"
  by (auto simp: framed_def cache_ok_def)

lemma keeps_basic [keeps_intros]:
  "keeps E P (ret a)" "keeps E P get_db" "keeps E P get_clients" "keeps E P call_Replication"
  "keeps E P (modify_db Replication_fill)" "keeps E P (put_clients [])"
  by (simp_all add: keeps_def wp_simps framed_db) (simp add: framed_def cache_ok_def)

lemma keeps_perform [keeps_intros]: "P c \<Longrightarrow> keeps E P (perform c f)"
  by (simp add: keeps_def wp_simps framed_def)

lemmas keeps_k [keeps_intros] =
  k_defs [THEN arg_cong, of "keeps E P" for E P, THEN iffD2, OF keeps_perform]

lemma keeps_if [keeps_intros]:
  "(b \<Longrightarrow> keeps E P p) \<Longrightarrow> (\<not> b \<Longrightarrow> keeps E P q) \<Longrightarrow> keeps E P (if b then p else q)"
  by simp

lemma keeps_case_sum [keeps_intros]:
  "(\<And>e. x = Inl e \<Longrightarrow> keeps E P (f e)) \<Longrightarrow> (\<And>y. x = Inr y \<Longrightarrow> keeps E P (g y)) \<Longrightarrow>
   keeps E P (case x of Inl e \<Rightarrow> f e | Inr y \<Rightarrow> g y)"
  by (simp split: sum.split)

lemma keeps_case_option [keeps_intros]:
  "(x = None \<Longrightarrow> keeps E P p) \<Longrightarrow> (\<And>y. x = Some y \<Longrightarrow> keeps E P (g y)) \<Longrightarrow>
   keeps E P (case x of None \<Rightarrow> p | Some y \<Rightarrow> g y)"
  by (simp split: option.split)

lemma keeps_case_prod [keeps_intros]:
  "(\<And>a b. x = (a, b) \<Longrightarrow> keeps E P (f a b)) \<Longrightarrow> keeps E P (case x of (a, b) \<Rightarrow> f a b)"
  by (simp split: prod.split)

lemma keeps_let [keeps_intros]: "keeps E P (f x) \<Longrightarrow> keeps E P (let y = x in f y)"
  by simp

lemma keeps_mono:
  assumes "keeps E P p" and "\<And>c. P c \<Longrightarrow> Q c"
  shows "keeps E Q p"
  unfolding keeps_def by (intro allI keeps_wp [OF assms(1)]) (blast intro: framed_mono assms(2))

lemma wp_conj: "wp p Q s \<Longrightarrow> wp p R s \<Longrightarrow> wp p (\<lambda>a s'. Q a s' \<and> R a s') s"
  by (simp add: wp_def split: prod.splits)

lemma wp_UNIV [simp]: "wp p (\<lambda>_ _. True) s"
  by (simp add: wp_def split: prod.split)

end
