(* ===== verification/Dolt_Sql.thy ===== *)
theory Dolt_Sql
  imports Health Frame_Rules
begin

text \<open>
  Package \<open>sql\<close> (\<open>src/pkg/dolt/sql\<close>) as far as replication uses it: opening a client
  (\<open>sql.go\<close>), the client cache (\<open>sql_clientset.go\<close>), the replication statements
  (\<open>replication.go\<close>) and the state of a server (\<open>state.go\<close>); with the reference resolver
  (\<open>src/pkg/refresolver\<close>), which reads the credentials.

  A client is the connection it holds, named by the options it was opened with.
\<close>

section \<open>Reference resolver\<close>

definition dquoted :: "string \<Rightarrow> string" where
  "dquoted s = CHR 0x22 # s @ [CHR 0x22]"

definition ErrDoltClusterAnnotationNotFound :: goerr where
  "ErrDoltClusterAnnotationNotFound = Sentinel ''DoltDB annotation not found''"

definition DoltDBRef :: "env \<Rightarrow> string \<Rightarrow> string \<Rightarrow> string \<Rightarrow> (call, 'o, goerr + DoltDB) prog" where
  "DoltDBRef E refName refNamespace namespace =
     k_GetDoltDB E (nn refName (if refNamespace \<noteq> [] then refNamespace else namespace))"

definition DoltDBPodRef :: "env \<Rightarrow> DoltDB \<Rightarrow> int \<Rightarrow> (call, 'o, goerr + pod) prog" where
  "DoltDBPodRef E doltdb index =
     k_GetPod E (nn (PodName (db_meta doltdb) index) (om_namespace (db_meta doltdb)))"

definition DoltDBFromAnnotation :: "env \<Rightarrow> object_meta \<Rightarrow> (call, 'o, goerr + DoltDB) prog" where
  "DoltDBFromAnnotation E objMeta =
     (case map_of (om_annotations objMeta) Annotation of
        None \<Rightarrow> ret (Inl ErrDoltClusterAnnotationNotFound)
      | Some doltdbAnnotation \<Rightarrow> do {
          r \<leftarrow> k_GetDoltDB E (nn doltdbAnnotation (om_namespace objMeta));
          ret (case r of
                 Inl err \<Rightarrow>
                   if IsNotFound err then Inl err
                   else Inl (ErrV (''error getting DoltDB from annotation '' @
                                   quoted (om_name objMeta) @ '': '') err)
               | Inr doltdb \<Rightarrow> Inr doltdb)
        })"

definition SecretKeyRefValue :: "env \<Rightarrow> secret_ref \<Rightarrow> string \<Rightarrow> (call, 'o, goerr + string) prog" where
  "SecretKeyRefValue E selector namespace = do {
     r \<leftarrow> k_GetSecret E (nn (sr_name selector) namespace);
     ret (case r of
            Inl err \<Rightarrow> Inl (ErrV ''error getting Secret: '' err)
          | Inr secret \<Rightarrow>
              (case map_of (sec_data secret) (sr_key selector) of
                 None \<Rightarrow> Inl (ErrNew (''secret key '' @ dquoted (sr_key selector) @ '' not found''))
               | Some v \<Rightarrow> Inr v))
   }"

definition ConfigMapKeyRefValue :: "env \<Rightarrow> secret_ref \<Rightarrow> string \<Rightarrow> (call, 'o, goerr + string) prog" where
  "ConfigMapKeyRefValue E selector namespace = do {
     r \<leftarrow> k_GetConfigMap E (nn (sr_name selector) namespace);
     ret (case r of
            Inl err \<Rightarrow> Inl (ErrV ''error getting ConfigMap: '' err)
          | Inr configMap \<Rightarrow>
              (case map_of (cm_data configMap) (sr_key selector) of
                 None \<Rightarrow> Inl (ErrNew (''ConfigMap key '' @ dquoted (sr_key selector) @ '' not found''))
               | Some v \<Rightarrow> Inr v))
   }"

section \<open>Opening a client\<close>

type_synonym Opt = "sql_opts \<Rightarrow> sql_opts"

definition zero_opts :: sql_opts where
  "zero_opts = \<lparr>opt_Username = [], opt_Password = [], opt_Host = [], opt_Port = 0, opt_Database = [],
     opt_Params = None, opt_Timeout = None\<rparr>"

definition WithUsername :: "string \<Rightarrow> Opt" where
  "WithUsername u opts = opts\<lparr>opt_Username := u\<rparr>"
definition WithPassword :: "string \<Rightarrow> Opt" where
  "WithPassword p opts = opts\<lparr>opt_Password := p\<rparr>"
definition WitHost :: "string \<Rightarrow> Opt" where
  "WitHost h opts = opts\<lparr>opt_Host := h\<rparr>"
definition WithSqlPort :: "int \<Rightarrow> Opt" where
  "WithSqlPort p opts = opts\<lparr>opt_Port := p\<rparr>"
definition WithDatabase :: "string \<Rightarrow> Opt" where
  "WithDatabase d opts = opts\<lparr>opt_Database := d\<rparr>"
definition WithParams :: "strmap \<Rightarrow> Opt" where
  "WithParams params opts = opts\<lparr>opt_Params := Some params\<rparr>"
definition WithTimeout :: "int \<Rightarrow> Opt" where
  "WithTimeout d opts = opts\<lparr>opt_Timeout := Some d\<rparr>"

text \<open>The data source name, as the parts it is formatted from.\<close>

definition BuildDSN :: "sql_opts \<Rightarrow> goerr + sql_opts" where
  "BuildDSN opts =
     (if opt_Host opts = [] \<or> opt_Port opts = 0
      then Inl (ErrNew ''invalid opts: host and port are mandatory'')
      else let config = opts\<lparr>opt_Timeout := Some (ptr_Deref (opt_Timeout opts) (5 * Second))\<rparr>
           in Inr (if opt_Username opts \<noteq> [] \<and> opt_Password opts \<noteq> [] then config
                   else config\<lparr>opt_Username := [], opt_Password := []\<rparr>))"

text \<open>Opening a connection and pinging the server is one request.\<close>

definition ConnectWithOpts :: "env \<Rightarrow> sql_opts \<Rightarrow> (goerr + sql_opts) op" where
  "ConnectWithOpts E opts =
     (case BuildDSN opts of
        Inl err \<Rightarrow> ret (Inl (ErrV ''error building DSN: '' err))
      | Inr dsn \<Rightarrow> do {
          r \<leftarrow> k_SqlOpen E dsn;
          ret (case r of Some err \<Rightarrow> Inl err | None \<Rightarrow> Inr dsn)
        })"

definition NewClient :: "env \<Rightarrow> Opt list \<Rightarrow> (goerr + sql_opts) op" where
  "NewClient E clientOpts =
     (case BuildDSN (fold (\<lambda>setOpt opts. setOpt opts) clientOpts zero_opts) of
        Inl err \<Rightarrow> ret (Inl (ErrV ''error building DSN: '' err))
      | Inr dsn \<Rightarrow> do {
          r \<leftarrow> k_SqlOpen E dsn;
          ret (case r of Some err \<Rightarrow> Inl err | None \<Rightarrow> Inr dsn)
        })"

definition NewClientWithDoltDB :: "env \<Rightarrow> Opt list \<Rightarrow> (goerr + sql_opts) op" where
  "NewClientWithDoltDB E clientOpts = do {
     doltdb \<leftarrow> get_db;
     p \<leftarrow> SecretKeyRefValue E (RootPasswordSecretKeyRef doltdb) (om_namespace (db_meta doltdb));
     case p of
       Inl err \<Rightarrow> ret (Inl (ErrV ''error reading root password secret: '' err))
     | Inr password \<Rightarrow> do {
         u \<leftarrow> SecretKeyRefValue E (RootUserSecretKeyRef doltdb) (om_namespace (db_meta doltdb));
         case u of
           Inl err \<Rightarrow> ret (Inl (ErrV ''error reading root username secret: '' err))
         | Inr username \<Rightarrow> do {
             repl \<leftarrow> call_Replication;
             let serviceName = (if repl_Enabled repl then nn_name (PrimaryServiceKey doltdb)
                                else nn_name (ServiceKey doltdb));
             NewClient E
               ([WithUsername username, WithPassword password,
                 WitHost (ServiceFQDNWithService (lib_ClusterNameVar E) (db_meta doltdb) serviceName),
                 WithSqlPort (listener_Port (server_Listener (spec_Server (db_spec doltdb))))]
                @ clientOpts)
           }
       }
   }"

definition NewInternalClientWithPodIndex :: "env \<Rightarrow> int \<Rightarrow> (goerr + sql_opts) op" where
  "NewInternalClientWithPodIndex E podIndex = do {
     doltdb \<leftarrow> get_db;
     NewClientWithDoltDB E
       [WitHost (PodFQDNWithService (lib_ClusterNameVar E) (db_meta doltdb) podIndex
                   (nn_name (InternalServiceKey doltdb)))]
   }"

definition Client_Close :: "env \<Rightarrow> sql_opts \<Rightarrow> goerr option op" where
  "Client_Close E client = k_SqlClose E client"

section \<open>The client cache\<close>

text \<open>
  \<open>NewClientSet\<close> starts an empty cache.  \<open>Close\<close> stops at the first client that fails to close;
  \<open>RemoveClientFromCache\<close> forgets a client without closing it.
\<close>

definition NewClientSet :: "unit op" where
  "NewClientSet = put_clients []"

fun close_loop :: "env \<Rightarrow> (int \<times> sql_opts) list \<Rightarrow> goerr option op" where
  "close_loop E [] = ret None"
| "close_loop E ((i, rc) # rest) = do {
     r \<leftarrow> Client_Close E rc;
     case r of
       Some err \<Rightarrow>
         ret (Some (ErrV (''error closing replica '' @ quoted (show_int i) @ '' client: '') err))
     | None \<Rightarrow> close_loop E rest
   }"

definition ClientSet_Close :: "env \<Rightarrow> goerr option op" where
  "ClientSet_Close E = do { cs \<leftarrow> get_clients; close_loop E cs }"

definition RemoveClientFromCache :: "int \<Rightarrow> unit op" where
  "RemoveClientFromCache index = do { cs \<leftarrow> get_clients; put_clients (AList.delete index cs) }"

definition validateIndex :: "DoltDB \<Rightarrow> int \<Rightarrow> goerr option" where
  "validateIndex doltdb index =
     (if index \<ge> 0 \<and> index < spec_Replicas (db_spec doltdb) then None
      else Some (ErrNew (''index '' @ quoted (show_int index) @ '' out of DoltDB replicas bounds [0, '' @
                         show_int (spec_Replicas (db_spec doltdb) - 1) @ '']'')))"

definition ClientForIndex :: "env \<Rightarrow> int \<Rightarrow> (goerr + sql_opts) op" where
  "ClientForIndex E index = do {
     doltdb \<leftarrow> get_db;
     case validateIndex doltdb index of
       Some err \<Rightarrow> ret (Inl (ErrV ''invalid index. '' err))
     | None \<Rightarrow> do {
         cs \<leftarrow> get_clients;
         case map_of cs index of
           Some c \<Rightarrow> ret (Inr c)
         | None \<Rightarrow> do {
             r \<leftarrow> NewInternalClientWithPodIndex E index;
             case r of
               Inl err \<Rightarrow>
                 ret (Inl (ErrV (''error creating replica '' @ quoted (show_int index) @ '' client: '') err))
             | Inr client \<Rightarrow> do {
                 cs \<leftarrow> get_clients;
                 put_clients (AList.update index client cs);
                 ret (Inr client)
               }
           }
       }
   }"

section \<open>Errors\<close>

definition mysqlErrReadOnly :: nat where
  "mysqlErrReadOnly = 1105"

text \<open>\<open>errors.As\<close> for a driver error: the number of the first one of the chain.\<close>

fun as_mysql :: "goerr \<Rightarrow> nat option" and as_mysql_list :: "goerr list \<Rightarrow> nat option" where
  "as_mysql (MySQLErr n _) = Some n"
| "as_mysql (ErrW _ e) = as_mysql e"
| "as_mysql (ErrJoin es) = as_mysql_list es"
| "as_mysql _ = None"
| "as_mysql_list [] = None"
| "as_mysql_list (e # es) = (case as_mysql e of None \<Rightarrow> as_mysql_list es | Some n \<Rightarrow> Some n)"

definition IsReadOnlyError :: "goerr \<Rightarrow> bool" where
  "IsReadOnlyError err = (case as_mysql err of Some n \<Rightarrow> n = mysqlErrReadOnly | None \<Rightarrow> False)"

section \<open>Replication statements\<close>

text \<open>
  A loop \<open>for rows.Next()\<close> reads all rows and then \<open>rows.Err()\<close>.  A single \<open>if rows.Next()\<close> that
  finds a row leaves \<open>rows.Err()\<close> nil.
\<close>

definition AssumeRole :: "env \<Rightarrow> sql_opts \<Rightarrow> string \<Rightarrow> int \<Rightarrow> goerr option op" where
  "AssumeRole E client r epoch = do {
     q \<leftarrow> k_AssumeRole E client r epoch;
     ret (case q of
            Inl err \<Rightarrow> Some err
          | Inr ([], rowsErr) \<Rightarrow> rowsErr
          | Inr (Inl scanErr # _, _) \<Rightarrow> Some scanErr
          | Inr (Inr status # _, _) \<Rightarrow>
              if status \<noteq> 0
              then Some (ErrNew (''error calling dolt_assume_role('' @ quoted r @ '', '' @
                                 show_int epoch @ '') was '' @ show_int status @ '', not 0''))
              else None)
   }"

fun scan_rows :: "(goerr + 'r) list \<Rightarrow> goerr + 'r list" where
  "scan_rows [] = Inr []"
| "scan_rows (Inl e # _) = Inl e"
| "scan_rows (Inr r # rest) =
     (case scan_rows rest of Inl e \<Rightarrow> Inl e | Inr rs \<Rightarrow> Inr (r # rs))"

lemma scan_rows_map [simp]: "scan_rows (map Inr xs) = Inr xs"
  by (induction xs) simp_all

text \<open>
  Parsing the remote URLs and counting the caught-up databases per host; a parsed URL is its
  \<open>Host\<close> and its \<open>Hostname()\<close>.
\<close>

fun count_caught_up ::
    "'x lib_scheme \<Rightarrow> (string \<times> int) list \<Rightarrow> transition_row list \<Rightarrow>
     goerr + ((string \<times> int) list \<times> (string \<times> string) list)" where
  "count_caught_up L counts [] = Inr (counts, [])"
| "count_caught_up L counts (res # rest) =
     (case lib_UrlParse L (tr_RemoteURL res) of
        Inl err \<Rightarrow> Inl err
      | Inr (host, hostname) \<Rightarrow>
          let counts = (if tr_CaughtUp res = 1
                        then AList.update host (ptr_Deref (map_of counts host) 0 + 1) counts
                        else counts)
          in (case count_caught_up L counts rest of
                Inl err \<Rightarrow> Inl err
              | Inr (final, parsed) \<Rightarrow> Inr (final, (host, hostname) # parsed)))"

fun max_caught_up_loop :: "string \<Rightarrow> int \<Rightarrow> (string \<times> int) list \<Rightarrow> string" where
  "max_caught_up_loop maxHost maxN [] = maxHost"
| "max_caught_up_loop maxHost maxN ((k, v) # rest) =
     (if v > maxN then max_caught_up_loop k v rest else max_caught_up_loop maxHost maxN rest)"

fun find_host :: "string \<Rightarrow> int \<Rightarrow> string list \<Rightarrow> int option" where
  "find_host caughtUpHostname i [] = None"
| "find_host caughtUpHostname i (host # rest) =
     (if host = caughtUpHostname \<or> prefix caughtUpHostname host then Some i
      else find_host caughtUpHostname (i + 1) rest)"

definition chooseCaughtUp ::
    "((string \<times> int) list \<Rightarrow> (string \<times> int) list) \<Rightarrow> 'x lib_scheme \<Rightarrow> transition_row list \<Rightarrow>
     string list \<Rightarrow> goerr + int" where
  "chooseCaughtUp mapRange L results hosts =
     (case count_caught_up L [] results of
        Inl err \<Rightarrow> Inl err
      | Inr (numCaughtUp, parsed) \<Rightarrow>
          let maxCaughtUpHost = max_caught_up_loop [] 0 (mapRange numCaughtUp);
              notFound = Inl (ErrNew
                (''internal error: did not find caught up URL of the caught up host: '' @ maxCaughtUpHost))
          in (case List.find (\<lambda>(host, hostname). host = maxCaughtUpHost) parsed of
                None \<Rightarrow> notFound
              | Some (_, caughtUpHostname) \<Rightarrow>
                  (case find_host caughtUpHostname 0 hosts of
                     Some i \<Rightarrow> Inr i
                   | None \<Rightarrow> notFound)))"

text \<open>What the environment decides at this point without being sent a request.\<close>

definition peek :: "(call list \<Rightarrow> 'a) \<Rightarrow> 'a op" where
  "peek f = State (\<lambda>s. (f (trace s), s))"

definition TransitionToStandby ::
    "env \<Rightarrow> sql_opts \<Rightarrow> int \<Rightarrow> int \<Rightarrow> string list \<Rightarrow> (goerr + int) op" where
  "TransitionToStandby E client epoch minCaughtUpStandbys hosts = do {
     q \<leftarrow> k_Transition E client epoch minCaughtUpStandbys;
     mapRange \<leftarrow> peek (env_MapRange E);
     ret (case q of
            Inl err \<Rightarrow> Inl err
          | Inr (rows, rowsErr) \<Rightarrow>
              (case scan_rows rows of
                 Inl err \<Rightarrow> Inl err
               | Inr results \<Rightarrow>
                   (case rowsErr of
                      Some err \<Rightarrow> Inl err
                    | None \<Rightarrow> chooseCaughtUp mapRange E results hosts)))
   }"

definition GetRoleAndEpoch :: "env \<Rightarrow> sql_opts \<Rightarrow> (goerr + (string \<times> int)) op" where
  "GetRoleAndEpoch E client = do {
     q \<leftarrow> k_RoleAndEpoch E client;
     ret (case q of
            Inl err \<Rightarrow> Inl (ErrW ''error querying DoltDB cluster_role and epoch: '' err)
          | Inr (Inl scanErr # _, _) \<Rightarrow> Inl scanErr
          | Inr (Inr re # _, _) \<Rightarrow> Inr re
          | Inr ([], None) \<Rightarrow>
              Inl (ErrNew ''querying DoltDB and epoch should have return values, but did not'')
          | Inr ([], Some err) \<Rightarrow> Inl err)
   }"

text \<open>The last error is built from \<open>err\<close>, which is nil there, and not from \<open>rows.Err()\<close>.\<close>

definition GetClusterStatus :: "env \<Rightarrow> sql_opts \<Rightarrow> (goerr + DoltStatus list) op" where
  "GetClusterStatus E client = do {
     q \<leftarrow> k_ClusterStatus E client;
     ret (case q of
            Inl err \<Rightarrow> Inl (ErrW ''error loading dolt_cluster_status table: '' err)
          | Inr (rows, rowsErr) \<Rightarrow>
              (case scan_rows rows of
                 Inl err \<Rightarrow> Inl (ErrW ''error scanning dolt_cluster_status status row: '' err)
               | Inr doltStates \<Rightarrow>
                   (case rowsErr of
                      Some _ \<Rightarrow> Inl (ErrNew ''error loading dolt_cluster_status rows: %!w(<nil>)'')
                    | None \<Rightarrow> Inr doltStates)))
   }"

definition GetVersion :: "env \<Rightarrow> sql_opts \<Rightarrow> (goerr + string) op" where
  "GetVersion E client = do {
     q \<leftarrow> k_Version E client;
     ret (case q of
            Inl err \<Rightarrow> Inl (ErrW ''error loading dolt_version table function: '' err)
          | Inr (Inl err) \<Rightarrow> Inl (ErrW ''error scanning column of dolt_version table as string: '' err)
          | Inr (Inr version) \<Rightarrow> Inr version)
   }"

definition left_opt :: "'a + 'b \<Rightarrow> 'a option" where
  "left_opt x = (case x of Inl a \<Rightarrow> Some a | Inr _ \<Rightarrow> None)"

definition right_or :: "'b \<Rightarrow> 'a + 'b \<Rightarrow> 'b" where
  "right_or d x = (case x of Inl _ \<Rightarrow> d | Inr b \<Rightarrow> b)"

definition GetDBState :: "env \<Rightarrow> sql_opts \<Rightarrow> (DBState \<times> goerr option) op" where
  "GetDBState E client = do {
     re \<leftarrow> GetRoleAndEpoch E client;
     case re of
       Inl err \<Rightarrow> ret (zero_DBState\<lparr>dbs_Err := Some err\<rparr>, Some err)
     | Inr (r, epoch) \<Rightarrow> do {
         version \<leftarrow> GetVersion E client;
         status \<leftarrow> GetClusterStatus E client;
         ret (\<lparr>dbs_Role = r, dbs_Epoch = epoch, dbs_Status = right_or [] status,
               dbs_Version = right_or [] version,
               dbs_Err = errors_Join [left_opt version, left_opt status]\<rparr>, None)
       }
   }"

section \<open>Requests of these operations\<close>

lemma wp_peek [wp_simps]: "wp (peek f) Q s = Q (f (trace s)) s"
  by (simp add: peek_def wp_def)

lemma keeps_peek [keeps_intros]: "keeps E P (peek f)"
  by (simp add: keeps_def wp_simps)

text \<open>
  Opening a client reads the credentials and connects.  A query asks a server for its state.
  Together with the reads of the Kubernetes API these requests change nothing.
\<close>

definition is_query :: "call \<Rightarrow> bool" where
  "is_query c \<longleftrightarrow> is_read c \<or> (case c of
      CSqlOpen _ \<Rightarrow> True | CSqlClose _ \<Rightarrow> True | CEvent _ _ \<Rightarrow> True
    | CSql _ st \<Rightarrow> st \<in> {SelectRoleAndEpoch, SelectClusterStatus, SelectVersion}
    | _ \<Rightarrow> False)"

lemma is_query_simps [simp]:
  "is_read c \<Longrightarrow> is_query c" "is_query (CSqlOpen co)" "is_query (CSqlClose co)" "is_query (CEvent r m)"
  "is_query (CSql co SelectRoleAndEpoch)" "is_query (CSql co SelectClusterStatus)"
  "is_query (CSql co SelectVersion)"
  "\<not> is_query (CSql co (AssumeClusterRole r e))" "\<not> is_query (CSql co (TransitionToStandbyStmt e n))"
  "\<not> is_query (CPatchPod p p')" "\<not> is_query (CPatchDoltDBStatus d d')" "\<not> is_query (CPatchDoltDB d d')"
  "\<not> is_query (CDeletePod k)" "\<not> is_query (CDeleteSts k)" "\<not> is_query (CPatchPVC v v')"
  "\<not> is_query (CCreateSts ss)" "\<not> is_query (CPatchSts ss ss')"
  by (simp_all add: is_query_def is_read_def)

lemma keeps_health [keeps_intros]:
  "keeps E is_query (IsServiceHealthy E' key)"
  "keeps E is_query (IsStatefulSetHealthy E' key skey opts)"
  "keeps E is_query (HealthyDoltDBReplica E')"
  "keeps E is_query (IsDoltDBReplicaHealthy E' i)"
  "keeps E is_query (HealthyDoltDBStandbys E')"
  "keeps E is_query (StandbyHostFQDNs E')"
  unfolding IsServiceHealthy_def IsStatefulSetHealthy_def HealthyDoltDBReplica_def
    IsDoltDBReplicaHealthy_def StandbyHostFQDNs_def HealthyDoltDBStandbys_def Let_def
  by (intro keeps_intros; simp)+

lemma keeps_resolver [keeps_intros]:
  "keeps E is_query (DoltDBPodRef E' d i)"
  "keeps E is_query (SecretKeyRefValue E' sel ns)"
  "keeps E is_query (ConfigMapKeyRefValue E' sel ns)"
  unfolding DoltDBPodRef_def SecretKeyRefValue_def ConfigMapKeyRefValue_def
  by (intro keeps_intros; simp)+

lemma keeps_client_basic [keeps_intros]:
  "keeps E is_query (NewClient E' os)"
  "keeps E is_query (NewClientWithDoltDB E' os)"
  "keeps E is_query (NewInternalClientWithPodIndex E' i)"
  "keeps E is_query (Client_Close E' c)"
  "keeps E is_query NewClientSet"
  unfolding NewInternalClientWithPodIndex_def NewClientWithDoltDB_def NewClient_def
    Client_Close_def NewClientSet_def Let_def
  by (intro keeps_intros; simp)+

lemma keeps_RemoveClientFromCache [keeps_intros]: "keeps E P (RemoveClientFromCache i)"
  by (auto simp: RemoveClientFromCache_def keeps_def wp_simps framed_def cache_ok_def AList.delete_eq)

text \<open>A client is connected to the host it was asked for.\<close>

lemma NewClient_host:
  "wp (NewClient E os)
     (\<lambda>r s'. clients (obj s') = clients (obj s) \<and>
        (\<forall>c. r = Inr c \<longrightarrow> opt_Host c = opt_Host (fold (\<lambda>setOpt o1. setOpt o1) os zero_opts))) s"
  by (simp add: NewClient_def BuildDSN_def Let_def wp_simps split: sum.split option.split)

lemma NewInternalClient_host:
  "wp (NewInternalClientWithPodIndex E i)
     (\<lambda>r s'. clients (obj s') = clients (obj s) \<and>
        (\<forall>c. r = Inr c \<longrightarrow> opt_Host c = pod_host E (db_meta (the_db (obj s))) i)) s"
proof -
  have host: "opt_Host (fold (\<lambda>setOpt o1. setOpt o1)
      ([WithUsername u, WithPassword p, WitHost h, WithSqlPort n] @ [WitHost h']) zero_opts) = h'"
    for u p h n h'
    by (simp add: WithUsername_def WithPassword_def WitHost_def WithSqlPort_def zero_opts_def)
  show ?thesis
    by (auto simp: NewInternalClientWithPodIndex_def NewClientWithDoltDB_def SecretKeyRefValue_def
        wp_simps pod_host_def InternalServiceKey_def host [simplified] split: sum.split option.split
        intro!: wp_mono [OF NewClient_host])
qed

lemma ClientForIndex_wp:
  "wp (ClientForIndex E i)
     (\<lambda>r s'. framed E is_query s s' \<and>
        (\<forall>c. r = Inr c \<longrightarrow> 0 \<le> i \<and> i < spec_Replicas (db_spec (the_db (obj s))) \<and>
           (cache_ok E (obj s) \<longrightarrow> opt_Host c = pod_host E (db_meta (the_db (obj s))) i))) s"
proof (cases "map_of (clients (obj s)) i")
  case (Some c)
  then show ?thesis
    by (auto simp: ClientForIndex_def wp_simps validateIndex_def cache_ok_def dest!: map_of_SomeD
        split: option.split)
next
  case None
  have new: "wp (NewInternalClientWithPodIndex E i)
     (\<lambda>r s'. framed E is_query s s' \<and> clients (obj s') = clients (obj s) \<and>
        (\<forall>c. r = Inr c \<longrightarrow> opt_Host c = pod_host E (db_meta (the_db (obj s))) i)) s"
    by (rule wp_conj [OF _ NewInternalClient_host])
      (use keeps_client_basic(3) in \<open>simp add: keeps_def\<close>)
  have upd: "framed E is_query s (s'\<lparr>obj := (obj s')\<lparr>clients := AList.update i c (clients (obj s))\<rparr>\<rparr>)"
    if "framed E is_query s s'" "clients (obj s') = clients (obj s)"
      "opt_Host c = pod_host E (db_meta (the_db (obj s))) i" for s' c
  proof -
    have meta: "db_meta (the_db (obj s')) = db_meta (the_db (obj s))"
      using that(1) by (simp add: framed_def eq_fillD)
    have "(j, k) \<in> set (AList.update i c cs) \<Longrightarrow> (j, k) \<in> set cs \<or> j = i \<and> k = c" for j k cs
      by (induction cs) (auto split: if_splits)
    then have "cache_ok E (obj s') \<Longrightarrow>
        cache_ok E ((obj s')\<lparr>clients := AList.update i c (clients (obj s))\<rparr>)"
      using that(2,3) unfolding cache_ok_def by (fastforce simp: meta)
    then show ?thesis
      using that(1) unfolding framed_def by auto
  qed
  show ?thesis
    using None
    by (auto simp: ClientForIndex_def wp_simps validateIndex_def upd split: option.split sum.split
        intro!: wp_mono [OF new])
qed

lemma keeps_ClientForIndex [keeps_intros]: "keeps E is_query (ClientForIndex E i)"
  unfolding keeps_def by (intro allI wp_mono [OF ClientForIndex_wp]) simp

lemma keeps_close [keeps_intros]:
  "keeps E is_query (close_loop E' cs)" "keeps E is_query (ClientSet_Close E')"
proof -
  show *: "keeps E is_query (close_loop E' cs)" for cs
    by (induction cs rule: close_loop.induct) (auto intro!: keeps_intros)
  show "keeps E is_query (ClientSet_Close E')"
    unfolding ClientSet_Close_def by (intro keeps_intros *)
qed

lemma keeps_state [keeps_intros]:
  "keeps E is_query (GetRoleAndEpoch E' c)"
  "keeps E is_query (GetClusterStatus E' c)"
  "keeps E is_query (GetVersion E' c)"
  "keeps E is_query (GetDBState E' c)"
  unfolding GetDBState_def GetRoleAndEpoch_def GetClusterStatus_def GetVersion_def
  by (intro keeps_intros; simp)+

section \<open>The choice of the next primary among the caught-up standbys\<close>

definition caught_up :: "'x lib_scheme \<Rightarrow> transition_row list \<Rightarrow> string \<Rightarrow> int" where
  "caught_up L rows host =
     int (length (filter (\<lambda>r. tr_CaughtUp r = 1 \<and>
            (\<exists>hn. lib_UrlParse L (tr_RemoteURL r) = Inr (host, hn))) rows))"

lemma count_caught_up_counts:
  assumes "count_caught_up L counts rows = Inr (final, parsed)"
  shows "ptr_Deref (map_of final host) 0 = ptr_Deref (map_of counts host) 0 + caught_up L rows host"
    and "map Inr parsed = map (\<lambda>r. lib_UrlParse L (tr_RemoteURL r)) rows"
  using assms
  by (induction rows arbitrary: counts parsed)
    (auto simp: caught_up_def Let_def split: sum.splits prod.splits if_splits)

lemma count_caught_up_distinct:
  "count_caught_up L counts rows = Inr (final, parsed) \<Longrightarrow> distinct (map fst counts) \<Longrightarrow>
   distinct (map fst final)"
  by (induction rows arbitrary: counts parsed)
    (auto simp: Let_def distinct_update split: sum.splits prod.splits if_splits)

lemma count_caught_up_pos:
  "count_caught_up L counts rows = Inr (final, parsed) \<Longrightarrow> \<forall>(k, v) \<in> set counts. 0 < v \<Longrightarrow>
   distinct (map fst counts) \<Longrightarrow> \<forall>(k, v) \<in> set final. 0 < v"
proof (induction rows arbitrary: counts parsed)
  case (Cons r rows)
  have "0 < v" if "(k, v) \<in> set (AList.update h (ptr_Deref (map_of counts h) 0 + 1) counts)" for k v h
  proof -
    have "map_of (AList.update h (ptr_Deref (map_of counts h) 0 + 1) counts) k = Some v"
      using that Cons.prems(3) by (intro map_of_is_SomeI distinct_update)
    moreover have pos: "0 < x" if "map_of counts k' = Some x" for k' x
      using map_of_SomeD [OF that] Cons.prems(2) by auto
    ultimately show ?thesis
      by (cases "map_of counts h") (auto split: if_splits dest!: pos)
  qed
  then have upd: "\<forall>(k, v) \<in> set (AList.update h (ptr_Deref (map_of counts h) 0 + 1) counts). 0 < v" for h
    by blast
  obtain host hn where "lib_UrlParse L (tr_RemoteURL r) = Inr (host, hn)"
    using Cons.prems(1) by (auto split: sum.splits prod.splits)
  with Cons.prems(1) obtain parsed' where
    "count_caught_up L (if tr_CaughtUp r = 1
       then AList.update host (ptr_Deref (map_of counts host) 0 + 1) counts else counts) rows
     = Inr (final, parsed')"
    by (auto simp: Let_def split: sum.splits prod.splits)
  from Cons.IH [OF this] upd [of host] Cons.prems(2,3) show ?case
    by (simp add: distinct_update split: if_splits)
qed auto

lemma max_caught_up_loop_spec:
  "\<forall>(k, v) \<in> set kvs. 0 < v \<Longrightarrow> 0 \<le> n \<Longrightarrow>
   max_caught_up_loop h n kvs = h \<and> (\<forall>(k, v) \<in> set kvs. v \<le> n) \<or>
   (\<exists>v. (max_caught_up_loop h n kvs, v) \<in> set kvs \<and> n < v \<and> (\<forall>(k, v') \<in> set kvs. v' \<le> v))"
proof (induction kvs arbitrary: h n)
  case (Cons kv kvs)
  obtain k v where kv: "kv = (k, v)" by force
  have pos: "\<forall>(k, v) \<in> set kvs. 0 < v" "0 < v" using Cons.prems kv by auto
  show ?case
  proof (cases "v > n")
    case True
    have "max_caught_up_loop k v kvs = k \<and> (\<forall>(k, v') \<in> set kvs. v' \<le> v) \<or>
        (\<exists>v'. (max_caught_up_loop k v kvs, v') \<in> set kvs \<and> v < v' \<and>
           (\<forall>(k, v'') \<in> set kvs. v'' \<le> v'))"
      using Cons.IH [OF pos(1), of v k] pos(2) by simp
    then show ?thesis
    proof
      assume "max_caught_up_loop k v kvs = k \<and> (\<forall>(k, v') \<in> set kvs. v' \<le> v)"
      with True kv show ?thesis
        by (intro disjI2 exI [of _ v]) auto
    next
      assume "\<exists>v'. (max_caught_up_loop k v kvs, v') \<in> set kvs \<and> v < v' \<and>
           (\<forall>(k, v'') \<in> set kvs. v'' \<le> v')"
      then obtain v' where "(max_caught_up_loop k v kvs, v') \<in> set kvs" "v < v'"
        "\<forall>(k, v'') \<in> set kvs. v'' \<le> v'" by blast
      with True kv show ?thesis
        by (intro disjI2 exI [of _ v']) auto
    qed
  next
    case False
    then show ?thesis
      using Cons.IH [OF pos(1) Cons.prems(2), of h] kv by auto
  qed
qed auto

lemma find_host_spec:
  "find_host hn i hosts = Some j \<Longrightarrow>
   \<exists>k. j = i + int k \<and> k < length hosts \<and> prefix hn (hosts ! k)"
proof (induction hosts arbitrary: i)
  case (Cons h hosts)
  then show ?case
  proof (cases "h = hn \<or> prefix hn h")
    case True
    with Cons.prems show ?thesis by (intro exI [of _ 0]) auto
  next
    case False
    with Cons.prems have "find_host hn (i + 1) hosts = Some j" by simp
    from Cons.IH [OF this]
    obtain k where "j = i + 1 + int k" "k < length hosts" "prefix hn (hosts ! k)" by blast
    then show ?thesis by (intro exI [of _ "Suc k"]) auto
  qed
qed simp

lemma chooseCaughtUp_best:
  assumes ok: "chooseCaughtUp mapRange L rows hosts = Inr i"
    and visits: "\<And>m. set (mapRange m) = set m"
    and some: "\<exists>r \<in> set rows. tr_CaughtUp r = 1"
  shows "0 \<le> i \<and> i < int (length hosts) \<and>
    (\<exists>r \<in> set rows. \<exists>host hostname. lib_UrlParse L (tr_RemoteURL r) = Inr (host, hostname) \<and>
       prefix hostname (hosts ! nat i) \<and> 0 < caught_up L rows host \<and>
       (\<forall>other. caught_up L rows other \<le> caught_up L rows host))"
proof -
  obtain final parsed where c: "count_caught_up L [] rows = Inr (final, parsed)"
    using ok by (auto simp: chooseCaughtUp_def split: sum.splits)
  let ?m = "max_caught_up_loop [] 0 (mapRange final)"
  obtain h hn where f': "List.find (\<lambda>(h, _). h = ?m) parsed = Some (h, hn)"
    and i: "find_host hn 0 hosts = Some i"
    using ok c by (auto simp: chooseCaughtUp_def Let_def split: option.splits)
  then have f: "List.find (\<lambda>(h, _). h = ?m) parsed = Some (?m, hn)"
    by (auto simp: find_Some_iff)
  obtain r where r: "r \<in> set rows" "lib_UrlParse L (tr_RemoteURL r) = Inr (?m, hn)"
  proof -
    have "(?m, hn) \<in> set parsed" using f by (auto simp: find_Some_iff in_set_conv_nth)
    then have "Inr (?m, hn) \<in> set (map (\<lambda>r. lib_UrlParse L (tr_RemoteURL r)) rows)"
      unfolding count_caught_up_counts(2) [OF c, symmetric] by simp
    then show ?thesis using that by auto
  qed
  have count: "ptr_Deref (map_of final h) 0 = caught_up L rows h" for h
    using count_caught_up_counts(1) [OF c, of h] by simp
  have dist: "distinct (map fst final)" and pos: "\<forall>(k, v) \<in> set final. 0 < v"
    using count_caught_up_distinct [OF c] count_caught_up_pos [OF c] by auto
  have entry: "caught_up L rows k = v" if "(k, v) \<in> set final" for k v
    using map_of_is_SomeI [OF dist that] count [of k] by simp
  have bound: "caught_up L rows k \<le> b" if "\<forall>(k, v) \<in> set final. v \<le> b" "0 \<le> b" for k b
    using that count [of k] by (cases "map_of final k") (auto dest!: map_of_SomeD)
  obtain r1 where r1: "r1 \<in> set rows" "tr_CaughtUp r1 = 1" using some by blast
  obtain h1 hn1 where "lib_UrlParse L (tr_RemoteURL r1) = Inr (h1, hn1)"
    using count_caught_up_counts(2) [OF c] r1 by (metis (mono_tags) imageE list.set_map surj_pair image_eqI)
  with r1 have one: "0 < caught_up L rows h1"
    by (auto simp: caught_up_def filter_empty_conv)
  from max_caught_up_loop_spec [of "mapRange final" 0 "[]"] pos
  obtain v where v: "(?m, v) \<in> set final" "0 < v" "\<forall>(k, v') \<in> set final. v' \<le> v"
    using bound [of 0 h1] one unfolding visits by fastforce
  have "\<forall>other. caught_up L rows other \<le> caught_up L rows ?m" "0 < caught_up L rows ?m"
    using bound [OF v(3)] v(2) entry [OF v(1)] by auto
  then show ?thesis
    using find_host_spec [OF i] r by (auto intro!: bexI [of _ r])
qed

end
