(* ===== verification/Switchover.thy ===== *)
theory Switchover
  imports Dolt_Sql
begin

text \<open>
  The role changes of a cluster: \<open>config.go\<close>, \<open>clientset.go\<close> and \<open>switchover.go\<close> of
  \<open>src/pkg/controller/replication\<close>.  A switchover marks the cluster as switching, takes the
  traffic off all pods, drains the old primary into standby, promotes the desired pod at the next
  epoch, routes traffic again, and records the new primary and epoch in the status.

  Two remarks on pointers.  \<open>toIndex\<close> points to the pod index inside the object, and decoding the
  reply of a patch writes through the pointers that exist, so \<open>*toIndex\<close> is what the object holds
  when it is read.  A panic travels as an error value along the error returns.
\<close>

section \<open>Assigning roles\<close>

definition ConfigurePrimary :: "env \<Rightarrow> sql_opts \<Rightarrow> int \<Rightarrow> int \<Rightarrow> goerr option op" where
  "ConfigurePrimary E client podIndex nextReplicationEpoch = do {
     doltdb \<leftarrow> get_db;
     r \<leftarrow> AssumeRole E client PrimaryRoleValue nextReplicationEpoch;
     ret (case r of
            Some err \<Rightarrow> Some (ErrV (''error configuring primary role and epoch '' @
                           show_int nextReplicationEpoch @ '' for pod '' @
                           PodName (db_meta doltdb) podIndex @ '': '') err)
          | None \<Rightarrow> None)
   }"

definition ConfigureReplica :: "env \<Rightarrow> sql_opts \<Rightarrow> int \<Rightarrow> int \<Rightarrow> goerr option op" where
  "ConfigureReplica E client podIndex nextReplicationEpoch = do {
     doltdb \<leftarrow> get_db;
     r \<leftarrow> AssumeRole E client StandbyRoleValue nextReplicationEpoch;
     ret (case r of
            Some err \<Rightarrow> Some (ErrV (''error configuring standby role and epoch '' @
                           show_int nextReplicationEpoch @ '' for pod '' @
                           PodName (db_meta doltdb) podIndex @ '': '') err)
          | None \<Rightarrow> None)
   }"

text \<open>
  The result is an index into the list of healthy standbys, as \<open>TransitionToStandby\<close> counts them.
\<close>

definition GetNextPrimary :: "env \<Rightarrow> sql_opts \<Rightarrow> int \<Rightarrow> (goerr + int) op" where
  "GetNextPrimary E client epoch = do {
     doltdb \<leftarrow> get_db;
     case status_CurrentPrimaryPodIndex (db_status doltdb) of
       None \<Rightarrow> ret (Inl (ErrNew (quoted ''status.currentPrimaryPodIndex'' @ '' must be set'')))
     | Some currentPrimary \<Rightarrow> do {
         repl \<leftarrow> call_Replication;
         let minCaughtUpStandbys =
           ptr_Deref (primary_MinCaughtUpStandbys (ReplPrimary doltdb)) (-1);
         let numStandbys = spec_Replicas (db_spec doltdb) - 1;
         if minCaughtUpStandbys = -1
         then ret (Inl (ErrNew ''minCaughtUpStandbys must be set to a value greater than -1''))
         else if minCaughtUpStandbys > numStandbys
         then ret (Inl (ErrNew ''minCaughtUpStandbys must be less than the number of standbys''))
         else do {
           h \<leftarrow> HealthyDoltDBStandbys E;
           case h of
             Inl err \<Rightarrow> ret (Inl (ErrV ''error getting healthy DoltDB standby replicas: '' err))
           | Inr healthyStandbys \<Rightarrow>
               if int (length healthyStandbys) < minCaughtUpStandbys
               then ret (Inl (ErrNew (''not enough healthy standbys to transition to primary: '' @
                        show_nat (length healthyStandbys) @ ''/'' @ show_int minCaughtUpStandbys)))
               else (case standby_hosts_loop doltdb healthyStandbys of
                 Inl err \<Rightarrow> ret (Inl err)
               | Inr hosts \<Rightarrow> do {
                   r \<leftarrow> TransitionToStandby E client epoch minCaughtUpStandbys hosts;
                   ret (case r of
                          Inl err \<Rightarrow>
                            Inl (ErrV (''error configuring transitioning primary '' @
                              show_int currentPrimary @
                              '' to standby and finding next primary at epoch '' @
                              show_int epoch @ '': '') err)
                        | Inr nextPrimary \<Rightarrow> Inr nextPrimary)
                 })
         }
       }
   }"

section \<open>The states of the servers\<close>

text \<open>A pod without a client keeps the zero state; a pod that does not answer keeps its error.\<close>

fun db_states_loop :: "env \<Rightarrow> int list \<Rightarrow> DBState list op" where
  "db_states_loop E [] = ret []"
| "db_states_loop E (i # is) = do {
     c \<leftarrow> ClientForIndex E i;
     st \<leftarrow> (case c of
              Inl _ \<Rightarrow> ret zero_DBState
            | Inr client \<Rightarrow> do { (dbState, err) \<leftarrow> GetDBState E client; ret dbState });
     rest \<leftarrow> db_states_loop E is;
     ret (st # rest)
   }"

definition GetDBStates :: "env \<Rightarrow> DBState list op" where
  "GetDBStates E = do { doltdb \<leftarrow> get_db; db_states_loop E (replica_ordinals doltdb) }"

definition currentPrimaryClient :: "env \<Rightarrow> (goerr + sql_opts) op" where
  "currentPrimaryClient E = do {
     doltdb \<leftarrow> get_db;
     case status_CurrentPrimaryPodIndex (db_status doltdb) of
       None \<Rightarrow> ret (Inl (ErrNew (quoted ''status.currentPrimaryPodIndex'' @ '' must be set'')))
     | Some index \<Rightarrow> do {
         r \<leftarrow> ClientForIndex E index;
         ret (case r of
                Inl err \<Rightarrow> Inl (ErrV ''error getting current primary client: '' err)
              | Inr client \<Rightarrow> Inr client)
       }
   }"

section \<open>Phases of a switchover\<close>

record doltClusterContext =
  ctx_states :: "DBState list"
  ctx_currentPrimary :: int
  ctx_nextEpoch :: int

definition shouldReconcileSwitchover :: "env \<Rightarrow> bool op" where
  "shouldReconcileSwitchover E = do {
     doltdb \<leftarrow> get_db;
     if IsResizingStorage E doltdb then ret False
     else case status_CurrentPrimaryPodIndex (db_status doltdb) of
       None \<Rightarrow> ret False
     | Some currentPodIndex \<Rightarrow> do {
         repl \<leftarrow> call_Replication;
         ret (currentPodIndex \<noteq> ptr_Deref (primary_PodIndex (ReplPrimary doltdb)) 0)
       }
   }"

fun mark_standby_loop :: "env \<Rightarrow> DoltDB \<Rightarrow> int list \<Rightarrow> goerr option op" where
  "mark_standby_loop E doltdb [] = ret None"
| "mark_standby_loop E doltdb (i # is) = do {
     r \<leftarrow> DoltDBPodRef E doltdb i;
     case r of
       Inl _ \<Rightarrow> mark_standby_loop E doltdb is
     | Inr doltPod \<Rightarrow> do {
         m \<leftarrow> MarkRoleStandby E doltPod;
         case m of
           Some err \<Rightarrow> ret (Some (ErrV (''error marking pod '' @ quoted (om_name (pod_meta doltPod)) @
                          '' role as standby to shift traffic away from primary: '') err))
         | None \<Rightarrow> mark_standby_loop E doltdb is
       }
   }"

definition shiftTrafficAwayFromPrimary :: "env \<Rightarrow> doltClusterContext \<Rightarrow> goerr option op" where
  "shiftTrafficAwayFromPrimary E doltCtx = do {
     doltdb \<leftarrow> get_db;
     k_Event ''PrimaryReadonly'' ''Shifting traffic away from primary'';
     mark_standby_loop E doltdb (replica_ordinals doltdb)
   }"

definition currentPrimaryReady :: "env \<Rightarrow> (goerr + (pod \<times> bool)) op" where
  "currentPrimaryReady E = do {
     doltdb \<leftarrow> get_db;
     case status_CurrentPrimaryPodIndex (db_status doltdb) of
       None \<Rightarrow> ret (Inl (ErrNew (quoted ''status.currentPrimaryPodIndex'' @ '' must be set'')))
     | Some index \<Rightarrow> IsDoltDBReplicaHealthy E index
   }"

text \<open>The part of \<open>setPrimaryReadOnly\<close> that runs with the client of the old primary.\<close>

definition transitionPrimary :: "env \<Rightarrow> doltClusterContext \<Rightarrow> sql_opts \<Rightarrow> goerr option op" where
  "transitionPrimary E doltCtx client = do {
     k_Event ''PrimaryReadonly'' ''Gracefully transitioning primary to standby with replication drain'';
     h \<leftarrow> StandbyHostFQDNs E;
     case h of
       Inl err \<Rightarrow> ret (Some (ErrV ''error resolving standby hosts for graceful transition: '' err))
     | Inr standbyHosts \<Rightarrow> do {
         r \<leftarrow> TransitionToStandby E client (ctx_nextEpoch doltCtx) 1 standbyHosts;
         ret (case r of
                Inr _ \<Rightarrow> None
              | Inl err \<Rightarrow>
                  if IsReadOnlyError err then None
                  else Some (ErrV ''error gracefully transitioning primary to standby: '' err))
       }
   }"

definition drainPrimary :: "env \<Rightarrow> doltClusterContext \<Rightarrow> sql_opts \<Rightarrow> goerr option op" where
  "drainPrimary E doltCtx client = do {
     re \<leftarrow> GetRoleAndEpoch E client;
     if (case re of Inr (r, _) \<Rightarrow> r = StandbyRoleValue | Inl _ \<Rightarrow> False) then ret None
     else transitionPrimary E doltCtx client
   }"

definition setPrimaryReadOnly :: "env \<Rightarrow> doltClusterContext \<Rightarrow> goerr option op" where
  "setPrimaryReadOnly E doltCtx = do {
     cr \<leftarrow> currentPrimaryReady E;
     case cr of
       Inl err \<Rightarrow> ret (Some (ErrV ''error getting current primary readiness: '' err))
     | Inr (_, ready) \<Rightarrow>
         if \<not> ready then ret None
         else do {
           c \<leftarrow> currentPrimaryClient E;
           case c of
             Inl err \<Rightarrow> ret (Some (ErrV ''error getting client for primary: '' err))
           | Inr client \<Rightarrow> do {
               doltdb \<leftarrow> get_db;
               r \<leftarrow> drainPrimary E doltCtx client;
               RemoveClientFromCache (ptr_Deref (status_CurrentPrimaryPodIndex (db_status doltdb)) 0);
               ret r
             }
         }
   }"

definition configureNewPrimary :: "env \<Rightarrow> doltClusterContext \<Rightarrow> goerr option op" where
  "configureNewPrimary E doltCtx = do {
     repl \<leftarrow> call_Replication;
     doltdb \<leftarrow> get_db;
     case primary_PodIndex (ReplPrimary doltdb) of
       None \<Rightarrow> ret (Some (ErrNew (''new primary '' @ quoted ''spec.replication.primary.podIndex'' @
                             '' must be set'')))
     | Some newPrimaryIndex \<Rightarrow> do {
         c \<leftarrow> ClientForIndex E newPrimaryIndex;
         case c of
           Inl err \<Rightarrow> ret (Some (ErrV ''error getting new primary SQL client: '' err))
         | Inr client \<Rightarrow> do {
             k_Event ''PrimaryNew'' (''Configuring new primary at index '' @
                                     quoted (show_int newPrimaryIndex));
             r \<leftarrow> AssumeRole E client PrimaryRoleValue (ctx_nextEpoch doltCtx);
             RemoveClientFromCache newPrimaryIndex;
             ret (case r of
                    Some err \<Rightarrow> Some (ErrV ''error configuring new primary: '' err)
                  | None \<Rightarrow> None)
           }
       }
   }"

definition shiftTrafficToNewPrimary :: "env \<Rightarrow> doltClusterContext \<Rightarrow> goerr option op" where
  "shiftTrafficToNewPrimary E doltCtx = do {
     h \<leftarrow> IsDoltDBReplicaHealthy E (ctx_currentPrimary doltCtx);
     case h of
       Inl err \<Rightarrow> ret (Some (ErrV ''error getting current primary readiness: '' err))
     | Inr (newPrimaryPod, ready) \<Rightarrow>
         if \<not> ready
         then ret (Some (ErrNew (''new primary '' @ quoted (om_name (pod_meta newPrimaryPod)) @
                            '' is not ready'')))
         else do {
           k_Event ''PrimaryReadonly'' ''Shifting traffic to primary'';
           m \<leftarrow> MarkRolePrimary E newPrimaryPod;
           ret (case m of
                  Some err \<Rightarrow> Some (ErrV (''error patching primary pod '' @
                      quoted (om_name (pod_meta newPrimaryPod)) @ '' to shift traffic to it: '') err)
                | None \<Rightarrow> None)
         }
   }"

section \<open>The switchover\<close>

type_synonym gracefulFailoverPhase = "string \<times> (doltClusterContext \<Rightarrow> goerr option op)"

definition switchoverPhases :: "env \<Rightarrow> gracefulFailoverPhase list" where
  "switchoverPhases E =
     [(''Shift traffic away from primary'', shiftTrafficAwayFromPrimary E),
      (''Set primary to readonly (standby)'', setPrimaryReadOnly E),
      (''Configure new primary'', configureNewPrimary E),
      (''Shift traffic to new primary'', shiftTrafficToNewPrimary E)]"

fun run_phases :: "doltClusterContext \<Rightarrow> gracefulFailoverPhase list \<Rightarrow> goerr option op" where
  "run_phases doltDBCtx [] = ret None"
| "run_phases doltDBCtx ((name, phase) # rest) = do {
     r \<leftarrow> phase doltDBCtx;
     case r of
       None \<Rightarrow> run_phases doltDBCtx rest
     | Some err \<Rightarrow>
         if IsNotFound err then ret (Some err)
         else ret (Some (ErrV (''error in '' @ quoted name @ '' switchover reconcile phase: '') err))
   }"

definition switching_patch :: "env \<Rightarrow> DoltDB \<Rightarrow> DoltDB" where
  "switching_patch E d =
     on_status (\<lambda>s. SetPrimarySwitching (SetCondition E) s d) (Replication_fill d)"

definition switched_patch :: "env \<Rightarrow> int \<Rightarrow> int \<Rightarrow> DoltDB \<Rightarrow> DoltDB" where
  "switched_patch E toIndex nextEpoch d =
     on_status (\<lambda>s. SetPrimarySwitched (SetCondition E)
                      (UpdateReplicationEpoch nextEpoch (UpdateCurrentPrimary d toIndex s))) d"

text \<open>When the servers do not agree on one primary, the status decides.\<close>

definition primaryAndEpochOrStatus :: "DoltDB \<Rightarrow> DBState list \<Rightarrow> int \<times> int" where
  "primaryAndEpochOrStatus doltdb dbstates =
     (case CurrentPrimaryAndEpoch doltdb dbstates of
        Inr pe \<Rightarrow> pe
      | Inl err \<Rightarrow> (ptr_Deref (status_CurrentPrimaryPodIndex (db_status doltdb)) 0,
                    ptr_Deref (status_ReplicationEpoch (db_status doltdb)) 0))"

text \<open>The three parts of \<open>reconcileSwitchover\<close>: reading, the guarded phases, and the record.\<close>

definition recordSwitchover :: "env \<Rightarrow> int \<Rightarrow> goerr option op" where
  "recordSwitchover E nextEpoch = do {
     doltdb \<leftarrow> get_db;
     let fromIndex = ptr_Deref (status_CurrentPrimaryPodIndex (db_status doltdb)) 0;
     let toIndex = ptr_Deref (primary_PodIndex (ReplPrimary doltdb)) 0;
     e \<leftarrow> PatchStatus E (switched_patch E toIndex nextEpoch);
     case e of
       Some err \<Rightarrow> ret (Some (ErrV ''error patching DoltDB status: '' err))
     | None \<Rightarrow> do {
         k_Event ''PrimarySwitched''
           (''Primary switched from index '' @ quoted (show_int fromIndex) @
            '' to index '' @ quoted (show_int toIndex));
         ret None
       }
   }"

definition performSwitchover :: "env \<Rightarrow> DBState list \<Rightarrow> goerr option op" where
  "performSwitchover E dbstates = do {
     doltdb \<leftarrow> get_db;
     let (currentPrimary, highestEpoch) = primaryAndEpochOrStatus doltdb dbstates;
     e \<leftarrow> PatchStatus E (switching_patch E);
     case e of
       Some err \<Rightarrow> ret (Some (ErrV ''error patching DoltDB status: '' err))
     | None \<Rightarrow> do {
         let doltDBCtx = \<lparr>ctx_states = dbstates, ctx_currentPrimary = currentPrimary,
                          ctx_nextEpoch = wrap64 (highestEpoch + 1)\<rparr>;
         r \<leftarrow> run_phases doltDBCtx (switchoverPhases E);
         case r of
           Some err \<Rightarrow> ret (Some err)
         | None \<Rightarrow> recordSwitchover E (ctx_nextEpoch doltDBCtx)
       }
   }"

definition reconcileSwitchover :: "env \<Rightarrow> goerr option op" where
  "reconcileSwitchover E = do {
     dbstates \<leftarrow> do { repl \<leftarrow> call_Replication; GetDBStates E };
     go \<leftarrow> shouldReconcileSwitchover E;
     if \<not> go then ret None else performSwitchover E dbstates
   }"

section \<open>The protocol of a switchover\<close>

text \<open>
  What the operator has seen of the old primary \<open>i\<close> before it promotes another pod: it was not
  ready, or it reported role standby, or it completed the transition to standby (or rejected it as
  already read-only).
\<close>

definition transition_done :: "goerr + transition_row rows \<Rightarrow> bool" where
  "transition_done reply =
     (case reply of
        Inl err \<Rightarrow> IsReadOnlyError err
      | Inr (rows, rowsErr) \<Rightarrow>
          (case scan_rows rows of
             Inl err \<Rightarrow> IsReadOnlyError err
           | Inr _ \<Rightarrow> (case rowsErr of None \<Rightarrow> True | Some err \<Rightarrow> IsReadOnlyError err)))"

definition released_by :: "env \<Rightarrow> object_meta \<Rightarrow> int \<Rightarrow> call list \<Rightarrow> call \<Rightarrow> bool" where
  "released_by E m i pre c =
     (case c of
        CGetPod k \<Rightarrow>
          k = pod_key m i \<and> (case env_GetPod E pre k of Inr p \<Rightarrow> \<not> PodReady p | Inl _ \<Rightarrow> False)
      | CSql co st \<Rightarrow>
          opt_Host co = pod_host E m i \<and>
          (case st of
             SelectRoleAndEpoch \<Rightarrow>
               (case env_RoleAndEpoch E pre co of
                  Inr (Inr (r, _) # _, _) \<Rightarrow> r = StandbyRoleValue
                | _ \<Rightarrow> False)
           | TransitionToStandbyStmt e n \<Rightarrow> transition_done (env_Transition E pre co e n)
           | _ \<Rightarrow> False)
      | _ \<Rightarrow> False)"

definition primary_released :: "env \<Rightarrow> object_meta \<Rightarrow> int \<Rightarrow> call list \<Rightarrow> bool" where
  "primary_released E m i h \<longleftrightarrow> (\<exists>pre c post. h = pre @ c # post \<and> released_by E m i pre c)"

lemma primary_released_append: "primary_released E m i h \<Longrightarrow> primary_released E m i (h @ t)"
  by (force simp: primary_released_def)

lemma primary_released_snoc: "released_by E m i h c \<Longrightarrow> primary_released E m i (h @ [c])"
  by (force simp: primary_released_def)

text \<open>
  The abstract protocol that the requests of a switchover from pod \<open>i\<close> to pod \<open>j\<close> at epoch \<open>e\<close>
  follow: mark the cluster as switching (the condition \<open>PrimarySwitched\<close> is set to false, the
  recorded primary and its epoch stay), take pods off the primary service, demote the old primary
  (unless that is not needed), promote the new one once the old one is released, put a pod back on
  the primary service if the promotion was acknowledged, record the outcome (and set the condition to true).  \<open>h\<close> is the history of requests before the step.
\<close>

datatype switch_phase = Idle | Switching | Demoted | Promoted | Refused | Routed | Recorded

definition assume_acked :: "goerr + int rows \<Rightarrow> bool" where
  "assume_acked reply =
     (case reply of
        Inr ([], None) \<Rightarrow> True
      | Inr (Inr status # _, _) \<Rightarrow> status = 0
      | _ \<Rightarrow> False)"

definition pod_role :: "pod \<Rightarrow> string option" where
  "pod_role p = map_of (om_labels (pod_meta p)) RoleLabel"

abbreviation switch_condition :: "cond_status \<Rightarrow> string \<Rightarrow> condition" where
  "switch_condition st msg \<equiv> Condition ConditionTypePrimarySwitched st ConditionReasonSwitchPrimary msg"

inductive switch_step ::
    "env \<Rightarrow> object_meta \<Rightarrow> int \<Rightarrow> int \<Rightarrow> int \<Rightarrow> call list \<Rightarrow> switch_phase \<Rightarrow> call \<Rightarrow> switch_phase \<Rightarrow> bool"
  for E m i j e where
  query: "is_query c \<Longrightarrow> switch_step E m i j e h p c p"
| mark: "status_CurrentPrimaryPodIndex (db_status n) = status_CurrentPrimaryPodIndex (db_status b) \<Longrightarrow>
    status_ReplicationEpoch (db_status n) = status_ReplicationEpoch (db_status b) \<Longrightarrow>
    status_Conditions (db_status n) = lib_SetStatusCondition E cs (switch_condition CondFalse msg) \<Longrightarrow>
    switch_step E m i j e h Idle (CPatchDoltDBStatus b n) Switching"
| unroute: "pod_role p' = Some StandbyRoleValue \<Longrightarrow>
    switch_step E m i j e h Switching (CPatchPod p p') Switching"
| demote: "opt_Host co = pod_host E m i \<Longrightarrow>
    switch_step E m i j e h Switching (CSql co (TransitionToStandbyStmt e 1)) Demoted"
| promote: "p = Switching \<or> p = Demoted \<Longrightarrow> opt_Host co = pod_host E m j \<Longrightarrow>
    primary_released E m i h \<Longrightarrow>
    q = (if assume_acked (env_AssumeRole E h co PrimaryRoleValue e) then Promoted else Refused) \<Longrightarrow>
    switch_step E m i j e h p (CSql co (AssumeClusterRole PrimaryRoleValue e)) q"
| route: "pod_role p' = Some PrimaryRoleValue \<Longrightarrow>
    switch_step E m i j e h Promoted (CPatchPod p p') Routed"
| finish: "status_CurrentPrimaryPodIndex (db_status n) = Some j \<Longrightarrow>
    status_CurrentPrimary (db_status n) = Some (PodName m j) \<Longrightarrow>
    status_ReplicationEpoch (db_status n) =
      Some (case status_ReplicationEpoch (db_status b) of None \<Rightarrow> e | Some cur \<Rightarrow> max cur e) \<Longrightarrow>
    status_Conditions (db_status n) = lib_SetStatusCondition E cs (switch_condition CondTrue msg) \<Longrightarrow>
    switch_step E m i j e h Routed (CPatchDoltDBStatus b n) Recorded"

inductive switch_path ::
    "env \<Rightarrow> object_meta \<Rightarrow> int \<Rightarrow> int \<Rightarrow> int \<Rightarrow> call list \<Rightarrow> switch_phase \<Rightarrow> call list \<Rightarrow> switch_phase \<Rightarrow> bool"
  for E m i j e where
  path_Nil: "switch_path E m i j e h p [] p"
| path_Cons: "switch_step E m i j e h p c q \<Longrightarrow> switch_path E m i j e (h @ [c]) q cs r \<Longrightarrow>
    switch_path E m i j e h p (c # cs) r"

inductive_cases switch_path_ConsE: "switch_path E m i j e h p (c # cs) r"

inductive_simps switch_step_simps:
  "switch_step E m i j e h p (CSql co (AssumeClusterRole r e')) q"
  "switch_step E m i j e h p (CSql co (TransitionToStandbyStmt e' n)) q"
  "switch_step E m i j e h p (CPatchDoltDBStatus b d) q"

lemma switch_path_append:
  "switch_path E m i j e h p cs q \<Longrightarrow> switch_path E m i j e (h @ cs) q ds r \<Longrightarrow>
   switch_path E m i j e h p (cs @ ds) r"
  by (induction rule: switch_path.induct) (auto intro: switch_path.intros)

lemma switch_path_single:
  "switch_step E m i j e h p c q \<Longrightarrow> switch_path E m i j e h p [c] q"
  by (blast intro: switch_path.intros)

lemma switch_path_queries: "list_all is_query cs \<Longrightarrow> switch_path E m i j e h p cs p"
  by (induction cs arbitrary: h) (auto intro: switch_path.intros switch_step.query)

lemma switch_path_split:
  "switch_path E m i j e h p (cs @ ds) r \<Longrightarrow>
   \<exists>q. switch_path E m i j e h p cs q \<and> switch_path E m i j e (h @ cs) q ds r"
proof (induction cs arbitrary: h p)
  case Nil
  then show ?case by (auto intro: switch_path.intros)
next
  case (Cons c cs)
  then obtain q where "switch_step E m i j e h p c q" "switch_path E m i j e (h @ [c]) q (cs @ ds) r"
    by (auto elim: switch_path_ConsE)
  with Cons.IH [of "h @ [c]" q] show ?case
    by (auto intro: switch_path.intros)
qed

text \<open>The rank of a phase never falls.\<close>

fun rank :: "switch_phase \<Rightarrow> nat" where
  "rank Idle = 0" | "rank Switching = 1" | "rank Demoted = 2" | "rank Promoted = 3"
| "rank Routed = 4" | "rank Recorded = 5" | "rank Refused = 5"

lemma switch_step_rank: "switch_step E m i j e h p c q \<Longrightarrow> rank p \<le> rank q"
  by (induction rule: switch_step.induct) auto

lemma switch_path_rank: "switch_path E m i j e h p cs q \<Longrightarrow> rank p \<le> rank q"
  by (induction rule: switch_path.induct) (auto dest: switch_step_rank)

definition is_role_stmt :: "call \<Rightarrow> bool" where
  "is_role_stmt c = (case c of
      CSql _ (AssumeClusterRole _ _) \<Rightarrow> True | CSql _ (TransitionToStandbyStmt _ _) \<Rightarrow> True
    | _ \<Rightarrow> False)"

lemma is_role_stmt_simps [simp]:
  "is_role_stmt (CSql co (AssumeClusterRole r e))" "is_role_stmt (CSql co (TransitionToStandbyStmt e n))"
  "\<not> is_role_stmt (CPatchPod p p')" "\<not> is_role_stmt (CPatchDoltDBStatus b d)"
  "is_query c \<Longrightarrow> \<not> is_role_stmt c"
  by (auto simp: is_role_stmt_def is_query_def is_read_def split: call.splits sql_stmt.splits)

text \<open>The role statements of a path: at most one demotion, then at most one promotion.\<close>

lemma switch_path_roles_late:
  "switch_path E m i j e h p cs q \<Longrightarrow> 3 \<le> rank p \<Longrightarrow> filter is_role_stmt cs = []"
proof (induction rule: switch_path.induct)
  case (path_Cons h p c q cs r)
  then show ?case
    using switch_step_rank [of E m i j e h p c q] by (auto elim: switch_step.cases)
qed simp

lemma switch_path_roles_demoted:
  "switch_path E m i j e h p cs q \<Longrightarrow> 2 \<le> rank p \<Longrightarrow>
   filter is_role_stmt cs = [] \<or>
   (\<exists>co. opt_Host co = pod_host E m j \<and>
      filter is_role_stmt cs = [CSql co (AssumeClusterRole PrimaryRoleValue e)])"
proof (induction rule: switch_path.induct)
  case (path_Cons h p c q cs r)
  from path_Cons.hyps(1) show ?case
    using path_Cons switch_path_roles_late [OF path_Cons.hyps(2)]
    by (cases rule: switch_step.cases) (auto split: if_splits)
qed simp

lemma switch_path_roles:
  "switch_path E m i j e h p cs q \<Longrightarrow>
   \<exists>ds as. filter is_role_stmt cs = ds @ as \<and>
     (ds = [] \<or> (\<exists>co. opt_Host co = pod_host E m i \<and> ds = [CSql co (TransitionToStandbyStmt e 1)])) \<and>
     (as = [] \<or> (\<exists>co. opt_Host co = pod_host E m j \<and>
                    as = [CSql co (AssumeClusterRole PrimaryRoleValue e)]))"
proof (induction rule: switch_path.induct)
  case (path_Cons h p c q cs r)
  from path_Cons.hyps(1) show ?case
  proof (cases rule: switch_step.cases)
    case (demote co)
    then show ?thesis
      using switch_path_roles_demoted [OF path_Cons.hyps(2)]
      by (intro exI [of _ "[c]"] exI [of _ "filter is_role_stmt cs"]) auto
  next
    case (promote co)
    then show ?thesis
      using switch_path_roles_late [OF path_Cons.hyps(2)]
      by (intro exI [of _ "[]"] exI [of _ "[c]"]) (auto split: if_splits)
  qed (use path_Cons.IH in auto)
qed simp

section \<open>The phases follow the protocol\<close>

text \<open>
  \<open>advances \<dots> p qs s s'\<close>: the requests made between two configurations follow the protocol from
  phase \<open>p\<close> to one of the phases \<open>qs\<close>; the object is the same up to defaults and the cache is
  consistent.
\<close>

definition advances ::
    "env \<Rightarrow> object_meta \<Rightarrow> int \<Rightarrow> int \<Rightarrow> int \<Rightarrow> switch_phase \<Rightarrow> switch_phase set \<Rightarrow>
     (call, dbst) cfg \<Rightarrow> (call, dbst) cfg \<Rightarrow> bool" where
  "advances E m i j e p qs s s' \<longleftrightarrow>
     (\<exists>t. trace s' = trace s @ t \<and> (\<exists>q \<in> qs. switch_path E m i j e (trace s) p t q)) \<and>
     eq_fill (the_db (obj s)) (the_db (obj s')) \<and> cache_ok E (obj s')"

lemma framed_advances:
  assumes "framed E is_query s s'" and "cache_ok E (obj s)" and "p \<in> qs"
  shows "advances E m i j e p qs s s'"
  using assms by (force simp: framed_def advances_def intro: switch_path_queries)

lemma advances_trans:
  assumes "advances E m i j e p qs s s'" and "\<And>q. q \<in> qs \<Longrightarrow> advances E m i j e q rs s' s''"
  shows "advances E m i j e p rs s s''"
proof -
  obtain t q where t: "trace s' = trace s @ t" "q \<in> qs" "switch_path E m i j e (trace s) p t q"
    using assms(1) by (auto simp: advances_def)
  obtain t' r where t': "trace s'' = trace s' @ t'" "r \<in> rs" "switch_path E m i j e (trace s') q t' r"
    using assms(2) [OF t(2)] by (auto simp: advances_def)
  have "switch_path E m i j e (trace s) p (t @ t') r"
    using switch_path_append t t' by simp
  with t t' have "\<exists>t. trace s'' = trace s @ t \<and> (\<exists>q \<in> rs. switch_path E m i j e (trace s) p t q)"
    by (intro exI [of _ "t @ t'"]) auto
  then show ?thesis
    using assms(1) assms(2) [OF t(2)] unfolding advances_def by (blast intro: eq_fill_trans)
qed

lemma advancesD:
  assumes "advances E m i j e p qs s s'"
  shows "eq_fill (the_db (obj s)) (the_db (obj s'))" "cache_ok E (obj s')"
  using assms by (simp_all add: advances_def)

lemma keeps_GetDBStates [keeps_intros]: "keeps E is_query (GetDBStates E)"
proof -
  have "keeps E is_query (db_states_loop E is)" for "is"
    by (induction "is") (auto intro!: keeps_intros)
  then show ?thesis
    unfolding GetDBStates_def by (intro keeps_intros)
qed

lemma keeps_switchover_basic [keeps_intros]:
  "keeps E is_query (shouldReconcileSwitchover E)"
  "keeps E is_query (currentPrimaryReady E)"
  "keeps E is_query (currentPrimaryClient E)"
  unfolding shouldReconcileSwitchover_def currentPrimaryReady_def currentPrimaryClient_def
  by (intro keeps_intros; simp)+

lemma pod_role_set_role_label [simp]: "pod_role (set_role_label r p) = Some r"
  by (simp add: pod_role_def set_role_label_def)

text \<open>Phase 1: every request is a query or takes a pod off the primary service.\<close>

definition is_unroute :: "call \<Rightarrow> bool" where
  "is_unroute c \<longleftrightarrow> is_query c \<or>
     (case c of CPatchPod _ p' \<Rightarrow> pod_role p' = Some StandbyRoleValue | _ \<Rightarrow> False)"

lemma is_unroute_query [simp]: "is_query c \<Longrightarrow> is_unroute c"
  by (simp add: is_unroute_def)

lemma switch_path_unroute:
  "list_all is_unroute cs \<Longrightarrow> switch_path E m i j e h Switching cs Switching"
proof (induction cs arbitrary: h)
  case (Cons c cs)
  then have "switch_step E m i j e h Switching c Switching"
    by (auto simp: is_unroute_def intro: switch_step.intros split: call.splits)
  with Cons show ?case
    by (auto intro: switch_path.intros)
qed (rule path_Nil)

lemma keeps_mark_standby: "keeps E is_unroute (mark_standby_loop E' d is)"
proof (induction "is")
  case (Cons i "is")
  have "keeps E is_unroute (DoltDBPodRef E' d i)"
    by (rule keeps_mono [OF keeps_resolver(1)]) simp
  moreover have "keeps E is_unroute (MarkRoleStandby E' p)" for p
    unfolding MarkRoleStandby_def MarkRole_def by (intro keeps_intros) (simp add: is_unroute_def)
  ultimately show ?case
    using Cons by (auto intro!: keeps_intros)
qed (auto intro: keeps_intros)

lemma shiftTrafficAway_wp:
  assumes "cache_ok E (obj s)"
  shows "wp (shiftTrafficAwayFromPrimary E ctx)
    (\<lambda>r. advances E m i j e Switching {Switching} s) s"
proof -
  have "keeps E is_unroute (shiftTrafficAwayFromPrimary E ctx)"
    unfolding shiftTrafficAwayFromPrimary_def by (intro keeps_intros keeps_mark_standby) simp_all
  then show ?thesis
    by (rule keeps_wp) (use assms in \<open>auto simp: framed_def advances_def intro: switch_path_unroute\<close>)
qed

text \<open>Phase 2: the old primary is drained, or needs no draining.\<close>

lemma wp_GetRoleAndEpoch:
  "wp (GetRoleAndEpoch E c) Q s =
     Q (case env_RoleAndEpoch E (trace s) c of
          Inl err \<Rightarrow> Inl (ErrW ''error querying DoltDB cluster_role and epoch: '' err)
        | Inr (Inl scanErr # _, _) \<Rightarrow> Inl scanErr
        | Inr (Inr re # _, _) \<Rightarrow> Inr re
        | Inr ([], None) \<Rightarrow>
            Inl (ErrNew ''querying DoltDB and epoch should have return values, but did not'')
        | Inr ([], Some err) \<Rightarrow> Inl err)
       (s\<lparr>trace := trace s @ [CSql c SelectRoleAndEpoch]\<rparr>)"
  by (simp add: GetRoleAndEpoch_def wp_simps)

lemma role_reply_standby:
  assumes "(case env_RoleAndEpoch E h c of
          Inl err \<Rightarrow> Inl (ErrW ''error querying DoltDB cluster_role and epoch: '' err)
        | Inr (Inl scanErr # _, _) \<Rightarrow> Inl scanErr
        | Inr (Inr re # _, _) \<Rightarrow> Inr re
        | Inr ([], None) \<Rightarrow>
            Inl (ErrNew ''querying DoltDB and epoch should have return values, but did not'')
        | Inr ([], Some err) \<Rightarrow> Inl err) = Inr (StandbyRoleValue, ep)"
    and "opt_Host c = pod_host E m i"
  shows "primary_released E m i (h @ [CSql c SelectRoleAndEpoch])"
  using assms
  by (intro primary_released_snoc)
    (auto simp: released_by_def split: sum.splits list.splits option.splits)

lemma framed_request:
  "is_query c \<Longrightarrow> framed E is_query s (s\<lparr>trace := trace s @ [c]\<rparr>)"
  by (simp add: framed_def)

lemma TransitionToStandby_wp:
  assumes "cache_ok E (obj s)" and "opt_Host c = pod_host E m i"
  shows "wp (TransitionToStandby E c e 1 hosts)
    (\<lambda>r s'. advances E m i j e Switching {Demoted} s s' \<and>
       ((case r of Inr _ \<Rightarrow> True | Inl err \<Rightarrow> IsReadOnlyError err) \<longrightarrow>
          primary_released E m i (trace s'))) s"
proof -
  let ?c = "CSql c (TransitionToStandbyStmt e 1)"
  have "advances E m i j e Switching {Demoted} s (s\<lparr>trace := trace s @ [?c]\<rparr>)"
    using assms by (auto simp: advances_def intro!: switch_path_single switch_step.demote)
  moreover have "primary_released E m i (trace s @ [?c])"
    if "transition_done (env_Transition E (trace s) c e 1)"
    using that assms by (intro primary_released_snoc) (simp add: released_by_def)
  ultimately show ?thesis
    by (auto simp: TransitionToStandby_def wp_simps transition_done_def
        split: sum.splits prod.splits option.splits)
qed

lemma transitionPrimary_wp:
  assumes ok: "cache_ok E (obj s)" and host: "opt_Host c = pod_host E m i"
  shows "wp (transitionPrimary E ctx c)
    (\<lambda>r s'. advances E m i j (ctx_nextEpoch ctx) Switching {Switching, Demoted} s s' \<and>
       (r = None \<longrightarrow> primary_released E m i (trace s'))) s"
  unfolding transitionPrimary_def wp_bind wp_k
proof (rule keeps_wp [OF keeps_health(6)])
  let ?e = "ctx_nextEpoch ctx"
  fix h s3
  assume s3: "framed E is_query (s\<lparr>trace := trace s @ [CEvent ''PrimaryReadonly''
     ''Gracefully transitioning primary to standby with replication drain'']\<rparr>) s3"
  have f: "framed E is_query s s3"
    by (rule framed_trans [OF framed_request s3]) simp
  then have ok3: "cache_ok E (obj s3)" using ok by (simp add: framed_def)
  have step: "advances E m i j ?e Switching {Demoted} s3 s4 \<Longrightarrow>
      advances E m i j ?e Switching {Switching, Demoted} s s4" for s4
    by (rule advances_trans [OF framed_advances [OF f ok, of Switching "{Switching}"]])
      (auto simp: advances_def)
  show "wp (case h of
         Inl err \<Rightarrow> ret (Some (ErrV ''error resolving standby hosts for graceful transition: '' err))
       | Inr standbyHosts \<Rightarrow> do {
           r \<leftarrow> TransitionToStandby E c ?e 1 standbyHosts;
           ret (case r of
                  Inr _ \<Rightarrow> None
                | Inl err \<Rightarrow>
                    if IsReadOnlyError err then None
                    else Some (ErrV ''error gracefully transitioning primary to standby: '' err))
         })
      (\<lambda>r s'. advances E m i j ?e Switching {Switching, Demoted} s s' \<and>
         (r = None \<longrightarrow> primary_released E m i (trace s'))) s3"
    using framed_advances [OF f ok, of Switching "{Switching, Demoted}"]
    by (auto simp: wp_simps split: sum.splits if_splits
        intro!: wp_mono [OF TransitionToStandby_wp [OF ok3 host, where j = j]] step)
qed

lemma drainPrimary_wp:
  assumes ok: "cache_ok E (obj s)" and host: "opt_Host c = pod_host E m i"
  shows "wp (drainPrimary E ctx c)
    (\<lambda>r s'. advances E m i j (ctx_nextEpoch ctx) Switching {Switching, Demoted} s s' \<and>
       (r = None \<longrightarrow> primary_released E m i (trace s'))) s"
proof -
  let ?e = "ctx_nextEpoch ctx"
  let ?s1 = "s\<lparr>trace := trace s @ [CSql c SelectRoleAndEpoch]\<rparr>"
  have f: "framed E is_query s ?s1" by (rule framed_request) simp
  have ok1: "cache_ok E (obj ?s1)" using ok by simp
  have step: "advances E m i j ?e Switching {Switching, Demoted} ?s1 s' \<Longrightarrow>
      advances E m i j ?e Switching {Switching, Demoted} s s'" for s'
    by (rule advances_trans [OF framed_advances [OF f ok, of Switching "{Switching}"]]) auto
  show ?thesis
    unfolding drainPrimary_def wp_bind wp_GetRoleAndEpoch wp_if wp_return
  proof (rule if_split [THEN iffD2], intro conjI impI)
    assume "case (case env_RoleAndEpoch E (trace s) c of
          Inl err \<Rightarrow> Inl (ErrW ''error querying DoltDB cluster_role and epoch: '' err)
        | Inr (Inl scanErr # _, _) \<Rightarrow> Inl scanErr
        | Inr (Inr re # _, _) \<Rightarrow> Inr re
        | Inr ([], None) \<Rightarrow>
            Inl (ErrNew ''querying DoltDB and epoch should have return values, but did not'')
        | Inr ([], Some err) \<Rightarrow> Inl err) of Inl _ \<Rightarrow> False | Inr (r, _) \<Rightarrow> r = StandbyRoleValue"
    then show "primary_released E m i (trace ?s1)"
      using role_reply_standby [OF _ host, where h = "trace s"] by (auto split: sum.splits prod.splits)
    show "advances E m i j ?e Switching {Switching, Demoted} s ?s1"
      by (rule framed_advances [OF f ok]) simp
  next
    show "wp (transitionPrimary E ctx c)
      (\<lambda>r s'. advances E m i j ?e Switching {Switching, Demoted} s s' \<and>
         (r = None \<longrightarrow> primary_released E m i (trace s'))) ?s1"
      by (rule wp_mono [OF transitionPrimary_wp [OF ok1 host, where j = j]]) (auto intro: step)
  qed
qed

lemma currentPrimaryReady_wp:
  assumes "status_CurrentPrimaryPodIndex (db_status (the_db (obj s))) = Some i"
    and "m = db_meta (the_db (obj s))"
  shows "wp (currentPrimaryReady E)
    (\<lambda>r s'. framed E is_query s s' \<and>
       (\<forall>p. r = Inr (p, False) \<longrightarrow> primary_released E m i (trace s'))) s"
proof -
  let ?c = "CGetPod (pod_key m i)"
  have "primary_released E m i (trace s @ [?c])"
    if "env_GetPod E (trace s) (pod_key m i) = Inr p" "\<not> PodReady p" for p
    using that by (intro primary_released_snoc) (simp add: released_by_def)
  then show ?thesis
    using assms
    by (auto simp: currentPrimaryReady_def IsDoltDBReplicaHealthy_def wp_simps framed_request
        pod_key_def split: sum.splits)
qed

lemma currentPrimaryClient_wp:
  assumes "status_CurrentPrimaryPodIndex (db_status (the_db (obj s))) = Some i"
    and "m = db_meta (the_db (obj s))" and "cache_ok E (obj s)"
  shows "wp (currentPrimaryClient E)
    (\<lambda>r s'. framed E is_query s s' \<and> (\<forall>c. r = Inr c \<longrightarrow> opt_Host c = pod_host E m i)) s"
  using assms
  by (auto simp: currentPrimaryClient_def wp_simps split: sum.splits
      intro!: wp_mono [OF ClientForIndex_wp])

text \<open>Frame facts between the configurations of a switchover.\<close>

lemma framedD:
  assumes "framed E is_query s s'"
  shows "db_meta (the_db (obj s')) = db_meta (the_db (obj s))"
    "db_status (the_db (obj s')) = db_status (the_db (obj s))"
    "ReplPrimary (the_db (obj s')) = ReplPrimary (the_db (obj s))"
    "cache_ok E (obj s) \<Longrightarrow> cache_ok E (obj s')"
    "primary_released E m i (trace s) \<Longrightarrow> primary_released E m i (trace s')"
  using assms eq_fillD by (auto simp: framed_def intro: primary_released_append)

lemma setPrimaryReadOnly_wp:
  assumes i: "status_CurrentPrimaryPodIndex (db_status (the_db (obj s))) = Some i"
    and m: "m = db_meta (the_db (obj s))" and ok: "cache_ok E (obj s)"
  shows "wp (setPrimaryReadOnly E ctx)
    (\<lambda>r s'. advances E m i j (ctx_nextEpoch ctx) Switching {Switching, Demoted} s s' \<and>
       (r = None \<longrightarrow> primary_released E m i (trace s'))) s"
  unfolding setPrimaryReadOnly_def wp_bind
proof (rule wp_mono [OF currentPrimaryReady_wp [OF i m]], goal_cases)
  case (1 cr s1)
  let ?e = "ctx_nextEpoch ctx"
  let ?Q = "\<lambda>r s'. advances E m i j ?e Switching {Switching, Demoted} s s' \<and>
       (r = None \<longrightarrow> primary_released E m i (trace s'))"
  from 1 have f1: "framed E is_query s s1" by simp
  have i1: "status_CurrentPrimaryPodIndex (db_status (the_db (obj s1))) = Some i"
    and m1: "m = db_meta (the_db (obj s1))" and ok1: "cache_ok E (obj s1)"
    using framedD [OF f1] i m ok by auto
  have adv: "framed E is_query s s' \<Longrightarrow> advances E m i j ?e Switching {Switching, Demoted} s s'" for s'
    by (rule framed_advances [OF _ ok]) simp_all
  have drain: "wp (drainPrimary E ctx c) (\<lambda>r. wp (RemoveClientFromCache k) (\<lambda>_. ?Q r)) s2"
    if f2: "framed E is_query s1 s2" and host: "opt_Host c = pod_host E m i" for c s2 k
  proof (rule wp_mono [OF drainPrimary_wp [OF framedD(4) [OF f2 ok1] host, where j = j]],
      rule keeps_wp [OF keeps_RemoveClientFromCache [of E is_query]], elim conjE)
    fix r s3 s4
    assume a: "advances E m i j ?e Switching {Switching, Demoted} s2 s3"
      and f4: "framed E is_query s3 s4" and r: "r = None \<longrightarrow> primary_released E m i (trace s3)"
    have s3: "advances E m i j ?e Switching {Switching, Demoted} s s3"
      by (rule advances_trans [OF framed_advances [OF framed_trans [OF f1 f2] ok, of Switching "{Switching}"]])
        (use a in auto)
    have "advances E m i j ?e Switching {Switching, Demoted} s s4"
      by (rule advances_trans [OF s3 framed_advances [OF f4 advancesD(2) [OF s3]]]) auto
    then show "?Q r s4"
      using r framedD(5) [OF f4] by simp
  qed
  show ?case
    using 1 adv [OF f1] adv [OF framed_trans [OF f1]] 
    by (auto simp: wp_if wp_bind wp_get_db wp_return split: sum.split
        intro!: wp_mono [OF currentPrimaryClient_wp [OF i1 m1 ok1]] drain)
qed

text \<open>Phase 3: the new primary is promoted at the next epoch.\<close>

lemma AssumePrimary_wp:
  assumes "cache_ok E (obj s)" and "opt_Host c = pod_host E m j" and "p = Switching \<or> p = Demoted"
    and "primary_released E m i (trace s)"
  shows "wp (AssumeRole E c PrimaryRoleValue e)
    (\<lambda>r. advances E m i j e p (if r = None then {Promoted} else {Refused}) s) s"
proof -
  let ?ack = "assume_acked (env_AssumeRole E (trace s) c PrimaryRoleValue e)"
  have "advances E m i j e p {if ?ack then Promoted else Refused} s
      (s\<lparr>trace := trace s @ [CSql c (AssumeClusterRole PrimaryRoleValue e)]\<rparr>)"
    using assms
    by (auto simp: advances_def intro!: switch_path_single switch_step.promote)
  then show ?thesis
    by (auto simp: AssumeRole_def wp_simps assume_acked_def
        split: sum.splits list.splits option.splits if_splits)
qed

lemma configureNewPrimary_wp:
  assumes ok: "cache_ok E (obj s)" and m: "m = db_meta (the_db (obj s))"
    and j: "primary_PodIndex (ReplPrimary (the_db (obj s))) = Some j"
    and p: "p = Switching \<or> p = Demoted" and rel: "primary_released E m i (trace s)"
  shows "wp (configureNewPrimary E ctx)
    (\<lambda>r. advances E m i j (ctx_nextEpoch ctx) p (if r = None then {Promoted} else {p, Refused}) s) s"
proof -
  let ?e = "ctx_nextEpoch ctx"
  let ?s0 = "s\<lparr>obj := (obj s)\<lparr>the_db := Replication_fill (the_db (obj s))\<rparr>\<rparr>"
  have f0: "framed E is_query s ?s0" by (rule framed_db)
  have step: "wp (AssumeRole E c PrimaryRoleValue ?e)
      (\<lambda>r. wp (RemoveClientFromCache j) (\<lambda>_. advances E m i j ?e p
         (if (case r of None \<Rightarrow> None | Some err \<Rightarrow> Some (ErrV ''error configuring new primary: '' err)) = None
          then {Promoted} else {p, Refused}) s))
      (s1\<lparr>trace := trace s1 @ [CEvent r' m']\<rparr>)"
    if f1: "framed E is_query ?s0 s1" and host: "opt_Host c = pod_host E m j" for c s1 r' m'
  proof -
    let ?s2 = "s1\<lparr>trace := trace s1 @ [CEvent r' m']\<rparr>"
    have f2: "framed E is_query s ?s2"
      by (rule framed_trans [OF framed_trans [OF f0 f1] framed_request]) simp
    have ok2: "cache_ok E (obj ?s2)" and rel2: "primary_released E m i (trace ?s2)"
      using framedD [OF f2] ok rel by auto
    show ?thesis
    proof (rule wp_mono [OF AssumePrimary_wp [OF ok2 host p rel2]],
        rule keeps_wp [OF keeps_RemoveClientFromCache [of E is_query]], goal_cases)
      case (1 r s3 a s4)
      have s3: "advances E m i j ?e p (if r = None then {Promoted} else {Refused}) s s3"
        by (rule advances_trans [OF framed_advances [OF f2 ok, of p "{p}"]]) (use 1 in auto)
      show ?case
        by (rule advances_trans [OF s3 framed_advances [OF 1(2) advancesD(2) [OF s3]]])
          (auto split: option.splits)
    qed
  qed
  have early: "advances E m i j ?e p {p, Refused} s s1" if "framed E is_query ?s0 s1" for s1
    by (rule framed_advances [OF framed_trans [OF f0 that] ok]) simp
  show ?thesis
    using j m ok early step [unfolded m]
    by (auto simp: configureNewPrimary_def wp_simps cache_ok_def split: sum.split
        intro!: wp_mono [OF ClientForIndex_wp])
qed

text \<open>Phase 4: a pod is put back on the primary service.\<close>

lemma shiftTrafficToNewPrimary_wp:
  assumes ok: "cache_ok E (obj s)"
  shows "wp (shiftTrafficToNewPrimary E ctx)
    (\<lambda>r. advances E m i j e Promoted (if r = None then {Routed} else {Promoted, Routed}) s) s"
  unfolding shiftTrafficToNewPrimary_def wp_bind
proof (rule keeps_wp [where E = E, OF keeps_health(4)], goal_cases)
  case (1 h s1)
  have adv: "advances E m i j e Promoted {Promoted, Routed} s s1"
    by (rule framed_advances [OF 1 ok]) simp
  have route: "advances E m i j e Promoted {Routed} s
      (s1\<lparr>trace := (trace s1 @ [CEvent r' m']) @ [CPatchPod q (set_role_label PrimaryRoleValue q)]\<rparr>)"
    for q r' m'
  proof -
    let ?s2 = "s1\<lparr>trace := trace s1 @ [CEvent r' m']\<rparr>"
    have f: "framed E is_query s ?s2"
      by (rule framed_trans [OF 1 framed_request]) simp
    have "advances E m i j e Promoted {Routed} ?s2
        (?s2\<lparr>trace := trace ?s2 @ [CPatchPod q (set_role_label PrimaryRoleValue q)]\<rparr>)"
      using framedD(4) [OF f ok]
      by (auto simp: advances_def intro!: switch_path_single switch_step.route)
    then show ?thesis
      using advances_trans [OF framed_advances [OF f ok, of Promoted "{Promoted}"]] by auto
  qed
  have event: "advances E m i j e Promoted {Promoted, Routed} s (s1\<lparr>trace := trace s1 @ [CEvent r' m']\<rparr>)"
    for r' m'
    by (rule framed_advances [OF framed_trans [OF 1 framed_request] ok]) simp_all
  have weaken: "advances E m i j e Promoted {Routed} s s' \<Longrightarrow>
      advances E m i j e Promoted {Promoted, Routed} s s'" for s'
    by (auto simp: advances_def)
  show ?case
    using adv route [simplified] event weaken
    by (auto simp: MarkRolePrimary_def MarkRole_def wp_simps split: sum.split option.split)
qed

section \<open>The whole switchover follows the protocol\<close>

lemma advances_weaken: "advances E m i j e p qs s s' \<Longrightarrow> qs \<subseteq> rs \<Longrightarrow> advances E m i j e p rs s s'"
  by (auto simp: advances_def)

lemma advances_UNIV: "advances E m i j e p qs s s' \<Longrightarrow> advances E m i j e p UNIV s s'"
  by (rule advances_weaken) simp_all

lemma run_phases_wp:
  assumes ok: "cache_ok E (obj s)" and m: "m = db_meta (the_db (obj s))"
    and i: "status_CurrentPrimaryPodIndex (db_status (the_db (obj s))) = Some i"
    and j: "primary_PodIndex (ReplPrimary (the_db (obj s))) = Some j"
    and e: "e = ctx_nextEpoch ctx"
  shows "wp (run_phases ctx (switchoverPhases E))
    (\<lambda>r. advances E m i j e Switching (if r = None then {Routed} else UNIV) s) s"
proof -
  note adv_all = advances_UNIV
  have four: "wp (shiftTrafficToNewPrimary E ctx)
      (\<lambda>r. advances E m i j e Switching (if r = None then {Routed} else UNIV) s) s3"
    if a3: "advances E m i j e Switching {Promoted} s s3" for s3
    by (rule wp_mono [OF shiftTrafficToNewPrimary_wp [OF advancesD(2) [OF a3]]],
        rule advances_trans [OF a3]) (auto intro: adv_all)
  have three: "wp (configureNewPrimary E ctx)
      (\<lambda>r s3. if r = None then advances E m i j e Switching {Promoted} s s3
              else advances E m i j e Switching UNIV s s3) s2"
    if a2: "advances E m i j e Switching {Switching, Demoted} s s2"
      and rel: "primary_released E m i (trace s2)" for s2
  proof -
    obtain t q where t: "trace s2 = trace s @ t" "q = Switching \<or> q = Demoted"
        "switch_path E m i j e (trace s) Switching t q"
      using a2 by (auto simp: advances_def)
    have aq: "advances E m i j e Switching {q} s s2"
      using a2 t by (auto simp: advances_def)
    have d2: "m = db_meta (the_db (obj s2))"
        "primary_PodIndex (ReplPrimary (the_db (obj s2))) = Some j"
      using eq_fillD [OF advancesD(1) [OF a2]] m j by simp_all
    show ?thesis
      unfolding e
      by (rule wp_mono [OF configureNewPrimary_wp [OF advancesD(2) [OF a2] d2 t(2) rel]])
        (auto intro: adv_all advances_trans [OF aq [unfolded e]] split: if_splits)
  qed
  have two: "wp (setPrimaryReadOnly E ctx)
      (\<lambda>r s2. advances E m i j e Switching {Switching, Demoted} s s2 \<and>
         (r = None \<longrightarrow> primary_released E m i (trace s2))) s1"
    if a1: "advances E m i j e Switching {Switching} s s1" for s1
  proof -
    have d1: "m = db_meta (the_db (obj s1))"
        "status_CurrentPrimaryPodIndex (db_status (the_db (obj s1))) = Some i"
      using eq_fillD [OF advancesD(1) [OF a1]] m i by simp_all
    show ?thesis
      unfolding e
      by (rule wp_mono [OF setPrimaryReadOnly_wp [OF d1(2,1) advancesD(2) [OF a1], where j = j]])
        (auto intro: advances_trans [OF a1 [unfolded e]])
  qed
  show ?thesis
    unfolding switchoverPhases_def run_phases.simps wp_bind
  proof (rule wp_mono [OF shiftTrafficAway_wp [OF ok, where m = m and i = i and j = j and e = e]],
      goal_cases)
    case (1 r1 s1)
    then show ?case
      by (auto simp: wp_simps split: option.split intro!: adv_all [OF 1] wp_mono [OF two]
          wp_mono [OF three] wp_mono [OF four] split: if_splits) (erule adv_all)+
  qed
qed

text \<open>
  The hypothesis that nobody else writes the status: the reply to a status patch carries the
  metadata and the status that were sent.  The specification may have been edited meanwhile.
\<close>

definition sole_status_writer :: "env \<Rightarrow> bool" where
  "sole_status_writer E \<longleftrightarrow>
     (\<forall>h b n d. env_PatchDoltDBStatus E h b n = Inr d \<longrightarrow>
        db_meta d = db_meta n \<and> db_status d = db_status n)"

lemma wp_PatchStatus [wp_simps]:
  "wp (PatchStatus E f) Q s =
     (let base = the_db (obj s); new = f base;
          s1 = s\<lparr>obj := (obj s)\<lparr>the_db := new\<rparr>,
                 trace := trace s @ [CPatchDoltDBStatus base new]\<rparr>
      in case env_PatchDoltDBStatus E (trace s) base new of
           Inl e \<Rightarrow> Q (Some e) s1
         | Inr d \<Rightarrow> Q None (s1\<lparr>obj := (obj s1)\<lparr>the_db := d\<rparr>\<rparr>))"
  by (simp add: PatchStatus_def wp_simps Let_def split: sum.split)

text \<open>The states of the servers as the switchover reads them.\<close>

definition observed_states :: "env \<Rightarrow> (call, dbst) cfg \<Rightarrow> DBState list" where
  "observed_states E s = fst (run_state (State_Monad.bind call_Replication (\<lambda>_. GetDBStates E)) s)"

definition next_epoch :: "env \<Rightarrow> (call, dbst) cfg \<Rightarrow> int" where
  "next_epoch E s =
     wrap64 (snd (primaryAndEpochOrStatus (the_db (obj s)) (observed_states E s)) + 1)"

text \<open>A run of the protocol, from the configuration before the switchover.\<close>

definition switchover_needed :: "'x lib_scheme \<Rightarrow> DoltDB \<Rightarrow> bool" where
  "switchover_needed E d \<longleftrightarrow> \<not> IsResizingStorage E d \<and>
     (\<exists>i. status_CurrentPrimaryPodIndex (db_status d) = Some i \<and>
          primary_PodIndex (ReplPrimary d) \<noteq> Some i)"

definition follows_protocol :: "env \<Rightarrow> (call, dbst) cfg \<Rightarrow> goerr option \<Rightarrow> (call, dbst) cfg \<Rightarrow> bool" where
  "follows_protocol E s r s' \<longleftrightarrow>
     (\<exists>t i j q. trace s' = trace s @ t \<and>
        switch_path E (db_meta (the_db (obj s))) i j (next_epoch E s) (trace s) Idle t q \<and>
        (if switchover_needed E (the_db (obj s))
         then status_CurrentPrimaryPodIndex (db_status (the_db (obj s))) = Some i \<and> q \<noteq> Idle \<and>
              (r = None \<longrightarrow> q = Recorded)
         else q = Idle \<and> r = None))"

lemma shouldReconcileSwitchover_wp:
  "wp (shouldReconcileSwitchover E)
     (\<lambda>go s'. framed E is_query s s' \<and> (go \<longleftrightarrow> switchover_needed E (the_db (obj s)))) s"
  using ReplPrimary_filled(1) [of "the_db (obj s)"]
  by (auto simp: shouldReconcileSwitchover_def switchover_needed_def wp_simps framed_db
      split: option.split)

lemma primaryAndEpochOrStatus_eq_fill:
  assumes "eq_fill d d'"
  shows "primaryAndEpochOrStatus d' states = primaryAndEpochOrStatus d states"
proof -
  have "primary_epoch_loop d' i c hi xs = primary_epoch_loop d i c hi xs" for i c hi xs
    by (induction xs arbitrary: i c hi) (simp_all add: eq_fillD [OF assms])
  then show ?thesis
    by (simp add: primaryAndEpochOrStatus_def CurrentPrimaryAndEpoch_def eq_fillD [OF assms]
        split: sum.split)
qed

lemma switchover_needed_eq_fill: "eq_fill d d' \<Longrightarrow> switchover_needed E d' = switchover_needed E d"
  by (simp add: switchover_needed_def IsResizingStorage_def eq_fillD)

lemma observed_states_wp:
  "wp (State_Monad.bind call_Replication (\<lambda>_. GetDBStates E))
     (\<lambda>st s'. framed E is_query s s' \<and> st = observed_states E s) s"
proof (rule wp_conj)
  have "keeps E is_query (State_Monad.bind call_Replication (\<lambda>_. GetDBStates E))"
    by (intro keeps_intros)
  then show "wp (State_Monad.bind call_Replication (\<lambda>_. GetDBStates E)) (\<lambda>_. framed E is_query s) s"
    by (simp add: keeps_def)
qed (simp add: observed_states_def wp_def split: prod.split)

lemma switch_path_patch:
  assumes "trace s' = trace s @ t" "switch_path E m i j e (trace s) p t q"
    and "switch_step E m i j e (trace s') q c r"
  shows "switch_path E m i j e (trace s) p (t @ [c]) r"
  using assms switch_path_append [OF assms(2) switch_path_single] by simp

lemma recordSwitchover_wp:
  assumes t: "trace s1 = trace s @ t" "switch_path E m i j e (trace s) Idle t Routed"
    and m: "m = db_meta (the_db (obj s1))"
    and j: "primary_PodIndex (ReplPrimary (the_db (obj s1))) = Some j"
  shows "wp (recordSwitchover E e)
    (\<lambda>r s'. \<exists>t. trace s' = trace s @ t \<and> switch_path E m i j e (trace s) Idle t Recorded) s1"
proof -
  let ?d = "the_db (obj s1)"
  let ?c = "CPatchDoltDBStatus ?d (switched_patch E j e ?d)"
  have step: "switch_step E m i j e (trace s1) Routed ?c Recorded"
    unfolding m by (rule switch_step.finish)
      (simp_all add: switched_patch_def SetPrimarySwitched_def UpdateReplicationEpoch_max SetCondition_def)
  have p1: "switch_path E m i j e (trace s) Idle (t @ [?c]) Recorded"
    by (rule switch_path_patch [OF t step])
  then have p2: "switch_path E m i j e (trace s) Idle (t @ [?c, CEvent r' m']) Recorded" for r' m'
    using switch_path_append [OF p1 switch_path_queries [of "[CEvent r' m']"]] by simp
  show ?thesis
    using t j p1 p2
    by (auto simp: recordSwitchover_def wp_simps Let_def split: sum.split)
qed

text \<open>Once the switchover is marked, the phases and the record follow the protocol.\<close>

lemma marked_switchover_wp:
  assumes i: "status_CurrentPrimaryPodIndex (db_status (the_db (obj s))) = Some i"
    and rs: "switchover_needed E (the_db (obj s))"
    and marked: "\<And>j. switch_path E (db_meta (the_db (obj s))) i j (next_epoch E s) (trace s) Idle u Switching"
    and s2: "trace s2 = trace s @ u" "db_meta (the_db (obj s2)) = db_meta (the_db (obj s))"
      "status_CurrentPrimaryPodIndex (db_status (the_db (obj s2))) = Some i" "cache_ok E (obj s2)"
    and ctx: "ctx_nextEpoch ctx = next_epoch E s" "e = next_epoch E s"
  shows "wp (run_phases ctx (switchoverPhases E))
    (\<lambda>r. wp (case r of Some err \<Rightarrow> ret (Some err) | None \<Rightarrow> recordSwitchover E e) (follows_protocol E s)) s2"
proof -
  let ?m = "db_meta (the_db (obj s))" and ?e = "next_epoch E s"
  obtain j where j: "primary_PodIndex (ReplPrimary (the_db (obj s2))) = Some j"
    using ReplPrimary_filled(1) by blast
  show ?thesis
  proof (rule wp_mono [OF run_phases_wp [OF s2(4) s2(2) [symmetric] s2(3) j ctx(1) [symmetric]]], goal_cases)
    case (1 r s3)
    then obtain t q where t: "trace s3 = trace s2 @ t" "switch_path E ?m i j ?e (trace s2) Switching t q"
        "r = None \<longrightarrow> q = Routed"
      by (auto simp: advances_def split: if_splits)
    then have path: "switch_path E ?m i j ?e (trace s) Idle (u @ t) q"
      using switch_path_append [OF marked [of j], of t q] s2(1) by simp
    have q: "q \<noteq> Idle"
      using switch_path_rank [OF t(2)] by auto
    have d3: "?m = db_meta (the_db (obj s3))" "primary_PodIndex (ReplPrimary (the_db (obj s3))) = Some j"
      using eq_fillD [OF advancesD(1) [OF 1]] s2(2) j by simp_all
    show ?case
    proof (cases r)
      case None
      have "wp (recordSwitchover E ?e) (follows_protocol E s) s3"
        by (rule wp_mono [OF recordSwitchover_wp [OF _ path [unfolded t(3) [rule_format, OF None]] d3]])
          (use i rs t s2 in \<open>auto simp: follows_protocol_def\<close>)
      then show ?thesis using None ctx(2) by simp
    next
      case (Some err)
      have "follows_protocol E s (Some err) s3"
        unfolding follows_protocol_def using i rs path t s2(1) q
        by (intro exI [of _ "u @ t"] exI [of _ i] exI [of _ j] exI [of _ q]) simp
      then show ?thesis using Some by (simp add: wp_simps)
    qed
  qed
qed

lemma performSwitchover_wp:
  assumes ok: "cache_ok E (obj s1)" and echo: "sole_status_writer E"
    and f: "framed E is_query s s1"
    and i: "status_CurrentPrimaryPodIndex (db_status (the_db (obj s))) = Some i"
    and rs: "switchover_needed E (the_db (obj s))"
  shows "wp (performSwitchover E (observed_states E s)) (follows_protocol E s) s1"
proof -
  let ?d = "the_db (obj s1)" and ?m = "db_meta (the_db (obj s))" and ?e = "next_epoch E s"
  let ?n = "switching_patch E ?d"
  let ?c = "CPatchDoltDBStatus ?d ?n"
  note fr = framedD [OF f]
  obtain t where t: "trace s1 = trace s @ t" "list_all is_query t"
    using f by (auto simp: framed_def)
  have n: "db_meta ?n = ?m"
      "status_CurrentPrimaryPodIndex (db_status ?n) = Some i"
      "status_CurrentPrimaryPodIndex (db_status ?d) = Some i"
      "status_ReplicationEpoch (db_status ?n) = status_ReplicationEpoch (db_status ?d)"
    using fr i by (simp_all add: switching_patch_def SetPrimarySwitching_def Let_def)
  obtain cs where c: "status_Conditions (db_status ?n) =
      lib_SetStatusCondition E cs (switch_condition CondFalse (switchingPrimaryMessage ?d))"
    by (simp add: switching_patch_def SetPrimarySwitching_def Let_def SetCondition_def)
  have p1: "switch_path E ?m i j ?e (trace s) Idle (t @ [?c]) Switching" for j
    by (rule switch_path_patch [OF t(1) switch_path_queries [OF t(2)] switch_step.mark [OF _ _ c]])
      (simp_all add: n)
  have epoch: "wrap64 (snd (primaryAndEpochOrStatus ?d (observed_states E s)) + 1) = ?e"
    using f primaryAndEpochOrStatus_eq_fill [of "the_db (obj s)" ?d]
    by (simp add: framed_def next_epoch_def)
  have fail: "follows_protocol E s (Some err) (s1\<lparr>obj := x, trace := trace s @ t @ [?c]\<rparr>)" for err x
    unfolding follows_protocol_def using p1 [of 0] i rs
    by (intro exI [of _ "t @ [?c]"] exI [of _ i] exI [of _ 0] exI [of _ Switching]) simp
  have patched: "db_meta d = ?m \<and> db_status d = db_status ?n"
    if "env_PatchDoltDBStatus E h ?d ?n = Inr d" for h d
    using that echo n(1) unfolding sole_status_writer_def by metis
  have cache: "cache_ok E ((obj s1)\<lparr>the_db := d\<rparr>)" if "db_meta d = ?m" for d
    using ok that fr by (simp add: cache_ok_def)
  show ?thesis
    using epoch
    by (auto simp: performSwitchover_def wp_simps Let_def fail t(1) n cache dest!: patched
        split: sum.split prod.split intro!: marked_switchover_wp [OF i rs p1])
qed

lemma reconcileSwitchover_wp:
  assumes ok: "cache_ok E (obj s)" and echo: "sole_status_writer E"
  shows "wp (reconcileSwitchover E) (follows_protocol E s) s"
  unfolding reconcileSwitchover_def
proof (subst wp_bind, rule wp_mono [OF observed_states_wp], elim conjE, hypsubst)
  fix s1
  assume f1: "framed E is_query s s1"
  have ok1: "cache_ok E (obj s1)" using framedD(4) [OF f1 ok] .
  show "wp (State_Monad.bind (shouldReconcileSwitchover E)
      (\<lambda>go. if \<not> go then ret None else performSwitchover E (observed_states E s)))
      (follows_protocol E s) s1"
    unfolding wp_bind
  proof (rule wp_mono [OF shouldReconcileSwitchover_wp], elim conjE)
    fix go s2
    assume f2: "framed E is_query s1 s2"
      and "go \<longleftrightarrow> switchover_needed E (the_db (obj s1))"
    then have go: "go \<longleftrightarrow> switchover_needed E (the_db (obj s))"
      using f1 switchover_needed_eq_fill [of "the_db (obj s)" "the_db (obj s1)"] by (simp add: framed_def)
    have f: "framed E is_query s s2" by (rule framed_trans [OF f1 f2])
    show "wp (if \<not> go then ret None else performSwitchover E (observed_states E s))
        (follows_protocol E s) s2"
    proof (cases go)
      case True
      then obtain i where i: "status_CurrentPrimaryPodIndex (db_status (the_db (obj s))) = Some i"
        using go by (auto simp: switchover_needed_def)
      from performSwitchover_wp [OF framedD(4) [OF f2 ok1] echo f i] True go show ?thesis by simp
    next
      case False
      obtain t where "trace s2 = trace s @ t" "list_all is_query t"
        using f by (auto simp: framed_def)
      then have "follows_protocol E s None s2"
        unfolding follows_protocol_def using False go switch_path_queries by auto
      then show ?thesis using False by (simp add: wp_simps)
    qed
  qed
qed

end
