(* ===== verification/Reference_Env.thy ===== *)
theory Reference_Env
  imports Dolt_Model
begin

text \<open>
  A concrete environment in which the properties of the development are exercised: a library that
  keeps its contract, an API server that answers every write with the object it was sent, three
  ready pods \<open>dolt-0\<close>, \<open>dolt-1\<close>, \<open>dolt-2\<close>, and Dolt servers that accept every statement.
\<close>

definition ref_meta :: "string \<Rightarrow> object_meta" where
  "ref_meta n = zero_meta\<lparr>om_name := n, om_namespace := ''ns'', om_labels := [(appLabel, ''dolt'')]\<rparr>"

definition ref_pod :: "string \<Rightarrow> pod" where
  "ref_pod n = \<lparr>pod_meta = ref_meta n,
     pod_conditions = [\<lparr>pc_type = ''Ready'', pc_status = CondTrue\<rparr>], pod_ip = [], pod_node = []\<rparr>"

definition ref_server :: ServerSpec where
  "ref_server = \<lparr>server_EnablePProf = False, server_AutoGCEnable = False, server_LogLevel = ''info'',
     server_Metrics = None,
     server_Listener = \<lparr>listener_Host = ''0.0.0.0'', listener_Port = 3306,
                        listener_MaxConnections = 128\<rparr>,
     server_RemotesAPIPort = 50051, server_MCPServer = None\<rparr>"

definition ref_spec :: "int \<Rightarrow> int \<Rightarrow> DoltDBSpec" where
  "ref_spec replicas primary = \<lparr>spec_EngineVersion = ''1.43.0'', spec_ServiceAccountName = None,
     spec_ServiceAccountAnnotations = [], spec_Image = ''dolthub/dolt'', spec_ImagePullSecrets = [],
     spec_PodSecurityContext = [], spec_PodAnnotations = [], spec_Affinity = None,
     spec_Tolerations = [], spec_NodeSelector = [], spec_PodDisruptionBudget = None,
     spec_Resources = None,
     spec_Storage = \<lparr>storage_Size = Some ''10Gi'', storage_StorageClassName = None,
        storage_ResizeInUseVolumes = Some True, storage_WaitForVolumeResize = Some True,
        storage_RetentionPolicy = None, storage_VolumeSnapshot = []\<rparr>,
     spec_Replicas = replicas, spec_MaxConnections = None, spec_ReplicationStrategy = [],
     spec_AutoMinorVersionUpgrade = None,
     spec_UpdateStrategy = ReplicasFirstPrimaryLastUpdateType,
     spec_Replication = Some \<lparr>repl_Enabled = True,
        repl_Primary = Some \<lparr>primary_PodIndex = Some primary, primary_AutomaticFailover = Some True,
                             primary_MinCaughtUpStandbys = Some 1\<rparr>\<rparr>,
     spec_TerminationGracePeriodSeconds = None, spec_TopologySpreadConstrains = [],
     spec_Probes = \<lparr>probes_Liveness = None, probes_Readiness = None\<rparr>,
     spec_Server = ref_server,
     spec_GlobalConfig = \<lparr>global_DisableClientUsageMetricsCollection = None,
        global_CommitAuthor = \<lparr>author_Name = [], author_Email = []\<rparr>\<rparr>,
     spec_Env = []\<rparr>"

definition ref_status :: "int option \<Rightarrow> int option \<Rightarrow> DoltDBStatus" where
  "ref_status current epoch = \<lparr>status_Conditions = [], status_CurrentPrimaryPodIndex = current,
     status_CurrentPrimary = None, status_Replicas = 3, status_ReplicationStatus = None,
     status_ReplicationEpoch = epoch\<rparr>"

text \<open>A cluster of three pods whose current primary is pod 0 and whose desired primary is pod 1.\<close>

definition ref_db :: DoltDB where
  "ref_db = \<lparr>db_meta = ref_meta ''dolt'', db_spec = ref_spec 3 1, db_status = ref_status (Some 0) (Some 4)\<rparr>"

definition ref_cfg :: "DoltDB \<Rightarrow> (call, dbst) cfg" where
  "ref_cfg d = \<lparr>trace = [], obj = \<lparr>the_db = d, clients = []\<rparr>\<rparr>"

definition ref_env :: env where
  "ref_env = \<lparr>
     lib_SetStatusCondition = ref_set_condition,
     lib_FindStatusCondition = ref_find_condition,
     lib_IsStatusConditionTrue = ref_is CondTrue,
     lib_IsStatusConditionFalse = ref_is CondFalse,
     lib_SetControllerReference = (\<lambda>owner m. Inr (m\<lparr>om_owner_uids := [om_uid owner]\<rparr>)),
     lib_QuantityCmp = (\<lambda>a b. if a = b then 0 else if a < b then -1 else 1),
     lib_YamlMarshal = (\<lambda>c. Inr (config_LogLevel c)),
     lib_Sha256Hex = (\<lambda>x. x),
     lib_UrlParse = (\<lambda>u. Inr (u, u)),
     lib_ClusterNameVar = [],
     env_GetDoltDB = (\<lambda>h k. Inr ref_db),
     env_GetSts = (\<lambda>h k. Inr (zero_sts\<lparr>sts_replicas := Some 3, sts_status_replicas := 3,
                                        sts_ready_replicas := 3\<rparr>)),
     env_GetPod = (\<lambda>h k. Inr (ref_pod (nn_name k))),
     env_GetConfigMap = (\<lambda>h k. Inl (ApiErr NotFound [])),
     env_GetService = (\<lambda>h k. Inl (ApiErr NotFound [])),
     env_GetPDB = (\<lambda>h k. Inl (ApiErr NotFound [])),
     env_GetSecret = (\<lambda>h k. Inr \<lparr>sec_meta = ref_meta (nn_name k),
                        sec_data = [(''admin-password'', ''pw''), (''admin-user'', ''root'')]\<rparr>),
     env_GetServiceAccount = (\<lambda>h k. Inl (ApiErr NotFound [])),
     env_GetRole = (\<lambda>h k. Inl (ApiErr NotFound [])),
     env_GetRoleBinding = (\<lambda>h k. Inl (ApiErr NotFound [])),
     env_GetClusterRoleBinding = (\<lambda>h k. Inl (ApiErr NotFound [])),
     env_ListPods = (\<lambda>h ns sel. Inr [ref_pod ''dolt-0'', ref_pod ''dolt-1'', ref_pod ''dolt-2'']),
     env_ListPVCs = (\<lambda>h ns sel. Inr []),
     env_ListEndpointSlices = (\<lambda>h ns svc. Inr [\<lparr>es_ports = [Some 3306],
                                  es_ready = [Some True, Some True, Some True]\<rparr>]),
     env_Write = (\<lambda>h c. None),
     env_PatchDoltDB = (\<lambda>h b n. Inr n),
     env_PatchDoltDBStatus = (\<lambda>h b n. Inr n),
     env_SqlOpen = (\<lambda>h c. None),
     env_SqlClose = (\<lambda>h c. None),
     env_AssumeRole = (\<lambda>h c r e. Inr ([Inr 0], None)),
     env_Transition = (\<lambda>h c e n. Inr ([Inr \<lparr>tr_CaughtUp = 1, tr_Database = ''db'',
        tr_Remote = ''dolt-1'', tr_RemoteURL = ''dolt-1''\<rparr>], None)),
     env_RoleAndEpoch = (\<lambda>h c. Inr ([Inr (if take 6 (opt_Host c) = ''dolt-0'' then PrimaryRoleValue
                                          else StandbyRoleValue, 4)], None)),
     env_ClusterStatus = (\<lambda>h c. Inr ([Inr \<lparr>ds_Database = ''db'', ds_Role = ''standby'', ds_Epoch = 4,
        ds_Remote = ''dolt-0'', ds_ReplicationLag = Some 0, ds_LastUpdate = Some 7,
        ds_CurrentError = None\<rparr>], None)),
     env_Version = (\<lambda>h c. Inr (Inr ''1.43.0'')),
     env_MapRange = (\<lambda>h m. m),
     env_PollRounds = (\<lambda>h. 60)\<rparr>"

lemma ref_env_contract: "condition_library ref_env"
  by (rule keeps_contract_library) (simp add: keeps_contract_def ref_env_def)

interpretation ref: condition_library ref_env
  by (rule ref_env_contract)

lemma PodIndex_dolt [simp]:
  "PodIndex ''dolt-0'' = Inr 0" "PodIndex ''dolt-1'' = Inr 1" "PodIndex ''dolt-2'' = Inr 2"
  by (simp_all add: PodIndex_def Atoi_def is_digit_def in_int64_def)

end
