(* ===== verification/Switchover_Properties.thy ===== *)
theory Switchover_Properties
  imports Switchover Reference_Env
begin

text \<open>
  The properties of a switchover, derived from the refinement of the protocol, with their instances
  in the reference environment.
\<close>

section \<open>Consequences of the protocol\<close>

lemma switch_path_Refused: "switch_path E m i j e h p cs q \<Longrightarrow> p = Refused \<Longrightarrow> q = Refused"
  by (induction rule: switch_path.induct) (auto elim: switch_step.cases)

text \<open>A path that reaches \<open>Promoted\<close> or beyond contains an acknowledged promotion.\<close>

lemma switch_path_acked:
  "switch_path E m i j e h p cs q \<Longrightarrow> rank p < 3 \<Longrightarrow> q \<in> {Promoted, Routed, Recorded} \<Longrightarrow>
   \<exists>pre co post. cs = pre @ CSql co (AssumeClusterRole PrimaryRoleValue e) # post \<and>
     opt_Host co = pod_host E m j \<and> assume_acked (env_AssumeRole E (h @ pre) co PrimaryRoleValue e)"
proof (induction rule: switch_path.induct)
  case (path_Nil h p)
  then show ?case by auto
next
  case (path_Cons h p c p' cs q)
  show ?case
  proof (cases "rank p' < 3")
    case True
    then obtain pre co post where
      "cs = pre @ CSql co (AssumeClusterRole PrimaryRoleValue e) # post" "opt_Host co = pod_host E m j"
      "assume_acked (env_AssumeRole E (h @ c # pre) co PrimaryRoleValue e)"
      using path_Cons by auto
    then show ?thesis
      by (intro exI [of _ "c # pre"] exI [of _ co] exI [of _ post]) simp
  next
    case False
    have "p' \<noteq> Refused"
      using switch_path_Refused [OF path_Cons.hyps(2)] path_Cons.prems(2) by auto
    with path_Cons.hyps(1) path_Cons.prems(1) False
    obtain co where "c = CSql co (AssumeClusterRole PrimaryRoleValue e)" "opt_Host co = pod_host E m j"
        "assume_acked (env_AssumeRole E h co PrimaryRoleValue e)"
      by (cases rule: switch_step.cases) (auto split: if_splits)
    then show ?thesis
      by (intro exI [of _ "[]"] exI [of _ co] exI [of _ cs]) simp
  qed
qed

lemma switch_path_to_Idle:
  "switch_path E m i j e h p cs q \<Longrightarrow> q = Idle \<Longrightarrow> p = Idle \<and> list_all is_query cs"
  by (induction rule: switch_path.induct) (auto elim: switch_step.cases split: if_splits)

lemma switch_path_from_Idle:
  "switch_path E m i j e h p cs q \<Longrightarrow> p = Idle \<Longrightarrow> q \<noteq> Idle \<Longrightarrow>
   \<exists>b n. CPatchDoltDBStatus b n \<in> set cs"
proof (induction rule: switch_path.induct)
  case (path_Cons h p c p' cs q)
  from path_Cons.hyps(1) path_Cons.prems(1) show ?case
    by (cases rule: switch_step.cases) (use path_Cons in auto)
qed simp

lemma switch_path_finish:
  "switch_path E m i j e h p cs q \<Longrightarrow> p \<noteq> Recorded \<Longrightarrow> q = Recorded \<Longrightarrow>
   \<exists>t1 b n t2. cs = t1 @ CPatchDoltDBStatus b n # t2 \<and> switch_path E m i j e h p t1 Routed"
proof (induction rule: switch_path.induct)
  case (path_Cons h p c p' cs q)
  show ?case
  proof (cases "p' = Recorded")
    case True
    with path_Cons.hyps(1) path_Cons.prems(1) show ?thesis
      by (cases rule: switch_step.cases)
        (auto split: if_splits intro!: exI [of _ "[]"] path_Nil)
  next
    case False
    with path_Cons obtain t1 b n t2 where "cs = t1 @ CPatchDoltDBStatus b n # t2"
        "switch_path E m i j e (h @ [c]) p' t1 Routed" by blast
    then have "c # cs = (c # t1) @ CPatchDoltDBStatus b n # t2"
        "switch_path E m i j e h p (c # t1) Routed"
      using path_Cons.hyps(1) by (auto intro: switch_path.path_Cons)
    then show ?thesis by blast
  qed
qed simp

lemma switchover_run:
  assumes "cache_ok E (obj s)" and "sole_status_writer E"
    and "run_state (reconcileSwitchover E) s = (r, s')"
  obtains t i j q where "trace s' = trace s @ t"
    and "switch_path E (db_meta (the_db (obj s))) i j (next_epoch E s) (trace s) Idle t q"
    and "q \<noteq> Idle \<longrightarrow> status_CurrentPrimaryPodIndex (db_status (the_db (obj s))) = Some i"
    and "switchover_needed E (the_db (obj s)) \<and> r = None \<longrightarrow> q = Recorded"
  using wpI [OF reconcileSwitchover_wp [OF assms(1,2)] assms(3)]
  unfolding follows_protocol_def by (auto split: if_splits)

lemma path_at:
  assumes "switch_path E m i j e h Idle (t1 @ c # t2) q"
  obtains p p' where "switch_path E m i j e h Idle t1 p" "switch_step E m i j e (h @ t1) p c p'"
    "switch_path E m i j e (h @ t1 @ [c]) p' t2 q" "rank p' \<le> rank q"
proof -
  obtain p where p: "switch_path E m i j e h Idle t1 p" "switch_path E m i j e (h @ t1) p (c # t2) q"
    using switch_path_split [OF assms] by blast
  from p(2) obtain p' where
    "switch_step E m i j e (h @ t1) p c p'" "switch_path E m i j e ((h @ t1) @ [c]) p' t2 q"
    by (rule switch_path_ConsE)
  with p switch_path_rank [of E m i j e _ p' t2 q] show thesis using that by auto
qed

section \<open>Instances\<close>

lemma ref_cache_ok: "cache_ok E (obj (ref_cfg d))"
  by (simp add: cache_ok_def ref_cfg_def)

lemma ref_sole_writer: "sole_status_writer ref_env"
  by (simp add: sole_status_writer_def ref_env_def)

section \<open>A switchover against servers that answer completes\<close>

text \<open>
  An environment that answers: the credentials can be read, connections open, every pod is there,
  ready and labelled, writes and status patches succeed, promotions are acknowledged, and the
  servers report role standby, as they do once the old primary has been drained.
\<close>

definition connects :: "env \<Rightarrow> bool" where
  "connects E \<longleftrightarrow>
     (\<forall>h k. \<exists>sec. env_GetSecret E h k = Inr sec \<and>
        map_of (sec_data sec) ''admin-password'' \<noteq> None \<and> map_of (sec_data sec) ''admin-user'' \<noteq> None) \<and>
     (\<forall>h c. env_SqlOpen E h c = None)"

definition answers :: "env \<Rightarrow> bool" where
  "answers E \<longleftrightarrow> connects E \<and>
     (\<forall>h k. \<exists>p. env_GetPod E h k = Inr p \<and> PodReady p \<and> om_labels (pod_meta p) \<noteq> []) \<and>
     (\<forall>h c. env_Write E h c = None) \<and>
     (\<forall>h b n. env_PatchDoltDBStatus E h b n = Inr n) \<and>
     (\<forall>h c r e. assume_acked (env_AssumeRole E h c r e)) \<and>
     (\<forall>h c. \<exists>e rest err. env_RoleAndEpoch E h c = Inr (Inr (StandbyRoleValue, e) # rest, err))"

text \<open>A cluster whose recorded and desired primaries are pods of the set, reached at a port.\<close>

definition well_formed :: "DoltDB \<Rightarrow> bool" where
  "well_formed d \<longleftrightarrow>
     listener_Port (server_Listener (spec_Server (db_spec d))) \<noteq> 0 \<and>
     (\<forall>i. status_CurrentPrimaryPodIndex (db_status d) = Some i \<longrightarrow>
        0 \<le> i \<and> i < spec_Replicas (db_spec d)) \<and>
     (\<forall>j. primary_PodIndex (ReplPrimary d) = Some j \<longrightarrow> 0 \<le> j \<and> j < spec_Replicas (db_spec d))"

lemma well_formed_eq_fill: "eq_fill d d' \<Longrightarrow> well_formed d' = well_formed d"
  by (simp add: well_formed_def eq_fillD)

lemma DoltSelector_eq_fill: "eq_fill d d' \<Longrightarrow> DoltSelector d' = DoltSelector d"
  by (simp add: DoltSelector_def eq_fillD WithDoltSelectorLabels_def)

lemma connects_secret:
  assumes "connects E"
  shows "wp (SecretKeyRefValue E (RootPasswordSecretKeyRef d) ns) (\<lambda>r _. \<exists>v. r = Inr v) s"
    and "wp (SecretKeyRefValue E (RootUserSecretKeyRef d) ns) (\<lambda>r _. \<exists>v. r = Inr v) s"
proof -
  obtain sec where "env_GetSecret E (trace s) (nn (om_name (db_meta d) @ ''-credentials'') ns) = Inr sec"
      "map_of (sec_data sec) ''admin-password'' \<noteq> None" "map_of (sec_data sec) ''admin-user'' \<noteq> None"
    using assms unfolding connects_def by blast
  then show "wp (SecretKeyRefValue E (RootPasswordSecretKeyRef d) ns) (\<lambda>r _. \<exists>v. r = Inr v) s"
    and "wp (SecretKeyRefValue E (RootUserSecretKeyRef d) ns) (\<lambda>r _. \<exists>v. r = Inr v) s"
    by (auto simp: SecretKeyRefValue_def wp_simps RootPasswordSecretKeyRef_def RootUserSecretKeyRef_def)
qed

lemma connects_internal_client:
  assumes "connects E" and "well_formed (the_db (obj s))"
  shows "wp (NewInternalClientWithPodIndex E i) (\<lambda>r _. \<exists>c. r = Inr c) s"
proof -
  have opens: "env_SqlOpen E h c = None" for h c
    using assms(1) by (simp add: connects_def)
  show ?thesis
    using assms(2) unfolding NewInternalClientWithPodIndex_def NewClientWithDoltDB_def
    by (auto simp: wp_simps NewClient_def BuildDSN_def opens well_formed_def WithUsername_def
        WithPassword_def WitHost_def WithSqlPort_def zero_opts_def PodFQDNWithService_def PodName_def
        Let_def intro!: wp_mono [OF connects_secret(1) [OF assms(1)]]
        wp_mono [OF connects_secret(2) [OF assms(1)]])
qed

lemma connects_client:
  assumes "connects E" and "well_formed (the_db (obj s))"
    and "0 \<le> i" "i < spec_Replicas (db_spec (the_db (obj s)))"
  shows "wp (ClientForIndex E i) (\<lambda>r s'. framed E is_query s s' \<and> (\<exists>c. r = Inr c)) s"
proof (rule wp_conj)
  show "wp (ClientForIndex E i) (\<lambda>_. framed E is_query s) s"
    using keeps_ClientForIndex by (simp add: keeps_def)
  have valid: "validateIndex (the_db (obj s)) i = None"
    using assms(3,4) by (simp add: validateIndex_def)
  show "wp (ClientForIndex E i) (\<lambda>r _. \<exists>c. r = Inr c) s"
    by (auto simp: ClientForIndex_def wp_simps valid split: option.split
        intro!: wp_mono [OF connects_internal_client [OF assms(1,2)]])
qed

lemma answers_connects: "answers E \<Longrightarrow> connects E"
  by (simp add: answers_def)

definition labelled :: "env \<Rightarrow> bool" where
  "labelled E \<longleftrightarrow>
     (\<forall>h k. \<exists>p. env_GetPod E h k = Inr p \<and> om_labels (pod_meta p) \<noteq> []) \<and> (\<forall>h c. env_Write E h c = None)"

lemma answers_labelled: "answers E \<Longrightarrow> labelled E"
  unfolding answers_def labelled_def by blast

text \<open>\<open>completes\<close>: the phase succeeds and keeps the object up to defaults.\<close>

definition completes :: "env \<Rightarrow> goerr option op \<Rightarrow> bool" where
  "completes E p \<longleftrightarrow>
     (\<forall>s. well_formed (the_db (obj s)) \<longrightarrow> status_CurrentPrimaryPodIndex (db_status (the_db (obj s))) \<noteq> None \<longrightarrow>
        wp p (\<lambda>r s'. r = None \<and> eq_fill (the_db (obj s)) (the_db (obj s'))) s)"

lemma completesD:
  assumes "completes E p" and "well_formed d" and "status_CurrentPrimaryPodIndex (db_status d) \<noteq> None"
    and "eq_fill d (the_db (obj s))"
  shows "wp p (\<lambda>r s'. r = None \<and> eq_fill d (the_db (obj s'))) s"
proof -
  have "well_formed (the_db (obj s))" "status_CurrentPrimaryPodIndex (db_status (the_db (obj s))) \<noteq> None"
    using assms(2-4) by (simp_all add: well_formed_eq_fill eq_fillD)
  then have "wp p (\<lambda>r s'. r = None \<and> eq_fill (the_db (obj s)) (the_db (obj s'))) s"
    using assms(1) by (simp add: completes_def)
  then show ?thesis
    by (rule wp_mono) (use assms(4) in \<open>auto intro: eq_fill_trans\<close>)
qed

lemma labelled_mark:
  assumes "labelled E"
  shows "wp (mark_standby_loop E d is) (\<lambda>r _. r = None) s"
proof (induction "is" arbitrary: s)
  case (Cons i "is")
  obtain p where "env_GetPod E (trace s) (nn (PodName (db_meta d) i) (om_namespace (db_meta d))) = Inr p"
      "om_labels (pod_meta p) \<noteq> []"
    using assms unfolding labelled_def by blast
  moreover have "env_Write E h c = None" for h c
    using assms by (simp add: labelled_def)
  ultimately show ?case
    using Cons by (simp add: DoltDBPodRef_def MarkRoleStandby_def MarkRole_def wp_simps)
qed (simp add: wp_simps)

lemma answers_replica:
  assumes "answers E"
  shows "wp (IsDoltDBReplicaHealthy E i)
    (\<lambda>r s'. framed E is_query s s' \<and> (\<exists>p. r = Inr (p, True) \<and> om_labels (pod_meta p) \<noteq> [])) s"
proof -
  let ?d = "the_db (obj s)"
  obtain p where "env_GetPod E (trace s) (nn (PodName (db_meta ?d) i) (om_namespace (db_meta ?d))) = Inr p"
      "PodReady p" "om_labels (pod_meta p) \<noteq> []"
    using assms unfolding answers_def by blast
  then show ?thesis
    by (simp add: IsDoltDBReplicaHealthy_def wp_simps framed_request)
qed

lemma completes_shiftAway: "labelled E \<Longrightarrow> completes E (shiftTrafficAwayFromPrimary E ctx)"
  unfolding completes_def
proof (intro allI impI wp_conj)
  fix s :: "(call, dbst) cfg"
  assume "labelled E"
  then show "wp (shiftTrafficAwayFromPrimary E ctx) (\<lambda>r _. r = None) s"
    by (simp add: shiftTrafficAwayFromPrimary_def wp_simps labelled_mark)
  have "keeps E is_unroute (shiftTrafficAwayFromPrimary E ctx)"
    unfolding shiftTrafficAwayFromPrimary_def by (intro keeps_intros keeps_mark_standby) simp_all
  then show "wp (shiftTrafficAwayFromPrimary E ctx) (\<lambda>_ s'. eq_fill (the_db (obj s)) (the_db (obj s'))) s"
    by (rule keeps_wp) (simp add: framed_def)
qed

lemma answers_drain:
  assumes "answers E"
  shows "wp (drainPrimary E ctx c) (\<lambda>r s'. r = None \<and> framed E is_query s s') s"
proof -
  obtain e rest err where "env_RoleAndEpoch E (trace s) c = Inr (Inr (StandbyRoleValue, e) # rest, err)"
    using assms unfolding answers_def by blast
  then show ?thesis
    by (simp add: drainPrimary_def wp_simps wp_GetRoleAndEpoch framed_request)
qed

lemma framed_eq_fill: "framed E P s s' \<Longrightarrow> eq_fill (the_db (obj s)) (the_db (obj s'))"
  by (simp add: framed_def)

lemma completes_setReadOnly:
  assumes "answers E"
  shows "completes E (setPrimaryReadOnly E ctx)"
  unfolding completes_def
proof (intro allI impI)
  fix s :: "(call, dbst) cfg"
  assume wf: "well_formed (the_db (obj s))"
    and "status_CurrentPrimaryPodIndex (db_status (the_db (obj s))) \<noteq> None"
  then obtain i where i: "status_CurrentPrimaryPodIndex (db_status (the_db (obj s))) = Some i" by auto
  have all: "eq_fill (the_db (obj s)) (the_db (obj s'))" if "framed E is_query s s1"
      "framed E is_query s1 s2" "framed E is_query s3 s'" "framed E is_query s2 s3" for s1 s2 s3 s'
    using framed_eq_fill [OF framed_trans [OF framed_trans [OF that(1,2)] framed_trans [OF that(4,3)]]] .
  have client: "wp (currentPrimaryClient E) (\<lambda>r s'. framed E is_query s1 s' \<and> (\<exists>c. r = Inr c)) s1"
    if f: "framed E is_query s s1" for s1
  proof -
    have d1: "well_formed (the_db (obj s1))"
        "status_CurrentPrimaryPodIndex (db_status (the_db (obj s1))) = Some i"
      using wf i framed_eq_fill [OF f] by (simp_all add: well_formed_eq_fill eq_fillD)
    then have r: "0 \<le> i" "i < spec_Replicas (db_spec (the_db (obj s1)))"
      by (simp_all add: well_formed_def)
    show ?thesis
      using d1 by (auto simp: currentPrimaryClient_def wp_simps intro!: wp_mono [OF connects_client [OF answers_connects [OF assms] d1(1) r]])
  qed
  show "wp (setPrimaryReadOnly E ctx) (\<lambda>r s'. r = None \<and> eq_fill (the_db (obj s)) (the_db (obj s'))) s"
    using i
    by (auto simp: setPrimaryReadOnly_def currentPrimaryReady_def wp_simps
        intro!: wp_mono [OF answers_replica [OF assms]] wp_mono [OF client] wp_mono [OF answers_drain [OF assms]]
          keeps_wp [OF keeps_RemoveClientFromCache [of E is_query]]) (rule all)
qed

lemma completes_configure:
  assumes "connects E" and acks: "\<And>h c r e. assume_acked (env_AssumeRole E h c r e)"
  shows "completes E (configureNewPrimary E ctx)"
  unfolding completes_def
proof (intro allI impI)
  fix s :: "(call, dbst) cfg"
  assume wf: "well_formed (the_db (obj s))"
  obtain j where j: "primary_PodIndex (ReplPrimary (the_db (obj s))) = Some j"
    using ReplPrimary_filled(1) by blast
  let ?s0 = "s\<lparr>obj := (obj s)\<lparr>the_db := Replication_fill (the_db (obj s))\<rparr>\<rparr>"
  have wf0: "well_formed (the_db (obj ?s0))"
    using wf well_formed_eq_fill [of "the_db (obj s)" "the_db (obj ?s0)"] by simp
  have r: "0 \<le> j" "j < spec_Replicas (db_spec (the_db (obj ?s0)))"
    using wf j by (simp_all add: well_formed_def)
  have acked: "wp (AssumeRole E c r e) (\<lambda>x s'. x = None \<and> the_db (obj s') = the_db (obj s1)) s1" for c r e s1
    using acks [of "trace s1" c r e]
    by (auto simp: AssumeRole_def wp_simps assume_acked_def split: sum.splits list.splits option.splits)
  have eq: "eq_fill (the_db (obj s)) (the_db (obj s1))" if "framed E is_query ?s0 s1" for s1
    using framed_eq_fill [OF framed_trans [OF framed_db that]] .
  show "wp (configureNewPrimary E ctx) (\<lambda>r s'. r = None \<and> eq_fill (the_db (obj s)) (the_db (obj s'))) s"
    using j
    by (auto simp: configureNewPrimary_def wp_simps RemoveClientFromCache_def eq
        intro!: wp_mono [OF connects_client [OF assms(1) wf0 r]] wp_mono [OF acked])
qed

lemma completes_shiftTo:
  assumes "answers E"
  shows "completes E (shiftTrafficToNewPrimary E ctx)"
proof -
  have "env_Write E h c = None" for h c
    using assms by (simp add: answers_def)
  then show ?thesis
    unfolding completes_def
    by (auto simp: shiftTrafficToNewPrimary_def MarkRolePrimary_def MarkRole_def wp_simps
        dest: framed_eq_fill intro!: wp_mono [OF answers_replica [OF assms]])
qed

lemma answers_phases:
  assumes "answers E" and "well_formed (the_db (obj s))"
    and "status_CurrentPrimaryPodIndex (db_status (the_db (obj s))) \<noteq> None"
  shows "wp (run_phases ctx (switchoverPhases E))
    (\<lambda>r s'. r = None \<and> eq_fill (the_db (obj s)) (the_db (obj s'))) s"
proof -
  have parts: "connects E" "\<And>h c r e. assume_acked (env_AssumeRole E h c r e)"
    using assms(1) by (simp_all add: answers_def)
  note C = completesD [OF _ assms(2,3)]
  show ?thesis
    by (auto simp: switchoverPhases_def wp_simps
        intro!: wp_mono [OF C [OF completes_shiftAway]] wp_mono [OF C [OF completes_setReadOnly]]
          wp_mono [OF C [OF completes_configure]] wp_mono [OF C [OF completes_shiftTo]] assms(1) parts
          answers_labelled)
qed

lemma answers_perform:
  assumes "answers E" and "condition_library E" and "well_formed (the_db (obj s))"
    and "switchover_needed E (the_db (obj s))"
  shows "wp (performSwitchover E states)
    (\<lambda>r s'. r = None \<and>
       status_CurrentPrimaryPodIndex (db_status (the_db (obj s'))) =
         primary_PodIndex (ReplPrimary (the_db (obj s))) \<and>
       \<not> IsSwitchingPrimary E (the_db (obj s'))) s"
proof -
  let ?d = "the_db (obj s)" and ?n = "switching_patch E (the_db (obj s))"
  have echo: "env_PatchDoltDBStatus E h b n = Inr n" for h b n
    using assms(1) by (simp add: answers_def)
  obtain j where j: "primary_PodIndex (ReplPrimary ?d) = Some j"
    using ReplPrimary_filled(1) by blast
  have n: "well_formed ?n" "status_CurrentPrimaryPodIndex (db_status ?n) \<noteq> None"
      "ReplPrimary ?n = ReplPrimary ?d"
    using assms(3,4)
    by (auto simp: switching_patch_def well_formed_def SetPrimarySwitching_def Let_def switchover_needed_def)
  have final: "status_CurrentPrimaryPodIndex (db_status (switched_patch E k e d)) = Some k"
      "\<not> IsSwitchingPrimary E (switched_patch E k e d)" for k e d
    using condition_library.IsSwitching_after_SetPrimarySwitched [OF assms(2)]
    by (simp_all add: switched_patch_def SetPrimarySwitched_def)
  have phases: "wp (run_phases ctx (switchoverPhases E)) (\<lambda>r s'. r = None \<and> eq_fill ?n (the_db (obj s'))) s1"
    if "the_db (obj s1) = ?n" for ctx s1
    using answers_phases [OF assms(1), of s1 ctx] n that by simp
  have write_out: "wp (recordSwitchover E e)
      (\<lambda>r s'. r = None \<and> status_CurrentPrimaryPodIndex (db_status (the_db (obj s'))) = Some j \<and>
         \<not> IsSwitchingPrimary E (the_db (obj s'))) s1" if "eq_fill ?n (the_db (obj s1))" for e s1
    using n(3) j eq_fillD(4) [OF that] final
    by (simp add: recordSwitchover_def wp_simps Let_def echo)
  show ?thesis
    using j write_out
    by (auto simp: performSwitchover_def wp_simps Let_def echo split: prod.split
        intro!: wp_mono [OF phases])
qed

lemma answers_reconcile:
  assumes "answers E" and "condition_library E" and "well_formed (the_db (obj s))"
    and "switchover_needed E (the_db (obj s))"
  shows "wp (reconcileSwitchover E)
    (\<lambda>r s'. r = None \<and>
       status_CurrentPrimaryPodIndex (db_status (the_db (obj s'))) =
         primary_PodIndex (ReplPrimary (the_db (obj s))) \<and>
       \<not> IsSwitchingPrimary E (the_db (obj s'))) s"
  unfolding reconcileSwitchover_def
proof (subst wp_bind, rule wp_mono [OF observed_states_wp], subst wp_bind, elim conjE,
    rule wp_mono [OF shouldReconcileSwitchover_wp], elim conjE)
  fix states s1 go s2
  assume f1: "framed E is_query s s1" and f2: "framed E is_query s1 s2"
    and go: "go \<longleftrightarrow> switchover_needed E (the_db (obj s1))"
  have f: "framed E is_query s s2" by (rule framed_trans [OF f1 f2])
  have needed: "switchover_needed E (the_db (obj s1))" "switchover_needed E (the_db (obj s2))"
    using assms(4) switchover_needed_eq_fill framed_eq_fill [OF f1] framed_eq_fill [OF f] by blast+
  have wf: "well_formed (the_db (obj s2))"
    using assms(3) well_formed_eq_fill framed_eq_fill [OF f] by blast
  from answers_perform [OF assms(1,2) wf needed(2), of states] needed(1) go
  show "wp (if \<not> go then ret None else performSwitchover E states)
    (\<lambda>r s'. r = None \<and> status_CurrentPrimaryPodIndex (db_status (the_db (obj s'))) =
         primary_PodIndex (ReplPrimary (the_db (obj s))) \<and>
       \<not> IsSwitchingPrimary E (the_db (obj s'))) s2"
    by (simp add: framedD(3) [OF f])
qed

text \<open>The reference environment with drained servers answers.\<close>

definition drained_env :: env where
  "drained_env = ref_env\<lparr>env_RoleAndEpoch := (\<lambda>h c. Inr ([Inr (StandbyRoleValue, 4)], None))\<rparr>"

lemma drained_answers: "answers drained_env"
  by (simp add: answers_def connects_def drained_env_def ref_env_def ref_pod_def ref_meta_def PodReady_def assume_acked_def)

lemma drained_contract: "condition_library drained_env"
  by (rule keeps_contract_library) (simp add: keeps_contract_def drained_env_def ref_env_def)

lemma drained_sole_writer: "sole_status_writer drained_env"
  by (simp add: sole_status_writer_def drained_env_def ref_env_def)

lemma ref_db_needed: "switchover_needed drained_env (the_db (obj (ref_cfg ref_db)))"
  by (simp add: switchover_needed_def IsResizingStorage_def drained_env_def ref_env_def ref_is_def ref_cfg_def
      ref_db_def ref_status_def ref_spec_def ReplPrimary_def Replication_def
      ReplicationSpec_FillWithDefaults_def PrimaryReplication_FillWithDefaults_def)

lemma ref_db_well_formed: "well_formed (the_db (obj (ref_cfg ref_db)))"
  by (simp add: well_formed_def ref_cfg_def ref_db_def ref_status_def ref_spec_def ref_server_def ReplPrimary_def
      Replication_def ReplicationSpec_FillWithDefaults_def PrimaryReplication_FillWithDefaults_def)

text \<open>So the run in that environment goes through all phases.\<close>

lemma drained_run:
  obtains t i j s' where "run_state (reconcileSwitchover drained_env) (ref_cfg ref_db) = (None, s')"
    and "trace s' = trace (ref_cfg ref_db) @ t"
    and "switch_path drained_env (db_meta (the_db (obj (ref_cfg ref_db)))) i j
           (next_epoch drained_env (ref_cfg ref_db)) (trace (ref_cfg ref_db)) Idle t Recorded"
proof -
  obtain r s' where run: "run_state (reconcileSwitchover drained_env) (ref_cfg ref_db) = (r, s')"
    by fastforce
  have "r = None"
    using wpI [OF answers_reconcile [OF drained_answers drained_contract ref_db_well_formed ref_db_needed] run]
    by simp
  with run that show thesis
    by (rule_tac switchover_run [OF ref_cache_ok drained_sole_writer run]) (use ref_db_needed in auto)
qed

lemma drained_records:
  "\<exists>t1 b' n' b n t2. trace (snd (run_state (reconcileSwitchover drained_env) (ref_cfg ref_db))) =
     trace (ref_cfg ref_db) @ t1 @ CPatchDoltDBStatus b n # t2 \<and> CPatchDoltDBStatus b' n' \<in> set t1"
proof (rule drained_run)
  fix t i j s'
  assume run: "run_state (reconcileSwitchover drained_env) (ref_cfg ref_db) = (None, s')"
    and t: "trace s' = trace (ref_cfg ref_db) @ t"
    and path: "switch_path drained_env (db_meta (the_db (obj (ref_cfg ref_db)))) i j
           (next_epoch drained_env (ref_cfg ref_db)) (trace (ref_cfg ref_db)) Idle t Recorded"
  from switch_path_finish [OF path] obtain t1 b n t2 where
    t1: "t = t1 @ CPatchDoltDBStatus b n # t2"
    "switch_path drained_env (db_meta (the_db (obj (ref_cfg ref_db)))) i j
       (next_epoch drained_env (ref_cfg ref_db)) (trace (ref_cfg ref_db)) Idle t1 Routed" by blast
  from switch_path_from_Idle [OF t1(2)] obtain b' n' where "CPatchDoltDBStatus b' n' \<in> set t1" by blast
  with t1 t run show ?thesis by (metis snd_conv)
qed

lemma drained_promotes:
  "\<exists>t1 co t2. trace (snd (run_state (reconcileSwitchover drained_env) (ref_cfg ref_db))) =
     trace (ref_cfg ref_db) @ t1 @
       CSql co (AssumeClusterRole PrimaryRoleValue (next_epoch drained_env (ref_cfg ref_db))) # t2"
proof (rule drained_run)
  fix t i j s'
  assume run: "run_state (reconcileSwitchover drained_env) (ref_cfg ref_db) = (None, s')"
    and t: "trace s' = trace (ref_cfg ref_db) @ t"
    and path: "switch_path drained_env (db_meta (the_db (obj (ref_cfg ref_db)))) i j
           (next_epoch drained_env (ref_cfg ref_db)) (trace (ref_cfg ref_db)) Idle t Recorded"
  from switch_path_acked [OF path] run t show ?thesis by auto
qed

section \<open>The frame of the phases\<close>

lemma keeps_any: "keeps E P p \<Longrightarrow> keeps E (\<lambda>_. True) p"
  by (rule keeps_mono) simp_all

lemma keeps_any_phases:
  "keeps E (\<lambda>_. True) (shiftTrafficAwayFromPrimary E ctx)"
  "keeps E (\<lambda>_. True) (setPrimaryReadOnly E ctx)"
  "keeps E (\<lambda>_. True) (configureNewPrimary E ctx)"
proof -
  have client: "keeps E (\<lambda>_. True) (ClientForIndex E i)" "keeps E (\<lambda>_. True) (GetRoleAndEpoch E c)"
      "keeps E (\<lambda>_. True) (StandbyHostFQDNs E)" "keeps E (\<lambda>_. True) (currentPrimaryReady E)"
      "keeps E (\<lambda>_. True) (currentPrimaryClient E)" for i c
    by (rule keeps_any, rule keeps_intros)+
  show "keeps E (\<lambda>_. True) (shiftTrafficAwayFromPrimary E ctx)"
    unfolding shiftTrafficAwayFromPrimary_def
    by (intro keeps_intros keeps_any [OF keeps_mark_standby]) simp
  show "keeps E (\<lambda>_. True) (setPrimaryReadOnly E ctx)"
    unfolding setPrimaryReadOnly_def drainPrimary_def transitionPrimary_def TransitionToStandby_def
    by (intro keeps_intros client) simp_all
  show "keeps E (\<lambda>_. True) (configureNewPrimary E ctx)"
    unfolding configureNewPrimary_def AssumeRole_def
    by (intro keeps_intros client) simp_all
qed

lemma shiftTo_fails:
  assumes "\<And>h. \<exists>p. env_GetPod E h (pod_key (db_meta (the_db (obj s))) (ctx_currentPrimary ctx)) = Inr p \<and>
      \<not> PodReady p"
  shows "wp (shiftTrafficToNewPrimary E ctx) (\<lambda>r _. r \<noteq> None) s"
  using assms [of "trace s"]
  by (auto simp: shiftTrafficToNewPrimary_def IsDoltDBReplicaHealthy_def wp_simps pod_key_def)

lemma phases_fail:
  assumes "\<And>h. \<exists>p. env_GetPod E h (pod_key (db_meta (the_db (obj s))) (ctx_currentPrimary ctx)) = Inr p \<and>
      \<not> PodReady p"
  shows "wp (run_phases ctx (switchoverPhases E)) (\<lambda>r _. r \<noteq> None) s"
proof -
  have meta: "framed E (\<lambda>_. True) s s' \<Longrightarrow> db_meta (the_db (obj s')) = db_meta (the_db (obj s))" for s'
    by (simp add: framed_def eq_fillD)
  have last: "wp (shiftTrafficToNewPrimary E ctx) (\<lambda>r _. r \<noteq> None) s'" if "framed E (\<lambda>_. True) s s'" for s'
    by (rule shiftTo_fails) (use assms meta [OF that] in simp)
  have "wp (run_phases ctx (switchoverPhases E)) (\<lambda>r _. r \<noteq> None) s"
    unfolding switchoverPhases_def
    by (auto simp: wp_simps split: option.split intro!: keeps_wp [OF keeps_any_phases(1)]
        keeps_wp [OF keeps_any_phases(2)] keeps_wp [OF keeps_any_phases(3)] wp_mono [OF last])
      (blast intro: framed_trans)
  then show ?thesis .
qed

section \<open>The epochs of a switchover\<close>

fun role_epoch :: "call \<Rightarrow> int option" where
  "role_epoch (CSql co (TransitionToStandbyStmt e n)) = Some e"
| "role_epoch (CSql co (AssumeClusterRole r e)) = Some e"
| "role_epoch _ = None"

lemma role_epoch_query: "is_query c \<Longrightarrow> role_epoch c = None"
  by (cases c rule: role_epoch.cases) (auto simp: is_query_def is_read_def)

lemma switch_path_role_epochs:
  "switch_path E m i j e h p cs q \<Longrightarrow> c \<in> set cs \<Longrightarrow> role_epoch c = Some x \<Longrightarrow> x = e"
  by (induction rule: switch_path.induct) (auto elim!: switch_step.cases simp: role_epoch_query)

lemma switch_path_recorded_epoch:
  "switch_path E m i j e h p cs q \<Longrightarrow> CPatchDoltDBStatus b n \<in> set cs \<Longrightarrow>
   status_ReplicationEpoch (db_status n) \<noteq> status_ReplicationEpoch (db_status b) \<Longrightarrow>
   status_ReplicationEpoch (db_status n) = Some e"
  by (induction rule: switch_path.induct)
    (auto simp: switch_step_simps max_def split: option.splits if_splits)

lemma next_epoch_above:
  assumes "CurrentPrimaryAndEpoch (the_db (obj s)) (observed_states E s) = Inr (p, highest)"
    and "highest < 2 ^ 63 - 1"
  shows "next_epoch E s = highest + 1" and "\<forall>st \<in> set (observed_states E s). dbs_Epoch st < highest + 1"
proof -
  have h: "highest = highest_epoch (observed_states E s)"
    using assms(1) by (simp add: CurrentPrimaryAndEpoch_Inr_iff)
  then have "in_int64 (highest + 1)"
    using assms(2) highest_epoch_ge(2) [of "observed_states E s"] by (simp add: in_int64_def)
  then show "next_epoch E s = highest + 1"
    using assms(1) by (simp add: next_epoch_def primaryAndEpochOrStatus_def)
  show "\<forall>st \<in> set (observed_states E s). dbs_Epoch st < highest + 1"
    using h highest_epoch_ge(1) [of _ "observed_states E s"] by fastforce
qed

section \<open>A switchover away from a failed primary\<close>

text \<open>
  The reference cluster when pod 0, the recorded primary, is not ready and its server still reports
  role primary: three pods, the desired primary is pod 1, every server reports epoch 4.
\<close>

definition failed_env :: env where
  "failed_env = ref_env\<lparr>
     env_GetPod := (\<lambda>h k. Inr (if nn_name k = ''dolt-0'' then (ref_pod (nn_name k))\<lparr>pod_conditions := []\<rparr>
                             else ref_pod (nn_name k)))\<rparr>"

lemma failed_env_contracts: "connects failed_env" "labelled failed_env" "sole_status_writer failed_env"
  by (simp_all add: connects_def labelled_def sole_status_writer_def failed_env_def ref_env_def ref_pod_def
      ref_meta_def)

lemma failed_env_acks: "assume_acked (env_AssumeRole failed_env h c r e)"
  by (simp add: failed_env_def ref_env_def assume_acked_def)

lemma ref_db_facts:
  "spec_Replicas (db_spec ref_db) = 3" "db_meta ref_db = ref_meta ''dolt''"
  "status_CurrentPrimaryPodIndex (db_status ref_db) = Some 0" "replica_ordinals ref_db = [0, 1, 2]"
  "primary_PodIndex (ReplPrimary ref_db) = Some 1"
  by (simp_all add: ref_db_def ref_spec_def ref_status_def replica_ordinals_def ReplPrimary_def Replication_def
      ReplicationSpec_FillWithDefaults_def PrimaryReplication_FillWithDefaults_def upt_rec)

lemma ref_pod_names:
  "PodName (ref_meta ''dolt'') 0 = ''dolt-0''" "PodName (ref_meta ''dolt'') 1 = ''dolt-1''"
  "PodName (ref_meta ''dolt'') 2 = ''dolt-2''"
proof -
  have "digit_char 0 = CHR ''0''" "digit_char 1 = CHR ''1''" "digit_char 2 = CHR ''2''" by code_simp+
  then show "PodName (ref_meta ''dolt'') 0 = ''dolt-0''" "PodName (ref_meta ''dolt'') 1 = ''dolt-1''"
      "PodName (ref_meta ''dolt'') 2 = ''dolt-2''"
    by (simp_all add: PodName_def ref_meta_def show_int_def show_nat.simps)
qed

lemma ref_host_prefix:
  "i \<in> {0, 1, 2} \<Longrightarrow> take 6 (pod_host E (ref_meta ''dolt'') i) = ''dolt-0'' \<longleftrightarrow> i = 0"
  by (auto simp: pod_host_def PodFQDNWithService_def ref_pod_names)

text \<open>The object that the run starts with, up to defaults, and a cache of its own clients.\<close>

definition near_ref :: "(call, dbst) cfg \<Rightarrow> bool" where
  "near_ref s \<longleftrightarrow> cache_ok failed_env (obj s) \<and> eq_fill ref_db (the_db (obj s))"

lemma near_ref_facts:
  assumes "near_ref s"
  shows "db_meta (the_db (obj s)) = ref_meta ''dolt''" "spec_Replicas (db_spec (the_db (obj s))) = 3"
    and "well_formed (the_db (obj s))"
    and "status_CurrentPrimaryPodIndex (db_status (the_db (obj s))) = Some 0"
    and "replica_ordinals (the_db (obj s)) = [0, 1, 2]"
proof -
  have fill: "eq_fill ref_db (the_db (obj s))"
    using assms by (simp add: near_ref_def)
  note E = eq_fillD [OF fill]
  show r: "spec_Replicas (db_spec (the_db (obj s))) = 3"
    using E ref_db_facts by simp
  then show "replica_ordinals (the_db (obj s)) = [0, 1, 2]"
    using ref_db_facts(1,4) by (simp add: replica_ordinals_def)
  show "db_meta (the_db (obj s)) = ref_meta ''dolt''"
    "status_CurrentPrimaryPodIndex (db_status (the_db (obj s))) = Some 0"
    using E ref_db_facts by simp_all
  show "well_formed (the_db (obj s))"
    using ref_db_well_formed well_formed_eq_fill [OF fill] by (simp add: ref_cfg_def)
qed

lemma near_ref_framed: "near_ref s \<Longrightarrow> framed failed_env P s s' \<Longrightarrow> near_ref s'"
  using eq_fill_trans by (auto simp: near_ref_def framed_def)

lemma failed_state:
  "wp (GetDBState failed_env c)
     (\<lambda>(st, err) s'. (near_ref s \<longrightarrow> near_ref s') \<and> dbs_Epoch st = 4 \<and>
        dbs_Role st = (if take 6 (opt_Host c) = ''dolt-0'' then PrimaryRoleValue else StandbyRoleValue)) s"
  by (simp add: GetDBState_def GetRoleAndEpoch_def wp_simps failed_env_def ref_env_def GetVersion_def
      GetClusterStatus_def near_ref_def)

lemma failed_states_loop:
  assumes "near_ref s" and "set is \<subseteq> {0, 1, 2}"
  shows "wp (db_states_loop failed_env is)
    (\<lambda>sts _. map dbs_Role sts = map (\<lambda>i. if i = 0 then PrimaryRoleValue else StandbyRoleValue) is \<and>
       map dbs_Epoch sts = map (\<lambda>_. 4) is) s"
  using assms
proof (induction "is" arbitrary: s)
  case (Cons i "is")
  have i: "i \<in> {0, 1, 2}" and "set is \<subseteq> {0, 1, 2}"
    using Cons.prems(2) by auto
  have client: "wp (ClientForIndex failed_env i)
      (\<lambda>r s'. near_ref s' \<and> (\<exists>c. r = Inr c \<and> (take 6 (opt_Host c) = ''dolt-0'' \<longleftrightarrow> i = 0))) s"
  proof -
    have "connects failed_env" "well_formed (the_db (obj s))" "0 \<le> i"
        "i < spec_Replicas (db_spec (the_db (obj s)))"
      using failed_env_contracts near_ref_facts [OF Cons.prems(1)] i by auto
    from wp_conj [OF connects_client [OF this] ClientForIndex_wp [of failed_env i s]] show ?thesis
    proof (rule wp_mono, elim conjE exE)
      fix r s' c
      assume f: "framed failed_env is_query s s'" and r: "r = Inr c"
        and host: "\<forall>c. r = Inr c \<longrightarrow> 0 \<le> i \<and> i < spec_Replicas (db_spec (the_db (obj s))) \<and>
           (cache_ok failed_env (obj s) \<longrightarrow> opt_Host c = pod_host failed_env (db_meta (the_db (obj s))) i)"
      have "opt_Host c = pod_host failed_env (ref_meta ''dolt'') i"
        using host r Cons.prems(1) near_ref_facts(1) [OF Cons.prems(1)] by (simp add: near_ref_def)
      with ref_host_prefix [OF i, of failed_env] near_ref_framed [OF Cons.prems(1) f] r
      show "near_ref s' \<and> (\<exists>c. r = Inr c \<and> (take 6 (opt_Host c) = ''dolt-0'' \<longleftrightarrow> i = 0))"
        by (intro conjI exI [of _ c]) simp_all
    qed
  qed
  have rest: "wp (db_states_loop failed_env is)
      (\<lambda>sts _. map dbs_Role sts = map (\<lambda>i. if i = 0 then PrimaryRoleValue else StandbyRoleValue) is \<and>
         map dbs_Epoch sts = map (\<lambda>_. 4) is) s1" if "near_ref s1" for s1
    using Cons.IH that \<open>set is \<subseteq> {0, 1, 2}\<close> by blast
  show ?case
    unfolding db_states_loop.simps wp_bind
  proof (rule wp_mono [OF client], elim conjE exE, hypsubst)
    fix s1 and c :: sql_opts
    assume "near_ref s1" and host: "(take 6 (opt_Host c) = ''dolt-0'') = (i = 0)"
    then show "wp (case Inr c of Inl _ \<Rightarrow> ret zero_DBState
        | Inr client \<Rightarrow> do { (dbState, err) \<leftarrow> GetDBState failed_env client; ret dbState })
      (\<lambda>st. wp (db_states_loop failed_env is) (\<lambda>rest. wp (ret (st # rest))
         (\<lambda>sts _. map dbs_Role sts = map (\<lambda>i. if i = 0 then PrimaryRoleValue else StandbyRoleValue) (i # is) \<and>
            map dbs_Epoch sts = map (\<lambda>_. 4) (i # is)))) s1"
      by (auto simp: wp_simps split: prod.split intro!: wp_mono [OF failed_state] wp_mono [OF rest])
  qed
qed (simp add: wp_simps)

lemma near_ref_cfg: "near_ref (ref_cfg ref_db)"
  using ref_cache_ok by (simp add: near_ref_def ref_cfg_def)

lemma failed_primary:
  "\<exists>p. CurrentPrimaryAndEpoch (the_db (obj (ref_cfg ref_db))) (observed_states failed_env (ref_cfg ref_db)) =
     Inr (p, 4)"
proof -
  let ?s = "ref_cfg ref_db" and ?sts = "observed_states failed_env (ref_cfg ref_db)"
  let ?filled = "?s\<lparr>obj := (obj ?s)\<lparr>the_db := Replication_fill (the_db (obj ?s))\<rparr>\<rparr>"
  have near: "near_ref ?filled"
    by (rule near_ref_framed [OF near_ref_cfg framed_db])
  have "wp (State_Monad.bind call_Replication (\<lambda>_. GetDBStates failed_env))
      (\<lambda>sts _. map dbs_Role sts = [PrimaryRoleValue, StandbyRoleValue, StandbyRoleValue] \<and> map dbs_Epoch sts = [4, 4, 4]) ?s"
    using failed_states_loop [OF near, of "[0, 1, 2]"] near_ref_facts(5) [OF near]
    by (simp add: GetDBStates_def wp_simps)
  then have "map dbs_Role ?sts = [PrimaryRoleValue, StandbyRoleValue, StandbyRoleValue]" "map dbs_Epoch ?sts = [4, 4, 4]"
    by (simp_all add: observed_states_def wp_def split: prod.splits)
  then show ?thesis
    by (auto simp: CurrentPrimaryAndEpoch_def map_eq_Cons_conv)
qed

text \<open>Its old primary is not drained, and the new one is promoted.\<close>

definition promotes :: "(call, dbst) cfg \<Rightarrow> bool" where
  "promotes s \<longleftrightarrow> (\<exists>co e. CSql co (AssumeClusterRole PrimaryRoleValue e) \<in> set (trace s))"

lemma promotes_emits: "emits P p \<Longrightarrow> promotes s \<Longrightarrow> wp p (\<lambda>_. promotes) s"
  unfolding emits_def wp_def promotes_def by (fastforce dest: spec [of _ s] split: prod.splits)

lemma configure_promotes:
  assumes "connects E" and wf: "well_formed (the_db (obj s))"
  shows "wp (configureNewPrimary E ctx) (\<lambda>_. promotes) s"
proof -
  obtain j where j: "primary_PodIndex (ReplPrimary (the_db (obj s))) = Some j"
    using ReplPrimary_filled(1) by blast
  let ?s0 = "s\<lparr>obj := (obj s)\<lparr>the_db := Replication_fill (the_db (obj s))\<rparr>\<rparr>"
  have wf0: "well_formed (the_db (obj ?s0))"
    using wf well_formed_eq_fill [of "the_db (obj s)" "the_db (obj ?s0)"] by simp
  have r: "0 \<le> j" "j < spec_Replicas (db_spec (the_db (obj ?s0)))"
    using wf j by (simp_all add: well_formed_def)
  have sent: "wp (AssumeRole E c PrimaryRoleValue e) (\<lambda>_. promotes) s1" for c e s1
    by (auto simp: AssumeRole_def wp_simps promotes_def)
  show ?thesis
    using j
    by (auto simp: configureNewPrimary_def wp_simps RemoveClientFromCache_def promotes_def
        intro!: wp_mono [OF connects_client [OF assms(1) wf0 r]] wp_mono [OF sent])
qed

lemma failed_skips_drain:
  assumes "db_meta (the_db (obj s)) = ref_meta ''dolt''"
    and "status_CurrentPrimaryPodIndex (db_status (the_db (obj s))) = Some 0"
  shows "wp (setPrimaryReadOnly failed_env ctx) (\<lambda>r s'. r = None \<and> the_db (obj s') = the_db (obj s)) s"
  using assms
  by (simp add: setPrimaryReadOnly_def currentPrimaryReady_def IsDoltDBReplicaHealthy_def wp_simps failed_env_def
      ref_pod_names PodReady_def)

lemma failed_phases:
  assumes "well_formed (the_db (obj s))" and "db_meta (the_db (obj s)) = ref_meta ''dolt''"
    and "status_CurrentPrimaryPodIndex (db_status (the_db (obj s))) = Some 0"
  shows "wp (run_phases ctx (switchoverPhases failed_env)) (\<lambda>_. promotes) s"
proof -
  note con = failed_env_contracts
  have away: "wp (shiftTrafficAwayFromPrimary failed_env ctx) (\<lambda>r s'. r = None \<and> eq_fill (the_db (obj s)) (the_db (obj s'))) s"
    using completes_shiftAway [OF con(2)] assms by (simp add: completes_def)
  have drain: "wp (setPrimaryReadOnly failed_env ctx) (\<lambda>r s'. r = None \<and> well_formed (the_db (obj s'))) s1"
    if "eq_fill (the_db (obj s)) (the_db (obj s1))" for s1
    using assms eq_fillD [OF that] well_formed_eq_fill [OF that]
    by (intro wp_mono [OF failed_skips_drain]) simp_all
  have last: "emits (\<lambda>_. True) (shiftTrafficToNewPrimary failed_env ctx)"
    unfolding shiftTrafficToNewPrimary_def MarkRolePrimary_def MarkRole_def
    by (intro emits_intros emits_mono [OF emits_health(4)]) simp_all
  show ?thesis
    unfolding switchoverPhases_def
    by (auto simp: wp_simps split: option.split intro!: wp_mono [OF away] wp_mono [OF drain]
        wp_mono [OF configure_promotes [OF con(1)]] wp_mono [OF promotes_emits [OF last]])
qed

lemma failed_promotes: "promotes (snd (run_state (reconcileSwitchover failed_env) (ref_cfg ref_db)))"
proof -
  have echo: "env_PatchDoltDBStatus failed_env h b n = Inr n" for h b n
    by (simp add: failed_env_def ref_env_def)
  have written: "emits (\<lambda>_. True) (recordSwitchover failed_env e)" for e
    unfolding recordSwitchover_def PatchStatus_def Let_def by (intro emits_intros) simp_all
  have phases: "wp (run_phases ctx (switchoverPhases failed_env)) (\<lambda>_. promotes) s1"
    if near: "near_ref s" and ob: "the_db (obj s1) = switching_patch failed_env (the_db (obj s))" for ctx s and s1 :: "(call, dbst) cfg"
    using near_ref_facts [OF near] ob
    by (intro failed_phases) (auto simp: switching_patch_def well_formed_def SetPrimarySwitching_def Let_def)
  have perform: "wp (performSwitchover failed_env sts) (\<lambda>_. promotes) s" if "near_ref s" for s sts
    by (auto simp: performSwitchover_def wp_simps Let_def echo split: prod.split option.split
        intro!: wp_mono [OF phases [OF that]] wp_mono [OF promotes_emits [OF written]])
  have needed: "switchover_needed failed_env (the_db (obj s))" if "near_ref s" for s
    using that switchover_needed_eq_fill [of ref_db "the_db (obj s)" failed_env] ref_db_facts
    by (auto simp: near_ref_def switchover_needed_def IsResizingStorage_def failed_env_def ref_env_def ref_is_def
        ref_db_def ref_status_def)
  have "wp (reconcileSwitchover failed_env) (\<lambda>_. promotes) (ref_cfg ref_db)"
    unfolding reconcileSwitchover_def
  proof (subst wp_bind, rule wp_mono [OF observed_states_wp], subst wp_bind, elim conjE,
      rule wp_mono [OF shouldReconcileSwitchover_wp], elim conjE)
    fix sts s1 go s2
    assume f: "framed failed_env is_query (ref_cfg ref_db) s1" "framed failed_env is_query s1 s2"
      and go: "go \<longleftrightarrow> switchover_needed failed_env (the_db (obj s1))"
    then have n: "near_ref s1" "near_ref s2"
      using near_ref_framed near_ref_cfg by blast+
    then show "wp (if \<not> go then ret None else performSwitchover failed_env sts) (\<lambda>_. promotes) s2"
      using go needed perform by simp
  qed
  then show ?thesis by (simp add: wp_def split: prod.splits)
qed

section \<open>Properties\<close>

text \<open>
  C1: every run of the switchover follows the protocol: the requests it makes, against any
  environment in which only the operator writes the status, form a path of the protocol that
  starts idle, from the recorded primary to the desired one, at one epoch.  When no switchover is
  needed (storage is being resized, no primary is recorded, or it is the desired one) the run only
  queries; otherwise it leaves the idle phase, and if it returns without an error it has gone through
  to the record.
\<close>

theorem switchover_refines_protocol:
  assumes "cache_ok E (obj s)" and "sole_status_writer E"
  shows "case run_state (reconcileSwitchover E) s of (r, s') \<Rightarrow>
    \<exists>t i j q. trace s' = trace s @ t \<and>
      switch_path E (db_meta (the_db (obj s))) i j (next_epoch E s) (trace s) Idle t q \<and>
      (if switchover_needed E (the_db (obj s))
       then status_CurrentPrimaryPodIndex (db_status (the_db (obj s))) = Some i \<and> q \<noteq> Idle \<and>
            (r = None \<longrightarrow> q = Recorded)
       else q = Idle \<and> r = None)"
  using reconcileSwitchover_wp [OF assms] unfolding wp_def follows_protocol_def .

theorem switchover_refines_protocol_witness:
  "case run_state (reconcileSwitchover ref_env) (ref_cfg ref_db) of (r, s') \<Rightarrow>
    \<exists>t i j q. trace s' = trace (ref_cfg ref_db) @ t \<and>
      switch_path ref_env (db_meta (the_db (obj (ref_cfg ref_db)))) i j
        (next_epoch ref_env (ref_cfg ref_db)) (trace (ref_cfg ref_db)) Idle t q \<and>
      (if switchover_needed ref_env (the_db (obj (ref_cfg ref_db)))
       then status_CurrentPrimaryPodIndex (db_status (the_db (obj (ref_cfg ref_db)))) = Some i \<and>
            q \<noteq> Idle \<and> (r = None \<longrightarrow> q = Recorded)
       else q = Idle \<and> r = None)"
  by (rule switchover_refines_protocol [OF ref_cache_ok ref_sole_writer])

text \<open>
  C3: a switchover issues at most one demotion, to the recorded primary, and after it at most one
  promotion; both carry the same epoch, the next one.
\<close>

theorem switchover_role_statements:
  assumes "cache_ok E (obj s)" and "sole_status_writer E"
  shows "\<exists>t ds as. trace (snd (run_state (reconcileSwitchover E) s)) = trace s @ t \<and>
    filter is_role_stmt t = ds @ as \<and>
    (ds = [] \<or> (\<exists>co i. status_CurrentPrimaryPodIndex (db_status (the_db (obj s))) = Some i \<and>
       opt_Host co = pod_host E (db_meta (the_db (obj s))) i \<and>
       ds = [CSql co (TransitionToStandbyStmt (next_epoch E s) 1)])) \<and>
    (as = [] \<or> (\<exists>co j. opt_Host co = pod_host E (db_meta (the_db (obj s))) j \<and>
       as = [CSql co (AssumeClusterRole PrimaryRoleValue (next_epoch E s))]))"
proof -
  obtain r s' where run: "run_state (reconcileSwitchover E) s = (r, s')" by fastforce
  obtain t i j q where t: "trace s' = trace s @ t"
    and path: "switch_path E (db_meta (the_db (obj s))) i j (next_epoch E s) (trace s) Idle t q"
    and i: "q \<noteq> Idle \<longrightarrow> status_CurrentPrimaryPodIndex (db_status (the_db (obj s))) = Some i"
    by (rule switchover_run [OF assms run]) auto
  have idle: "filter is_role_stmt t = []" if "q = Idle"
    using switch_path_to_Idle [OF path that] by (auto simp: list_all_iff filter_empty_conv)
  from switch_path_roles [OF path] obtain ds as where
    da: "filter is_role_stmt t = ds @ as"
    "ds = [] \<or> (\<exists>co. opt_Host co = pod_host E (db_meta (the_db (obj s))) i \<and>
        ds = [CSql co (TransitionToStandbyStmt (next_epoch E s) 1)])"
    "as = [] \<or> (\<exists>co. opt_Host co = pod_host E (db_meta (the_db (obj s))) j \<and>
        as = [CSql co (AssumeClusterRole PrimaryRoleValue (next_epoch E s))])"
    by blast
  have "ds = [] \<or> status_CurrentPrimaryPodIndex (db_status (the_db (obj s))) = Some i"
    using da(1) idle i by auto
  with da t run show ?thesis
    by (intro exI [of _ t] exI [of _ ds] exI [of _ as]) auto
qed

theorem switchover_role_statements_witness:
  "\<exists>t ds as. trace (snd (run_state (reconcileSwitchover ref_env) (ref_cfg ref_db))) =
      trace (ref_cfg ref_db) @ t \<and>
    filter is_role_stmt t = ds @ as \<and>
    (ds = [] \<or> (\<exists>co i. status_CurrentPrimaryPodIndex (db_status (the_db (obj (ref_cfg ref_db)))) = Some i \<and>
       opt_Host co = pod_host ref_env (db_meta (the_db (obj (ref_cfg ref_db)))) i \<and>
       ds = [CSql co (TransitionToStandbyStmt (next_epoch ref_env (ref_cfg ref_db)) 1)])) \<and>
    (as = [] \<or> (\<exists>co j. opt_Host co = pod_host ref_env (db_meta (the_db (obj (ref_cfg ref_db)))) j \<and>
       as = [CSql co (AssumeClusterRole PrimaryRoleValue (next_epoch ref_env (ref_cfg ref_db)))]))"
  by (rule switchover_role_statements [OF ref_cache_ok ref_sole_writer])

text \<open>
  C2: a pod is promoted only after the operator has seen the recorded primary released: not ready,
  in role standby, or through the transition to standby; and it is promoted at the next epoch.
\<close>

theorem promotion_after_release:
  assumes "cache_ok E (obj s)" and "sole_status_writer E"
    and "trace (snd (run_state (reconcileSwitchover E) s)) =
           trace s @ t1 @ CSql co (AssumeClusterRole PrimaryRoleValue e) # t2"
  shows "e = next_epoch E s \<and>
    (\<exists>i. status_CurrentPrimaryPodIndex (db_status (the_db (obj s))) = Some i \<and>
       primary_released E (db_meta (the_db (obj s))) i (trace s @ t1))"
proof -
  obtain r s' where run: "run_state (reconcileSwitchover E) s = (r, s')" by fastforce
  obtain t i j q where t: "trace s' = trace s @ t"
    and path: "switch_path E (db_meta (the_db (obj s))) i j (next_epoch E s) (trace s) Idle t q"
    and i: "q \<noteq> Idle \<longrightarrow> status_CurrentPrimaryPodIndex (db_status (the_db (obj s))) = Some i"
    by (rule switchover_run [OF assms(1,2) run]) auto
  have "t = t1 @ CSql co (AssumeClusterRole PrimaryRoleValue e) # t2"
    using t assms(3) run by simp
  from path [unfolded this] show ?thesis
    by (rule path_at) (use i in \<open>auto simp: switch_step_simps split: if_splits\<close>)
qed

theorem promotion_after_release_witness:
  "\<exists>t1 co t2. trace (snd (run_state (reconcileSwitchover drained_env) (ref_cfg ref_db))) =
       trace (ref_cfg ref_db) @ t1 @
         CSql co (AssumeClusterRole PrimaryRoleValue (next_epoch drained_env (ref_cfg ref_db))) # t2 \<and>
     (\<exists>i. status_CurrentPrimaryPodIndex (db_status (the_db (obj (ref_cfg ref_db)))) = Some i \<and>
        primary_released drained_env (db_meta (the_db (obj (ref_cfg ref_db)))) i
          (trace (ref_cfg ref_db) @ t1))"
proof -
  obtain t1 co t2 where t: "trace (snd (run_state (reconcileSwitchover drained_env) (ref_cfg ref_db))) =
     trace (ref_cfg ref_db) @ t1 @
       CSql co (AssumeClusterRole PrimaryRoleValue (next_epoch drained_env (ref_cfg ref_db))) # t2"
    using drained_promotes by blast
  from promotion_after_release [OF ref_cache_ok drained_sole_writer t] t show ?thesis by blast
qed

text \<open>
  C4: a status patch of the switchover that changes the recorded primary or its epoch, and any status
  patch after the first one, names a pod whose promotion has been acknowledged before; a switchover
  that fails earlier leaves the recorded primary and its epoch alone.
\<close>

theorem primary_recorded_after_acknowledgement:
  assumes "cache_ok E (obj s)" and "sole_status_writer E"
    and "trace (snd (run_state (reconcileSwitchover E) s)) = trace s @ t1 @ CPatchDoltDBStatus b n # t2"
    and "status_CurrentPrimaryPodIndex (db_status n) \<noteq> status_CurrentPrimaryPodIndex (db_status b) \<or>
         status_ReplicationEpoch (db_status n) \<noteq> status_ReplicationEpoch (db_status b) \<or>
         (\<exists>b' n'. CPatchDoltDBStatus b' n' \<in> set t1)"
  shows "\<exists>j pre co post. status_CurrentPrimaryPodIndex (db_status n) = Some j \<and>
    status_CurrentPrimary (db_status n) = Some (PodName (db_meta (the_db (obj s))) j) \<and>
    t1 = pre @ CSql co (AssumeClusterRole PrimaryRoleValue (next_epoch E s)) # post \<and>
    opt_Host co = pod_host E (db_meta (the_db (obj s))) j \<and>
    assume_acked (env_AssumeRole E (trace s @ pre) co PrimaryRoleValue (next_epoch E s))"
proof -
  obtain r s' where run: "run_state (reconcileSwitchover E) s = (r, s')" by fastforce
  obtain t i j q where t: "trace s' = trace s @ t"
    and path: "switch_path E (db_meta (the_db (obj s))) i j (next_epoch E s) (trace s) Idle t q"
    by (rule switchover_run [OF assms(1,2) run]) auto
  have "t = t1 @ CPatchDoltDBStatus b n # t2"
    using t assms(3) run by simp
  from path [unfolded this] show ?thesis
  proof (rule path_at)
    fix p p'
    assume pre: "switch_path E (db_meta (the_db (obj s))) i j (next_epoch E s) (trace s) Idle t1 p"
      and "switch_step E (db_meta (the_db (obj s))) i j (next_epoch E s) (trace s @ t1) p
             (CPatchDoltDBStatus b n) p'"
    then have "p = Routed" "status_CurrentPrimaryPodIndex (db_status n) = Some j"
      "status_CurrentPrimary (db_status n) = Some (PodName (db_meta (the_db (obj s))) j)"
      using assms(4) switch_path_to_Idle [OF pre] by (auto simp: switch_step_simps list_all_iff dest!: bspec)
    with switch_path_acked [OF pre] show ?thesis by auto
  qed
qed

theorem primary_recorded_after_acknowledgement_witness:
  "\<exists>t1 b n j pre co post.
     t1 = pre @ CSql co (AssumeClusterRole PrimaryRoleValue (next_epoch drained_env (ref_cfg ref_db))) # post \<and>
     status_CurrentPrimaryPodIndex (db_status n) = Some j \<and>
     opt_Host co = pod_host drained_env (db_meta (the_db (obj (ref_cfg ref_db)))) j \<and>
     (\<exists>t2. trace (snd (run_state (reconcileSwitchover drained_env) (ref_cfg ref_db))) =
        trace (ref_cfg ref_db) @ t1 @ CPatchDoltDBStatus b n # t2)"
proof -
  obtain t1 b' n' b n t2 where
    t: "trace (snd (run_state (reconcileSwitchover drained_env) (ref_cfg ref_db))) =
        trace (ref_cfg ref_db) @ t1 @ CPatchDoltDBStatus b n # t2"
    and "CPatchDoltDBStatus b' n' \<in> set t1"
    using drained_records by blast
  then have "status_CurrentPrimaryPodIndex (db_status n) \<noteq> status_CurrentPrimaryPodIndex (db_status b) \<or>
      status_ReplicationEpoch (db_status n) \<noteq> status_ReplicationEpoch (db_status b) \<or>
      (\<exists>b' n'. CPatchDoltDBStatus b' n' \<in> set t1)" by blast
  from primary_recorded_after_acknowledgement [OF ref_cache_ok drained_sole_writer t this] t
  show ?thesis by blast
qed

text \<open>
  C6: When exactly one server reports role primary and the highest reported epoch is below the 64-bit
  limit, every role statement that the switchover issues carries the epoch after the highest one, which
  is above every epoch that a server reported; and that is the only epoch it records.
\<close>

theorem switchover_epoch_exceeds_reported:
  assumes "cache_ok E (obj s)" and "sole_status_writer E"
    and "CurrentPrimaryAndEpoch (the_db (obj s)) (observed_states E s) = Inr (p, highest)"
    and "highest < 2 ^ 63 - 1"
  shows "\<exists>t. trace (snd (run_state (reconcileSwitchover E) s)) = trace s @ t \<and>
    (\<forall>c \<in> set t. \<forall>e. role_epoch c = Some e \<longrightarrow>
       e = highest + 1 \<and> (\<forall>st \<in> set (observed_states E s). dbs_Epoch st < e)) \<and>
    (\<forall>b n. CPatchDoltDBStatus b n \<in> set t \<longrightarrow>
       status_ReplicationEpoch (db_status n) \<noteq> status_ReplicationEpoch (db_status b) \<longrightarrow>
       status_ReplicationEpoch (db_status n) = Some (highest + 1))"
proof -
  obtain r s' where run: "run_state (reconcileSwitchover E) s = (r, s')" by fastforce
  obtain t i j q where t: "trace s' = trace s @ t"
    and path: "switch_path E (db_meta (the_db (obj s))) i j (next_epoch E s) (trace s) Idle t q"
    by (rule switchover_run [OF assms(1,2) run]) auto
  have e: "next_epoch E s = highest + 1" "\<forall>st \<in> set (observed_states E s). dbs_Epoch st < highest + 1"
    using next_epoch_above [OF assms(3,4)] by simp_all
  show ?thesis
    using run t e switch_path_role_epochs [OF path] switch_path_recorded_epoch [OF path]
    by (intro exI [of _ t] conjI ballI allI impI) auto
qed

theorem switchover_epoch_exceeds_reported_witness:
  "\<exists>co. CSql co (AssumeClusterRole PrimaryRoleValue 5) \<in>
      set (trace (snd (run_state (reconcileSwitchover failed_env) (ref_cfg ref_db)))) \<and>
    (\<forall>st \<in> set (observed_states failed_env (ref_cfg ref_db)). dbs_Epoch st < 5)"
proof -
  obtain p where p: "CurrentPrimaryAndEpoch (the_db (obj (ref_cfg ref_db))) (observed_states failed_env (ref_cfg ref_db)) =
      Inr (p, 4)"
    using failed_primary by blast
  obtain co e where c: "CSql co (AssumeClusterRole PrimaryRoleValue e) \<in>
      set (trace (snd (run_state (reconcileSwitchover failed_env) (ref_cfg ref_db))))"
    using failed_promotes by (auto simp: promotes_def)
  from switchover_epoch_exceeds_reported [OF ref_cache_ok failed_env_contracts(3) p] c show ?thesis
    by (fastforce simp: ref_cfg_def)
qed

text \<open>
  C5: against servers that answer, a switchover that is needed completes: it returns without an
  error, the desired pod is recorded as primary, and the cluster is no longer marked as switching.
\<close>

theorem switchover_completes:
  assumes "answers E" and "condition_library E" and "well_formed (the_db (obj s))"
    and "switchover_needed E (the_db (obj s))"
  shows "case run_state (reconcileSwitchover E) s of (r, s') \<Rightarrow>
    r = None \<and>
    status_CurrentPrimaryPodIndex (db_status (the_db (obj s'))) =
      primary_PodIndex (ReplPrimary (the_db (obj s))) \<and>
    \<not> IsSwitchingPrimary E (the_db (obj s'))"
  using answers_reconcile [OF assms] unfolding wp_def .

theorem switchover_completes_witness:
  "case run_state (reconcileSwitchover drained_env) (ref_cfg ref_db) of (r, s') \<Rightarrow>
    r = None \<and>
    status_CurrentPrimaryPodIndex (db_status (the_db (obj s'))) =
      primary_PodIndex (ReplPrimary (the_db (obj (ref_cfg ref_db)))) \<and>
    \<not> IsSwitchingPrimary drained_env (the_db (obj s'))"
  by (rule switchover_completes [OF drained_answers drained_contract ref_db_well_formed ref_db_needed])

end
