(* ===== verification/Replication_Controller.thy ===== *)
theory Replication_Controller
  imports Switchover_Properties
begin

text \<open>
  The replication reconciler (\<open>src/pkg/controller/replication/controller.go\<close>): it finishes a
  switchover that is under way; otherwise, once the stateful set is healthy, it assigns its role to
  every pod that is not configured yet, at the recorded epoch, and then looks for a switchover.
\<close>

section \<open>Assigning roles to unconfigured pods\<close>

definition reconcileReplicationInPod :: "env \<Rightarrow> int \<Rightarrow> int \<Rightarrow> goerr option op" where
  "reconcileReplicationInPod E index epoch = do {
     doltdb \<leftarrow> get_db;
     case status_CurrentPrimaryPodIndex (db_status doltdb) of
       None \<Rightarrow> ret (Some (Panic ''nil pointer dereference''))
     | Some primaryPodIndex \<Rightarrow> do {
         r \<leftarrow> (if primaryPodIndex = index
              then do {
                c \<leftarrow> currentPrimaryClient E;
                case c of
                  Inl err \<Rightarrow> ret (Some (ErrV ''error getting current primary client: '' err))
                | Inr client \<Rightarrow> ConfigurePrimary E client index epoch
              }
              else do {
                c \<leftarrow> ClientForIndex E index;
                case c of
                  Inl err \<Rightarrow> ret (Some (ErrV ''error getting replica client: '' err))
                | Inr client \<Rightarrow> ConfigureReplica E client index epoch
              });
         RemoveClientFromCache index;
         ret r
       }
   }"

definition pod_error :: "string \<Rightarrow> goerr \<Rightarrow> outcome" where
  "pod_error podName err =
     (ResultZero, Some (ErrV (''error configuring replication in Pod '' @ quoted podName @ '': '') err))"

text \<open>
  The loop over the pods.  The status is read in every round; nothing in the loop writes it.  A nil
  status map configures the pod, and so does the failing lookup that follows.
\<close>

fun configure_pods_loop :: "env \<Rightarrow> int \<Rightarrow> int list \<Rightarrow> outcome op" where
  "configure_pods_loop E currentEpoch [] = ret (ResultZero, None)"
| "configure_pods_loop E currentEpoch (i # is) = do {
     doltdb \<leftarrow> get_db;
     let podName = PodName (db_meta doltdb) i;
     r1 \<leftarrow> (if status_ReplicationStatus (db_status doltdb) = None
           then reconcileReplicationInPod E i currentEpoch else ret None);
     case r1 of
       Some err \<Rightarrow> ret (pod_error podName err)
     | None \<Rightarrow> do {
         r2 \<leftarrow> (case map_of (ptr_Deref (status_ReplicationStatus (db_status doltdb)) []) podName of
                 None \<Rightarrow> reconcileReplicationInPod E i currentEpoch
               | Some st \<Rightarrow>
                   if st = ReplicationStateNotConfigured
                   then reconcileReplicationInPod E i currentEpoch else ret None);
         case r2 of
           Some err \<Rightarrow> ret (pod_error podName err)
         | None \<Rightarrow> configure_pods_loop E currentEpoch is
       }
   }"

definition reconcileReplication :: "env \<Rightarrow> outcome op" where
  "reconcileReplication E = do {
     doltdb \<leftarrow> get_db;
     if IsSwitchingPrimary E doltdb then ret (ResultZero, None)
     else case (status_CurrentPrimaryPodIndex (db_status doltdb),
                status_ReplicationEpoch (db_status doltdb)) of
       (Some _, Some currentEpoch) \<Rightarrow> configure_pods_loop E currentEpoch (replica_ordinals doltdb)
     | _ \<Rightarrow> ret (ResultAfter (1 * Second), None)
   }"

section \<open>The reconciler\<close>

definition healthOptions :: "DoltDB \<Rightarrow> HealthOpt list" where
  "healthOptions doltdb =
     [WithDesiredReplicas (spec_Replicas (db_spec doltdb)),
      WithPort (listener_Port (server_Listener (spec_Server (db_spec doltdb)))),
      WithEndpointPolicy EndpointPolicyAll]"

definition Replication_Reconcile :: "env \<Rightarrow> outcome op" where
  "Replication_Reconcile E = do {
     repl \<leftarrow> call_Replication;
     if \<not> repl_Enabled repl then ret (ResultZero, None)
     else do {
       doltdb \<leftarrow> get_db;
       if IsSwitchingPrimary E doltdb then do {
         NewClientSet;
         r \<leftarrow> reconcileSwitchover E;
         closeErr \<leftarrow> ClientSet_Close E;
         ret (ResultZero, r)
       }
       else do {
         h \<leftarrow> IsStatefulSetHealthy E (ObjectKeyFromObject doltdb) (InternalServiceKey doltdb)
               (healthOptions doltdb);
         case h of
           Inl err \<Rightarrow> ret (ResultZero, Some (ErrV ''error checking DoltDB health: '' err))
         | Inr healthy \<Rightarrow>
             if \<not> healthy then ret (ResultAfter (1 * Second), None)
             else do {
               NewClientSet;
               (result, err) \<leftarrow> reconcileReplication E;
               if \<not> IsZero result \<or> err \<noteq> None then do {
                 closeErr \<leftarrow> ClientSet_Close E;
                 ret (result, err)
               }
               else do {
                 r \<leftarrow> reconcileSwitchover E;
                 closeErr \<leftarrow> ClientSet_Close E;
                 ret (ResultZero, r)
               }
             }
       }
     }
   }"

section \<open>What role assignment sends\<close>

text \<open>
  The requests of role assignment for a cluster with recorded primary \<open>i\<close> and recorded epoch \<open>e\<close>:
  queries, the promotion of pod \<open>i\<close> and the demotion of others, all at epoch \<open>e\<close>.
\<close>

definition is_assignment :: "env \<Rightarrow> object_meta \<Rightarrow> int \<Rightarrow> int \<Rightarrow> call \<Rightarrow> bool" where
  "is_assignment E m i e c \<longleftrightarrow> is_query c \<or>
     (\<exists>co k. opt_Host co = pod_host E m k \<and>
        c = CSql co (AssumeClusterRole (if k = i then PrimaryRoleValue else StandbyRoleValue) e))"

lemma is_assignment_query [simp]: "is_query c \<Longrightarrow> is_assignment E m i e c"
  by (simp add: is_assignment_def)

lemma AssumeRole_framed:
  assumes "opt_Host co = pod_host E m k" and "r = (if k = i then PrimaryRoleValue else StandbyRoleValue)"
  shows "wp (AssumeRole E co r e) (\<lambda>_ s'. framed E (is_assignment E m i e) s s') s"
  using assms by (auto simp: AssumeRole_def wp_simps framed_def is_assignment_def)

lemma framed_assign: "framed E is_query s s' \<Longrightarrow> framed E (is_assignment E m i e) s s'"
  using framed_mono is_assignment_query by blast

lemma RemoveClient_framed:
  assumes "framed E P s s1"
  shows "wp (RemoveClientFromCache k) (\<lambda>_. framed E P s) s1"
  by (rule keeps_wp [OF keeps_RemoveClientFromCache [of E P]]) (rule framed_trans [OF assms])

lemma AssumeRole_after:
  assumes "framed E is_query s s1" and "opt_Host c = pod_host E m k"
    and "r = (if k = i then PrimaryRoleValue else StandbyRoleValue)"
  shows "wp (AssumeRole E c r e) (\<lambda>_. framed E (is_assignment E m i e) s) s1"
  by (rule wp_mono [OF AssumeRole_framed [OF assms(2,3)]])
    (blast intro: framed_trans framed_assign [OF assms(1)])

lemma inPod_framed:
  assumes ok: "cache_ok E (obj s)" and m: "m = db_meta (the_db (obj s))"
    and i: "status_CurrentPrimaryPodIndex (db_status (the_db (obj s))) = Some i"
  shows "wp (reconcileReplicationInPod E k e) (\<lambda>_ s'. framed E (is_assignment E m i e) s s') s"
proof (cases "i = k")
  case True
  note current = currentPrimaryClient_wp [OF i m ok]
  show ?thesis
    using i True
    by (auto simp: reconcileReplicationInPod_def wp_simps ConfigurePrimary_def m [symmetric]
        split: sum.split
        intro!: wp_mono [OF current] wp_mono [OF AssumeRole_after] RemoveClient_framed framed_assign)
next
  case False
  show ?thesis
    using i False ok
    by (auto simp: reconcileReplicationInPod_def wp_simps ConfigureReplica_def m [symmetric]
        split: sum.split
        intro!: wp_mono [OF ClientForIndex_wp] wp_mono [OF AssumeRole_after] RemoveClient_framed
          framed_assign)
qed

lemma framed_facts:
  assumes "framed E P s s'"
  shows "db_meta (the_db (obj s')) = db_meta (the_db (obj s))"
    "db_status (the_db (obj s')) = db_status (the_db (obj s))"
    "cache_ok E (obj s) \<Longrightarrow> cache_ok E (obj s')"
  using assms eq_fillD by (auto simp: framed_def)

lemma configure_pods_framed:
  assumes "cache_ok E (obj s)" and "m = db_meta (the_db (obj s))"
    and "status_CurrentPrimaryPodIndex (db_status (the_db (obj s))) = Some i"
  shows "wp (configure_pods_loop E e is) (\<lambda>_ s'. framed E (is_assignment E m i e) s s') s"
  using assms
proof (induction "is" arbitrary: s)
  case (Cons k "is")
  let ?F = "framed E (is_assignment E m i e)"
  have pod: "wp (reconcileReplicationInPod E k e) (\<lambda>_. ?F s) s1" if "?F s s1" for s1
  proof -
    have s1: "cache_ok E (obj s1)" "m = db_meta (the_db (obj s1))"
        "status_CurrentPrimaryPodIndex (db_status (the_db (obj s1))) = Some i"
      using framed_facts [OF that] Cons.prems by simp_all
    show ?thesis
      by (rule wp_mono [OF inPod_framed [OF s1]]) (rule framed_trans [OF that])
  qed
  have loop: "wp (configure_pods_loop E e is) (\<lambda>_. ?F s) s1" if "?F s s1" for s1
  proof -
    have s1: "cache_ok E (obj s1)" "m = db_meta (the_db (obj s1))"
        "status_CurrentPrimaryPodIndex (db_status (the_db (obj s1))) = Some i"
      using framed_facts [OF that] Cons.prems by simp_all
    show ?thesis
      by (rule wp_mono [OF Cons.IH [OF s1]]) (rule framed_trans [OF that])
  qed
  show ?case
    by (auto simp: wp_simps Let_def split: option.split intro!: wp_mono [OF pod] loop)
qed (simp add: wp_simps)

text \<open>\<open>reconcileReplication\<close> sends nothing, or assigns roles as recorded.\<close>

lemma reconcileReplication_framed:
  assumes "cache_ok E (obj s)"
  shows "wp (reconcileReplication E)
    (\<lambda>_ s'. \<exists>t. trace s' = trace s @ t \<and> eq_fill (the_db (obj s)) (the_db (obj s')) \<and>
       cache_ok E (obj s') \<and>
       (t = [] \<or> (\<exists>i e. status_CurrentPrimaryPodIndex (db_status (the_db (obj s))) = Some i \<and>
          status_ReplicationEpoch (db_status (the_db (obj s))) = Some e \<and>
          list_all (is_assignment E (db_meta (the_db (obj s))) i e) t))) s"
proof -
  have pods: "wp (configure_pods_loop E e is)
      (\<lambda>_ s'. \<exists>t. trace s' = trace s @ t \<and> eq_fill (the_db (obj s)) (the_db (obj s')) \<and>
         cache_ok E (obj s') \<and>
         (t = [] \<or> list_all (is_assignment E (db_meta (the_db (obj s))) i e) t)) s"
    if "status_CurrentPrimaryPodIndex (db_status (the_db (obj s))) = Some i" for i e "is"
    by (rule wp_mono [OF configure_pods_framed [OF assms refl that]]) (use assms in \<open>auto simp: framed_def\<close>)
  show ?thesis
    using assms
    by (auto simp: reconcileReplication_def wp_simps split: option.split intro!: wp_mono [OF pods])
qed

end
