(* ===== verification/Failover.thy ===== *)
theory Failover
  imports Replication_Controller
begin

text \<open>
  Automatic failover: the pod controller (\<open>src/internal/controller/pod_controller.go\<close>) watches the
  readiness of the pods, and the pod readiness controller
  (\<open>src/pkg/controller/replication/pod_readiness.go\<close>) requests a switchover to the freshest standby
  when the recorded primary is not ready.
\<close>

section \<open>The candidate\<close>

text \<open>The oldest update among the databases of a standby; 0 is Go's zero time.\<close>

definition oldestUpdate :: "DBState \<Rightarrow> int" where
  "oldestUpdate dbState = oldestDB_loop 0 (dbs_Status dbState)"

fun failover_loop :: "env \<Rightarrow> int option \<Rightarrow> int \<Rightarrow> pod list \<Rightarrow> int option op" where
  "failover_loop E bestIndex bestLastUpdate [] = ret bestIndex"
| "failover_loop E bestIndex bestLastUpdate (standbyPod # rest) =
     (case PodIndex (om_name (pod_meta standbyPod)) of
        Inl err \<Rightarrow> failover_loop E bestIndex bestLastUpdate rest
      | Inr podIndex \<Rightarrow> do {
          c \<leftarrow> ClientForIndex E podIndex;
          case c of
            Inl err \<Rightarrow> failover_loop E bestIndex bestLastUpdate rest
          | Inr client \<Rightarrow> do {
              (dbState, err) \<leftarrow> GetDBState E client;
              if err \<noteq> None then failover_loop E bestIndex bestLastUpdate rest
              else if oldestUpdate dbState = 0 then failover_loop E bestIndex bestLastUpdate rest
              else if bestIndex = None \<or> oldestUpdate dbState > bestLastUpdate
              then failover_loop E (Some podIndex) (oldestUpdate dbState) rest
              else failover_loop E bestIndex bestLastUpdate rest
            }
        })"

definition selectFailoverCandidate :: "env \<Rightarrow> (goerr + int) op" where
  "selectFailoverCandidate E = do {
     r \<leftarrow> HealthyDoltDBStandbys E;
     case r of
       Inl err \<Rightarrow> ret (Inl (ErrV ''error listing healthy standbys: '' err))
     | Inr healthyStandbys \<Rightarrow>
         if healthyStandbys = [] then ret (Inl (ErrNew ''no healthy standbys available''))
         else do {
           NewClientSet;
           bestIndex \<leftarrow> failover_loop E None 0 healthyStandbys;
           closeErr \<leftarrow> ClientSet_Close E;
           ret (case bestIndex of
                  None \<Rightarrow> Inl (ErrNew ''no standby with replicated data found for failover'')
                | Some i \<Rightarrow> Inr i)
         }
   }"

section \<open>The pod readiness controller\<close>

text \<open>
  After defaulting, the pointers \<open>Primary\<close> and \<open>AutomaticFailover\<close> are not nil
  (\<open>ReplPrimary_filled\<close>).
\<close>

definition shouldReconcile :: "bool op" where
  "shouldReconcile = do {
     repl \<leftarrow> call_Replication;
     doltdb \<leftarrow> get_db;
     ret (repl_Enabled repl \<and> primary_AutomaticFailover (ReplPrimary doltdb) = Some True \<and>
          IsReplicationConfigured doltdb)
   }"

text \<open>The choice of the new primary: by freshness, or the first ready pod when that fails.\<close>

definition failoverTarget :: "env \<Rightarrow> (goerr + int) op" where
  "failoverTarget E = do {
     r \<leftarrow> selectFailoverCandidate E;
     case r of
       Inl err \<Rightarrow> HealthyDoltDBReplica E
     | Inr toIndex \<Rightarrow> ret (Inr toIndex)
   }"

text \<open>
  The two patches and the event.  The code keeps pointers into the object, into which the client
  decodes the replies of the server, so the event names the indices of the object at the end.
\<close>

definition PodReadiness_patch :: "env \<Rightarrow> (DoltDB \<Rightarrow> DoltDB) \<Rightarrow> goerr option op" where
  "PodReadiness_patch E patcher = do {
     e \<leftarrow> PatchDoltDB E patcher;
     ret (map_option (ErrV ''error patching DoltDB: '') e)
   }"

definition PodReadiness_patchStatus :: "env \<Rightarrow> (DoltDB \<Rightarrow> DoltDB) \<Rightarrow> goerr option op" where
  "PodReadiness_patchStatus E patcher = do {
     e \<leftarrow> PatchStatus E patcher;
     ret (map_option (ErrV ''error patching DoltDB status: '') e)
   }"

definition requestFailover :: "env \<Rightarrow> int \<Rightarrow> int \<Rightarrow> goerr option op" where
  "requestFailover E fromIndex toIndex = do {
     patchErr \<leftarrow> PodReadiness_patch E (set_primary_PodIndex (Some toIndex));
     statusErr \<leftarrow> PodReadiness_patchStatus E (switching_patch E);
     case errors_Join [patchErr, statusErr] of
       Some err \<Rightarrow> ret (Some (ErrV ''error patching DoltDB: '' err))
     | None \<Rightarrow> do {
         doltdb \<leftarrow> get_db;
         k_Event ''PrimarySwitching''
           (''Switching primary from index '' @
            quoted (show_int (ptr_Deref (status_CurrentPrimaryPodIndex (db_status doltdb)) fromIndex)) @
            '' to index '' @
            quoted (show_int (ptr_Deref (primary_PodIndex (ReplPrimary doltdb)) toIndex)));
         ret None
       }
   }"

lemmas requestFailover_defs = requestFailover_def PodReadiness_patch_def PodReadiness_patchStatus_def

definition ReconcilePodNotReady :: "env \<Rightarrow> pod \<Rightarrow> goerr option op" where
  "ReconcilePodNotReady E p = do {
     go \<leftarrow> shouldReconcile;
     if \<not> go then ret None
     else do {
       doltdb \<leftarrow> get_db;
       case status_CurrentPrimaryPodIndex (db_status doltdb) of
         None \<Rightarrow> ret None
       | Some fromIndex \<Rightarrow>
           (case PodIndex (om_name (pod_meta p)) of
              Inl err \<Rightarrow> ret (Some (ErrV ''error getting Pod index: '' err))
            | Inr index \<Rightarrow>
                if index \<noteq> fromIndex then ret None
                else do {
                  r \<leftarrow> failoverTarget E;
                  case r of
                    Inl err \<Rightarrow> ret (Some (ErrV ''error getting healthy Dolt replica: '' err))
                  | Inr toIndex \<Rightarrow> requestFailover E fromIndex toIndex
                })
     }
   }"

section \<open>The pod controller\<close>

definition Pod_Reconcile :: "env \<Rightarrow> namespaced_name \<Rightarrow> outcome op" where
  "Pod_Reconcile E req = do {
     r \<leftarrow> k_GetPod E req;
     case r of
       Inl err \<Rightarrow> ret (ResultZero, IgnoreNotFound err)
     | Inr p \<Rightarrow> do {
         d \<leftarrow> DoltDBFromAnnotation E (pod_meta p);
         case d of
           Inl err \<Rightarrow>
             if errors_Is err (errText ErrDoltClusterAnnotationNotFound) then ret (ResultZero, None)
             else ret (ResultZero, IgnoreNotFound err)
         | Inr doltdb \<Rightarrow>
             if PodReady p then ret (ResultZero, None)
             else do {
               modify_db (\<lambda>_. doltdb);
               e \<leftarrow> ReconcilePodNotReady E p;
               case e of
                 Some err \<Rightarrow> ret (ResultRequeue, None)
               | None \<Rightarrow> ret (ResultZero, None)
             }
       }
   }"

definition podHasChanged :: "pod \<Rightarrow> pod \<Rightarrow> bool" where
  "podHasChanged oldPod newPod \<longleftrightarrow> PodReady oldPod \<noteq> PodReady newPod"

section \<open>The candidate is the freshest standby\<close>

text \<open>
  A reference for the loop: first ask every standby, keeping the ordinal and the freshness of those
  that answer with at least one timestamp; then take the first of the freshest.
\<close>

fun observe_standbys :: "env \<Rightarrow> pod list \<Rightarrow> (int \<times> int) list op" where
  "observe_standbys E [] = ret []"
| "observe_standbys E (p # ps) =
     (case PodIndex (om_name (pod_meta p)) of
        Inl err \<Rightarrow> observe_standbys E ps
      | Inr k \<Rightarrow> do {
          c \<leftarrow> ClientForIndex E k;
          case c of
            Inl err \<Rightarrow> observe_standbys E ps
          | Inr client \<Rightarrow> do {
              st \<leftarrow> GetDBState E client;
              os \<leftarrow> observe_standbys E ps;
              ret (if snd st = None \<and> oldestUpdate (fst st) \<noteq> 0 then (k, oldestUpdate (fst st)) # os else os)
            }
        })"

definition freshest :: "(int \<times> int) list \<Rightarrow> int option" where
  "freshest os = map_option fst (List.find (\<lambda>(i, t). list_all (\<lambda>(j, u). u \<le> t) os) os)"

fun keep_better :: "int option \<Rightarrow> int \<Rightarrow> (int \<times> int) list \<Rightarrow> int option" where
  "keep_better b t [] = b"
| "keep_better b t ((k, u) # os) =
     (if b = None \<or> u > t then keep_better (Some k) u os else keep_better b t os)"

lemma failover_loop_observes:
  "failover_loop E b t ps = do { os \<leftarrow> observe_standbys E ps; ret (keep_better b t os) }"
proof (induction ps arbitrary: b t)
  case (Cons p ps)
  have rest: "(if err \<noteq> None then failover_loop E b t ps
        else if oldestUpdate st = 0 then failover_loop E b t ps
        else if b = None \<or> oldestUpdate st > t then failover_loop E (Some k) (oldestUpdate st) ps
        else failover_loop E b t ps) =
      do { os \<leftarrow> do { os \<leftarrow> observe_standbys E ps;
               ret (if err = None \<and> oldestUpdate st \<noteq> 0 then (k, oldestUpdate st) # os else os) };
           ret (keep_better b t os) }" for err st k
    by (auto simp: Cons.IH)
  show ?case
    by (simp add: Cons.IH rest [simplified] bind_case_sum split_def cong: sum.case_cong)
qed simp

lemma freshest_pair:
  "freshest ((b, t) # (k, u) # os) = freshest ((if u > t then (k, u) else (b, t)) # os)"
proof -
  have find: "List.find (\<lambda>(i, v). t \<le> v \<and> u \<le> v \<and> list_all (\<lambda>(j, w). w \<le> v) os) xs =
      List.find (\<lambda>(i, v). max t u \<le> v \<and> list_all (\<lambda>(j, w). w \<le> v) os) xs" for xs
    by (rule find_cong) auto
  show ?thesis
  proof (cases "u > t")
    case True
    then show ?thesis
      by (simp add: freshest_def find max_def)
  next
    case False
    then show ?thesis
      by (auto simp: freshest_def find max_def)
  qed
qed

lemma keep_better_freshest:
  "keep_better (Some b) t os = freshest ((b, t) # os)" "keep_better None t os = freshest os"
proof -
  show some: "keep_better (Some b) t os = freshest ((b, t) # os)" for b t os
    by (induction os arbitrary: b t) (auto simp: freshest_def [of "[_]"] freshest_pair)
  show "keep_better None t os = freshest os"
    by (cases os) (auto simp: some freshest_def [of "[]"])
qed

lemma freshest_first_max:
  "(freshest os = Some i) = (\<exists>ys t zs. os = ys @ (i, t) # zs \<and>
      list_all (\<lambda>(j, u). u < t) ys \<and> list_all (\<lambda>(j, u). u \<le> t) zs)"
proof
  assume "freshest os = Some i"
  then obtain t where "List.find (\<lambda>(i, t). list_all (\<lambda>(j, u). u \<le> t) os) os = Some (i, t)"
    by (auto simp: freshest_def)
  then obtain ys zs where os: "os = ys @ (i, t) # zs" "list_all (\<lambda>(j, u). u \<le> t) os"
      and ys: "\<forall>(k, v) \<in> set ys. \<not> list_all (\<lambda>(j, u). u \<le> v) os"
    by (blast dest: find_SomeD)
  have "u < t" if "(k, u) \<in> set ys" for k u
    using ys that os(2) by (fastforce simp: list_all_iff)
  with os show "\<exists>ys t zs. os = ys @ (i, t) # zs \<and>
      list_all (\<lambda>(j, u). u < t) ys \<and> list_all (\<lambda>(j, u). u \<le> t) zs"
    by (intro exI [of _ ys] exI [of _ t] exI [of _ zs]) (auto simp: list_all_iff)
next
  assume "\<exists>ys t zs. os = ys @ (i, t) # zs \<and>
      list_all (\<lambda>(j, u). u < t) ys \<and> list_all (\<lambda>(j, u). u \<le> t) zs"
  then obtain ys t zs where os: "os = ys @ (i, t) # zs" "list_all (\<lambda>(j, u). u < t) ys"
      "list_all (\<lambda>(j, u). u \<le> t) zs"
    by blast
  let ?P = "\<lambda>(k, v). list_all (\<lambda>(j, u). u \<le> v) os"
  have "List.find ?P (xs @ (i, t) # zs) = Some (i, t)" if "set xs \<subseteq> set ys" for xs
    using that os by (induction xs) (force simp: list_all_iff)+
  from this [of ys] os(1) show "freshest os = Some i"
    by (simp add: freshest_def)
qed

lemma freshest_SomeD:
  "freshest os = Some i \<Longrightarrow> \<exists>t. (i, t) \<in> set os \<and> (\<forall>(j, u) \<in> set os. u \<le> t)"
  unfolding freshest_def by (force simp: find_Some_iff list_all_iff in_set_conv_nth)

section \<open>Where a failover goes\<close>

text \<open>
  In the trace \<open>tr\<close> the API server listed, in answer to a request for the pods of \<open>d\<close>, a ready pod
  with ordinal \<open>j\<close>.
\<close>

definition told_ready :: "env \<Rightarrow> DoltDB \<Rightarrow> call list \<Rightarrow> int \<Rightarrow> bool" where
  "told_ready E d tr j \<longleftrightarrow>
     (\<exists>h rest ps p. tr = h @ CListPods (om_namespace (db_meta d)) (DoltSelector d) # rest \<and>
        env_ListPods E h (om_namespace (db_meta d)) (DoltSelector d) = Inr ps \<and> p \<in> set ps \<and>
        PodReady p \<and> PodIndex (om_name (pod_meta p)) = Inr j)"

lemma told_ready_append: "told_ready E d tr j \<Longrightarrow> told_ready E d (tr @ t) j"
  unfolding told_ready_def by (metis append.assoc append_Cons)

lemma told_ready_snoc:
  "env_ListPods E h (om_namespace (db_meta d)) (DoltSelector d) = Inr ps \<Longrightarrow> p \<in> set ps \<Longrightarrow> PodReady p \<Longrightarrow>
   PodIndex (om_name (pod_meta p)) = Inr j \<Longrightarrow>
   told_ready E d (h @ [CListPods (om_namespace (db_meta d)) (DoltSelector d)]) j"
  unfolding told_ready_def by blast

lemma told_ready_eq_fill: "eq_fill d d' \<Longrightarrow> told_ready E d' = told_ready E d"
  by (simp add: told_ready_def fun_eq_iff DoltSelector_eq_fill eq_fillD)

lemma HealthyDoltDBStandbys_told:
  assumes "status_CurrentPrimaryPodIndex (db_status (the_db (obj s))) = Some i"
  shows "wp (HealthyDoltDBStandbys E)
    (\<lambda>r s'. framed E is_query s s' \<and>
       (\<forall>out. r = Inr out \<longrightarrow> (\<forall>p \<in> set out. \<forall>j. PodIndex (om_name (pod_meta p)) = Inr j \<longrightarrow>
          j \<noteq> i \<and> told_ready E (the_db (obj s)) (trace s') j))) s"
  using assms
  by (auto simp: HealthyDoltDBStandbys_def wp_simps framed_request split: sum.split
      dest!: healthy_standbys_loop_Inr intro: told_ready_snoc)

lemma HealthyDoltDBReplica_told:
  assumes "status_CurrentPrimaryPodIndex (db_status (the_db (obj s))) = Some i"
  shows "wp (HealthyDoltDBReplica E)
    (\<lambda>r s'. framed E is_query s s' \<and>
       (\<forall>j. r = Inr j \<longrightarrow> j \<noteq> i \<and> told_ready E (the_db (obj s)) (trace s') j)) s"
  using assms
  by (auto simp: HealthyDoltDBReplica_def wp_simps framed_request split: sum.split
      dest!: healthy_replica_loop_Inr intro: told_ready_snoc)

lemma keeps_observe [keeps_intros]: "keeps E is_query (observe_standbys E ps)"
  by (induction ps) (auto intro!: keeps_intros split: sum.split)

lemma observe_standbys_from:
  assumes "\<And>p k. p \<in> set ps \<Longrightarrow> PodIndex (om_name (pod_meta p)) = Inr k \<Longrightarrow> k \<in> K"
  shows "wp (observe_standbys E ps) (\<lambda>os s'. framed E is_query s s' \<and> fst ` set os \<subseteq> K) s"
proof (rule wp_conj)
  show "wp (observe_standbys E ps) (\<lambda>_. framed E is_query s) s"
    using keeps_observe by (simp add: keeps_def)
  show "wp (observe_standbys E ps) (\<lambda>os _. fst ` set os \<subseteq> K) s"
    using assms
  proof (induction ps arbitrary: s)
    case (Cons p ps)
    have rest: "wp (observe_standbys E ps) (\<lambda>os _. fst ` set os \<subseteq> K) s1" for s1
      by (rule Cons.IH) (use Cons.prems in auto)
    have added: "wp (observe_standbys E ps) (\<lambda>os _. fst ` set (if b then (k, t) # os else os) \<subseteq> K) s1"
      if "PodIndex (om_name (pod_meta p)) = Inr k" for b k t s1
      by (rule wp_mono [OF rest]) (use that Cons.prems in auto)
    show ?case
      by (auto simp: wp_simps rest added split: sum.split
          intro!: wp_any [where p = "ClientForIndex E k" for k] wp_any [where p = "GetDBState E c" for c])
  qed (simp add: wp_simps)
qed

text \<open>The candidate and the fallback: never the recorded primary, always a pod listed as ready.\<close>

lemma selectFailoverCandidate_told:
  assumes "status_CurrentPrimaryPodIndex (db_status (the_db (obj s))) = Some i"
  shows "wp (selectFailoverCandidate E)
    (\<lambda>r s'. framed E is_query s s' \<and>
       (\<forall>j. r = Inr j \<longrightarrow> j \<noteq> i \<and> told_ready E (the_db (obj s)) (trace s') j)) s"
proof -
  let ?T = "\<lambda>s'. {j. j \<noteq> i \<and> told_ready E (the_db (obj s)) (trace s') j}"
  have grows: "?T s1 \<subseteq> ?T s2" if "framed E P s1 s2" for P s1 s2
    using that by (auto simp: framed_def told_ready_append)
  have finish: "wp (ClientSet_Close E)
      (\<lambda>_ s'. framed E is_query s s' \<and> (\<forall>j. freshest os = Some j \<longrightarrow> j \<in> ?T s')) s2"
    if "framed E is_query s s2" "fst ` set os \<subseteq> ?T s2"
    for os :: "(int \<times> int) list" and s2
  proof (rule keeps_wp [OF keeps_close(2)], rule conjI)
    fix s3
    assume s3: "framed E is_query s2 s3"
    show "framed E is_query s s3" by (rule framed_trans [OF that(1) s3])
    show "\<forall>j. freshest os = Some j \<longrightarrow> j \<in> ?T s3"
      using freshest_SomeD [of os] that(2) grows [OF s3] by force
  qed
  have observe: "wp (observe_standbys E ps)
      (\<lambda>os s2. wp (ClientSet_Close E)
         (\<lambda>_ s'. framed E is_query s s' \<and> (\<forall>j. freshest os = Some j \<longrightarrow> j \<in> ?T s')) s2) s1"
    if f: "framed E is_query s s1"
      and ps: "\<forall>p \<in> set ps. \<forall>j. PodIndex (om_name (pod_meta p)) = Inr j \<longrightarrow> j \<in> ?T s1" for ps s1
  proof (rule wp_mono [OF observe_standbys_from [of ps "?T s1"]])
    fix os :: "(int \<times> int) list" and s2
    assume os: "framed E is_query s1 s2 \<and> fst ` set os \<subseteq> ?T s1"
    show "wp (ClientSet_Close E)
        (\<lambda>_ s'. framed E is_query s s' \<and> (\<forall>j. freshest os = Some j \<longrightarrow> j \<in> ?T s')) s2"
      by (rule finish [OF framed_trans [OF f conjunct1 [OF os]]
            subset_trans [OF conjunct2 [OF os] grows [OF conjunct1 [OF os]]]])
  qed (use ps in blast)
  have new: "framed E is_query s (s1\<lparr>obj := (obj s1)\<lparr>clients := []\<rparr>\<rparr>)" if "framed E is_query s s1" for s1
    using that by (auto simp: framed_def cache_ok_def)
  show ?thesis
    by (auto simp: selectFailoverCandidate_def wp_simps failover_loop_observes keep_better_freshest
        NewClientSet_def new split: sum.splits option.split
        intro!: wp_mono [OF HealthyDoltDBStandbys_told [OF assms]] wp_mono [OF observe [simplified]]) blast
qed

lemma failoverTarget_told:
  assumes i: "status_CurrentPrimaryPodIndex (db_status (the_db (obj s))) = Some i"
  shows "wp (failoverTarget E)
    (\<lambda>r s'. framed E is_query s s' \<and>
       (\<forall>j. r = Inr j \<longrightarrow> j \<noteq> i \<and> told_ready E (the_db (obj s)) (trace s') j)) s"
proof -
  have fallback: "wp (HealthyDoltDBReplica E)
      (\<lambda>r s'. framed E is_query s s' \<and>
         (\<forall>j. r = Inr j \<longrightarrow> j \<noteq> i \<and> told_ready E (the_db (obj s)) (trace s') j)) s1"
    if f: "framed E is_query s s1" for s1
  proof -
    have "status_CurrentPrimaryPodIndex (db_status (the_db (obj s1))) = Some i"
      using i framedD(2) [OF f] by simp
    from HealthyDoltDBReplica_told [OF this, of E] show ?thesis
      by (rule wp_mono)
        (use framed_trans [OF f] told_ready_eq_fill [OF framed_eq_fill [OF f]] in auto)
  qed
  show ?thesis
    by (auto simp: failoverTarget_def wp_simps split: sum.split
        intro!: wp_mono [OF selectFailoverCandidate_told [OF i]] fallback)
qed

text \<open>The conditions under which a failover is requested.\<close>

definition failover_due :: "pod \<Rightarrow> DoltDB \<Rightarrow> bool" where
  "failover_due p d \<longleftrightarrow>
     ReplEnabled d \<and> primary_AutomaticFailover (ReplPrimary d) = Some True \<and> IsReplicationConfigured d \<and>
     (\<exists>i. status_CurrentPrimaryPodIndex (db_status d) = Some i \<and> PodIndex (om_name (pod_meta p)) = Inr i)"

text \<open>
  The requests of a failover: queries that end with a choice, the patch that names the chosen pod as
  the primary, the patch that marks the switchover, and an event.
\<close>

definition failover_trace :: "env \<Rightarrow> DoltDB \<Rightarrow> call list \<Rightarrow> call list \<Rightarrow> bool" where
  "failover_trace E d h t \<longleftrightarrow>
     list_all is_query t \<or>
     (\<exists>q j base mid rest. t = q @ CPatchDoltDB base (set_primary_PodIndex (Some j) base) #
           CPatchDoltDBStatus mid (switching_patch E mid) # rest \<and>
        list_all is_query q \<and> list_all is_query rest \<and> eq_fill d base \<and>
        status_CurrentPrimaryPodIndex (db_status d) \<noteq> Some j \<and> told_ready E d (h @ q) j)"

lemma requestFailover_trace:
  assumes f: "framed E is_query s s1" and j: "told_ready E (the_db (obj s)) (trace s1) j"
    and i: "status_CurrentPrimaryPodIndex (db_status (the_db (obj s))) \<noteq> Some j"
  shows "wp (requestFailover E k j)
    (\<lambda>_ s'. \<exists>t. trace s' = trace s @ t \<and> failover_trace E (the_db (obj s)) (trace s) t) s1"
proof -
  let ?base = "the_db (obj s1)"
  obtain q where q: "trace s1 = trace s @ q" "list_all is_query q"
    using f by (auto simp: framed_def)
  have base: "eq_fill (the_db (obj s)) ?base" by (rule framed_eq_fill [OF f])
  have shape: "\<exists>t. trace s1 @ CPatchDoltDB ?base (set_primary_PodIndex (Some j) ?base) #
        CPatchDoltDBStatus mid (switching_patch E mid) # rest = trace s @ t \<and>
      failover_trace E (the_db (obj s)) (trace s) t"
    if "list_all is_query rest" for mid rest
    unfolding failover_trace_def q(1) append.assoc
    by (rule exI, rule conjI [OF refl], rule disjI2, rule exI [of _ q], rule exI [of _ j],
        rule exI [of _ ?base], rule exI [of _ mid], rule exI [of _ rest])
      (use q that base i j in simp)
  show ?thesis
    by (auto simp: requestFailover_defs PatchDoltDB_def wp_simps shape [of "[]", simplified]
        shape [of "[_]", simplified] split: sum.split option.split)
qed

lemma ReconcilePodNotReady_trace:
  "wp (ReconcilePodNotReady E p)
     (\<lambda>r s'. \<exists>t. trace s' = trace s @ t \<and> failover_trace E (the_db (obj s)) (trace s) t \<and>
        (\<not> failover_due p (the_db (obj s)) \<longrightarrow> t = [])) s"
proof -
  let ?d = "the_db (obj s)" and ?s = "s\<lparr>obj := (obj s)\<lparr>the_db := Replication_fill (the_db (obj s))\<rparr>\<rparr>"
  show ?thesis
  proof (cases "failover_due p ?d")
    case False
    then show ?thesis
      unfolding ReconcilePodNotReady_def shouldReconcile_def
      by (auto simp: wp_simps failover_trace_def failover_due_def IsReplicationConfigured_def
          split: option.split sum.split)
  next
    case True
    then obtain i where i: "status_CurrentPrimaryPodIndex (db_status ?d) = Some i"
        "PodIndex (om_name (pod_meta p)) = Inr i"
      by (auto simp: failover_due_def)
    have target: "wp (failoverTarget E)
        (\<lambda>r s'. framed E is_query s s' \<and> (\<forall>j. r = Inr j \<longrightarrow> j \<noteq> i \<and> told_ready E ?d (trace s') j)) ?s"
      by (rule wp_mono [OF failoverTarget_told [of ?s]])
        (use i framed_trans [OF framed_db] told_ready_eq_fill [of ?d "Replication_fill ?d"] in auto)
    have queries: "\<exists>t. trace s' = trace s @ t \<and> failover_trace E ?d (trace s) t" if "framed E is_query s s'" for s'
      using that by (auto simp: framed_def failover_trace_def)
    have go: "ReplEnabled ?d" "primary_AutomaticFailover (ReplPrimary ?d) = Some True"
        "IsReplicationConfigured (Replication_fill ?d)"
      using True by (simp_all add: failover_due_def IsReplicationConfigured_def)
    show ?thesis
      unfolding ReconcilePodNotReady_def shouldReconcile_def
      by (auto simp: wp_simps go i True split: sum.split
          intro!: wp_mono [OF target] queries requestFailover_trace)
  qed
qed

section \<open>A failover is requested\<close>

text \<open>The API server lists pods of the set, one of them ready and not the recorded primary \<open>i\<close>.\<close>

definition lists_standby :: "env \<Rightarrow> DoltDB \<Rightarrow> int \<Rightarrow> bool" where
  "lists_standby E d i \<longleftrightarrow>
     (\<forall>h. \<exists>ps. env_ListPods E h (om_namespace (db_meta d)) (DoltSelector d) = Inr ps \<and>
        (\<forall>p \<in> set ps. \<exists>k. PodIndex (om_name (pod_meta p)) = Inr k) \<and>
        (\<exists>p \<in> set ps. PodReady p \<and> PodIndex (om_name (pod_meta p)) \<noteq> Inr i))"

definition echoes_patches :: "env \<Rightarrow> bool" where
  "echoes_patches E \<longleftrightarrow>
     (\<forall>h b n. env_PatchDoltDB E h b n = Inr n) \<and> (\<forall>h b n. env_PatchDoltDBStatus E h b n = Inr n)"

lemma healthy_replica_loop_finds:
  assumes "\<forall>p \<in> set ps. \<exists>k. PodIndex (om_name (pod_meta p)) = Inr k"
    and "\<exists>p \<in> set ps. PodReady p \<and> PodIndex (om_name (pod_meta p)) \<noteq> Inr i"
  shows "\<exists>j. healthy_replica_loop i ps = Inr j"
  using assms by (induction ps) (auto split: sum.split)

lemma failoverTarget_finds:
  assumes i: "status_CurrentPrimaryPodIndex (db_status (the_db (obj s))) = Some i"
    and ps: "lists_standby E (the_db (obj s)) i"
  shows "wp (failoverTarget E)
    (\<lambda>r s'. framed E is_query s s' \<and> (\<exists>j. r = Inr j \<and> j \<noteq> i)) s"
proof -
  have fallback: "wp (HealthyDoltDBReplica E) (\<lambda>r _. \<exists>j. r = Inr j) s1" if f: "framed E is_query s s1" for s1
  proof -
    let ?d = "the_db (obj s1)"
    have d: "status_CurrentPrimaryPodIndex (db_status ?d) = Some i"
        "om_namespace (db_meta ?d) = om_namespace (db_meta (the_db (obj s)))"
        "DoltSelector ?d = DoltSelector (the_db (obj s))"
      using i framedD(1,2) [OF f] DoltSelector_eq_fill [OF framed_eq_fill [OF f]] by simp_all
    obtain pods where pods: "env_ListPods E (trace s1) (om_namespace (db_meta ?d)) (DoltSelector ?d) = Inr pods"
        "\<forall>p \<in> set pods. \<exists>k. PodIndex (om_name (pod_meta p)) = Inr k"
        "\<exists>p \<in> set pods. PodReady p \<and> PodIndex (om_name (pod_meta p)) \<noteq> Inr i"
      using ps unfolding lists_standby_def d(2,3) by blast
    from healthy_replica_loop_finds [of "sortPodList pods" i] pods(2,3) pods(1) d(1) show ?thesis
      by (simp add: HealthyDoltDBReplica_def wp_simps)
  qed
  have "wp (failoverTarget E) (\<lambda>r _. \<exists>j. r = Inr j) s"
    by (auto simp: failoverTarget_def wp_simps split: sum.split
        intro!: wp_mono [OF selectFailoverCandidate_told [OF i]] fallback)
  from wp_conj [OF failoverTarget_told [OF i, of E] this] show ?thesis
    by (rule wp_mono) auto
qed

lemma waiting_after_switching:
  assumes "condition_library E"
  shows "IsWaitingForStorageResize E (switching_patch E d) = IsWaitingForStorageResize E d"
  using condition_library.condition_facts [OF assms]
  by (simp add: switching_patch_def IsWaitingForStorageResize_def ConditionTypeReady_def
      ConditionTypePrimarySwitched_def ConditionTypeStorageResized_def)

lemma requestFailover_result:
  assumes "condition_library E" and "echoes_patches E" and "j \<noteq> i"
    and i: "status_CurrentPrimaryPodIndex (db_status (the_db (obj s))) = Some i"
  shows "wp (requestFailover E i j)
    (\<lambda>r s'. r = None \<and> (\<exists>b n. CPatchDoltDB b n \<in> set (trace s')) \<and> IsSwitchingPrimary E (the_db (obj s')) \<and>
       IsWaitingForStorageResize E (the_db (obj s')) = IsWaitingForStorageResize E (the_db (obj s)) \<and>
       primary_PodIndex (ReplPrimary (the_db (obj s'))) = Some j \<and>
       status_CurrentPrimaryPodIndex (db_status (the_db (obj s'))) = Some i) s"
proof -
  have patch: "IsSwitchingPrimary E (switching_patch E d)"
      "IsWaitingForStorageResize E (switching_patch E d) = IsWaitingForStorageResize E d" "ReplPrimary (switching_patch E d) = ReplPrimary d"
      "status_CurrentPrimaryPodIndex (db_status (switching_patch E d)) = status_CurrentPrimaryPodIndex (db_status d)"
    for d
    using condition_library.IsSwitching_after_SetPrimarySwitching [OF assms(1), of "switching_patch E d"]
      waiting_after_switching [OF assms(1)]
    by (simp_all add: switching_patch_def SetPrimarySwitching_def Let_def)
  have named: "IsWaitingForStorageResize E (set_primary_PodIndex k d) = IsWaitingForStorageResize E d" for k d
    by (simp add: IsWaitingForStorageResize_def)
  show ?thesis
    using assms(2) i
    by (auto simp: requestFailover_defs PatchDoltDB_def wp_simps echoes_patches_def errors_Join_two patch named)
qed

lemma ReconcilePodNotReady_result:
  assumes lib: "condition_library E" and echo: "echoes_patches E"
    and due: "failover_due p (the_db (obj s))"
    and i: "status_CurrentPrimaryPodIndex (db_status (the_db (obj s))) = Some i"
    and ps: "lists_standby E (the_db (obj s)) i"
  shows "wp (ReconcilePodNotReady E p)
    (\<lambda>r s'. r = None \<and> (\<exists>b n. CPatchDoltDB b n \<in> set (trace s')) \<and> IsSwitchingPrimary E (the_db (obj s')) \<and>
       IsWaitingForStorageResize E (the_db (obj s')) = IsWaitingForStorageResize E (the_db (obj s)) \<and>
       status_CurrentPrimaryPodIndex (db_status (the_db (obj s'))) = Some i \<and>
       (\<exists>j. j \<noteq> i \<and> primary_PodIndex (ReplPrimary (the_db (obj s'))) = Some j)) s"
proof -
  let ?d = "the_db (obj s)" and ?s = "s\<lparr>obj := (obj s)\<lparr>the_db := Replication_fill (the_db (obj s))\<rparr>\<rparr>"
  have filled: "status_CurrentPrimaryPodIndex (db_status (the_db (obj ?s))) = Some i"
      "lists_standby E (the_db (obj ?s)) i"
    using i ps DoltSelector_eq_fill [of ?d "Replication_fill ?d"] by (simp_all add: lists_standby_def)
  have request: "wp (requestFailover E i j)
      (\<lambda>r s'. r = None \<and> (\<exists>b n. CPatchDoltDB b n \<in> set (trace s')) \<and> IsSwitchingPrimary E (the_db (obj s')) \<and>
       IsWaitingForStorageResize E (the_db (obj s')) = IsWaitingForStorageResize E (the_db (obj s)) \<and>
         status_CurrentPrimaryPodIndex (db_status (the_db (obj s'))) = Some i \<and>
         (\<exists>j. j \<noteq> i \<and> primary_PodIndex (ReplPrimary (the_db (obj s'))) = Some j)) s1"
    if f: "framed E is_query ?s s1" and "j \<noteq> i" for j s1
  proof -
    have st: "db_status (the_db (obj s1)) = db_status ?d"
      using framedD(2) [OF f] by simp
    then have "status_CurrentPrimaryPodIndex (db_status (the_db (obj s1))) = Some i"
      using i by simp
    from requestFailover_result [OF lib echo that(2) this] show ?thesis
      by (rule wp_mono) (use that(2) st in \<open>auto simp: IsWaitingForStorageResize_def\<close>)
  qed
  have go: "ReplEnabled ?d" "primary_AutomaticFailover (ReplPrimary ?d) = Some True"
      "IsReplicationConfigured (Replication_fill ?d)" "PodIndex (om_name (pod_meta p)) = Inr i"
    using due i by (auto simp: failover_due_def IsReplicationConfigured_def)
  show ?thesis
    unfolding ReconcilePodNotReady_def shouldReconcile_def
    by (auto simp: wp_simps go i intro!: wp_mono [OF failoverTarget_finds [OF filled]] request)
qed

end
