(* ===== verification/Failover_Properties.thy ===== *)
theory Failover_Properties
  imports Failover
begin

text \<open>
  The properties of role assignment and of automatic failover.
\<close>

section \<open>A cluster whose primary has failed\<close>

definition failed_pod :: pod where
  "failed_pod = (ref_pod ''dolt-0'')\<lparr>pod_conditions := [\<lparr>pc_type = ''Ready'', pc_status = CondFalse\<rparr>]\<rparr>"

definition failover_db :: DoltDB where
  "failover_db = ref_db\<lparr>db_spec := ref_spec 3 0,
     db_status := (ref_status (Some 0) (Some 4))\<lparr>status_ReplicationStatus :=
       Some [(''dolt-0'', ReplicationStatePrimary), (''dolt-1'', ReplicationStateStandby),
             (''dolt-2'', ReplicationStateStandby)]\<rparr>\<rparr>"

lemma failover_db_facts:
  "failover_due failed_pod failover_db" "lists_standby ref_env failover_db 0" "echoes_patches ref_env"
  "status_CurrentPrimaryPodIndex (db_status failover_db) = Some 0"
proof -
  show "failover_due failed_pod failover_db"
    by (simp add: failover_due_def failover_db_def failed_pod_def ref_db_def ref_spec_def ref_status_def
        ref_pod_def ref_meta_def Replication_def ReplPrimary_def ReplicationSpec_FillWithDefaults_def
        PrimaryReplication_FillWithDefaults_def IsReplicationConfigured_def
        ReplicationStatus_IsReplicationConfigured_def Let_def)
  show "lists_standby ref_env failover_db 0"
    by (simp add: lists_standby_def ref_env_def ref_pod_def ref_meta_def PodReady_def)
qed (simp_all add: failover_db_def ref_status_def echoes_patches_def ref_env_def)

section \<open>The pod controller and the failing switchover\<close>

text \<open>
  The requests \<open>t\<close> of a pass over the pod \<open>req\<close> that are more than queries: the pod, the DoltDB that
  its annotation names in its own namespace, and then the requests of a failover of that DoltDB.
\<close>

definition failover_of_owner :: "env \<Rightarrow> call list \<Rightarrow> namespaced_name \<Rightarrow> call list \<Rightarrow> bool" where
  "failover_of_owner E h req t \<longleftrightarrow>
     (\<exists>p n d u. let owner = nn n (om_namespace (pod_meta p)) in
        t = CGetPod req # CGetDoltDB owner # u \<and>
        env_GetPod E h req = Inr p \<and> \<not> PodReady p \<and>
        map_of (om_annotations (pod_meta p)) Annotation = Some n \<and>
        env_GetDoltDB E (h @ [CGetPod req]) owner = Inr d \<and> failover_due p d \<and>
        failover_trace E d (h @ [CGetPod req, CGetDoltDB owner]) u)"

lemma Pod_Reconcile_trace:
  "wp (Pod_Reconcile E req)
     (\<lambda>r s'. \<exists>t. trace s' = trace s @ t \<and>
        (list_all is_query t \<or> (failover_of_owner E (trace s) req t \<and> snd r = None))) s"
proof -
  have owner: "wp (ReconcilePodNotReady E p)
      (\<lambda>r s'. \<exists>t. trace s' = trace s @ CGetPod req # CGetDoltDB k # t \<and>
         (list_all is_query t \<or> failover_of_owner E (trace s) req (CGetPod req # CGetDoltDB k # t))) s1"
    if "trace s1 = trace s @ [CGetPod req, CGetDoltDB k]" "the_db (obj s1) = d" "\<not> PodReady p"
      "env_GetPod E (trace s) req = Inr p" "map_of (om_annotations (pod_meta p)) Annotation = Some n"
      "k = nn n (om_namespace (pod_meta p))" "env_GetDoltDB E (trace s @ [CGetPod req]) k = Inr d" for p n k d s1
  proof (rule wp_mono [OF ReconcilePodNotReady_trace], elim exE conjE)
    fix s' t
    assume t: "trace s' = trace s1 @ t" "failover_trace E (the_db (obj s1)) (trace s1) t"
      "\<not> failover_due p (the_db (obj s1)) \<longrightarrow> t = []"
    show "\<exists>t. trace s' = trace s @ CGetPod req # CGetDoltDB k # t \<and>
        (list_all is_query t \<or> failover_of_owner E (trace s) req (CGetPod req # CGetDoltDB k # t))"
    proof (intro exI [of _ t] conjI)
      show "trace s' = trace s @ CGetPod req # CGetDoltDB k # t"
        using t(1) that(1) by simp
      show "list_all is_query t \<or> failover_of_owner E (trace s) req (CGetPod req # CGetDoltDB k # t)"
      proof (cases "failover_due p d")
        case True
        have "failover_of_owner E (trace s) req (CGetPod req # CGetDoltDB k # t)"
          unfolding failover_of_owner_def Let_def
          by (rule exI [of _ p], rule exI [of _ n], rule exI [of _ d], rule exI [of _ t])
            (use that t(2) True in simp)
        then show ?thesis ..
      qed (use t(3) that(2) in simp)
    qed
  qed
  show ?thesis
    unfolding Pod_Reconcile_def DoltDBFromAnnotation_def
    by (auto simp: wp_simps split: sum.split option.split if_splits intro!: wp_mono [OF owner])
qed

lemma reconcileSwitchover_fails:
  assumes "sole_status_writer E" and "switchover_needed E (the_db (obj s))"
    and "\<And>h. \<exists>p. env_GetPod E h (pod_key (db_meta (the_db (obj s)))
           (fst (primaryAndEpochOrStatus (the_db (obj s)) (observed_states E s)))) = Inr p \<and> \<not> PodReady p"
  shows "wp (reconcileSwitchover E) (\<lambda>r _. r \<noteq> None) s"
  unfolding reconcileSwitchover_def
proof (subst wp_bind, rule wp_mono [OF observed_states_wp], subst wp_bind, elim conjE,
    rule wp_mono [OF shouldReconcileSwitchover_wp], elim conjE)
  fix states s1 go s2
  assume st: "states = observed_states E s" and f1: "framed E is_query s s1"
    and f2: "framed E is_query s1 s2" and go: "go \<longleftrightarrow> switchover_needed E (the_db (obj s1))"
  have f: "eq_fill (the_db (obj s)) (the_db (obj s2))"
    by (rule framed_eq_fill [OF framed_trans [OF f1 f2]])
  have go: "go"
    using assms(2) go switchover_needed_eq_fill [OF framed_eq_fill [OF f1]] by blast
  let ?n = "switching_patch E (the_db (obj s2))"
  have meta: "db_meta d = db_meta (the_db (obj s))" if "env_PatchDoltDBStatus E h b ?n = Inr d" for h b d
    using assms(1) that eq_fillD(1) [OF f] by (auto simp: sole_status_writer_def switching_patch_def)
  have phases: "wp (run_phases ctx (switchoverPhases E)) (\<lambda>r _. r \<noteq> None) s3"
    if "db_meta (the_db (obj s3)) = db_meta (the_db (obj s))"
      "ctx_currentPrimary ctx = fst (primaryAndEpochOrStatus (the_db (obj s)) (observed_states E s))" for ctx s3
    by (rule phases_fail) (use assms(3) that in simp)
  show "wp (if \<not> go then ret None else performSwitchover E states) (\<lambda>r _. r \<noteq> None) s2"
    unfolding st
    by (auto simp: go performSwitchover_def wp_simps Let_def primaryAndEpochOrStatus_eq_fill [OF f]
        split: prod.split sum.split intro!: wp_mono [OF phases] meta)
qed

section \<open>A failed pod that names its DoltDB\<close>

definition owned_pod :: pod where
  "owned_pod = failed_pod\<lparr>pod_meta := (pod_meta failed_pod)\<lparr>om_annotations := [(Annotation, ''dolt'')]\<rparr>\<rparr>"

definition owner_env :: env where
  "owner_env = ref_env\<lparr>env_GetPod := (\<lambda>h k. Inr owned_pod),
     env_GetDoltDB := (\<lambda>h k. if nn_name k = ''dolt'' then Inr failover_db else Inl (ApiErr NotFound []))\<rparr>"

lemma owner_env_contracts:
  "condition_library owner_env" "echoes_patches owner_env" "lists_standby owner_env failover_db 0"
  "failover_due owned_pod failover_db" "\<not> PodReady owned_pod"
proof -
  show "condition_library owner_env" "echoes_patches owner_env" "lists_standby owner_env failover_db 0"
    using ref_env_contract failover_db_facts(2,3)
    by (simp_all add: owner_env_def condition_library_def echoes_patches_def lists_standby_def)
  show "failover_due owned_pod failover_db" "\<not> PodReady owned_pod"
    using failover_db_facts(1)
    by (simp_all add: failover_due_def owned_pod_def failed_pod_def PodReady_def)
qed

lemma owner_env_writes:
  "wp (Pod_Reconcile owner_env (nn ''dolt-0'' ''ns'')) (\<lambda>_ s'. \<exists>b n. CPatchDoltDB b n \<in> set (trace s')) s"
proof -
  have writes: "wp (ReconcilePodNotReady owner_env owned_pod) (\<lambda>_ s'. \<exists>b n. CPatchDoltDB b n \<in> set (trace s')) s1"
    if "the_db (obj s1) = failover_db" for s1
    by (rule wp_mono [OF ReconcilePodNotReady_result [OF owner_env_contracts(1,2), where i = 0]])
      (use that owner_env_contracts failover_db_facts(4) in auto)
  have "env_GetPod owner_env h k = Inr owned_pod" "map_of (om_annotations (pod_meta owned_pod)) Annotation = Some ''dolt''"
      "env_GetDoltDB owner_env h (nn ''dolt'' ns) = Inr failover_db" for h k ns
    by (simp_all add: owner_env_def owned_pod_def)
  then show ?thesis
    unfolding Pod_Reconcile_def DoltDBFromAnnotation_def
    by (auto simp: wp_simps owner_env_contracts(5) split: option.split intro!: wp_mono [OF writes]) blast+
qed

section \<open>Properties\<close>

text \<open>
  C7: The failover candidate is the freshest standby.  The one-pass loop equals asking every ready
  standby first and then taking the freshest answer; the freshness of a standby is its oldest
  timestamp, a standby without timestamps or one that cannot be asked does not count, and of
  several freshest standbys the first one in the list is taken.
\<close>

theorem failover_candidate_freshest:
  "failover_loop E None 0 pods = do { os \<leftarrow> observe_standbys E pods; ret (freshest os) } \<and>
   (freshest os = Some i) = (\<exists>ys t zs. os = ys @ (i, t) # zs \<and>
      list_all (\<lambda>(j, u). u < t) ys \<and> list_all (\<lambda>(j, u). u \<le> t) zs)"
proof
  show "failover_loop E None 0 pods = do { os \<leftarrow> observe_standbys E pods; ret (freshest os) }"
    by (simp add: failover_loop_observes keep_better_freshest)
  show "(freshest os = Some i) = (\<exists>ys t zs. os = ys @ (i, t) # zs \<and>
      list_all (\<lambda>(j, u). u < t) ys \<and> list_all (\<lambda>(j, u). u \<le> t) zs)"
    by (rule freshest_first_max)
qed

text \<open>
  C8: What the failover controller sends.  Unless the pod is the recorded primary, replication is
  enabled and configured, and automatic failover is on, it sends nothing at all.  Otherwise it only
  queries, or it queries, names another pod as the desired primary, and marks the switchover; that
  pod is never the recorded primary, and the API server has listed it as ready before.
\<close>

theorem failover_requests:
  assumes "run_state (ReconcilePodNotReady E p) s = (r, s')"
  shows "\<exists>t. trace s' = trace s @ t \<and> failover_trace E (the_db (obj s)) (trace s) t \<and>
     (\<not> failover_due p (the_db (obj s)) \<longrightarrow> t = [])"
  using wpI [OF ReconcilePodNotReady_trace assms] .

theorem failover_requests_witness:
  "\<exists>r s' t. run_state (ReconcilePodNotReady ref_env failed_pod) (ref_cfg failover_db) = (r, s') \<and>
     trace s' = t \<and> failover_trace ref_env failover_db [] t"
proof -
  obtain r s' where run: "run_state (ReconcilePodNotReady ref_env failed_pod) (ref_cfg failover_db) = (r, s')"
    by (cases "run_state (ReconcilePodNotReady ref_env failed_pod) (ref_cfg failover_db)")
  from failover_requests [OF this] run show ?thesis
    by (auto simp: ref_cfg_def)
qed

text \<open>
  C9: A failover is requested.  When it is due, the API server lists a ready standby and the patches
  are applied, the controller returns without error, and the object asks for another primary and
  is marked as switching, with the recorded primary unchanged.
\<close>

theorem failover_requests_switchover:
  assumes "condition_library E" and "echoes_patches E" and "failover_due p (the_db (obj s))"
    and "status_CurrentPrimaryPodIndex (db_status (the_db (obj s))) = Some i"
    and "lists_standby E (the_db (obj s)) i"
    and "run_state (ReconcilePodNotReady E p) s = (r, s')"
  shows "r = None \<and> IsSwitchingPrimary E (the_db (obj s')) \<and>
     status_CurrentPrimaryPodIndex (db_status (the_db (obj s'))) = Some i \<and>
     (\<exists>j. j \<noteq> i \<and> primary_PodIndex (ReplPrimary (the_db (obj s'))) = Some j)"
  using wpI [OF ReconcilePodNotReady_result [OF assms(1-5)] assms(6)] by blast

theorem failover_requests_switchover_witness:
  "\<exists>s'. run_state (ReconcilePodNotReady ref_env failed_pod) (ref_cfg failover_db) = (None, s') \<and>
     IsSwitchingPrimary ref_env (the_db (obj s')) \<and>
     (\<exists>j. j \<noteq> 0 \<and> primary_PodIndex (ReplPrimary (the_db (obj s'))) = Some j)"
proof -
  obtain r s' where run: "run_state (ReconcilePodNotReady ref_env failed_pod) (ref_cfg failover_db) = (r, s')"
    by (cases "run_state (ReconcilePodNotReady ref_env failed_pod) (ref_cfg failover_db)")
  have d: "the_db (obj (ref_cfg failover_db)) = failover_db"
    by (simp add: ref_cfg_def)
  show ?thesis
    using failover_requests_switchover [OF ref_env_contract failover_db_facts(3) _ _ _ run, of 0]
      failover_db_facts run by (auto simp: d)
qed

text \<open>
  C10: Role assignment follows the record.  A pass over the pods sends either nothing or queries and
  role statements that all carry the recorded epoch, with role primary for the recorded primary only;
  it never raises the epoch.
\<close>

theorem role_assignment_follows_record:
  assumes "cache_ok E (obj s)" and "run_state (reconcileReplication E) s = (r, s')"
  shows "\<exists>t. trace s' = trace s @ t \<and> eq_fill (the_db (obj s)) (the_db (obj s')) \<and>
     (t = [] \<or> (\<exists>i e. status_CurrentPrimaryPodIndex (db_status (the_db (obj s))) = Some i \<and>
        status_ReplicationEpoch (db_status (the_db (obj s))) = Some e \<and>
        list_all (is_assignment E (db_meta (the_db (obj s))) i e) t))"
  using wpI [OF reconcileReplication_framed [OF assms(1)] assms(2)] by blast

theorem role_assignment_follows_record_witness:
  "\<exists>r s' t. run_state (reconcileReplication ref_env) (ref_cfg ref_db) = (r, s') \<and> trace s' = t \<and>
     (t = [] \<or> list_all (is_assignment ref_env (ref_meta ''dolt'') 0 4) t)"
proof -
  obtain r s' where run: "run_state (reconcileReplication ref_env) (ref_cfg ref_db) = (r, s')"
    by (cases "run_state (reconcileReplication ref_env) (ref_cfg ref_db)")
  from role_assignment_follows_record [OF ref_cache_ok this] run show ?thesis
    by (auto simp: ref_cfg_def ref_db_def ref_status_def)
qed

text \<open>
  C11: The pod controller writes only for a failed primary.  Whatever the API server answers, a pass
  over a pod makes nothing but queries, unless the pod it fetched is not ready and the DoltDB that the
  annotation of the pod names, in the namespace of the pod, is due for a failover.  Then its requests
  are the two lookups and those of a failover of that DoltDB; and errors of the failover are retried,
  never returned.
\<close>

theorem pod_reconcile_writes_for_failed_primary:
  assumes "run_state (Pod_Reconcile E req) s = ((res, err), s')"
  shows "\<exists>t. trace s' = trace s @ t \<and>
     (list_all is_query t \<or>
      (\<exists>p n d u. let owner = nn n (om_namespace (pod_meta p)) in
         t = CGetPod req # CGetDoltDB owner # u \<and>
         env_GetPod E (trace s) req = Inr p \<and> \<not> PodReady p \<and>
         map_of (om_annotations (pod_meta p)) Annotation = Some n \<and>
         env_GetDoltDB E (trace s @ [CGetPod req]) owner = Inr d \<and> failover_due p d \<and>
         failover_trace E d (trace s @ [CGetPod req, CGetDoltDB owner]) u \<and> err = None))"
  using wpI [OF Pod_Reconcile_trace assms] unfolding failover_of_owner_def Let_def by auto

theorem pod_reconcile_writes_for_failed_primary_witness:
  "\<exists>res s' u. run_state (Pod_Reconcile owner_env (nn ''dolt-0'' ''ns'')) (ref_cfg ref_db) = ((res, None), s') \<and>
     trace s' = CGetPod (nn ''dolt-0'' ''ns'') # CGetDoltDB (nn ''dolt'' ''ns'') # u \<and>
     failover_trace owner_env failover_db [CGetPod (nn ''dolt-0'' ''ns''), CGetDoltDB (nn ''dolt'' ''ns'')] u \<and>
     (\<exists>b n. CPatchDoltDB b n \<in> set u)"
proof -
  obtain res err s' where run:
    "run_state (Pod_Reconcile owner_env (nn ''dolt-0'' ''ns'')) (ref_cfg ref_db) = ((res, err), s')"
    by (metis surj_pair)
  from wpI [OF owner_env_writes run] have w: "\<exists>b n. CPatchDoltDB b n \<in> set (trace s')" .
  have env: "env_GetPod owner_env h k = Inr owned_pod"
      "env_GetDoltDB owner_env h k = (if nn_name k = ''dolt'' then Inr failover_db else Inl (ApiErr NotFound []))"
      "om_namespace (pod_meta owned_pod) = ''ns''" "map_of (om_annotations (pod_meta owned_pod)) Annotation = Some ''dolt''"
    for h k
    by (simp_all add: owner_env_def owned_pod_def failed_pod_def ref_pod_def ref_meta_def)
  have start: "trace (ref_cfg ref_db) = []"
    by (simp add: ref_cfg_def)
  from pod_reconcile_writes_for_failed_primary [OF run] w run show ?thesis
    by (fastforce simp: env start Let_def list_all_iff)
qed

text \<open>
  C12: A switchover does not succeed while the pod that was primary before stays not ready: traffic
  is shifted at the end to the pod the switchover started from, and that pod has to be ready.  A
  failover away from a failed pod therefore reports an error, after it has promoted the new primary.
\<close>

theorem switchover_needs_old_primary_ready:
  assumes "sole_status_writer E" and "switchover_needed E (the_db (obj s))"
    and "\<And>h. \<exists>p. env_GetPod E h (pod_key (db_meta (the_db (obj s)))
           (fst (primaryAndEpochOrStatus (the_db (obj s)) (observed_states E s)))) = Inr p \<and> \<not> PodReady p"
    and "run_state (reconcileSwitchover E) s = (r, s')"
  shows "r \<noteq> None"
  using wpI [OF reconcileSwitchover_fails [OF assms(1-3)] assms(4)] .

theorem switchover_needs_old_primary_ready_witness:
  "\<exists>r s'. run_state (reconcileSwitchover (ref_env\<lparr>env_GetPod := (\<lambda>h k. Inr failed_pod)\<rparr>)) (ref_cfg ref_db) = (r, s') \<and>
     r \<noteq> None"
proof -
  let ?E = "ref_env\<lparr>env_GetPod := (\<lambda>h k. Inr failed_pod)\<rparr>"
  obtain r s' where run: "run_state (reconcileSwitchover ?E) (ref_cfg ref_db) = (r, s')"
    by (cases "run_state (reconcileSwitchover ?E) (ref_cfg ref_db)")
  have "sole_status_writer ?E"
    using ref_sole_writer by (simp add: sole_status_writer_def)
  moreover have "switchover_needed ?E (the_db (obj (ref_cfg ref_db)))"
    using ref_db_needed by (simp add: switchover_needed_def IsResizingStorage_def drained_env_def)
  ultimately have "r \<noteq> None"
    by (rule switchover_needs_old_primary_ready [OF _ _ _ run]) (simp add: failed_pod_def PodReady_def)
  with run show ?thesis by blast
qed

end
