(* ===== verification/Election_Properties.thy ===== *)
theory Election_Properties
  imports Reference_Env Dolt_Sql
begin

text \<open>
  The properties of the decisions that need no effects: the names of pods, the configuration files,
  the primary and the epoch among the reported states, and the standby that takes over.
\<close>

section \<open>Helper lemmas\<close>

lemma ValidPodName_PodName:
  assumes "0 \<le> i" "i < 2 ^ 63" "0 \<le> n"
  shows "ValidPodName m n (PodName m i) = None \<longleftrightarrow> i < n"
proof -
  have "prefix (om_name m) (PodName m i)"
    by (simp add: PodName_def)
  then show ?thesis
    using assms by (simp add: ValidPodName_def PodIndex_PodName_nonneg)
qed

lemma remotes_of_config:
  assumes "ReplEnabled d"
  shows "\<exists>c. config_Cluster (generateConfig d port i) = Some c \<and>
     map remote_Name (cluster_StandbyRemotes c) = map (PodName (db_meta d)) (filter (\<lambda>j. j \<noteq> i) (replica_ordinals d)) \<and>
     cluster_BootstrapRole c = (if i = 0 then PrimaryRoleValue else StandbyRoleValue) \<and>
     cluster_RemotesAPIPort c = port"
  using assms
  by (auto simp: generateConfig_def Let_def generateStandbyRemotes_def standby_remotes_loop_eq getBootstrapRole_def
      split: option.split)

text \<open>A server state that reports one update time.\<close>

definition sample_state :: "string \<Rightarrow> int \<Rightarrow> int \<Rightarrow> DBState" where
  "sample_state r e t = zero_DBState\<lparr>dbs_Role := r, dbs_Epoch := e,
     dbs_Status := [\<lparr>ds_Database = ''db'', ds_Role = r, ds_Epoch = e, ds_Remote = [], ds_ReplicationLag = None,
                     ds_LastUpdate = Some t, ds_CurrentError = None\<rparr>]\<rparr>"

definition sample_states :: "DBState list" where
  "sample_states = [sample_state PrimaryRoleValue 4 9, sample_state StandbyRoleValue 4 5, sample_state StandbyRoleValue 3 7]"

lemma sample_states_positive: "reports_positive sample_states"
  by (simp add: reports_positive_def sample_states_def sample_state_def update_times_def)

definition sample_row :: "string \<Rightarrow> transition_row" where
  "sample_row url = \<lparr>tr_CaughtUp = 1, tr_Database = ''db'', tr_Remote = url, tr_RemoteURL = url\<rparr>"

section \<open>Properties\<close>

text \<open>
  C14: The ordinal of a pod can be read back from its name, different ordinals give different names,
  and a name is valid for a set of \<open>n\<close> replicas exactly when its ordinal is below \<open>n\<close>.
\<close>

theorem pod_ordinal_roundtrip:
  assumes "0 \<le> i" "i < 2 ^ 63" "0 \<le> j" "0 \<le> n"
  shows "PodIndex (PodName m i) = Inr i \<and> (PodName m i = PodName m j \<longleftrightarrow> i = j) \<and>
    (ValidPodName m n (PodName m i) = None \<longleftrightarrow> i < n)"
  using assms by (simp add: PodIndex_PodName_nonneg PodName_inject ValidPodName_PodName)

theorem pod_ordinal_roundtrip_witness:
  "PodIndex (PodName (ref_meta ''my-db'') 12) = Inr 12 \<and> PodName (ref_meta ''my-db'') 12 \<noteq> PodName (ref_meta ''my-db'') 2 \<and>
   ValidPodName (ref_meta ''my-db'') 3 (PodName (ref_meta ''my-db'') 12) \<noteq> None"
  using pod_ordinal_roundtrip [of 12 2 3 "ref_meta ''my-db''"] by simp

text \<open>
  C15: Every pod gets its configuration file.  When the data of the config map is generated, each
  ordinal has a file of its own that holds the serialised configuration of that pod; with replication
  on, its standby remotes are the other pods in order and only ordinal 0 bootstraps as primary.
\<close>

theorem config_files_complete:
  assumes "GenerateConfigMapData L d = Inr data" and "0 \<le> i" "i < spec_Replicas (db_spec d)" and "ReplEnabled d"
  shows "\<exists>y c. let cfg = generateConfig d
            (getIntValueOrDefault (server_RemotesAPIPort (spec_Server (db_spec d))) RemotesAPIPort) i
     in lib_YamlMarshal L cfg = Inr y \<and> map_of data (configFileName d i) = Some y \<and> config_Cluster cfg = Some c \<and>
     map remote_Name (cluster_StandbyRemotes c) = map (PodName (db_meta d)) (filter (\<lambda>j. j \<noteq> i) (replica_ordinals d)) \<and>
     cluster_BootstrapRole c = (if i = 0 then PrimaryRoleValue else StandbyRoleValue)"
  using GenerateConfigMapData_files [OF assms(1-3)] remotes_of_config [OF assms(4)] unfolding Let_def by blast

theorem config_files_complete_witness:
  "\<exists>data c. GenerateConfigMapData ref_env ref_db = Inr data \<and> map_of data ''dolt-1.yaml'' = Some ''info'' \<and>
     config_Cluster (generateConfig ref_db 50051 1) = Some c \<and>
     map remote_Name (cluster_StandbyRemotes c) = map (PodName (ref_meta ''dolt'')) [0, 2]"
proof -
  have d: "spec_Replicas (db_spec ref_db) = 3" "ReplEnabled ref_db" "db_meta ref_db = ref_meta ''dolt''"
      "getIntValueOrDefault (server_RemotesAPIPort (spec_Server (db_spec ref_db))) RemotesAPIPort = 50051"
    by (simp_all add: ref_db_def ref_spec_def ref_server_def Replication_def ReplicationSpec_FillWithDefaults_def
        getIntValueOrDefault_def)
  have ord: "replica_ordinals ref_db = [0, 1, 2]"
    by (simp add: replica_ordinals_def d upt_conv_Cons)
  have yaml: "lib_YamlMarshal ref_env cfg = Inr (config_LogLevel cfg)" for cfg
    by (simp add: ref_env_def)
  have log: "config_LogLevel (generateConfig ref_db 50051 1) = ''info''"
    by (simp add: generateConfig_def Let_def ref_db_def ref_spec_def ref_server_def)
  have name: "configFileName ref_db 1 = ''dolt-1.yaml''"
  proof -
    have "digit_char 1 = CHR ''1''" by code_simp
    then show ?thesis
      by (simp add: configFileName_def d ref_meta_def show_int_def show_nat.simps)
  qed
  obtain data where data: "GenerateConfigMapData ref_env ref_db = Inr data"
    by (simp add: GenerateConfigMapData_def ord yaml Let_def)
  from config_files_complete [OF data, of 1] obtain c where
    "map_of data ''dolt-1.yaml'' = Some ''info''" "config_Cluster (generateConfig ref_db 50051 1) = Some c"
    "map remote_Name (cluster_StandbyRemotes c) = map (PodName (ref_meta ''dolt'')) [0, 2]"
    by (auto simp: d ord yaml log name Let_def)
  with data show ?thesis by blast
qed

text \<open>
  C16: The next primary is a freshest standby.  \<open>PickNextPrimary\<close> returns -1 exactly when no server is a
  standby; otherwise it returns the position of a standby whose freshness no other standby exceeds, and
  the first such position.
\<close>

theorem next_primary_freshest:
  assumes "reports_positive states"
  shows "PickNextPrimary states = -1 \<and> (\<forall>i. \<not> is_standby states i) \<or>
    (\<exists>n. PickNextPrimary states = int n \<and> is_standby states n \<and>
       (\<forall>i. is_standby states i \<longrightarrow> freshness (states ! i) \<le> freshness (states ! n) \<and>
          (i < n \<longrightarrow> freshness (states ! i) < freshness (states ! n))))"
  by (rule PickNextPrimary_cases [OF assms])

theorem next_primary_freshest_witness:
  "PickNextPrimary sample_states = 2 \<and> freshness (sample_states ! 1) < freshness (sample_states ! 2)"
proof -
  have two: "PickNextPrimary sample_states = 2"
    by (simp add: PickNextPrimary_def sample_states_def sample_state_def)
  have "is_standby sample_states 1"
    by (simp add: is_standby_def sample_states_def sample_state_def)
  with next_primary_freshest [OF sample_states_positive] two show ?thesis
    by (auto simp: eq_commute [of 2])
qed

text \<open>
  C17: The standby that takes over in a graceful transition is one that is caught up in the most
  databases, whatever the order in which Go visits the map of counts.
\<close>

theorem caught_up_standby_best:
  assumes "chooseCaughtUp mapRange L rows hosts = Inr i"
    and "\<And>m. set (mapRange m) = set m" and "\<exists>r \<in> set rows. tr_CaughtUp r = 1"
  shows "0 \<le> i \<and> i < int (length hosts) \<and>
    (\<exists>r \<in> set rows. \<exists>host hostname. lib_UrlParse L (tr_RemoteURL r) = Inr (host, hostname) \<and>
       prefix hostname (hosts ! nat i) \<and> 0 < caught_up L rows host \<and>
       (\<forall>other. caught_up L rows other \<le> caught_up L rows host))"
  by (rule chooseCaughtUp_best [OF assms])

theorem caught_up_standby_best_witness:
  "chooseCaughtUp rev ref_env [sample_row ''a'', sample_row ''b'', sample_row ''b''] [''a'', ''b''] = Inr 1 \<and>
   (\<exists>host. caught_up ref_env [sample_row ''a'', sample_row ''b'', sample_row ''b''] ''a'' \<le>
      caught_up ref_env [sample_row ''a'', sample_row ''b'', sample_row ''b''] host \<and> prefix host ''b'')"
proof -
  have run: "chooseCaughtUp rev ref_env [sample_row ''a'', sample_row ''b'', sample_row ''b''] [''a'', ''b''] = Inr 1"
    by (simp add: chooseCaughtUp_def sample_row_def ref_env_def)
  from caught_up_standby_best [OF this] run show ?thesis
    by (auto simp: sample_row_def ref_env_def)
qed

end
