(* ===== verification/Builders.thy ===== *)
theory Builders
  imports Dolt_Sql
begin

text \<open>
  The builders of the Kubernetes objects that a DoltDB owns (\<open>src/pkg/builder\<close>): services, config
  map, disruption budget, RBAC objects, containers, pod template and stateful set.  A builder returns
  the object or the error of setting the controller reference, which is a library function.
\<close>

section \<open>Services\<close>

definition DoltMySQLPortName :: string where "DoltMySQLPortName = ''tcp-dolt''"
definition DoltRemotesAPIPortName :: string where "DoltRemotesAPIPortName = ''grpc-remotesapi''"
definition DoltMetricsPortName :: string where "DoltMetricsPortName = ''http-metrics''"
definition DoltProfilerPortName :: string where "DoltProfilerPortName = ''http-profiler''"
definition DoltMCPPortName :: string where "DoltMCPPortName = ''http-mcp''"

definition mkServicePort :: "int \<Rightarrow> string \<Rightarrow> service_port" where
  "mkServicePort p n = \<lparr>sp_port = p, sp_name = n, sp_node_port = 0\<rparr>"

definition listenerPort :: "DoltDB \<Rightarrow> int" where
  "listenerPort doltdb = listener_Port (server_Listener (spec_Server (db_spec doltdb)))"

definition doltServicePorts :: "DoltDB \<Rightarrow> service_port list" where
  "doltServicePorts doltdb =
     [mkServicePort (listenerPort doltdb) DoltMySQLPortName] @
     (case server_MCPServer (spec_Server (db_spec doltdb)) of
        None \<Rightarrow> []
      | Some mcp \<Rightarrow> [mkServicePort (mcp_Port mcp) DoltMCPPortName])"

definition doltInternalServicePorts :: "DoltDB \<Rightarrow> service_port list" where
  "doltInternalServicePorts doltdb =
     [mkServicePort (listenerPort doltdb) DoltMySQLPortName,
      mkServicePort (server_RemotesAPIPort (spec_Server (db_spec doltdb))) DoltRemotesAPIPortName] @
     (case server_MCPServer (spec_Server (db_spec doltdb)) of
        None \<Rightarrow> []
      | Some mcp \<Rightarrow> [mkServicePort (mcp_Port mcp) DoltMCPPortName])"

text \<open>\<open>controllerutil.SetControllerReference\<close> on the metadata of an object, with the error wrapped.\<close>

definition withOwner ::
    "'x lib_scheme \<Rightarrow> DoltDB \<Rightarrow> string \<Rightarrow> object_meta \<Rightarrow> (object_meta \<Rightarrow> 'a) \<Rightarrow> goerr + 'a" where
  "withOwner L doltdb kind m mk =
     (case lib_SetControllerReference L (db_meta doltdb) m of
        Inl err \<Rightarrow> Inl (ErrV (''error setting controller reference to '' @ kind @ '': '') err)
      | Inr m' \<Rightarrow> Inr (mk m'))"

definition clusterIPService ::
    "service_port list \<Rightarrow> string \<Rightarrow> string \<Rightarrow> strmap \<Rightarrow> object_meta \<Rightarrow> service" where
  "clusterIPService ports ip ty sel m =
     \<lparr>svc_meta = m, svc_ports = ports, svc_cluster_ip = ip, svc_type = ty, svc_selector = sel,
      svc_allocate_node_ports = None\<rparr>"

definition ownedMeta :: "namespaced_name \<Rightarrow> DoltDB \<Rightarrow> object_meta" where
  "ownedMeta key doltdb = MetaWithMetadata (Some (db_meta doltdb)) (NewMetadataBuilder key)"

definition BuildDoltInternalService :: "'x lib_scheme \<Rightarrow> DoltDB \<Rightarrow> goerr + service" where
  "BuildDoltInternalService L doltdb =
     withOwner L doltdb ''Service'' (ownedMeta (InternalServiceKey doltdb) doltdb)
       (clusterIPService (doltInternalServicePorts doltdb) ''None'' [] (DoltSelector doltdb))"

definition BuildDoltService :: "'x lib_scheme \<Rightarrow> DoltDB \<Rightarrow> goerr + service" where
  "BuildDoltService L doltdb =
     withOwner L doltdb ''Service'' (ownedMeta (ServiceKey doltdb) doltdb)
       (clusterIPService (doltServicePorts doltdb) [] ''ClusterIP'' (DoltSelector doltdb))"

text \<open>The primary service dereferences \<open>status.currentPrimaryPodIndex\<close>.\<close>

definition BuildDoltPrimaryService :: "'x lib_scheme \<Rightarrow> DoltDB \<Rightarrow> goerr + service" where
  "BuildDoltPrimaryService L doltdb =
     (case status_CurrentPrimaryPodIndex (db_status doltdb) of
        None \<Rightarrow> Inl (Panic ''nil pointer dereference'')
      | Some i \<Rightarrow>
          withOwner L doltdb ''Service'' (ownedMeta (PrimaryServiceKey doltdb) doltdb)
            (clusterIPService (doltServicePorts doltdb) [] ''ClusterIP''
              (WithStatefulSetPod doltdb i (WithPodPrimaryRole (DoltSelector doltdb)))))"

definition BuildDoltReaderService :: "'x lib_scheme \<Rightarrow> DoltDB \<Rightarrow> goerr + service" where
  "BuildDoltReaderService L doltdb =
     withOwner L doltdb ''Service'' (ownedMeta (ReaderServiceKey doltdb) doltdb)
       (clusterIPService (doltServicePorts doltdb) [] ''ClusterIP''
         (WithPodStandbyRole (DoltSelector doltdb)))"

section \<open>Config map and disruption budget\<close>

definition HashConfigMapData :: "'x lib_scheme \<Rightarrow> strmap \<Rightarrow> string" where
  "HashConfigMapData L data =
     (if data = [] then []
      else lib_Sha256Hex L
             (concat (map (\<lambda>k. k @ ''='' @ the (map_of data k) @ '';'') (sort (remdups (map fst data))))))"

definition BuildConfigMap ::
    "'x lib_scheme \<Rightarrow> namespaced_name \<Rightarrow> object_meta option \<Rightarrow> strmap \<Rightarrow> DoltDB \<Rightarrow> goerr + config_map" where
  "BuildConfigMap L key meta data doltdb =
     withOwner L doltdb ''ConfigMap''
       (MetaWithLabels (DoltSelector doltdb) (MetaWithMetadata meta (NewMetadataBuilder key)))
       (\<lambda>m. \<lparr>cm_meta = m, cm_data = data\<rparr>)"

record PodDisruptionBudgetOpts =
  pdbo_Metadata :: "object_meta option"
  pdbo_Key :: namespaced_name
  pdbo_MinAvailable :: "string option"
  pdbo_MaxUnavailable :: "string option"
  pdbo_SelectorLabels :: strmap

definition BuildPodDisruptionBudget ::
    "'x lib_scheme \<Rightarrow> PodDisruptionBudgetOpts \<Rightarrow> DoltDB \<Rightarrow> goerr + pod_disruption_budget" where
  "BuildPodDisruptionBudget L opts owner =
     withOwner L owner ''PodDisruptionBudget''
       (MetaWithMetadata (pdbo_Metadata opts) (NewMetadataBuilder (pdbo_Key opts)))
       (\<lambda>m. \<lparr>pdb_meta = m, pdb_min_available = pdbo_MinAvailable opts,
             pdb_max_unavailable = pdbo_MaxUnavailable opts, pdb_selector = pdbo_SelectorLabels opts\<rparr>)"

section \<open>RBAC objects\<close>

definition BuildServiceAccount ::
    "'x lib_scheme \<Rightarrow> namespaced_name \<Rightarrow> DoltDB \<Rightarrow> goerr + service_account" where
  "BuildServiceAccount L key doltdb =
     withOwner L doltdb ''ServiceAccount''
       (MetaWithAnnotations (spec_ServiceAccountAnnotations (db_spec doltdb)) (ownedMeta key doltdb))
       (\<lambda>m. \<lparr>sa_meta = m\<rparr>)"

definition BuildRole ::
    "'x lib_scheme \<Rightarrow> namespaced_name \<Rightarrow> DoltDB \<Rightarrow> policy_rule list \<Rightarrow> goerr + role" where
  "BuildRole L key doltdb rules =
     withOwner L doltdb ''Role'' (ownedMeta key doltdb) (\<lambda>m. \<lparr>role_meta = m, role_rules = rules\<rparr>)"

definition saSubject :: "service_account \<Rightarrow> role_subject" where
  "saSubject sa = \<lparr>subj_group = [], subj_kind = ''ServiceAccount'', subj_name = om_name (sa_meta sa),
     subj_namespace = om_namespace (sa_meta sa)\<rparr>"

definition BuildRoleBinding ::
    "'x lib_scheme \<Rightarrow> namespaced_name \<Rightarrow> DoltDB \<Rightarrow> service_account \<Rightarrow> role_ref \<Rightarrow> goerr + role_binding" where
  "BuildRoleBinding L key doltdb sa roleRef =
     withOwner L doltdb ''RoleBinding'' (ownedMeta key doltdb)
       (\<lambda>m. \<lparr>rb_meta = m, rb_subjects = [saSubject sa], rb_role_ref = roleRef\<rparr>)"

definition BuildClusterRoleBinding ::
    "'x lib_scheme \<Rightarrow> namespaced_name \<Rightarrow> DoltDB \<Rightarrow> service_account \<Rightarrow> role_ref \<Rightarrow> goerr + role_binding" where
  "BuildClusterRoleBinding L key doltdb sa roleRef =
     withOwner L doltdb ''ClusterRoleBinding'' (ownedMeta key doltdb)
       (\<lambda>m. \<lparr>rb_meta = m, rb_subjects = [saSubject sa], rb_role_ref = roleRef\<rparr>)"

section \<open>Containers\<close>

definition DoltContainerName :: string where "DoltContainerName = ''dolt''"
definition DoltInitContainerName :: string where "DoltInitContainerName = ''dolt-init''"
definition DoltDataVolume :: string where "DoltDataVolume = ''dolt-data''"
definition DoltConfigVolume :: string where "DoltConfigVolume = ''dolt-config''"
definition DoltDataMountPath :: string where "DoltDataMountPath = ''/db''"
definition DoltConfigMountPath :: string where "DoltConfigMountPath = ''/etc/doltdb''"
definition DefaultLivenessProbeInitialDelaySeconds :: int where
  "DefaultLivenessProbeInitialDelaySeconds = 60"
definition DefaultReadinessProbeInitialDelaySeconds :: int where
  "DefaultReadinessProbeInitialDelaySeconds = 40"
definition DefaultProbePeriodSeconds :: int where "DefaultProbePeriodSeconds = 10"
definition DefaultProbeTimeoutSeconds :: int where "DefaultProbeTimeoutSeconds = 3"

definition doltVolumeMounts :: "volume_mount list" where
  "doltVolumeMounts =
     [\<lparr>vm_name = DoltConfigVolume, vm_path = DoltConfigMountPath\<rparr>,
      \<lparr>vm_name = DoltDataVolume, vm_path = DoltDataMountPath\<rparr>]"

definition doltContainerCommand :: "DoltDB \<Rightarrow> string list" where
  "doltContainerCommand doltdb =
     [''tini'', ''--'', ''/usr/local/bin/dolt''] @
     (if server_EnablePProf (spec_Server (db_spec doltdb))
      then [''--prof'', ''mem'', ''--pprof-server''] else []) @
     [''sql-server'', ''--config'', ''config.yaml'']"

definition secretEnv :: "string \<Rightarrow> secret_ref \<Rightarrow> env_var" where
  "secretEnv name r = \<lparr>ev_name = name, ev_value = [], ev_value_from = Some (SecretKeyRef r)\<rparr>"

definition doltEnv :: "DoltDB \<Rightarrow> env_var list" where
  "doltEnv doltdb =
     [\<lparr>ev_name = ''DOLT_ROOT_PATH'', ev_value = DoltDataMountPath, ev_value_from = None\<rparr>,
      \<lparr>ev_name = ''POD_NAME'', ev_value = [], ev_value_from = Some (FieldRef ''metadata.name'')\<rparr>,
      secretEnv ''DOLT_USERNAME'' (RootUserSecretKeyRef doltdb),
      secretEnv ''DOLT_PASSWORD'' (RootPasswordSecretKeyRef doltdb)] @
     (case server_MCPServer (spec_Server (db_spec doltdb)) of
        None \<Rightarrow> []
      | Some mcp \<Rightarrow>
          (if mcp_User mcp \<noteq> []
           then [\<lparr>ev_name = ''DOLT_MCP_USER'', ev_value = mcp_User mcp, ev_value_from = None\<rparr>] else []) @
          [secretEnv ''DOLT_MCP_PASSWORD''
             (ptr_Deref (mcp_PasswordSecretKeyRef mcp) (RootPasswordSecretKeyRef doltdb))]) @
     spec_Env (db_spec doltdb)"

definition doltContainerPorts :: "DoltDB \<Rightarrow> container_port list" where
  "doltContainerPorts doltdb =
     (let server = spec_Server (db_spec doltdb) in
      [\<lparr>cp_port = listenerPort doltdb, cp_name = DoltMySQLPortName\<rparr>] @
      (case server_Metrics server of
         None \<Rightarrow> []
       | Some m \<Rightarrow>
           if metrics_Enabled m then [\<lparr>cp_port = metrics_Port m, cp_name = DoltMetricsPortName\<rparr>] else []) @
      (if server_EnablePProf server then [\<lparr>cp_port = 6060, cp_name = DoltProfilerPortName\<rparr>] else []) @
      (case server_MCPServer server of
         None \<Rightarrow> []
       | Some mcp \<Rightarrow> [\<lparr>cp_port = mcp_Port mcp, cp_name = DoltMCPPortName\<rparr>]))"

definition doltResourceRequirements :: "DoltDB \<Rightarrow> resource_requirements" where
  "doltResourceRequirements doltdb =
     ptr_Deref (spec_Resources (db_spec doltdb))
       \<lparr>rr_requests = [(''cpu'', ''4000m''), (''memory'', ''2Gi'')],
        rr_limits = [(''memory'', ''8Gi'')]\<rparr>"

text \<open>The command line of the Dolt client inside the container, and the probes that run it.\<close>

definition doltClientPrefix :: "int \<Rightarrow> string" where
  "doltClientPrefix port =
     ''dolt --host 127.0.0.1 -u '' @ dquoted ''$DOLT_USERNAME'' @ '' -p '' @ dquoted ''$DOLT_PASSWORD'' @
     '' --port '' @ show_int port @ '' --no-tls ''"

definition doltProbeCommand :: "ListenerSpec \<Rightarrow> string list" where
  "doltProbeCommand listener =
     [''/bin/sh'', ''-c'',
      doltClientPrefix (listener_Port listener) @ ''sql -q '' @ quoted ''select current_timestamp();'']"

definition probeWith :: "probe \<Rightarrow> ListenerSpec \<Rightarrow> probe" where
  "probeWith p listener =
     \<lparr>pr_exec = Some (doltProbeCommand listener), pr_initial_delay = pr_initial_delay p,
      pr_period = pr_period p, pr_timeout = pr_timeout p, pr_success = pr_success p,
      pr_failure = pr_failure p, pr_grace = pr_grace p\<rparr>"

definition zero_probe :: probe where
  "zero_probe = \<lparr>pr_exec = None, pr_initial_delay = 0, pr_period = 0, pr_timeout = 0, pr_success = 0,
     pr_failure = 0, pr_grace = None\<rparr>"

definition doltReadinessProbe :: "probe option \<Rightarrow> ListenerSpec \<Rightarrow> probe" where
  "doltReadinessProbe p listener =
     probeWith (ptr_Deref p (zero_probe\<lparr>pr_initial_delay := DefaultReadinessProbeInitialDelaySeconds,
        pr_period := DefaultProbePeriodSeconds\<rparr>)) listener"

definition doltLivenessProbe :: "probe option \<Rightarrow> ListenerSpec \<Rightarrow> probe" where
  "doltLivenessProbe p listener =
     probeWith (ptr_Deref p (zero_probe\<lparr>pr_initial_delay := DefaultLivenessProbeInitialDelaySeconds,
        pr_period := DefaultProbePeriodSeconds, pr_timeout := DefaultProbeTimeoutSeconds\<rparr>)) listener"

definition doltLifecycle :: "DoltDB \<Rightarrow> string list" where
  "doltLifecycle doltdb =
     (let client = doltClientPrefix (listenerPort doltdb) in
      [''/bin/sh'', ''-c'',
       ''ROLE=$('' @ client @ ''sql -q '' @ dquoted ''SELECT @@global.dolt_cluster_role'' @
       '' -r csv 2>/dev/null | tail -1); '' @
       ''if [ '' @ dquoted ''$ROLE'' @ '' = '' @ dquoted ''primary'' @ '' ]; then '' @
       ''EPOCH=$('' @ client @ ''sql -q '' @ dquoted ''SELECT @@global.dolt_cluster_role_epoch'' @
       '' -r csv 2>/dev/null | tail -1); '' @
       ''NEXT_EPOCH=$((EPOCH + 1)); '' @ client @ ''sql -q '' @
       dquoted (''CALL DOLT_CLUSTER_TRANSITION_TO_STANDBY('' @ quoted ''$NEXT_EPOCH'' @ '', '' @
         quoted ''1'' @ '')'') @
       '' 2>/dev/null || true; fi; sleep 5''])"

definition doltImage :: "DoltDB \<Rightarrow> string" where
  "doltImage doltdb = spec_Image (db_spec doltdb) @ '':'' @ spec_EngineVersion (db_spec doltdb)"

definition doltContainers :: "DoltDB \<Rightarrow> container list" where
  "doltContainers doltdb =
     (let listener = server_Listener (spec_Server (db_spec doltdb)) in
      [\<lparr>ct_name = DoltContainerName, ct_image = doltImage doltdb, ct_pull_policy = ''IfNotPresent'',
        ct_command = doltContainerCommand doltdb, ct_working_dir = DoltDataMountPath,
        ct_env = doltEnv doltdb, ct_resources = doltResourceRequirements doltdb,
        ct_ports = doltContainerPorts doltdb, ct_mounts = doltVolumeMounts,
        ct_readiness = Some (doltReadinessProbe (probes_Readiness (spec_Probes (db_spec doltdb))) listener),
        ct_liveness = Some (doltLivenessProbe (probes_Liveness (spec_Probes (db_spec doltdb))) listener),
        ct_pre_stop = (if ReplEnabled doltdb then Some (doltLifecycle doltdb) else None)\<rparr>])"

definition show_bool :: "bool \<Rightarrow> string" where
  "show_bool b = (if b then ''true'' else ''false'')"

text \<open>
  The init container's script.  It reads the global configuration after \<open>ApplyDefaults\<close> has filled
  it in.
\<close>

definition GlobalConfig_fill :: "DoltDB \<Rightarrow> DoltDB" where
  "GlobalConfig_fill d =
     d\<lparr>db_spec := (db_spec d)\<lparr>spec_GlobalConfig := GlobalConfig_ApplyDefaults (spec_GlobalConfig (db_spec d))\<rparr>\<rparr>"

definition doltInitCommands :: "DoltDB \<Rightarrow> string list" where
  "doltInitCommands doltdb =
     (let g = GlobalConfig_ApplyDefaults (spec_GlobalConfig (db_spec doltdb));
          nl = [CHR 0x0A]; tab = [CHR 0x09]
      in [''dolt config --global --add user.name '' @ dquoted (author_Name (global_CommitAuthor g)),
          ''dolt config --global --add user.email '' @ dquoted (author_Email (global_CommitAuthor g)),
          ''dolt config --global --add metrics.disabled '' @
            show_bool (ptr_Deref (global_DisableClientUsageMetricsCollection g) False),
          ''cp /etc/doltdb/${POD_NAME}.yaml config.yaml'',
          nl @ ''if [ -n '' @ dquoted ''$DOLT_PASSWORD'' @ '' -a ! -f .doltcfg/privileges.db ]; then'' @ nl @
          tab @ ''dolt sql -q '' @
            dquoted (''create user '' @ quoted ''$DOLT_USERNAME'' @ '' identified by '' @
              quoted ''$DOLT_PASSWORD'' @ ''; grant all privileges on *.* to '' @
              quoted ''$DOLT_USERNAME'' @ '' with grant option;'') @ nl @
          ''fi'' @ nl])"

definition doltInitContainers :: "DoltDB \<Rightarrow> container list" where
  "doltInitContainers doltdb =
     [\<lparr>ct_name = DoltInitContainerName, ct_image = doltImage doltdb, ct_pull_policy = ''IfNotPresent'',
       ct_command = [''/bin/sh'', ''-c'', str_join [CHR 0x0A] (doltInitCommands doltdb)],
       ct_working_dir = DoltDataMountPath, ct_env = doltEnv doltdb,
       ct_resources = \<lparr>rr_requests = [], rr_limits = []\<rparr>, ct_ports = [], ct_mounts = doltVolumeMounts,
       ct_readiness = None, ct_liveness = None, ct_pre_stop = None\<rparr>]"

section \<open>Pod template and stateful set\<close>

definition doltVolumes :: "DoltDB \<Rightarrow> volume list" where
  "doltVolumes doltdb =
     [ConfigMapVolume DoltConfigVolume (sr_name (DefaultConfigMapKeyRef doltdb)),
      ProjectedVolume ''serviceaccount''
        [ServiceAccountToken ''token'',
         ConfigMapItems ''kube-root-ca.crt'' [(''ca.crt'', ''ca.crt'')],
         DownwardAPI [(''metadata.namespace'', ''namespace'')]]]"

definition doltPodTemplate :: "object_meta \<Rightarrow> DoltDB \<Rightarrow> string \<Rightarrow> pod_template" where
  "doltPodTemplate metadata doltdb configMapHash =
     (let labels = WithVersion (spec_EngineVersion (db_spec doltdb)) (DoltSelector doltdb);
          annotations = merge_map [] (spec_PodAnnotations (db_spec doltdb));
          annotations = (if configMapHash \<noteq> [] then AList.update ConfigMapHashAnnotation configMapHash annotations
                         else annotations)
      in \<lparr>pt_meta = MetaWithAnnotations annotations (MetaWithLabels labels
                      (MetaWithMetadata (Some metadata) (NewMetadataBuilder (ObjectKeyFromObject doltdb)))),
          pt_spec = \<lparr>ps_automount_token = Some False,
             ps_service_account = ptr_Deref (spec_ServiceAccountName (db_spec doltdb)) (om_name (db_meta doltdb)),
             ps_grace_period = Some (ptr_Deref (spec_TerminationGracePeriodSeconds (db_spec doltdb)) 60),
             ps_containers = doltContainers doltdb, ps_pull_secrets = spec_ImagePullSecrets (db_spec doltdb),
             ps_volumes = doltVolumes doltdb, ps_security_context = spec_PodSecurityContext (db_spec doltdb),
             ps_affinity = spec_Affinity (db_spec doltdb), ps_node_selector = spec_NodeSelector (db_spec doltdb),
             ps_tolerations = spec_Tolerations (db_spec doltdb),
             ps_init_containers = doltInitContainers doltdb\<rparr>\<rparr>)"

definition doltStatefulSetUpdateStrategy :: "DoltDB \<Rightarrow> string" where
  "doltStatefulSetUpdateStrategy doltdb =
     (let strategy = spec_UpdateStrategy (db_spec doltdb)
      in if strategy = ReplicasFirstPrimaryLastUpdateType \<or> strategy = [] then ''OnDelete''
         else if strategy = RollingUpdateUpdateType then ''RollingUpdate''
         else if strategy = OnDeleteUpdateType then ''OnDelete''
         else if strategy = NeverUpdateType then []
         else ''OnDelete'')"

text \<open>
  The default size is \<open>resource.NewQuantity(1, "Gi")\<close>, whose second argument is the format used for
  printing: the quantity is 1.
\<close>

definition doltVolumeClaimTemplates :: "object_meta \<Rightarrow> DoltDB \<Rightarrow> pvc list" where
  "doltVolumeClaimTemplates metadata doltdb =
     (let storage = spec_Storage (db_spec doltdb)
      in [\<lparr>pvc_meta = MetaWithLabels (WithPVCRole DoltDataVolume (DoltSelector doltdb))
             (MetaWithMetadata (Some metadata)
               (NewMetadataBuilder (nn DoltDataVolume (om_namespace (db_meta doltdb))))),
           pvc_access_modes = [''ReadWriteOnce''],
           pvc_request = Some (ptr_Deref (storage_Size storage) ''1''),
           pvc_data_source = (if storage_VolumeSnapshot storage = [] then None
              else Some (''snapshot.storage.k8s.io'', ''VolumeSnapshot'', storage_VolumeSnapshot storage)),
           pvc_storage_class = storage_StorageClassName storage, pvc_conditions = []\<rparr>])"

definition doltPVCRetentionPolicy :: "DoltDB \<Rightarrow> string \<times> string" where
  "doltPVCRetentionPolicy doltdb =
     ptr_Deref (storage_RetentionPolicy (spec_Storage (db_spec doltdb))) (''Retain'', ''Retain'')"

definition BuildDoltStatefulSet ::
    "'x lib_scheme \<Rightarrow> namespaced_name \<Rightarrow> DoltDB \<Rightarrow> string \<Rightarrow> goerr + sts" where
  "BuildDoltStatefulSet L key doltdb configMapHash =
     (let labels = WithVersion (spec_EngineVersion (db_spec doltdb)) (DoltSelector doltdb);
          objMeta = MetaWithLabels labels (MetaWithAnnotations
            (AList.update ReplicationAnnotation (show_bool (ReplEnabled doltdb)) [(Annotation, nn_name key)])
            (ownedMeta key doltdb));
          podConfigMapHash = (if spec_UpdateStrategy (db_spec doltdb) = NeverUpdateType then [] else configMapHash)
      in withOwner L doltdb ''StatefulSet'' objMeta
           (\<lambda>m. \<lparr>sts_meta = m, sts_selector = DoltSelector doltdb,
                 sts_service_name = nn_name (InternalServiceKey doltdb),
                 sts_update_strategy = doltStatefulSetUpdateStrategy doltdb,
                 sts_replicas = Some (spec_Replicas (db_spec doltdb)),
                 sts_template = doltPodTemplate objMeta doltdb podConfigMapHash,
                 sts_claims = doltVolumeClaimTemplates objMeta doltdb,
                 sts_retention = Some (doltPVCRetentionPolicy doltdb),
                 sts_status_replicas = 0, sts_ready_replicas = 0, sts_update_revision = []\<rparr>))"

text \<open>What building the stateful set writes into the object: the two sets of defaults.\<close>

definition BuildDoltStatefulSet_fill :: "DoltDB \<Rightarrow> DoltDB" where
  "BuildDoltStatefulSet_fill d = GlobalConfig_fill (Replication_fill d)"

end
