(* ===== verification/Stateful_Set.thy ===== *)
theory Stateful_Set
  imports Builders Switchover
begin

text \<open>
  The stateful set reconciler (\<open>src/pkg/controller/statefulset\<close>): it creates or patches the stateful
  set and then updates stale pods, the replicas first and the primary last, after a switchover away
  from it.  With the poll loop of \<open>src/pkg/wait/wait.go\<close>.
\<close>

section \<open>Creating and patching\<close>

definition ErrSkipReconciliationPhase :: goerr where
  "ErrSkipReconciliationPhase = Sentinel ''skipping reconciliation phase''"

definition GetRevision :: "env \<Rightarrow> (goerr + string) op" where
  "GetRevision E = do {
     doltdb \<leftarrow> get_db;
     r \<leftarrow> k_GetSts E (ObjectKeyFromObject doltdb);
     ret (case r of Inl err \<Rightarrow> Inl err | Inr ss \<Rightarrow> Inr (sts_update_revision ss))
   }"

definition meta_key :: "object_meta \<Rightarrow> namespaced_name" where
  "meta_key m = nn (om_name m) (om_namespace m)"

definition ReconcileWithUpdates :: "env \<Rightarrow> sts \<Rightarrow> goerr option op" where
  "ReconcileWithUpdates E desiredSts = do {
     r \<leftarrow> k_GetSts E (meta_key (sts_meta desiredSts));
     case r of
       Inl err \<Rightarrow>
         if \<not> IsNotFound err then ret (Some (ErrV ''error getting StatefulSet: '' err))
         else do {
           c \<leftarrow> k_write E (CCreateSts desiredSts);
           ret (map_option (ErrV ''error creating StatefulSet: '') c)
         }
     | Inr existingSts \<Rightarrow>
         k_write E (CPatchSts existingSts
           (existingSts\<lparr>sts_template := sts_template desiredSts,
              sts_update_strategy := sts_update_strategy desiredSts,
              sts_replicas := sts_replicas desiredSts\<rparr>))
   }"

definition getConfigMapHash :: "env \<Rightarrow> (goerr + string) op" where
  "getConfigMapHash E = do {
     doltdb \<leftarrow> get_db;
     r \<leftarrow> k_GetConfigMap E (DefaultConfigMapKey doltdb);
     ret (case r of
            Inl err \<Rightarrow> if IsNotFound err then Inr [] else Inl (ErrV ''error getting ConfigMap: '' err)
          | Inr configMap \<Rightarrow> Inr (HashConfigMapData E (cm_data configMap)))
   }"

section \<open>Polling\<close>

definition shouldPoll :: "env \<Rightarrow> namespaced_name \<Rightarrow> bool op" where
  "shouldPoll E doltdbKey = do {
     r \<leftarrow> k_GetDoltDB E doltdbKey;
     ret (case r of Inl err \<Rightarrow> \<not> IsNotFound err | Inr _ \<Rightarrow> True)
   }"

text \<open>
  \<open>PollUntilSucessOrContextCancel\<close>: ask until the function succeeds or the context is cancelled.  The
  number of rounds before the deadline is given by the environment, so the loop always returns.
\<close>

fun PollUntilSucessOrContextCancel :: "nat \<Rightarrow> goerr option op \<Rightarrow> goerr option op" where
  "PollUntilSucessOrContextCancel 0 fn = ret (Some (Sentinel ''context deadline exceeded''))"
| "PollUntilSucessOrContextCancel (Suc rounds) fn = do {
     e \<leftarrow> fn;
     case e of
       None \<Rightarrow> ret None
     | Some err \<Rightarrow> PollUntilSucessOrContextCancel rounds fn
   }"

definition PollWithDoltDB :: "env \<Rightarrow> namespaced_name \<Rightarrow> goerr option op \<Rightarrow> goerr option op" where
  "PollWithDoltDB E doltdbKey fn = do {
     rounds \<leftarrow> peek (env_PollRounds E);
     PollUntilSucessOrContextCancel rounds
       (do { go \<leftarrow> shouldPoll E doltdbKey; if go then fn else ret None })
   }"

definition pollUntilPodUpdated ::
    "env \<Rightarrow> namespaced_name \<Rightarrow> namespaced_name \<Rightarrow> string \<Rightarrow> goerr option op" where
  "pollUntilPodUpdated E doltdbKey podKey updateRevision =
     PollWithDoltDB E doltdbKey (do {
       r \<leftarrow> k_GetPod E podKey;
       ret (case r of
              Inl err \<Rightarrow> Some (ErrV (''error getting Pod '' @ quoted (nn_name podKey) @ '': '') err)
            | Inr p \<Rightarrow> if PodUpdated p updateRevision then None else Some (ErrNew ''pod is stale''))
     })"

definition updatePod :: "env \<Rightarrow> namespaced_name \<Rightarrow> pod \<Rightarrow> string \<Rightarrow> goerr option op" where
  "updatePod E doltdbKey p updateRevision = do {
     d \<leftarrow> k_write E (CDeletePod (meta_key (pod_meta p)));
     case d of
       Some err \<Rightarrow> ret (Some (ErrV (''error deleting Pod '' @ quoted (om_name (pod_meta p)) @ '': '') err))
     | None \<Rightarrow> do {
         e \<leftarrow> pollUntilPodUpdated E doltdbKey (meta_key (pod_meta p)) updateRevision;
         ret (map_option (ErrV (''error waiting for Pod '' @ quoted (om_name (pod_meta p)) @
                                '' to be updated: '')) e)
       }
   }"

section \<open>The pods by role\<close>

record podRoleSet =
  prs_replicas :: "pod list"
  prs_primary :: pod

definition pod_name :: "pod \<Rightarrow> string" where
  "pod_name p = om_name (pod_meta p)"

definition getStalePodNames :: "podRoleSet \<Rightarrow> string \<Rightarrow> string list" where
  "getStalePodNames prs updateRevision =
     map pod_name (filter (\<lambda>p. \<not> PodUpdated p updateRevision) (prs_replicas prs)) @
     (if \<not> PodUpdated (prs_primary prs) updateRevision then [pod_name (prs_primary prs)] else [])"

text \<open>
  \<open>sort.Slice\<close> by descending name; pod names are unique in a namespace, so its order is determined.
  A later pod with the primary's name replaces an earlier one.
\<close>

definition sortReplicas :: "pod list \<Rightarrow> pod list" where
  "sortReplicas ps = rev (sort_key pod_name ps)"

definition getPodsByRole :: "env \<Rightarrow> (outcome + podRoleSet) op" where
  "getPodsByRole E = do {
     doltdb \<leftarrow> get_db;
     let currentPrimary = ptr_Deref (status_CurrentPrimary (db_status doltdb)) [];
     if currentPrimary = [] then ret (Inl (ResultAfter (1 * Second), None))
     else if spec_Replicas (db_spec doltdb) = 0 then ret (Inl (ResultAfter (5 * Second), None))
     else do {
       r \<leftarrow> k_ListPods E (om_namespace (db_meta doltdb)) (DoltSelector doltdb);
       case r of
         Inl err \<Rightarrow> ret (Inl (ResultZero, Some (ErrV ''error listing Pods: '' err)))
       | Inr items \<Rightarrow>
           if int (length items) \<noteq> spec_Replicas (db_spec doltdb)
           then ret (Inl (ResultAfter (1 * Second), None))
           else
             let replicas = filter (\<lambda>p. pod_name p \<noteq> currentPrimary) items;
                 primaries = filter (\<lambda>p. pod_name p = currentPrimary) items
             in if replicas = [] \<and> spec_Replicas (db_spec doltdb) > 1
                then ret (Inl (ResultZero, Some (ErrNew ''no replica Pods found'')))
                else if primaries = []
                then ret (Inl (ResultZero, Some (ErrNew ''primary Pod not found'')))
                else ret (Inr \<lparr>prs_replicas = sortReplicas replicas, prs_primary = last primaries\<rparr>)
     }
   }"

section \<open>Before the primary is updated\<close>

definition maxReplicationLagMillis :: int where
  "maxReplicationLagMillis = 5000"

definition waitForReadyStatus :: "env \<Rightarrow> outcome op" where
  "waitForReadyStatus E = do {
     doltdb \<leftarrow> get_db;
     r \<leftarrow> k_GetSts E (ObjectKeyFromObject doltdb);
     ret (case r of
            Inl err \<Rightarrow> (ResultZero, Some err)
          | Inr ss \<Rightarrow>
              if sts_ready_replicas ss \<noteq> spec_Replicas (db_spec doltdb)
              then (ResultAfter (1 * Second), None) else (ResultZero, None))
   }"

fun lag_loop :: "DoltStatus list \<Rightarrow> outcome" where
  "lag_loop [] = (ResultZero, None)"
| "lag_loop (st # rest) =
     (if (case ds_ReplicationLag st of None \<Rightarrow> False | Some lag \<Rightarrow> lag > maxReplicationLagMillis)
      then (ResultAfter (2 * Second), None)
      else if (case ds_CurrentError st of None \<Rightarrow> False | Some e \<Rightarrow> e \<noteq> [])
      then (ResultAfter (2 * Second), None)
      else lag_loop rest)"

definition waitForReplicationCaughtUp :: "env \<Rightarrow> outcome op" where
  "waitForReplicationCaughtUp E = do {
     repl \<leftarrow> call_Replication;
     doltdb \<leftarrow> get_db;
     if \<not> repl_Enabled repl then ret (ResultZero, None)
     else if \<not> IsReplicationConfigured doltdb then ret (ResultZero, Some ErrSkipReconciliationPhase)
     else case status_CurrentPrimaryPodIndex (db_status doltdb) of
       None \<Rightarrow> ret (ResultAfter (1 * Second), None)
     | Some primaryIndex \<Rightarrow> do {
         h \<leftarrow> HealthyDoltDBStandbys E;
         case h of
           Inl err \<Rightarrow> ret (ResultAfter (2 * Second), None)
         | Inr healthyStandbys \<Rightarrow>
             if healthyStandbys = [] then ret (ResultAfter (2 * Second), None)
             else do {
               c \<leftarrow> NewInternalClientWithPodIndex E primaryIndex;
               case c of
                 Inl err \<Rightarrow> ret (ResultZero, None)
               | Inr primaryClient \<Rightarrow> do {
                   st \<leftarrow> GetClusterStatus E primaryClient;
                   closeErr \<leftarrow> Client_Close E primaryClient;
                   ret (case st of
                          Inl err \<Rightarrow> (ResultZero, None)
                        | Inr statuses \<Rightarrow>
                            if statuses = [] then (ResultAfter (2 * Second), None) else lag_loop statuses)
                 }
             }
       }
   }"

section \<open>Updating the pods\<close>

text \<open>
  The end of \<open>gracefulPrimaryUpdate\<close>, after the old primary has become a standby: promote the pod at
  the index that \<open>TransitionToStandby\<close> returned, move the role labels, delete the old primary.
\<close>

definition promoteCaughtUp :: "env \<Rightarrow> namespaced_name \<Rightarrow> pod \<Rightarrow> string \<Rightarrow> int \<Rightarrow> int \<Rightarrow> goerr option op" where
  "promoteCaughtUp E doltdbKey primaryPod updateRevision nextEpoch caughtUpIdx = do {
     c \<leftarrow> NewInternalClientWithPodIndex E caughtUpIdx;
     case c of
       Inl err \<Rightarrow>
         ret (Some (ErrV (''error connecting to new primary at index '' @ show_int caughtUpIdx @ '': '') err))
     | Inr newPrimaryClient \<Rightarrow> do {
         result \<leftarrow> do {
           a \<leftarrow> AssumeRole E newPrimaryClient PrimaryRoleValue nextEpoch;
           case a of
             Some err \<Rightarrow>
               ret (Some (ErrV (''error promoting standby at index '' @ show_int caughtUpIdx @ '' to primary: '') err))
           | None \<Rightarrow> do {
               m \<leftarrow> MarkRoleStandby E primaryPod;
               case m of
                 Some err \<Rightarrow>
                   ret (Some (ErrV (''error marking old primary pod '' @ quoted (pod_name primaryPod) @
                                    '' as standby: '') err))
               | None \<Rightarrow> do {
                   h \<leftarrow> IsDoltDBReplicaHealthy E caughtUpIdx;
                   case h of
                     Inl err \<Rightarrow>
                       ret (Some (ErrV (''error getting new primary pod at index '' @ show_int caughtUpIdx @ '': '') err))
                   | Inr (newPrimaryPod, _) \<Rightarrow> do {
                       m2 \<leftarrow> MarkRolePrimary E newPrimaryPod;
                       case m2 of
                         Some err \<Rightarrow>
                           ret (Some (ErrV (''error marking new primary pod '' @ quoted (pod_name newPrimaryPod) @ '': '') err))
                       | None \<Rightarrow> updatePod E doltdbKey primaryPod updateRevision
                     }
                 }
             }
         };
         closeErr \<leftarrow> Client_Close E newPrimaryClient;
         ret result
       }
   }"

definition gracefulPrimaryUpdate :: "env \<Rightarrow> namespaced_name \<Rightarrow> pod \<Rightarrow> string \<Rightarrow> goerr option op" where
  "gracefulPrimaryUpdate E doltdbKey primaryPod updateRevision = do {
     repl \<leftarrow> call_Replication;
     doltdb \<leftarrow> get_db;
     case (if repl_Enabled repl then status_CurrentPrimaryPodIndex (db_status doltdb) else None) of
       None \<Rightarrow> updatePod E doltdbKey primaryPod updateRevision
     | Some primaryIndex \<Rightarrow> do {
         c \<leftarrow> NewInternalClientWithPodIndex E primaryIndex;
         case c of
           Inl err \<Rightarrow> updatePod E doltdbKey primaryPod updateRevision
         | Inr primaryClient \<Rightarrow> do {
             result \<leftarrow> do {
               re \<leftarrow> GetRoleAndEpoch E primaryClient;
               case re of
                 Inl err \<Rightarrow> updatePod E doltdbKey primaryPod updateRevision
               | Inr (_, epoch) \<Rightarrow> do {
                   h \<leftarrow> StandbyHostFQDNs E;
                   case h of
                     Inl err \<Rightarrow> updatePod E doltdbKey primaryPod updateRevision
                   | Inr standbyHosts \<Rightarrow> do {
                       let nextEpoch = wrap64 (epoch + 1);
                       t \<leftarrow> TransitionToStandby E primaryClient nextEpoch 1 standbyHosts;
                       case t of
                         Inl err \<Rightarrow> updatePod E doltdbKey primaryPod updateRevision
                       | Inr caughtUpIdx \<Rightarrow>
                           promoteCaughtUp E doltdbKey primaryPod updateRevision nextEpoch caughtUpIdx
                     }
                 }
             };
             closeErr \<leftarrow> Client_Close E primaryClient;
             ret result
           }
       }
   }"

definition shouldReconcileUpdates :: "'x lib_scheme \<Rightarrow> DoltDB \<Rightarrow> bool" where
  "shouldReconcileUpdates L doltdb \<longleftrightarrow>
     \<not> (IsResizingStorage L doltdb \<or> IsSwitchingPrimary L doltdb) \<and>
     (spec_UpdateStrategy (db_spec doltdb) = [] \<or>
      spec_UpdateStrategy (db_spec doltdb) = ReplicasFirstPrimaryLastUpdateType)"

fun update_replicas_loop :: "env \<Rightarrow> namespaced_name \<Rightarrow> string \<Rightarrow> pod list \<Rightarrow> outcome option op" where
  "update_replicas_loop E doltdbKey updateRevision [] = ret None"
| "update_replicas_loop E doltdbKey updateRevision (replicaPod # rest) =
     (if PodUpdated replicaPod updateRevision then update_replicas_loop E doltdbKey updateRevision rest
      else do {
        e \<leftarrow> updatePod E doltdbKey replicaPod updateRevision;
        case e of
          Some err \<Rightarrow>
            ret (Some (ResultZero,
                       Some (ErrV (''error updating replica Pod '' @ quoted (pod_name replicaPod) @ '': '') err)))
        | None \<Rightarrow> ret (Some (ResultRequeue, None))
      })"

definition updatePrimary :: "env \<Rightarrow> namespaced_name \<Rightarrow> string \<Rightarrow> pod \<Rightarrow> outcome op" where
  "updatePrimary E doltdbKey updateRevision primaryPod = do {
     (result, err) \<leftarrow> waitForReplicationCaughtUp E;
     if \<not> IsZero result \<or> err \<noteq> None then ret (result, err)
     else if PodUpdated primaryPod updateRevision then ret (ResultZero, None)
     else do {
       e \<leftarrow> gracefulPrimaryUpdate E doltdbKey primaryPod updateRevision;
       ret (ResultZero,
            map_option (ErrV (''error updating primary Pod '' @ quoted (pod_name primaryPod) @ '': '')) e)
     }
   }"

definition reconcileUpdates :: "env \<Rightarrow> outcome op" where
  "reconcileUpdates E = do {
     doltdb \<leftarrow> get_db;
     if \<not> shouldReconcileUpdates E doltdb then ret (ResultZero, None)
     else do {
       let doltdbKey = ObjectKeyFromObject doltdb;
       v \<leftarrow> GetRevision E;
       case v of
         Inl err \<Rightarrow> ret (ResultZero, Some err)
       | Inr stsUpdateRevision \<Rightarrow>
           if stsUpdateRevision = [] then ret (ResultAfter (1 * Second), None)
           else do {
             p \<leftarrow> getPodsByRole E;
             case p of
               Inl res \<Rightarrow> ret res
             | Inr podsByRole \<Rightarrow>
                 if getStalePodNames podsByRole stsUpdateRevision = [] then ret (ResultZero, None)
                 else do {
                   (result, err) \<leftarrow> waitForReadyStatus E;
                   if \<not> IsZero result \<or> err \<noteq> None then ret (result, err)
                   else do {
                     u \<leftarrow> update_replicas_loop E doltdbKey stsUpdateRevision (prs_replicas podsByRole);
                     case u of
                       Some res \<Rightarrow> ret res
                     | None \<Rightarrow> updatePrimary E doltdbKey stsUpdateRevision (prs_primary podsByRole)
                   }
                 }
           }
     }
   }"

section \<open>The reconciler\<close>

definition reconcileStatefulSet :: "env \<Rightarrow> outcome op" where
  "reconcileStatefulSet E = do {
     doltdb \<leftarrow> get_db;
     h \<leftarrow> getConfigMapHash E;
     case h of
       Inl err \<Rightarrow> ret (ResultZero, Some err)
     | Inr configMapHash \<Rightarrow> do {
         modify_db BuildDoltStatefulSet_fill;
         case BuildDoltStatefulSet E (ObjectKeyFromObject doltdb) doltdb configMapHash of
           Inl err \<Rightarrow> ret (ResultZero, Some (ErrV ''error building StatefulSet: '' err))
         | Inr desiredSts \<Rightarrow> do {
             e \<leftarrow> ReconcileWithUpdates E desiredSts;
             case e of
               Some err \<Rightarrow> ret (ResultZero, Some (ErrV ''error reconciling StatefulSet: '' err))
             | None \<Rightarrow> reconcileUpdates E
           }
       }
   }"

definition Sts_Reconcile :: "env \<Rightarrow> outcome op" where
  "Sts_Reconcile E = reconcileStatefulSet E"

end
