(* ===== verification/Storage.thy ===== *)
theory Storage
  imports Stateful_Set
begin

text \<open>
  The storage reconciler (\<open>src/pkg/controller/storage/storage.go\<close>): it grows the volume claims in use,
  replaces the stateful set by one with the new size, and waits until the claims and the pods have
  settled.  The condition \<open>StorageResized\<close> of the status carries the state between passes.
\<close>

section \<open>The operations\<close>

definition getStoragePVCs :: "env \<Rightarrow> (goerr + pvc list) op" where
  "getStoragePVCs E = do {
     doltdb \<leftarrow> get_db;
     r \<leftarrow> k_ListPVCs E (om_namespace (db_meta doltdb)) (DoltSelector doltdb);
     ret (case r of Inl err \<Rightarrow> Inl (ErrV ''error listing PVCs: '' err) | Inr items \<Rightarrow> Inr items)
   }"

text \<open>Writing the size of a claim without a map of requests is a write to a nil map.\<close>

fun resize_pvcs_loop :: "env \<Rightarrow> quantity \<Rightarrow> pvc list \<Rightarrow> outcome op" where
  "resize_pvcs_loop E newSize [] = ret (ResultZero, None)"
| "resize_pvcs_loop E newSize (p # ps) =
     (case pvc_request p of
        None \<Rightarrow> ret (ResultZero, Some (Panic ''assignment to entry in nil map''))
      | Some _ \<Rightarrow> do {
          e \<leftarrow> k_write E (CPatchPVC p (p\<lparr>pvc_request := Some newSize\<rparr>));
          case e of
            Some err \<Rightarrow>
              ret (ResultZero, Some (ErrV (''error patching PVC '' @ quoted (om_name (pvc_meta p)) @ '': '') err))
          | None \<Rightarrow> resize_pvcs_loop E newSize ps
        })"

definition resizeInUsePVCs :: "env \<Rightarrow> quantity \<Rightarrow> outcome op" where
  "resizeInUsePVCs E newSize = do {
     doltdb \<leftarrow> get_db;
     if \<not> ptr_Deref (storage_ResizeInUseVolumes (spec_Storage (db_spec doltdb))) True
     then ret (ResultZero, None)
     else do {
       r \<leftarrow> getStoragePVCs E;
       case r of
         Inl err \<Rightarrow> ret (ResultZero, Some err)
       | Inr pvcs \<Rightarrow> resize_pvcs_loop E newSize pvcs
     }
   }"

definition resizeStatefulSet :: "env \<Rightarrow> sts \<Rightarrow> outcome op" where
  "resizeStatefulSet E ss = do {
     e \<leftarrow> k_write E (CDeleteSts (meta_key (sts_meta ss)));
     case e of
       Some err \<Rightarrow> ret (ResultZero, Some (ErrV ''error deleting StatefulSet: '' err))
     | None \<Rightarrow> Sts_Reconcile E
   }"

text \<open>\<open>patch.PatchStatus\<close> with one of the storage setters, and the error wrapped.\<close>

definition patchCondition :: "env \<Rightarrow> (DoltDBStatus set_condition \<Rightarrow> DoltDBStatus \<Rightarrow> DoltDBStatus) \<Rightarrow> goerr option op" where
  "patchCondition E setter = do {
     e \<leftarrow> PatchStatus E (on_status (setter (SetCondition E)));
     ret (map_option (ErrV ''error patching status: '') e)
   }"

definition finishStorageResize :: "env \<Rightarrow> outcome op" where
  "finishStorageResize E = do {
     doltdb \<leftarrow> get_db;
     r \<leftarrow> k_GetSts E (ObjectKeyFromObject doltdb);
     case r of
       Inl err \<Rightarrow> ret (ResultZero, Some err)
     | Inr ss \<Rightarrow>
         if sts_ready_replicas ss \<noteq> spec_Replicas (db_spec doltdb)
         then ret (ResultAfter (1 * Second), None)
         else do {
           e \<leftarrow> patchCondition E SetReadyStorageResized;
           ret (ResultZero, e)
         }
   }"

definition waitForStorageResize :: "env \<Rightarrow> outcome op" where
  "waitForStorageResize E = do {
     doltdb \<leftarrow> get_db;
     let storage = spec_Storage (db_spec doltdb);
     if ptr_Deref (storage_ResizeInUseVolumes storage) True \<and> ptr_Deref (storage_WaitForVolumeResize storage) True
     then do {
       r \<leftarrow> getStoragePVCs E;
       case r of
         Inl err \<Rightarrow> ret (ResultZero, Some err)
       | Inr pvcs \<Rightarrow>
           if list_ex IsResizing pvcs then ret (ResultAfter (1 * Second), None)
           else finishStorageResize E
     }
     else finishStorageResize E
   }"

definition shouldReconcileStorage :: "'x lib_scheme \<Rightarrow> DoltDB \<Rightarrow> bool" where
  "shouldReconcileStorage L doltdb \<longleftrightarrow> \<not> (IsUpdating L doltdb \<or> IsSwitchingPrimary L doltdb)"

definition growStorage :: "env \<Rightarrow> quantity \<Rightarrow> sts \<Rightarrow> outcome op" where
  "growStorage E desiredSize existingSts = do {
     e1 \<leftarrow> patchCondition E SetReadyStorageResizing;
     if e1 \<noteq> None then ret (ResultZero, e1)
     else do {
       (r1, err1) \<leftarrow> resizeInUsePVCs E desiredSize;
       if \<not> IsZero r1 \<or> err1 \<noteq> None then ret (r1, err1)
       else do {
         (r2, err2) \<leftarrow> resizeStatefulSet E existingSts;
         if \<not> IsZero r2 \<or> err2 \<noteq> None then ret (r2, err2)
         else do {
           e2 \<leftarrow> patchCondition E SetReadyWaitingStorageResize;
           if e2 \<noteq> None then ret (ResultZero, e2) else waitForStorageResize E
         }
       }
     }
   }"

definition Storage_Reconcile :: "env \<Rightarrow> outcome op" where
  "Storage_Reconcile E = do {
     doltdb \<leftarrow> get_db;
     if \<not> shouldReconcileStorage E doltdb then ret (ResultZero, None)
     else if IsWaitingForStorageResize E doltdb then waitForStorageResize E
     else do {
       r \<leftarrow> k_GetSts E (ObjectKeyFromObject doltdb);
       case r of
         Inl err \<Rightarrow> ret (ResultZero, Some err)
       | Inr existingSts \<Rightarrow>
           (case (GetStorageSize (sts_claims existingSts) DoltDataVolume, storage_Size (spec_Storage (db_spec doltdb))) of
              (None, _) \<Rightarrow> ret (ResultZero, Some (ErrNew ''invalid existing storage size''))
            | (Some existingSize, None) \<Rightarrow> ret (ResultZero, Some (ErrNew ''invalid desired storage size''))
            | (Some existingSize, Some desiredSize) \<Rightarrow>
                let sizeCmp = lib_QuantityCmp E desiredSize existingSize
                in if sizeCmp = 0 then ret (ResultZero, None)
                   else if sizeCmp < 0
                   then ret (ResultZero, Some (ErrNew (''cannot decrease storage size from '' @ quoted existingSize @
                                                  '' to '' @ quoted desiredSize)))
                   else growStorage E desiredSize existingSts)
     }
   }"

end
