(* ===== verification/Request_Rules.thy ===== *)
theory Request_Rules
  imports Stateful_Set Replication_Controller
begin

text \<open>
  Rules to bound the requests of an operation, shared by the properties of several reconcilers: a
  locale for the predicates that hold of every query and of every request that changes a role, with
  the operations that stay within them.
\<close>

named_theorems role_intros \<open>operations whose requests satisfy an interpreted predicate\<close>

lemma keeps_emits: "keeps E P p \<Longrightarrow> emits P p"
  unfolding emits_def keeps_def wp_def framed_def by (auto split: prod.splits) (metis snd_conv prod.exhaust)

lemma emits_peek [role_intros]: "emits P (peek f)"
  by (simp add: emits_def peek_def)

section \<open>Requests that are made at most once\<close>

text \<open>
  \<open>silent D s s'\<close>: no request of kind \<open>D\<close> was made between the two configurations.  \<open>once D C s s'\<close>: at
  most one was made, and it satisfies \<open>C\<close>.
\<close>

definition silent :: "(call \<Rightarrow> bool) \<Rightarrow> (call, 'o) cfg \<Rightarrow> (call, 'o) cfg \<Rightarrow> bool" where
  "silent D s s' \<longleftrightarrow> (\<exists>t. trace s' = trace s @ t \<and> filter D t = [])"

definition once :: "(call \<Rightarrow> bool) \<Rightarrow> (call \<Rightarrow> bool) \<Rightarrow> (call, 'o) cfg \<Rightarrow> (call, 'o) cfg \<Rightarrow> bool" where
  "once D C s s' \<longleftrightarrow>
     (\<exists>t. trace s' = trace s @ t \<and> (filter D t = [] \<or> (\<exists>c. C c \<and> filter D t = [c])))"

lemma silent_refl [simp]: "silent D s s"
  by (simp add: silent_def)

lemma silent_trans: "silent D s s1 \<Longrightarrow> silent D s1 s' \<Longrightarrow> silent D s s'"
  by (auto simp: silent_def)

lemma once_steps:
  "silent D s s1 \<Longrightarrow> once D C s1 s' \<Longrightarrow> once D C s s'"
  "once D C s s1 \<Longrightarrow> silent D s1 s' \<Longrightarrow> once D C s s'"
  "silent D s s' \<Longrightarrow> once D C s s'"
  by (auto simp: silent_def once_def)

lemma emits_silent:
  assumes "emits (\<lambda>c. \<not> D c) p" and "\<And>a s'. silent D s s' \<Longrightarrow> Q a s'"
  shows "wp p Q s"
proof (rule wp_runI)
  fix a s' assume "run_state p s = (a, s')"
  then obtain t where "trace s' = trace s @ t" "list_all (\<lambda>c. \<not> D c) t"
    by (rule emitsD [OF assms(1)])
  then show "Q a s'"
    by (intro assms(2)) (auto simp: silent_def filter_empty_conv list_all_iff)
qed

text \<open>Computations that make at most one request of kind \<open>D\<close>, which satisfies \<open>C\<close>.\<close>

definition atmost :: "(call \<Rightarrow> bool) \<Rightarrow> (call \<Rightarrow> bool) \<Rightarrow> 'a op \<Rightarrow> bool" where
  "atmost D C p \<longleftrightarrow> (\<forall>s. wp p (\<lambda>_ s'. once D C s s') s)"

lemma atmost_none: "emits (\<lambda>c. \<not> D c) p \<Longrightarrow> atmost D C p"
  unfolding atmost_def by (intro allI emits_silent [of D] once_steps(3))

lemma atmost_bind:
  "emits (\<lambda>c. \<not> D c) p \<Longrightarrow> (\<And>a. atmost D C (f a)) \<Longrightarrow> atmost D C (State_Monad.bind p f)"
  unfolding atmost_def wp_bind
  by (intro allI, erule emits_silent, rule wp_mono, blast, erule (1) once_steps(1))

lemma atmost_then:
  assumes "atmost D C p" and "\<And>a. emits (\<lambda>c. \<not> D c) (f a)"
  shows "atmost D C (State_Monad.bind p f)"
  unfolding atmost_def wp_bind
proof
  fix s
  show "wp p (\<lambda>a. wp (f a) (\<lambda>_ s'. once D C s s')) s"
    by (rule wp_mono [OF assms(1) [unfolded atmost_def, rule_format]])
      (rule emits_silent [OF assms(2)], erule (1) once_steps(2))
qed

lemma atmost_cases:
  "(b \<Longrightarrow> atmost D C p) \<Longrightarrow> (\<not> b \<Longrightarrow> atmost D C q) \<Longrightarrow> atmost D C (if b then p else q)"
  "(\<And>e. x = Inl e \<Longrightarrow> atmost D C (f e)) \<Longrightarrow> (\<And>y. x = Inr y \<Longrightarrow> atmost D C (g y)) \<Longrightarrow>
     atmost D C (case x of Inl e \<Rightarrow> f e | Inr y \<Rightarrow> g y)"
  "(z = None \<Longrightarrow> atmost D C h) \<Longrightarrow> (\<And>y. z = Some y \<Longrightarrow> atmost D C (l y)) \<Longrightarrow>
     atmost D C (case z of None \<Rightarrow> h | Some y \<Rightarrow> l y)"
  "(\<And>a b. w = (a, b) \<Longrightarrow> atmost D C (m a b)) \<Longrightarrow> atmost D C (case w of (a, b) \<Rightarrow> m a b)"
  by (simp_all split: sum.split option.split prod.split)

lemma atmost_ret: "atmost D C (ret a)"
  by (rule atmost_none, rule emits_intros)

lemma atmost_wp: "atmost D C p \<Longrightarrow> silent D s s1 \<Longrightarrow> wp p (\<lambda>_ s'. once D C s s') s1"
  unfolding atmost_def by (blast intro: wp_mono once_steps(1))

section \<open>Operations that change roles, or restart pods\<close>

locale role_requests =
  fixes P :: "call \<Rightarrow> bool"
  assumes query: "is_query c \<Longrightarrow> P c"
    and promote: "P (CSql co (AssumeClusterRole PrimaryRoleValue e))"
    and assign: "P (CSql co (AssumeClusterRole StandbyRoleValue e))"
    and demote: "P (CSql co (TransitionToStandbyStmt e n))"
    and mark: "P (CPatchPod p (set_role_label r p))"
begin

lemma emits_queries: "keeps E is_query p \<Longrightarrow> emits P p"
  by (rule emits_mono [OF keeps_emits query])

lemmas queries [role_intros] =
  keeps_health [THEN emits_queries] keeps_resolver [THEN emits_queries] keeps_client_basic [THEN emits_queries]
  keeps_close [THEN emits_queries] keeps_ClientForIndex [THEN emits_queries] keeps_GetDBStates [THEN emits_queries]
  keeps_state [THEN emits_queries] keeps_switchover_basic [THEN emits_queries]
  keeps_RemoveClientFromCache [THEN emits_queries]

lemma role_statements [role_intros]:
  "emits P (AssumeRole E c PrimaryRoleValue e)" "emits P (AssumeRole E c StandbyRoleValue e)"
  "emits P (TransitionToStandby E c e n hosts)"
  unfolding AssumeRole_def TransitionToStandby_def
  by (intro emits_intros emits_peek promote assign demote)+

lemma marks [role_intros]:
  "emits P (MarkRoleStandby E p)" "emits P (MarkRolePrimary E p)"
  by (rule emits_MarkRole, rule mark)+

lemma switchover_phases [role_intros]:
  "emits P (shiftTrafficAwayFromPrimary E ctx)" "emits P (setPrimaryReadOnly E ctx)"
  "emits P (configureNewPrimary E ctx)" "emits P (shiftTrafficToNewPrimary E ctx)"
proof -
  have "emits P (mark_standby_loop E d is)" for d "is"
    by (induction "is") (auto intro!: emits_intros role_intros)
  then show "emits P (shiftTrafficAwayFromPrimary E ctx)"
    unfolding shiftTrafficAwayFromPrimary_def by (intro emits_intros query; simp)
  show "emits P (setPrimaryReadOnly E ctx)"
    unfolding setPrimaryReadOnly_def drainPrimary_def transitionPrimary_def
    by (intro emits_intros role_intros query; simp)
  show "emits P (configureNewPrimary E ctx)"
    unfolding configureNewPrimary_def by (intro emits_intros role_intros query; simp)
  show "emits P (shiftTrafficToNewPrimary E ctx)"
    unfolding shiftTrafficToNewPrimary_def by (intro emits_intros role_intros query; simp)
qed

lemma pod_roles [role_intros]: "emits P (reconcileReplicationInPod E i e)"
  unfolding reconcileReplicationInPod_def ConfigurePrimary_def ConfigureReplica_def
  by (intro emits_intros role_intros)

lemma lag_check [role_intros]: "emits P (waitForReplicationCaughtUp E)"
  unfolding waitForReplicationCaughtUp_def by (intro emits_intros role_intros)

end

text \<open>
  The stateful set reconciler makes three more kinds of requests: it creates the set, patches its
  template, strategy and size, and deletes pods.
\<close>

locale set_requests = role_requests +
  assumes create_set: "P (CCreateSts ss)"
    and patch_set: "P (CPatchSts x (x\<lparr>sts_template := a, sts_update_strategy := b, sts_replicas := c\<rparr>))"
    and restart: "P (CDeletePod k)"
begin

lemma updatePod [role_intros]: "emits P (updatePod E key p v)"
proof -
  have "emits P (PollUntilSucessOrContextCancel n fn)" if "emits P fn" for n and fn :: "goerr option op"
    by (induction n) (auto intro!: emits_intros that)
  then show ?thesis
    unfolding updatePod_def pollUntilPodUpdated_def PollWithDoltDB_def shouldPoll_def
    by (intro emits_intros emits_peek restart; simp add: emits_intros query is_read_def)
qed

lemma reconcileUpdates [role_intros]: "emits P (reconcileUpdates E)"
proof -
  have replicas: "emits P (update_replicas_loop E key v ps)" for key v ps
    by (induction ps) (auto intro!: emits_intros role_intros)
  have graceful: "emits P (gracefulPrimaryUpdate E key p v)" for key p v
    unfolding gracefulPrimaryUpdate_def promoteCaughtUp_def by (intro emits_intros role_intros)
  have primary: "emits P (updatePrimary E key v p)" for key v p
    unfolding updatePrimary_def by (intro emits_intros role_intros graceful)
  show ?thesis
    unfolding reconcileUpdates_def GetRevision_def getPodsByRole_def waitForReadyStatus_def
    by (intro emits_intros replicas primary query; simp add: is_read_def)
qed

lemma Sts_Reconcile [role_intros]: "emits P (Sts_Reconcile E)"
  unfolding Sts_Reconcile_def reconcileStatefulSet_def getConfigMapHash_def ReconcileWithUpdates_def
  by (intro emits_intros role_intros create_set patch_set query; simp add: is_read_def)

end

end
