(* ===== verification/Update_Properties.thy ===== *)
theory Update_Properties
  imports Request_Rules Reference_Env
begin

text \<open>
  The properties of rolling updates: which pod a pass restarts and when, the order of the role
  statements when the primary is restarted, and the ordinal that is promoted.
\<close>

section \<open>Deletions\<close>

definition is_delete :: "call \<Rightarrow> bool" where
  "is_delete c = (case c of CDeletePod k \<Rightarrow> True | _ \<Rightarrow> False)"

abbreviation no_delete :: "call \<Rightarrow> bool" where
  "no_delete c \<equiv> \<not> is_delete c"

abbreviation restarts :: "namespaced_name \<Rightarrow> (call, 'o) cfg \<Rightarrow> (call, 'o) cfg \<Rightarrow> bool" where
  "restarts k \<equiv> once is_delete (\<lambda>c. c = CDeletePod k)"

abbreviation deletes_only :: "namespaced_name \<Rightarrow> 'a op \<Rightarrow> bool" where
  "deletes_only k \<equiv> atmost is_delete (\<lambda>c. c = CDeletePod k)"

lemma is_delete_simps [simp]:
  "is_delete (CDeletePod k)" "is_query c \<Longrightarrow> no_delete c" "no_delete (CSql co st)" "no_delete (CPatchPod p p')"
  "no_delete (CGetSts k)" "no_delete (CListPods ns ls)" "no_delete (CGetDoltDB k)" "no_delete (CGetPod k)"
  by (auto simp: is_delete_def is_query_def is_read_def split: call.splits)

interpretation del: role_requests no_delete
  by unfold_locales simp_all

text \<open>Waiting for a restarted pod only queries.\<close>

lemma pollUntilPodUpdated_queries: "emits is_query (pollUntilPodUpdated E key k v)"
proof -
  have poll: "emits P (PollUntilSucessOrContextCancel n fn)" if "emits P fn" for P n and fn :: "goerr option op"
    by (induction n) (auto intro!: emits_intros that)
  show ?thesis
    unfolding pollUntilPodUpdated_def PollWithDoltDB_def shouldPoll_def
    by (intro emits_intros emits_peek poll; simp add: is_read_def)
qed

lemma updatePod_deletes: "deletes_only (meta_key (pod_meta p)) (updatePod E key p v)"
proof -
  have wait: "emits no_delete (pollUntilPodUpdated E key k v)" for k
    by (rule emits_mono [OF pollUntilPodUpdated_queries]) simp
  have "wp (pollUntilPodUpdated E key k v) (\<lambda>a. wp (ret (g a)) (\<lambda>_ s'. restarts k s s')) s1"
    if "trace s1 = trace s @ [CDeletePod k]" for s s1 :: "(call, dbst) cfg" and k and g :: "goerr option \<Rightarrow> goerr option"
    by (rule emits_silent [OF wait]) (use that in \<open>auto simp: wp_simps once_def silent_def\<close>)
  then show ?thesis
    by (auto simp: atmost_def updatePod_def wp_simps once_def split: option.split)
qed

lemma gracefulPrimaryUpdate_deletes:
  "deletes_only (meta_key (pod_meta p)) (gracefulPrimaryUpdate E key p v)"
proof -
  have promote: "deletes_only (meta_key (pod_meta p)) (promoteCaughtUp E key p v e i)" for e i
    unfolding promoteCaughtUp_def
    by (intro atmost_bind atmost_cases atmost_ret atmost_then
        [OF atmost_bind] updatePod_deletes emits_intros role_intros)
  show ?thesis
    unfolding gracefulPrimaryUpdate_def Let_def
    by (intro atmost_bind atmost_cases atmost_ret atmost_then
        [OF atmost_bind] updatePod_deletes promote emits_intros role_intros)
qed

section \<open>A pass over the pods\<close>

text \<open>
  When a pod may be restarted, in terms of the answers of the API server at the start of the pass: the
  pod was listed and is stale, every replica of the set was ready, and if it is the recorded primary
  then every other pod that was listed is up to date.
\<close>

definition may_restart :: "env \<Rightarrow> DoltDB \<Rightarrow> call list \<Rightarrow> pod \<Rightarrow> bool" where
  "may_restart E d h p \<longleftrightarrow>
     (let key = ObjectKeyFromObject d; ns = om_namespace (db_meta d);
          h1 = h @ [CGetSts key]; h2 = h1 @ [CListPods ns (DoltSelector d)];
          primary = ptr_Deref (status_CurrentPrimary (db_status d)) []
      in \<exists>ss items now. env_GetSts E h key = Inr ss \<and> env_ListPods E h1 ns (DoltSelector d) = Inr items \<and>
         env_GetSts E h2 key = Inr now \<and> sts_ready_replicas now = spec_Replicas (db_spec d) \<and>
         int (length items) = spec_Replicas (db_spec d) \<and>
         p \<in> set items \<and> \<not> PodUpdated p (sts_update_revision ss) \<and>
         (pod_name p = primary \<longrightarrow>
            (\<forall>q \<in> set items. pod_name q \<noteq> primary \<longrightarrow> PodUpdated q (sts_update_revision ss))))"

lemma set_sortReplicas [simp]: "set (sortReplicas ps) = set ps"
  by (simp add: sortReplicas_def)

lemma update_replicas_loop_wp:
  "wp (update_replicas_loop E key v ps)
     (\<lambda>u s'. (u = None \<and> s' = s \<and> (\<forall>p \<in> set ps. PodUpdated p v)) \<or>
        (u \<noteq> None \<and> (\<exists>p \<in> set ps. \<not> PodUpdated p v \<and> restarts (meta_key (pod_meta p)) s s'))) s"
proof (induction ps)
  case (Cons p ps)
  have "wp (updatePod E key p v) (\<lambda>_ s'. restarts (meta_key (pod_meta p)) s s') s"
    using updatePod_deletes by (simp add: atmost_def)
  then have "wp (updatePod E key p v) (\<lambda>e s'. restarts (meta_key (pod_meta p)) s s') s" .
  then show ?case
    using Cons.IH by (auto simp: wp_simps split: option.split elim!: wp_mono)
qed (simp add: wp_simps)

lemma updatePrimary_wp:
  "wp (updatePrimary E key v p)
     (\<lambda>_ s'. silent is_delete s s' \<or> (\<not> PodUpdated p v \<and> restarts (meta_key (pod_meta p)) s s')) s"
proof -
  have wait: "emits no_delete (waitForReplicationCaughtUp E)" by (rule role_intros)
  have graceful: "wp (gracefulPrimaryUpdate E key p v) (\<lambda>_ s'. restarts (meta_key (pod_meta p)) s s') s1"
    if "silent is_delete s s1" for s1
    using gracefulPrimaryUpdate_deletes [of p E key v] that
    by (auto simp: atmost_def elim!: allE [of _ s1] wp_mono intro: once_steps(1))
  show ?thesis
    unfolding updatePrimary_def
    by (auto simp: wp_simps intro!: emits_silent [OF wait] elim!: wp_mono [OF graceful])
qed

definition restarts_allowed :: "env \<Rightarrow> (call, dbst) cfg \<Rightarrow> (call, dbst) cfg \<Rightarrow> bool" where
  "restarts_allowed E s s' \<longleftrightarrow> silent is_delete s s' \<or>
     (\<exists>p. may_restart E (the_db (obj s)) (trace s) p \<and> restarts (meta_key (pod_meta p)) s s')"

lemma getPodsByRole_wp:
  "wp (getPodsByRole E)
     (\<lambda>r s'. silent is_delete s s' \<and> (\<forall>prs. r = Inr prs \<longrightarrow>
        (\<exists>items. env_ListPods E (trace s) (om_namespace (db_meta (the_db (obj s)))) (DoltSelector (the_db (obj s))) = Inr items \<and>
           int (length items) = spec_Replicas (db_spec (the_db (obj s))) \<and>
           set (prs_replicas prs) = {p \<in> set items. pod_name p \<noteq> ptr_Deref (status_CurrentPrimary (db_status (the_db (obj s)))) []} \<and>
           prs_primary prs \<in> set items \<and>
           pod_name (prs_primary prs) = ptr_Deref (status_CurrentPrimary (db_status (the_db (obj s)))) [] \<and>
           s' = s\<lparr>trace := trace s @ [CListPods (om_namespace (db_meta (the_db (obj s)))) (DoltSelector (the_db (obj s)))]\<rparr>))) s"
proof -
  have named: "last (filter (\<lambda>p. pod_name p = n) items) \<in> set items"
      "pod_name (last (filter (\<lambda>p. pod_name p = n) items)) = n"
    if "\<exists>p \<in> set items. pod_name p = n" for n items
  proof -
    have "filter (\<lambda>p. pod_name p = n) items \<noteq> []" using that by (auto simp: filter_empty_conv)
    from last_in_set [OF this] show "last (filter (\<lambda>p. pod_name p = n) items) \<in> set items"
      "pod_name (last (filter (\<lambda>p. pod_name p = n) items)) = n" by auto
  qed
  show ?thesis
    by (auto simp: getPodsByRole_def wp_simps Let_def silent_def filter_empty_conv split: sum.split
        intro!: named)
qed

lemma reconcileUpdates_wp:
  "wp (reconcileUpdates E)
     (\<lambda>_ s'. restarts_allowed E s s' \<and> (\<not> shouldReconcileUpdates E (the_db (obj s)) \<longrightarrow> s' = s)) s"
proof -
  let ?d = "the_db (obj s)"
  let ?s1 = "s\<lparr>trace := trace s @ [CGetSts (ObjectKeyFromObject ?d)]\<rparr>"
  let ?primary = "ptr_Deref (status_CurrentPrimary (db_status ?d)) []"
  let ?h2 = "trace s @ [CGetSts (ObjectKeyFromObject ?d), CListPods (om_namespace (db_meta ?d)) (DoltSelector ?d)]"
  let ?s2 = "s\<lparr>trace := ?h2\<rparr>"
  let ?s3 = "s\<lparr>trace := trace s @ [CGetSts (ObjectKeyFromObject ?d), CListPods (om_namespace (db_meta ?d)) (DoltSelector ?d),
     CGetSts (ObjectKeyFromObject ?d)]\<rparr>"
  have s13: "silent is_delete s ?s1" "silent is_delete s ?s2" "silent is_delete s ?s3"
    by (simp_all add: silent_def)
  have end1: "restarts_allowed E s s'" if "silent is_delete s s1" "silent is_delete s1 s'" for s1 s'
    using silent_trans [OF that] by (simp add: restarts_allowed_def)
  have one: "restarts_allowed E s s'"
    if "may_restart E ?d (trace s) p" "restarts (meta_key (pod_meta p)) ?s3 s'" for p s'
    using that once_steps(1) [OF s13(3)] by (auto simp: restarts_allowed_def)
  have pod: "restarts_allowed E s s'"
    if "env_GetSts E (trace s) (ObjectKeyFromObject ?d) = Inr ss"
      "env_ListPods E (trace s @ [CGetSts (ObjectKeyFromObject ?d)]) (om_namespace (db_meta ?d)) (DoltSelector ?d) = Inr items"
      "int (length items) = spec_Replicas (db_spec ?d)"
      "env_GetSts E ?h2 (ObjectKeyFromObject ?d) = Inr now" "sts_ready_replicas now = spec_Replicas (db_spec ?d)"
      "p \<in> set items" "\<not> PodUpdated p (sts_update_revision ss)"
      "pod_name p = ?primary \<Longrightarrow> \<forall>q \<in> {q \<in> set items. pod_name q \<noteq> ?primary}. PodUpdated q (sts_update_revision ss)"
      "restarts (meta_key (pod_meta p)) ?s3 s'" for ss items now p s'
    by (rule one [OF _ that(9)]) (use that(1-8) in \<open>auto simp: may_restart_def Let_def\<close>)
  have start: "restarts_allowed E s s" "restarts_allowed E s ?s1"
    using s13(1) by (simp_all add: restarts_allowed_def)
  show ?thesis
    unfolding reconcileUpdates_def GetRevision_def waitForReadyStatus_def
    by (auto simp: wp_simps Let_def start end1 [OF s13(1)] end1 [OF s13(3)] split: sum.split option.split
        intro!: wp_mono [OF getPodsByRole_wp] wp_mono [OF update_replicas_loop_wp] wp_mono [OF updatePrimary_wp])
      (blast intro: pod)+
qed

section \<open>Role statements of an update\<close>

abbreviation no_role :: "call \<Rightarrow> bool" where
  "no_role c \<equiv> \<not> is_role_stmt c"

lemma queries_no_role: "keeps E is_query p \<Longrightarrow> emits no_role p"
  by (rule emits_mono, erule keeps_emits) simp

lemma updatePod_no_role: "emits no_role (updatePod E key p v)"
proof -
  have "no_role (CDeletePod k)" for k
    by (simp add: is_role_stmt_def)
  then show ?thesis
    unfolding updatePod_def by (intro emits_intros emits_mono [OF pollUntilPodUpdated_queries]; simp)
qed

text \<open>
  The role statements of an update.  None; or the recorded primary \<open>i\<close> is told once to become a standby
  at some epoch and nothing follows; or the transition succeeds, and the pod whose ordinal is the
  position that was chosen in the list of standby hosts is promoted at that epoch.
\<close>

definition chosen_standby :: "env \<Rightarrow> DoltDB \<Rightarrow> int \<Rightarrow> call list \<Rightarrow> sql_opts \<Rightarrow> int \<Rightarrow> int \<Rightarrow> bool" where
  "chosen_standby E d i h co e j \<longleftrightarrow>
     (\<exists>rows results standbys hosts. env_Transition E h co e 1 = Inr (rows, None) \<and> scan_rows rows = Inr results \<and>
        list_all (\<lambda>p. PodReady p \<and> PodIndex (pod_name p) \<noteq> Inr i) standbys \<and> standby_hosts_loop d standbys = Inr hosts \<and>
        chooseCaughtUp (env_MapRange E (h @ [CSql co (TransitionToStandbyStmt e 1)])) E results hosts = Inr j)"

definition update_roles :: "env \<Rightarrow> DoltDB \<Rightarrow> call list \<Rightarrow> call list \<Rightarrow> bool" where
  "update_roles E d h t \<longleftrightarrow> filter is_role_stmt t = [] \<or>
     (\<exists>i co e t1 t2. status_CurrentPrimaryPodIndex (db_status d) = Some i \<and> opt_Host co = pod_host E (db_meta d) i \<and>
        t = t1 @ CSql co (TransitionToStandbyStmt e 1) # t2 \<and> filter is_role_stmt t1 = [] \<and>
        (filter is_role_stmt t2 = [] \<or>
         (\<exists>j co'. chosen_standby E d i (h @ t1) co e j \<and> opt_Host co' = pod_host E (db_meta d) j \<and>
            filter is_role_stmt t2 = [CSql co' (AssumeClusterRole PrimaryRoleValue e)])))"

lemma healthy_standbys_loop_ready:
  "healthy_standbys_loop (Some i) acc ps = Inr standbys \<Longrightarrow>
   list_all (\<lambda>p. PodReady p \<and> PodIndex (pod_name p) \<noteq> Inr i) acc \<Longrightarrow>
   list_all (\<lambda>p. PodReady p \<and> PodIndex (pod_name p) \<noteq> Inr i) standbys"
  by (induction "Some i" acc ps rule: healthy_standbys_loop.induct)
    (auto simp: pod_name_def split: sum.splits if_splits)

lemma StandbyHostFQDNs_wp:
  assumes "status_CurrentPrimaryPodIndex (db_status (the_db (obj s))) = Some i"
  shows "wp (StandbyHostFQDNs E)
    (\<lambda>r s'. framed E is_query s s' \<and> (\<forall>hosts. r = Inr hosts \<longrightarrow>
       (\<exists>standbys. list_all (\<lambda>p. PodReady p \<and> PodIndex (pod_name p) \<noteq> Inr i) standbys \<and>
          standby_hosts_loop (the_db (obj s)) standbys = Inr hosts))) s"
proof (rule wp_conj)
  have "keeps E is_query (StandbyHostFQDNs E)" by (intro keeps_intros)
  then show "wp (StandbyHostFQDNs E) (\<lambda>_. framed E is_query s) s" by (simp add: keeps_def)
  show "wp (StandbyHostFQDNs E) (\<lambda>r _. \<forall>hosts. r = Inr hosts \<longrightarrow>
      (\<exists>standbys. list_all (\<lambda>p. PodReady p \<and> PodIndex (pod_name p) \<noteq> Inr i) standbys \<and>
         standby_hosts_loop (the_db (obj s)) standbys = Inr hosts)) s"
    using assms healthy_standbys_loop_ready [of i "[]"]
    by (auto simp: StandbyHostFQDNs_def HealthyDoltDBStandbys_def wp_simps split: sum.split)
qed

lemma promoteCaughtUp_roles:
  "wp (promoteCaughtUp E key p v e j)
     (\<lambda>_ s'. once is_role_stmt (\<lambda>c. \<exists>co. opt_Host co = pod_host E (db_meta (the_db (obj s))) j \<and>
        c = CSql co (AssumeClusterRole PrimaryRoleValue e)) s s') s"
proof -
  let ?C = "\<lambda>c. \<exists>co. opt_Host co = pod_host E (db_meta (the_db (obj s))) j \<and> c = CSql co (AssumeClusterRole PrimaryRoleValue e)"
  have client: "wp (NewInternalClientWithPodIndex E j) (\<lambda>r s'. silent is_role_stmt s s' \<and>
      (\<forall>c. r = Inr c \<longrightarrow> opt_Host c = pod_host E (db_meta (the_db (obj s))) j)) s"
    by (rule wp_conj [OF emits_silent [OF queries_no_role]])
      (auto intro: keeps_client_basic wp_mono [OF NewInternalClient_host])
  have assume_role: "atmost is_role_stmt ?C (AssumeRole E co PrimaryRoleValue e)"
    if "opt_Host co = pod_host E (db_meta (the_db (obj s))) j" for co
    using that by (auto simp: atmost_def once_def AssumeRole_def wp_simps)
  note quiet = queries_no_role [OF keeps_health(4)] updatePod_no_role queries_no_role [OF keeps_client_basic(4)]
  have marks: "emits no_role (MarkRoleStandby E q)" "emits no_role (MarkRolePrimary E q)" for q
    by (rule emits_MarkRole, simp)+
  show ?thesis
    unfolding promoteCaughtUp_def wp_bind [of "NewInternalClientWithPodIndex E j"]
    by (rule wp_mono [OF client], elim conjE, erule atmost_wp [rotated])
      (intro atmost_cases atmost_ret atmost_then assume_role emits_intros quiet marks; simp)
qed

lemma standby_hosts_loop_meta:
  "db_meta d' = db_meta d \<Longrightarrow> standby_hosts_loop d' ps = standby_hosts_loop d ps"
  by (induction ps) (auto simp: InternalServiceKey_def split: sum.splits)

text \<open>The requests since \<open>s\<close> are those of an update.\<close>

definition updating :: "env \<Rightarrow> (call, dbst) cfg \<Rightarrow> (call, dbst) cfg \<Rightarrow> bool" where
  "updating E s s' \<longleftrightarrow> (\<exists>t. trace s' = trace s @ t \<and> update_roles E (the_db (obj s)) (trace s) t)"

lemma updating_silent: "silent is_role_stmt s s' \<Longrightarrow> updating E s s'"
  by (auto simp: updating_def silent_def update_roles_def)

lemma updating_then: "updating E s s1 \<Longrightarrow> silent is_role_stmt s1 s' \<Longrightarrow> updating E s s'"
proof -
  have "update_roles E d h (t @ u)" if "update_roles E d h t" "filter is_role_stmt u = []" for d h t u
    using that unfolding update_roles_def by (elim disjE exE conjE) (force, force, force)
  then show "updating E s s1 \<Longrightarrow> silent is_role_stmt s1 s' \<Longrightarrow> updating E s s'"
    by (auto simp: updating_def silent_def)
qed

lemma updating_demoted:
  assumes "status_CurrentPrimaryPodIndex (db_status (the_db (obj s))) = Some i"
    and "opt_Host co = pod_host E (db_meta (the_db (obj s))) i"
    and "silent is_role_stmt s s1" and "trace s2 = trace s1 @ [CSql co (TransitionToStandbyStmt e 1)]"
    and "once is_role_stmt C s2 s'"
    and "\<And>c. C c \<Longrightarrow> \<exists>j co'. chosen_standby E (the_db (obj s)) i (trace s1) co e j \<and>
        opt_Host co' = pod_host E (db_meta (the_db (obj s))) j \<and> c = CSql co' (AssumeClusterRole PrimaryRoleValue e)"
  shows "updating E s s'"
proof -
  obtain t1 t2 where "trace s1 = trace s @ t1" "filter is_role_stmt t1 = []" "trace s' = trace s2 @ t2"
      "filter is_role_stmt t2 = [] \<or> (\<exists>c. C c \<and> filter is_role_stmt t2 = [c])"
    using assms(3,5) by (auto simp: silent_def once_def)
  then show ?thesis
    unfolding updating_def update_roles_def using assms(1,2,4,6)
    by (intro exI [of _ "t1 @ CSql co (TransitionToStandbyStmt e 1) # t2"]) fastforce
qed

lemma framed_silent: "framed E is_query s s' \<Longrightarrow> silent is_role_stmt s s'"
  by (auto simp: framed_def silent_def filter_empty_conv list_all_iff)

lemma TransitionToStandby_chosen:
  "wp (TransitionToStandby E co e n hosts)
     (\<lambda>r s'. trace s' = trace s @ [CSql co (TransitionToStandbyStmt e n)] \<and> obj s' = obj s \<and>
        (\<forall>j. r = Inr j \<longrightarrow> (\<exists>rows results. env_Transition E (trace s) co e n = Inr (rows, None) \<and>
           scan_rows rows = Inr results \<and>
           chooseCaughtUp (env_MapRange E (trace s @ [CSql co (TransitionToStandbyStmt e n)])) E results hosts = Inr j))) s"
  by (auto simp: TransitionToStandby_def wp_simps split: sum.split prod.split option.split)

lemma demote_and_promote_wp:
  assumes i: "status_CurrentPrimaryPodIndex (db_status (the_db (obj s))) = Some i"
    and co: "opt_Host co = pod_host E (db_meta (the_db (obj s))) i"
    and f: "framed E is_query s s1"
    and hosts: "list_all (\<lambda>p. PodReady p \<and> PodIndex (pod_name p) \<noteq> Inr i) standbys"
      "standby_hosts_loop (the_db (obj s)) standbys = Inr hosts"
  shows "wp (do {
      t \<leftarrow> TransitionToStandby E co e 1 hosts;
      case t of
        Inl err \<Rightarrow> updatePod E key p v
      | Inr caughtUpIdx \<Rightarrow> promoteCaughtUp E key p v e caughtUpIdx }) (\<lambda>_ s'. updating E s s') s1"
proof -
  note demoted = updating_demoted [OF i co framed_silent [OF f]]
  have meta: "db_meta (the_db (obj s1)) = db_meta (the_db (obj s))"
    using f by (simp add: framed_def eq_fillD)
  have restart: "wp (updatePod E key p v) (\<lambda>_ s'. updating E s s') s2"
    if "trace s2 = trace s1 @ [CSql co (TransitionToStandbyStmt e 1)]" for s2
    by (rule emits_silent [OF updatePod_no_role])
      (rule demoted [OF that, of "\<lambda>_. False"], auto intro: once_steps(3))
  have promote: "wp (promoteCaughtUp E key p v e j) (\<lambda>_ s'. updating E s s') s2"
    if s2: "trace s2 = trace s1 @ [CSql co (TransitionToStandbyStmt e 1)]" "obj s2 = obj s1"
      and j: "env_Transition E (trace s1) co e 1 = Inr (rows, None)" "scan_rows rows = Inr results"
        "chooseCaughtUp (env_MapRange E (trace s1 @ [CSql co (TransitionToStandbyStmt e 1)])) E results hosts = Inr j"
    for s2 j rows results
  proof (rule wp_mono [OF promoteCaughtUp_roles], rule demoted [OF s2(1)], assumption)
    fix c assume "\<exists>co. opt_Host co = pod_host E (db_meta (the_db (obj s2))) j \<and> c = CSql co (AssumeClusterRole PrimaryRoleValue e)"
    moreover have "chosen_standby E (the_db (obj s)) i (trace s1) co e j"
      unfolding chosen_standby_def using hosts j by blast
    ultimately show "\<exists>j co'. chosen_standby E (the_db (obj s)) i (trace s1) co e j \<and>
        opt_Host co' = pod_host E (db_meta (the_db (obj s))) j \<and> c = CSql co' (AssumeClusterRole PrimaryRoleValue e)"
      using s2(2) meta by auto
  qed
  show ?thesis
    unfolding wp_bind
    by (rule wp_mono [OF TransitionToStandby_chosen]) (auto split: sum.split intro: restart promote)
qed

lemma gracefulPrimaryUpdate_roles: "wp (gracefulPrimaryUpdate E key p v) (\<lambda>_ s'. updating E s s') s"
proof -
  let ?s0 = "s\<lparr>obj := (obj s)\<lparr>the_db := Replication_fill (the_db (obj s))\<rparr>\<rparr>"
  have s0: "framed E is_query s ?s0" by (rule framed_db)
  have restart: "wp (updatePod E key p v) (\<lambda>_ s'. updating E s s') s1" if "framed E is_query s s1" for s1
    by (rule emits_silent [OF updatePod_no_role], rule updating_silent)
      (rule silent_trans [OF framed_silent [OF that]])
  have close: "wp (Client_Close E co) (\<lambda>_ s'. updating E s s') s1" if "updating E s s1" for co s1
    by (rule keeps_wp [OF keeps_client_basic(4)], rule updating_then [OF that], rule framed_silent)
  have hosts: "wp (StandbyHostFQDNs E) (\<lambda>r s'. framed E is_query s s' \<and> (\<forall>hosts. r = Inr hosts \<longrightarrow>
       (\<exists>standbys. list_all (\<lambda>p. PodReady p \<and> PodIndex (pod_name p) \<noteq> Inr i) standbys \<and>
          standby_hosts_loop (the_db (obj s)) standbys = Inr hosts))) s1"
    if "framed E is_query s s1" "status_CurrentPrimaryPodIndex (db_status (the_db (obj s))) = Some i" for i s1
  proof -
    have *: "db_status (the_db (obj s1)) = db_status (the_db (obj s))" "db_meta (the_db (obj s1)) = db_meta (the_db (obj s))"
      using that(1) by (simp_all add: framed_def eq_fillD)
    show ?thesis
      by (rule wp_mono [OF StandbyHostFQDNs_wp])
        (use that * standby_hosts_loop_meta [OF *(2)] in \<open>auto intro: framed_trans\<close>)
  qed
  have client: "wp (NewInternalClientWithPodIndex E i) (\<lambda>r s'. framed E is_query s s' \<and>
      (\<forall>c. r = Inr c \<longrightarrow> opt_Host c = pod_host E (db_meta (the_db (obj s))) i)) ?s0" for i
    by (rule wp_conj [OF keeps_wp [OF keeps_client_basic(3)] wp_mono [OF NewInternalClient_host]])
      (auto intro: framed_trans [OF s0])
  have role: "wp (GetRoleAndEpoch E co) (\<lambda>_ s'. framed E is_query s s') s1" if "framed E is_query s s1" for co s1
    by (rule keeps_wp [OF keeps_state(1)]) (rule framed_trans [OF that])
  have demote: "wp (TransitionToStandby E co e 1 hosts) (\<lambda>a. wp (case a of Inl err \<Rightarrow> updatePod E key p v
        | Inr x \<Rightarrow> promoteCaughtUp E key p v e x) (\<lambda>_. wp (Client_Close E co) (\<lambda>_ s'. updating E s s'))) s1"
    if "status_CurrentPrimaryPodIndex (db_status (the_db (obj s))) = Some i"
      "opt_Host co = pod_host E (db_meta (the_db (obj s))) i" "framed E is_query s s1"
      "list_all (\<lambda>p. PodReady p \<and> PodIndex (pod_name p) \<noteq> Inr i) standbys"
      "standby_hosts_loop (the_db (obj s)) standbys = Inr hosts" for i co e hosts standbys s1
    by (rule wp_mono [OF demote_and_promote_wp [OF that, unfolded wp_bind]]) (erule wp_mono, erule close)
  show ?thesis
  proof (cases "status_CurrentPrimaryPodIndex (db_status (the_db (obj s)))")
    case None
    then show ?thesis
      by (auto simp: gracefulPrimaryUpdate_def wp_simps restart s0)
  next
    case (Some i)
    show ?thesis
      unfolding gracefulPrimaryUpdate_def
      by (auto simp: wp_simps Let_def restart s0 Some split: sum.split
          intro!: wp_mono [OF client] wp_mono [OF role] wp_mono [OF hosts [OF _ Some]] wp_mono [OF restart] close)
        (rule demote [OF Some]; assumption)
  qed
qed

lemma update_roles_prefix:
  assumes "update_roles E d (h @ u) t" and "filter is_role_stmt u = []"
  shows "update_roles E d h (u @ t)"
proof (cases "filter is_role_stmt t = []")
  case False
  with assms(1) obtain i co e t1 t2 where *: "status_CurrentPrimaryPodIndex (db_status d) = Some i"
      "opt_Host co = pod_host E (db_meta d) i" "t = t1 @ CSql co (TransitionToStandbyStmt e 1) # t2"
      "filter is_role_stmt t1 = []" "filter is_role_stmt t2 = [] \<or>
         (\<exists>j co'. chosen_standby E d i (h @ u @ t1) co e j \<and> opt_Host co' = pod_host E (db_meta d) j \<and>
            filter is_role_stmt t2 = [CSql co' (AssumeClusterRole PrimaryRoleValue e)])"
    unfolding update_roles_def append_assoc by blast
  then show ?thesis
    unfolding update_roles_def using assms(2)
    by (intro disjI2 exI [of _ i] exI [of _ co] exI [of _ e] exI [of _ "u @ t1"] exI [of _ t2]) simp
qed (use assms(2) in \<open>simp add: update_roles_def\<close>)

lemma updating_after:
  assumes "framed E is_query s s1" and "updating E s1 s'"
  shows "updating E s s'"
proof -
  let ?d = "the_db (obj s)" and ?d1 = "the_db (obj s1)"
  obtain u t where u: "trace s1 = trace s @ u" "filter is_role_stmt u = []"
      and t: "trace s' = trace s1 @ t" "update_roles E ?d1 (trace s @ u) t"
    using assms(2) framed_silent [OF assms(1)] by (auto simp: updating_def silent_def)
  have d: "db_status ?d1 = db_status ?d" "db_meta ?d1 = db_meta ?d"
    using assms(1) by (simp_all add: framed_def eq_fillD)
  have "chosen_standby E ?d1 i h co e j = chosen_standby E ?d i h co e j" for i h co e j
    by (simp add: chosen_standby_def standby_hosts_loop_meta [OF d(2)])
  with t(2) have "update_roles E ?d (trace s @ u) t"
    by (simp add: update_roles_def d)
  then have "update_roles E ?d (trace s) (u @ t)"
    using u(2) by (rule update_roles_prefix)
  with u(1) t(1) show ?thesis
    by (auto simp: updating_def)
qed

lemma reconcileUpdates_roles: "wp (reconcileUpdates E) (\<lambda>_ s'. updating E s s') s"
proof -
  have here: "updating E s s'" if "framed E is_query s s'" for s'
    by (rule updating_silent [OF framed_silent [OF that]])
  have reads: "keeps E is_query (GetRevision E)" "keeps E is_query (getPodsByRole E)"
      "keeps E is_query (waitForReadyStatus E)" "keeps E is_query (waitForReplicationCaughtUp E)"
    unfolding GetRevision_def getPodsByRole_def waitForReadyStatus_def waitForReplicationCaughtUp_def
    by (intro keeps_intros; simp add: is_read_def)+
  have read: "wp q (\<lambda>_ s'. framed E is_query s s') s1" if "keeps E is_query q" "framed E is_query s s1" for q :: "'a op" and s1
    by (rule keeps_wp [OF that(1)]) (rule framed_trans [OF that(2)])
  have "emits no_role (update_replicas_loop E key v ps)" for key v ps
    by (induction ps) (auto intro!: emits_intros updatePod_no_role)
  then have replicas: "wp (update_replicas_loop E key v ps) (\<lambda>u s'. updating E s s' \<and> (u = None \<longrightarrow> s' = s1)) s1"
    if "framed E is_query s s1" for key v ps s1
    by (intro wp_conj emits_silent wp_mono [OF update_replicas_loop_wp])
      (auto intro!: updating_silent silent_trans [OF framed_silent [OF that]])
  have primary: "wp (updatePrimary E key v p) (\<lambda>_ s'. updating E s s') s1" if "framed E is_query s s1" for key v p s1
    unfolding updatePrimary_def
    by (auto simp: wp_simps here intro!: wp_mono [OF read [OF reads(4) that]] wp_mono [OF gracefulPrimaryUpdate_roles]
        elim: updating_after)
  show ?thesis
    unfolding reconcileUpdates_def
    by (auto simp: wp_simps Let_def here split: sum.split option.split
        intro!: wp_mono [OF read [OF reads(1)]] wp_mono [OF read [OF reads(2)]] wp_mono [OF read [OF reads(3)]]
          wp_mono [OF replicas] primary)
qed

section \<open>An update that promotes the pod it demoted\<close>

text \<open>
  The API server lists pods with ordinals, and the first ready one in the order of the names that is
  not pod 0 has ordinal \<open>j\<close>.
\<close>

definition first_standby :: "env \<Rightarrow> DoltDB \<Rightarrow> int \<Rightarrow> bool" where
  "first_standby E d j \<longleftrightarrow>
     (\<forall>h. \<exists>ps q rest. env_ListPods E h (om_namespace (db_meta d)) (DoltSelector d) = Inr ps \<and>
        (\<forall>p \<in> set ps. \<exists>k. PodIndex (om_name (pod_meta p)) = Inr k) \<and>
        filter (\<lambda>p. PodReady p \<and> PodIndex (om_name (pod_meta p)) \<noteq> Inr 0) (sortPodList ps) = q # rest \<and>
        PodIndex (om_name (pod_meta q)) = Inr j)"

text \<open>
  The answer to a transition to standby: rows whose URLs parse, at least one of them caught up, and all
  that are caught up name one host, whose host name is, or is a prefix of, the name \<open>fqdn\<close>.
\<close>

definition only_caught_up :: "'x lib_scheme \<Rightarrow> transition_row list \<Rightarrow> string \<Rightarrow> bool" where
  "only_caught_up L rows fqdn \<longleftrightarrow>
     (\<exists>host name. prefix name fqdn \<and>
        (\<exists>row \<in> set rows. tr_CaughtUp row = 1) \<and>
        (\<forall>row \<in> set rows. \<exists>h n. lib_UrlParse L (tr_RemoteURL row) = Inr (h, n) \<and>
           (tr_CaughtUp row = 1 \<longrightarrow> h = host) \<and> (h = host \<longrightarrow> n = name)))"

definition reports_caught_up :: "env \<Rightarrow> string \<Rightarrow> bool" where
  "reports_caught_up E fqdn \<longleftrightarrow>
     (\<forall>h c e n. \<exists>rows. env_Transition E h c e n = Inr (map Inr rows, None) \<and> only_caught_up E rows fqdn) \<and>
     (\<forall>h m. set (env_MapRange E h m) = set m)"

lemma count_one_host:
  assumes "\<forall>row \<in> set rows. \<exists>h n. lib_UrlParse L (tr_RemoteURL row) = Inr (h, n) \<and>
      (tr_CaughtUp row = 1 \<longrightarrow> h = host) \<and> (h = host \<longrightarrow> n = name)"
    and "counts = [] \<or> (\<exists>m > 0. counts = [(host, m)])"
  shows "\<exists>final parsed. count_caught_up L counts rows = Inr (final, parsed) \<and>
     (final = [] \<or> (\<exists>m > 0. final = [(host, m)])) \<and>
     (counts \<noteq> [] \<or> (\<exists>row \<in> set rows. tr_CaughtUp row = 1) \<longrightarrow> final \<noteq> []) \<and>
     ((\<exists>row \<in> set rows. tr_CaughtUp row = 1) \<longrightarrow> (\<exists>n. (host, n) \<in> set parsed)) \<and>
     (\<forall>(h, n) \<in> set parsed. h = host \<longrightarrow> n = name)"
  using assms
proof (induction rows arbitrary: counts)
  case (Cons row rows)
  obtain h n where row: "lib_UrlParse L (tr_RemoteURL row) = Inr (h, n)" "tr_CaughtUp row = 1 \<longrightarrow> h = host"
      "h = host \<longrightarrow> n = name"
    using Cons.prems(1) by auto
  define next_counts where "next_counts = (if tr_CaughtUp row = 1
      then AList.update h (ptr_Deref (map_of counts h) 0 + 1) counts else counts)"
  have "next_counts = [] \<or> (\<exists>m > 0. next_counts = [(host, m)])"
    using Cons.prems(2) row(2) by (auto simp: next_counts_def)
  moreover have "next_counts \<noteq> []" if "counts \<noteq> [] \<or> tr_CaughtUp row = 1"
    using that Cons.prems(2) row(2) by (auto simp: next_counts_def)
  moreover note Cons.IH [of next_counts] Cons.prems(1)
  ultimately obtain final parsed where "count_caught_up L next_counts rows = Inr (final, parsed)"
      "final = [] \<or> (\<exists>m > 0. final = [(host, m)])"
      "next_counts \<noteq> [] \<or> (\<exists>row \<in> set rows. tr_CaughtUp row = 1) \<longrightarrow> final \<noteq> []"
      "(\<exists>row \<in> set rows. tr_CaughtUp row = 1) \<longrightarrow> (\<exists>n. (host, n) \<in> set parsed)"
      "\<forall>(h, n) \<in> set parsed. h = host \<longrightarrow> n = name"
      "counts \<noteq> [] \<or> tr_CaughtUp row = 1 \<longrightarrow> next_counts \<noteq> []"
    by auto
  then show ?case
    using row by (intro exI [of _ final] exI [of _ "(h, n) # parsed"]) (auto simp: next_counts_def Let_def)
qed auto

lemma max_one_host:
  assumes "set xs = {(host, m)}" and "m > 0"
  shows "max_caught_up_loop [] 0 xs = host"
proof -
  have "max_caught_up_loop host m ys = host" if "set ys \<subseteq> {(host, m)}" for ys
    using that by (induction ys) auto
  with assms show ?thesis
    by (cases xs) auto
qed

lemma chooseCaughtUp_first:
  assumes "only_caught_up L rows fqdn" and "\<And>m. set (mapRange m) = set m"
  shows "chooseCaughtUp mapRange L rows (fqdn # hosts) = Inr 0"
proof -
  obtain host name where one: "prefix name fqdn" "\<exists>row \<in> set rows. tr_CaughtUp row = 1"
      "\<forall>row \<in> set rows. \<exists>h n. lib_UrlParse L (tr_RemoteURL row) = Inr (h, n) \<and>
         (tr_CaughtUp row = 1 \<longrightarrow> h = host) \<and> (h = host \<longrightarrow> n = name)"
    using assms(1) unfolding only_caught_up_def by blast
  from count_one_host [OF one(3), of "[]"] one(2) obtain m parsed where
    c: "count_caught_up L [] rows = Inr ([(host, m)], parsed)" "m > 0"
      "\<exists>n. (host, n) \<in> set parsed" "\<forall>(h, n) \<in> set parsed. h = host \<longrightarrow> n = name"
    by auto
  have best: "max_caught_up_loop [] 0 (mapRange [(host, m)]) = host"
    using assms(2) [of "[(host, m)]"] c(2) max_one_host [of "mapRange [(host, m)]" host m] by simp
  from c(3) obtain x where x: "List.find (\<lambda>(h, n). h = host) parsed = Some x"
    by (cases "List.find (\<lambda>(h, n). h = host) parsed") (auto simp: find_None_iff)
  then have "x \<in> set parsed" "fst x = host"
    by (auto simp: find_Some_iff) (metis nth_mem)
  with c(4) x have "List.find (\<lambda>(h, n). h = host) parsed = Some (host, name)"
    by (cases x) auto
  with c(1) best one(1) show ?thesis
    by (simp add: chooseCaughtUp_def)
qed

lemma first_standby_other:
  assumes "first_standby E d j"
  shows "j \<noteq> 0"
proof -
  let ?P = "\<lambda>p. PodReady p \<and> PodIndex (om_name (pod_meta p)) \<noteq> Inr 0"
  obtain ps q rest where f: "filter ?P (sortPodList ps) = q # rest" and j: "PodIndex (om_name (pod_meta q)) = Inr j"
    using assms unfolding first_standby_def by meson
  have "q \<in> set (filter ?P (sortPodList ps))"
    by (simp add: f)
  with j show ?thesis by auto
qed

text \<open>The lookups of the update: a client for every pod, and a list of hosts that starts with pod \<open>j\<close>.\<close>

lemma internal_client:
  assumes "connects E" and "well_formed d" and "eq_fill d (the_db (obj s))"
  shows "wp (NewInternalClientWithPodIndex E i)
    (\<lambda>r s'. framed E is_query s s' \<and> (\<exists>c. r = Inr c \<and> opt_Host c = pod_host E (db_meta d) i)) s"
proof -
  have "well_formed (the_db (obj s))"
    using assms(2) well_formed_eq_fill [OF assms(3)] by simp
  note new = connects_internal_client [OF assms(1) this, of i] NewInternalClient_host [of E i s]
  have "keeps E is_query (NewInternalClientWithPodIndex E i)" by (intro keeps_intros)
  then have "wp (NewInternalClientWithPodIndex E i) (\<lambda>_. framed E is_query s) s" by (simp add: keeps_def)
  from wp_conj [OF this wp_conj [OF new]] show ?thesis
    by (rule wp_mono) (auto simp: eq_fillD(1) [OF assms(3)])
qed

lemma healthy_standbys_filter:
  "\<forall>p \<in> set ps. \<exists>k. PodIndex (om_name (pod_meta p)) = Inr k \<Longrightarrow>
   healthy_standbys_loop (Some i) acc ps =
     Inr (acc @ filter (\<lambda>p. PodReady p \<and> PodIndex (om_name (pod_meta p)) \<noteq> Inr i) ps)"
  by (induction ps arbitrary: acc) auto

lemma standby_hosts_defined:
  "\<forall>p \<in> set ps. \<exists>k. PodIndex (om_name (pod_meta p)) = Inr k \<Longrightarrow> \<exists>hosts. standby_hosts_loop d ps = Inr hosts"
  by (induction ps) auto

abbreviation standby_fqdn :: "DoltDB \<Rightarrow> int \<Rightarrow> string" where
  "standby_fqdn d j \<equiv> PodShortFQDNWithServiceAndNamespace (db_meta d) j (nn_name (InternalServiceKey d))"

lemma standby_hosts_first:
  assumes "first_standby E d j" and "status_CurrentPrimaryPodIndex (db_status d) = Some 0"
    and fill: "eq_fill d (the_db (obj s))"
  shows "wp (StandbyHostFQDNs E) (\<lambda>r s'. framed E is_query s s' \<and> (\<exists>hosts. r = Inr (standby_fqdn d j # hosts))) s"
proof (rule wp_conj)
  have "keeps E is_query (StandbyHostFQDNs E)" by (intro keeps_intros)
  then show "wp (StandbyHostFQDNs E) (\<lambda>_. framed E is_query s) s" by (simp add: keeps_def)
  have d: "db_meta (the_db (obj s)) = db_meta d" "status_CurrentPrimaryPodIndex (db_status (the_db (obj s))) = Some 0"
      "DoltSelector (the_db (obj s)) = DoltSelector d" "InternalServiceKey (the_db (obj s)) = InternalServiceKey d"
    using eq_fillD(1,2) [OF fill] assms(2) DoltSelector_eq_fill [OF fill] by (simp_all add: InternalServiceKey_def)
  obtain ps q rest where ps: "env_ListPods E (trace s) (om_namespace (db_meta d)) (DoltSelector d) = Inr ps"
      "\<forall>p \<in> set ps. \<exists>k. PodIndex (om_name (pod_meta p)) = Inr k"
      "filter (\<lambda>p. PodReady p \<and> PodIndex (om_name (pod_meta p)) \<noteq> Inr 0) (sortPodList ps) = q # rest"
      "PodIndex (om_name (pod_meta q)) = Inr j"
    using assms(1) unfolding first_standby_def by meson
  have "set (q # rest) \<subseteq> set ps"
    using arg_cong [OF ps(3), of set] by (auto simp: sortPodList_def)
  with ps(2) have "\<forall>p \<in> set rest. \<exists>k. PodIndex (om_name (pod_meta p)) = Inr k" by auto
  from standby_hosts_defined [OF this] obtain hosts where "standby_hosts_loop (the_db (obj s)) rest = Inr hosts" by blast
  then show "wp (StandbyHostFQDNs E) (\<lambda>r _. \<exists>hosts. r = Inr (standby_fqdn d j # hosts)) s"
    using ps(1,3,4) healthy_standbys_filter [of "sortPodList ps" 0 "[]"] ps(2)
    by (simp add: StandbyHostFQDNs_def HealthyDoltDBStandbys_def wp_simps d sortPodList_def)
qed

lemma transition_first:
  assumes "reports_caught_up E fqdn"
  shows "wp (TransitionToStandby E co e 1 (fqdn # hosts))
     (\<lambda>r s'. s' = s\<lparr>trace := trace s @ [CSql co (TransitionToStandbyStmt e 1)]\<rparr> \<and> r = Inr 0) s"
proof -
  obtain rows where "env_Transition E (trace s) co e 1 = Inr (map Inr rows, None)" "only_caught_up E rows fqdn"
    using assms unfolding reports_caught_up_def by blast
  moreover have "set (env_MapRange E h m) = set m" for h m
    using assms by (simp add: reports_caught_up_def)
  ultimately show ?thesis
    by (simp add: TransitionToStandby_def wp_simps chooseCaughtUp_first)
qed

text \<open>The role statements since the start of the update, and how further requests leave them alone.\<close>

definition said :: "call list \<Rightarrow> call list \<Rightarrow> (call, dbst) cfg \<Rightarrow> bool" where
  "said h cs s \<longleftrightarrow> (\<exists>t. trace s = h @ t \<and> filter is_role_stmt t = cs)"

lemma said_step: "said h cs s \<Longrightarrow> emits no_role p \<Longrightarrow> wp p (\<lambda>_. said h cs) s"
  by (rule emits_silent) (auto simp: said_def silent_def)

lemma said_framed: "said h cs s \<Longrightarrow> framed E is_query s s' \<Longrightarrow> said h cs s'"
  by (auto simp: said_def framed_def filter_empty_conv list_all_iff)

lemma said_snoc: "said h cs s \<Longrightarrow> trace s' = trace s @ [c] \<Longrightarrow> is_role_stmt c \<Longrightarrow> said h (cs @ [c]) s'"
  by (auto simp: said_def)

lemma promote_says:
  assumes "connects E" and "well_formed d" and "eq_fill d (the_db (obj s))" and "said h cs s"
  shows "wp (promoteCaughtUp E key p v e i)
    (\<lambda>_ s'. \<exists>co. opt_Host co = pod_host E (db_meta d) i \<and>
       said h (cs @ [CSql co (AssumeClusterRole PrimaryRoleValue e)]) s') s"
proof -
  let ?cs = "\<lambda>co. cs @ [CSql co (AssumeClusterRole PrimaryRoleValue e)]"
  have ask: "wp (AssumeRole E co r e) (\<lambda>_ s'. trace s' = trace s1 @ [CSql co (AssumeClusterRole r e)]) s1" for co r s1
    by (simp add: AssumeRole_def wp_simps)
  have marks: "emits no_role (MarkRoleStandby E q)" "emits no_role (MarkRolePrimary E q)" for q
    by (rule emits_MarkRole, simp)+
  note quiet = queries_no_role [OF keeps_health(4)] updatePod_no_role queries_no_role [OF keeps_client_basic(4)]
  show ?thesis
    unfolding promoteCaughtUp_def wp_bind [of "NewInternalClientWithPodIndex E i"]
    apply (rule wp_mono [OF internal_client [OF assms(1-3)]], elim conjE exE)
    subgoal premises prems for a s1 co
    proof -
      have s2: "said h (?cs co) s2" if "trace s2 = trace s1 @ [CSql co (AssumeClusterRole PrimaryRoleValue e)]" for s2
        using said_snoc [OF said_framed [OF assms(4) prems(1)] that] by simp
      have step: "wp q (\<lambda>_. said h (?cs co)) s2" if "emits no_role q" "said h (?cs co) s2" for s2 and q :: "'b op"
        by (rule said_step [OF that(2,1)])
      show ?thesis
        unfolding prems(2)
        by (rule wp_mono [where Q = "\<lambda>_. said h (?cs co)"])
          (auto simp: wp_simps prems(3) split: option.split sum.split
            intro!: wp_mono [OF ask] wp_mono [OF step [OF marks(1)]] wp_mono [OF step [OF marks(2)]]
              wp_mono [OF step [OF quiet(1)]] wp_mono [OF step [OF quiet(2)]] wp_mono [OF step [OF quiet(3)]] s2 exI [of _ co])
    qed
    done
qed

text \<open>The setting in which the update promotes the pod that it demoted.\<close>

definition first_caught_up :: "env \<Rightarrow> DoltDB \<Rightarrow> int \<Rightarrow> int \<Rightarrow> bool" where
  "first_caught_up E d j e \<longleftrightarrow>
     connects E \<and> well_formed d \<and> ReplEnabled d \<and> status_CurrentPrimaryPodIndex (db_status d) = Some 0 \<and>
     (\<forall>h c. \<exists>r rest err. env_RoleAndEpoch E h c = Inr (Inr (r, e) # rest, err)) \<and>
     first_standby E d j \<and> reports_caught_up E (standby_fqdn d j)"

lemma gracefulPrimaryUpdate_says:
  assumes "first_caught_up E (the_db (obj s)) j e"
  shows "wp (gracefulPrimaryUpdate E key p v)
     (\<lambda>_ s'. \<exists>co co'. opt_Host co = pod_host E (db_meta (the_db (obj s))) 0 \<and>
        opt_Host co' = pod_host E (db_meta (the_db (obj s))) 0 \<and>
        said (trace s) [CSql co (TransitionToStandbyStmt (wrap64 (e + 1)) 1),
          CSql co' (AssumeClusterRole PrimaryRoleValue (wrap64 (e + 1)))] s') s"
proof -
  define d where "d = the_db (obj s)"
  let ?s0 = "s\<lparr>obj := (obj s)\<lparr>the_db := Replication_fill (the_db (obj s))\<rparr>\<rparr>" and ?e = "wrap64 (e + 1)"
  let ?said = "\<lambda>s'. \<exists>co co'. opt_Host co = pod_host E (db_meta d) 0 \<and> opt_Host co' = pod_host E (db_meta d) 0 \<and>
      said (trace s) [CSql co (TransitionToStandbyStmt ?e 1), CSql co' (AssumeClusterRole PrimaryRoleValue ?e)] s'"
  note F = assms [unfolded first_caught_up_def, folded d_def]
  have con: "connects E" "well_formed d" "ReplEnabled d" "status_CurrentPrimaryPodIndex (db_status d) = Some 0"
      "first_standby E d j" "reports_caught_up E (standby_fqdn d j)"
    using F by auto
  define ok where "ok = (\<lambda>s' :: (call, dbst) cfg. eq_fill d (the_db (obj s')) \<and> said (trace s) [] s')"
  have fill: "ok s2" if "ok s1" "framed E is_query s1 s2" for s1 s2
    using that said_framed eq_fill_trans unfolding ok_def by (fastforce simp: framed_def)
  have s0: "ok ?s0"
    by (simp add: said_def ok_def d_def)
  have client: "wp (NewInternalClientWithPodIndex E i)
      (\<lambda>r s'. ok s' \<and> (\<exists>c. r = Inr c \<and> opt_Host c = pod_host E (db_meta d) i)) s1" if "ok s1" for i s1
    by (rule wp_mono [OF internal_client [OF con(1,2)]]) (use that fill [OF that] in \<open>auto simp: ok_def\<close>)
  have hosts: "wp (StandbyHostFQDNs E) (\<lambda>r s'. ok s' \<and> (\<exists>hs. r = Inr (standby_fqdn d j # hs))) s1" if "ok s1" for s1
    by (rule wp_mono [OF standby_hosts_first [OF con(5,4)]]) (use that fill [OF that] in \<open>auto simp: ok_def\<close>)
  have role: "wp (GetRoleAndEpoch E co) (\<lambda>r s'. ok s' \<and> (\<exists>x. r = Inr (x, e))) s1" if "ok s1" for co s1
  proof -
    obtain r rest err where "env_RoleAndEpoch E (trace s1) co = Inr (Inr (r, e) # rest, err)"
      using F by blast
    with that show ?thesis
      by (auto simp: GetRoleAndEpoch_def wp_simps ok_def said_def)
  qed
  have promote: "wp (promoteCaughtUp E key p v ?e 0) (\<lambda>_. ?said) (s1\<lparr>trace := trace s1 @ [CSql co (TransitionToStandbyStmt ?e 1)]\<rparr>)"
    if "ok s1" "opt_Host co = pod_host E (db_meta d) 0" for s1 co
    by (rule wp_mono [OF promote_says [OF con(1,2), where cs = "[CSql co (TransitionToStandbyStmt ?e 1)]"]])
      (use that in \<open>auto simp: said_def ok_def\<close>)
  have close: "wp (Client_Close E co) (\<lambda>_. ?said) s1" if "?said s1" for co s1
    using that by (auto intro!: wp_mono [OF said_step [OF _ queries_no_role [OF keeps_client_basic(4)]]])
  have start: "ReplEnabled (the_db (obj s))" "status_CurrentPrimaryPodIndex (db_status (the_db (obj s))) = Some 0"
    using con(3,4) by (simp_all add: d_def)
  have "wp (gracefulPrimaryUpdate E key p v) (\<lambda>_. ?said) s"
    unfolding gracefulPrimaryUpdate_def
    by (auto simp: wp_simps Let_def start s0
        intro!: wp_mono [OF client] wp_mono [OF role] wp_mono [OF hosts] wp_mono [OF transition_first [OF con(6)]]
          wp_mono [OF promote] wp_mono [OF close]) blast+
  then show ?thesis by (simp add: d_def)
qed

text \<open>The reference cluster is such a setting.\<close>

lemma ref_sorted:
  "sortPodList [ref_pod ''dolt-0'', ref_pod ''dolt-1'', ref_pod ''dolt-2''] = [ref_pod ''dolt-0'', ref_pod ''dolt-1'', ref_pod ''dolt-2'']"
  by (simp add: sortPodList_def ref_pod_def ref_meta_def less_eq_char_def less_char_def)

lemma ref_first_caught_up: "first_caught_up ref_env ref_db 1 4"
proof -
  have "first_standby ref_env ref_db 1"
    by (simp add: first_standby_def ref_env_def ref_sorted) (simp add: ref_pod_def ref_meta_def PodReady_def)
  moreover have "standby_fqdn ref_db 1 = ''dolt-1.dolt-internal.ns''"
    using ref_pod_names(2)
    by (simp add: PodShortFQDNWithServiceAndNamespace_def InternalServiceKey_def ref_db_facts(2)) (simp add: ref_meta_def)
  then have "reports_caught_up ref_env (standby_fqdn ref_db 1)"
    by (auto simp: reports_caught_up_def only_caught_up_def ref_env_def intro!: exI [of _ "[_]"] exI [of _ "''dolt-1''"])
  moreover have "connects ref_env" "ReplEnabled ref_db"
    by (simp_all add: connects_def ref_env_def ref_db_def ref_spec_def Replication_def ReplicationSpec_FillWithDefaults_def)
  ultimately show ?thesis
    using ref_db_well_formed ref_db_facts(3) by (simp add: first_caught_up_def ref_cfg_def ref_env_def)
qed

section \<open>Properties\<close>

text \<open>
  C21: A pass restarts at most one pod, and the primary last.  The pod was listed and is stale, all
  replicas of the stateful set were ready, and the recorded primary is restarted only when every other
  listed pod is up to date.  While storage is resized, the primary is being switched, or the object
  names another update strategy than the default one, the pass sends nothing.
\<close>

theorem update_restarts_one_pod:
  assumes "run_state (reconcileUpdates E) s = (r, s')"
  shows "\<exists>t. trace s' = trace s @ t \<and>
     (filter is_delete t = [] \<or>
      (\<exists>p. may_restart E (the_db (obj s)) (trace s) p \<and> filter is_delete t = [CDeletePod (meta_key (pod_meta p))])) \<and>
     (IsResizingStorage E (the_db (obj s)) \<or> IsSwitchingPrimary E (the_db (obj s)) \<or>
      spec_UpdateStrategy (db_spec (the_db (obj s))) \<notin> {[], ReplicasFirstPrimaryLastUpdateType} \<longrightarrow> t = [])"
  using wpI [OF reconcileUpdates_wp assms]
  by (auto simp: restarts_allowed_def silent_def once_def shouldReconcileUpdates_def)

theorem update_restarts_one_pod_witness:
  "\<exists>r s' t. run_state (reconcileUpdates ref_env) (ref_cfg ref_db) = (r, s') \<and> trace s' = t \<and>
     (filter is_delete t = [] \<or>
      (\<exists>p. may_restart ref_env ref_db [] p \<and> filter is_delete t = [CDeletePod (meta_key (pod_meta p))]))"
proof -
  obtain r s' where run: "run_state (reconcileUpdates ref_env) (ref_cfg ref_db) = (r, s')"
    by (cases "run_state (reconcileUpdates ref_env) (ref_cfg ref_db)")
  from update_restarts_one_pod [OF run] run show ?thesis
    by (auto simp: ref_cfg_def)
qed

text \<open>
  C22: The role statements of an update.  Before the primary is restarted it is told at most once to
  become a standby; a pod is promoted only after that succeeded, at the same epoch and at most once.
  The ordinal promoted is the position of the chosen standby in the list of standby hosts.
\<close>

theorem update_role_statements:
  assumes "run_state (reconcileUpdates E) s = (r, s')"
  shows "\<exists>t. trace s' = trace s @ t \<and> update_roles E (the_db (obj s)) (trace s) t"
  using wpI [OF reconcileUpdates_roles assms] by (simp add: updating_def)

theorem update_role_statements_witness:
  "\<exists>r s' t. run_state (reconcileUpdates ref_env) (ref_cfg ref_db) = (r, s') \<and> trace s' = t \<and> update_roles ref_env ref_db [] t"
proof -
  obtain r s' where run: "run_state (reconcileUpdates ref_env) (ref_cfg ref_db) = (r, s')"
    by (cases "run_state (reconcileUpdates ref_env) (ref_cfg ref_db)")
  from update_role_statements [OF run] run show ?thesis
    by (auto simp: ref_cfg_def)
qed

text \<open>
  C23: The position is not the ordinal.  Take any cluster with replication whose recorded primary is pod
  0, whose connections open and whose servers report an epoch; the first ready pod besides pod 0, in the
  order of the names, is pod \<open>j\<close>, and the demoted server reports pod \<open>j\<close> as the only standby that has
  caught up.  Then the update demotes pod 0 and next promotes pod 0 again, not pod \<open>j\<close>: the list of
  standby hosts starts with pod \<open>j\<close>, so pod \<open>j\<close> has position 0.
\<close>

theorem update_promotes_demoted_pod:
  assumes "connects E" and "well_formed (the_db (obj s))" and "ReplEnabled (the_db (obj s))"
    and "status_CurrentPrimaryPodIndex (db_status (the_db (obj s))) = Some 0"
    and "\<And>h c. \<exists>r rest err. env_RoleAndEpoch E h c = Inr (Inr (r, e) # rest, err)"
    and "first_standby E (the_db (obj s)) j"
    and "reports_caught_up E (PodShortFQDNWithServiceAndNamespace (db_meta (the_db (obj s))) j
           (nn_name (InternalServiceKey (the_db (obj s)))))"
  shows "j \<noteq> 0 \<and> (\<exists>t co co'. trace (snd (run_state (gracefulPrimaryUpdate E key p v) s)) = trace s @ t \<and>
     opt_Host co = pod_host E (db_meta (the_db (obj s))) 0 \<and> opt_Host co' = pod_host E (db_meta (the_db (obj s))) 0 \<and>
     filter is_role_stmt t = [CSql co (TransitionToStandbyStmt (wrap64 (e + 1)) 1),
        CSql co' (AssumeClusterRole PrimaryRoleValue (wrap64 (e + 1)))])"
proof
  show "j \<noteq> 0"
    using first_standby_other [OF assms(6)] .
  have "first_caught_up E (the_db (obj s)) j e"
    using assms by (simp add: first_caught_up_def)
  from gracefulPrimaryUpdate_says [OF this, of key p v]
  show "\<exists>t co co'. trace (snd (run_state (gracefulPrimaryUpdate E key p v) s)) = trace s @ t \<and>
     opt_Host co = pod_host E (db_meta (the_db (obj s))) 0 \<and> opt_Host co' = pod_host E (db_meta (the_db (obj s))) 0 \<and>
     filter is_role_stmt t = [CSql co (TransitionToStandbyStmt (wrap64 (e + 1)) 1),
        CSql co' (AssumeClusterRole PrimaryRoleValue (wrap64 (e + 1)))]"
    by (auto simp: wp_def said_def split: prod.splits)
qed

theorem update_promotes_demoted_pod_witness:
  "\<exists>co co'. opt_Host co = pod_host ref_env (ref_meta ''dolt'') 0 \<and> opt_Host co' = pod_host ref_env (ref_meta ''dolt'') 0 \<and>
     filter is_role_stmt (trace (snd (run_state
       (gracefulPrimaryUpdate ref_env (nn ''dolt'' ''ns'') (ref_pod ''dolt-0'') ''rev'') (ref_cfg ref_db)))) =
       [CSql co (TransitionToStandbyStmt 5 1), CSql co' (AssumeClusterRole PrimaryRoleValue 5)]"
proof -
  have d: "the_db (obj (ref_cfg ref_db)) = ref_db" "trace (ref_cfg ref_db) = []" "wrap64 5 = 5"
    by (simp_all add: ref_cfg_def in_int64_def)
  note R = ref_first_caught_up [unfolded first_caught_up_def]
  from update_promotes_demoted_pod [of ref_env "ref_cfg ref_db" 4 1, unfolded d(1)] R show ?thesis
    by (simp add: d ref_db_facts(2))
qed

end
