(* ===== verification/Storage_Properties.thy ===== *)
theory Storage_Properties
  imports Storage Update_Properties Failover_Properties
begin

text \<open>
  The properties of the storage reconciler: claims only grow and in the right order, a resize that is
  waiting ends unless a failover comes in between, and the state in which a resize is stuck.
\<close>

section \<open>Storage requests\<close>

definition is_storage :: "call \<Rightarrow> bool" where
  "is_storage c = (case c of CPatchPVC v v' \<Rightarrow> True | CDeleteSts k \<Rightarrow> True | _ \<Rightarrow> False)"

abbreviation no_storage :: "call \<Rightarrow> bool" where
  "no_storage c \<equiv> \<not> is_storage c"

lemma is_storage_simps [simp]:
  "is_storage (CPatchPVC v v')" "is_storage (CDeleteSts k)" "is_query c \<Longrightarrow> no_storage c"
  "no_storage (CPatchDoltDBStatus b n)" "no_storage (CSql co st)" "no_storage (CPatchPod p p')"
  "no_storage (CCreateSts ss)" "no_storage (CPatchSts ss ss')" "no_storage (CDeletePod k)"
  "no_storage (CGetSts k)" "no_storage (CListPVCs ns ls)"
  by (auto simp: is_storage_def is_query_def is_read_def split: call.splits)

interpretation stor: set_requests no_storage
  by unfold_locales simp_all

lemma patchCondition_no_storage: "emits no_storage (patchCondition E f)"
  unfolding patchCondition_def by (intro emits_intros; simp)

lemma waitForStorageResize_no_storage: "emits no_storage (waitForStorageResize E)"
  unfolding waitForStorageResize_def finishStorageResize_def getStoragePVCs_def
  by (intro emits_intros patchCondition_no_storage; simp)

text \<open>
  The storage requests of a resize to \<open>q\<close>: claims are given the size \<open>q\<close>, and the stateful set is deleted
  at most once, after all of them.
\<close>

definition resizes_to :: "quantity \<Rightarrow> call list \<Rightarrow> bool" where
  "resizes_to q cs \<longleftrightarrow> (\<exists>vs ds. cs = map (\<lambda>v. CPatchPVC v (v\<lparr>pvc_request := Some q\<rparr>)) vs @ ds \<and>
     (ds = [] \<or> (\<exists>k. ds = [CDeleteSts k])))"

definition resized :: "quantity \<Rightarrow> (call, 'o) cfg \<Rightarrow> (call, 'o) cfg \<Rightarrow> bool" where
  "resized q s s' \<longleftrightarrow> (\<exists>t. trace s' = trace s @ t \<and> resizes_to q (filter is_storage t))"

lemma resized_silent: "silent is_storage s s' \<Longrightarrow> resized q s s'"
  by (auto simp: silent_def resized_def resizes_to_def)

definition grown :: "quantity \<Rightarrow> (call, 'o) cfg \<Rightarrow> (call, 'o) cfg \<Rightarrow> bool" where
  "grown q s s' \<longleftrightarrow> (\<exists>t vs. trace s' = trace s @ t \<and>
     filter is_storage t = map (\<lambda>v. CPatchPVC v (v\<lparr>pvc_request := Some q\<rparr>)) vs)"

lemma grown_silent: "silent is_storage s s' \<Longrightarrow> grown q s s'"
  by (auto simp: silent_def grown_def)

lemma grown_resized: "grown q s s' \<Longrightarrow> resized q s s'"
  unfolding grown_def resized_def resizes_to_def by (metis append_Nil2)

lemma resized_then: "resized q s s1 \<Longrightarrow> silent is_storage s1 s' \<Longrightarrow> resized q s s'"
  by (auto simp: silent_def resized_def)

lemma resize_pvcs_loop_grown: "wp (resize_pvcs_loop E q ps) (\<lambda>_ s'. grown q s s') s"
proof (induction ps arbitrary: s)
  case (Cons v vs)
  have step: "grown q s s'" if "grown q s1 s'" "trace s1 = trace s @ [CPatchPVC v (v\<lparr>pvc_request := Some q\<rparr>)]" for s1 s'
  proof -
    from that(1) obtain t ws where "trace s' = trace s1 @ t"
        "filter is_storage t = map (\<lambda>v. CPatchPVC v (v\<lparr>pvc_request := Some q\<rparr>)) ws"
      by (auto simp: grown_def)
    with that(2) show ?thesis
      unfolding grown_def
      by (intro exI [of _ "CPatchPVC v (v\<lparr>pvc_request := Some q\<rparr>) # t"] exI [of _ "v # ws"]) simp
  qed
  have self: "grown q s1 s1" for s1 :: "(call, dbst) cfg" by (rule grown_silent) simp
  show ?case
    by (auto simp: wp_simps self split: option.split intro!: wp_mono [OF Cons.IH] intro: step step [OF self])
qed (simp add: wp_simps grown_silent)

lemma resizeInUsePVCs_grown: "wp (resizeInUsePVCs E q) (\<lambda>_ s'. grown q s s') s"
proof -
  have self: "grown q s s" by (rule grown_silent) simp
  have listed: "grown q s s'" if "grown q s1 s'" "trace s1 = trace s @ [CListPVCs ns ls]" for s1 s' ns ls
  proof -
    from that(1) obtain t ws where "trace s' = trace s1 @ t"
        "filter is_storage t = map (\<lambda>v. CPatchPVC v (v\<lparr>pvc_request := Some q\<rparr>)) ws"
      by (auto simp: grown_def)
    with that(2) show ?thesis
      unfolding grown_def by (intro exI [of _ "CListPVCs ns ls # t"] exI [of _ ws]) simp
  qed
  have one: "grown q s (s\<lparr>trace := trace s @ [CListPVCs ns ls]\<rparr>)" for ns ls
    by (rule grown_silent) (simp add: silent_def)
  show ?thesis
    by (auto simp: resizeInUsePVCs_def getStoragePVCs_def wp_simps self one split: sum.split
        intro!: wp_mono [OF resize_pvcs_loop_grown] elim!: listed)
qed

lemma resizeStatefulSet_resized:
  assumes "grown q s s1"
  shows "wp (resizeStatefulSet E ss) (\<lambda>_ s'. resized q s s') s1"
proof -
  let ?c = "CDeleteSts (meta_key (sts_meta ss))"
  have deleted: "resized q s (s1\<lparr>trace := trace s1 @ [?c]\<rparr>)"
    using assms by (fastforce simp: grown_def resized_def resizes_to_def)
  have "wp (Sts_Reconcile E) (\<lambda>_ s'. resized q s s') (s1\<lparr>trace := trace s1 @ [?c]\<rparr>)"
    by (rule emits_silent [OF stor.Sts_Reconcile]) (rule resized_then [OF deleted])
  then show ?thesis
    by (simp add: resizeStatefulSet_def wp_simps deleted split: option.split)
qed

lemma growStorage_wp:
  "wp (growStorage E q ss)
     (\<lambda>_ s'. \<exists>u. trace s' = trace s @ CPatchDoltDBStatus (the_db (obj s))
         (on_status (SetReadyStorageResizing (SetCondition E)) (the_db (obj s))) # u \<and>
        resizes_to q (filter is_storage u)) s"
proof -
  let ?c = "CPatchDoltDBStatus (the_db (obj s)) (on_status (SetReadyStorageResizing (SetCondition E)) (the_db (obj s)))"
  let ?Q = "\<lambda>s'. \<exists>u. trace s' = trace s @ ?c # u \<and> resizes_to q (filter is_storage u)"
  have Q: "?Q s'" if "resized q s1 s'" "trace s1 = trace s @ [?c]" for s1 s' :: "(call, dbst) cfg"
    using that by (auto simp: resized_def)
  let ?tail = "do { (r1, err1) \<leftarrow> resizeInUsePVCs E q;
       if \<not> IsZero r1 \<or> err1 \<noteq> None then ret (r1, err1)
       else do { (r2, err2) \<leftarrow> resizeStatefulSet E ss;
         if \<not> IsZero r2 \<or> err2 \<noteq> None then ret (r2, err2)
         else do { e2 \<leftarrow> patchCondition E SetReadyWaitingStorageResize;
           if e2 \<noteq> None then ret (ResultZero, e2) else waitForStorageResize E } } }"
  have rest: "wp ?tail (\<lambda>_. ?Q) s1" if s1: "trace s1 = trace s @ [?c]" for s1
  proof -
    have patch: "wp (patchCondition E SetReadyWaitingStorageResize) (\<lambda>_ s'. resized q s1 s') s2" if "resized q s1 s2" for s2
      by (rule emits_silent [OF patchCondition_no_storage]) (rule resized_then [OF that])
    have wait: "wp (waitForStorageResize E) (\<lambda>_. ?Q) s2" if "resized q s1 s2" for s2
      by (rule emits_silent [OF waitForStorageResize_no_storage]) (rule Q [OF resized_then [OF that] s1])
    show ?thesis
      by (auto simp: wp_simps intro!: wp_mono [OF resizeInUsePVCs_grown] wp_mono [OF resizeStatefulSet_resized]
          wp_mono [OF patch] wait Q [OF _ s1]) (erule grown_resized)+
  qed
  have mark: "wp (patchCondition E SetReadyStorageResizing) (\<lambda>_ s'. trace s' = trace s @ [?c]) s"
    by (simp add: patchCondition_def PatchStatus_def wp_simps split: sum.split)
  have "wp (if e1 \<noteq> None then ret (ResultZero, e1) else ?tail) (\<lambda>_. ?Q) s1" if "trace s1 = trace s @ [?c]" for e1 s1
    using rest [OF that] that by (simp only: wp_if wp_return) (simp add: resizes_to_def)
  then show ?thesis
    unfolding growStorage_def wp_bind [of "patchCondition E SetReadyStorageResizing"]
    by (rule wp_mono [OF mark])
qed

section \<open>A pass of the reconciler\<close>

definition storage_pass :: "env \<Rightarrow> DoltDB \<Rightarrow> call list \<Rightarrow> call list \<Rightarrow> bool" where
  "storage_pass E d h t \<longleftrightarrow> filter is_storage t = [] \<or>
     (\<exists>ss old new n u. env_GetSts E h (ObjectKeyFromObject d) = Inr ss \<and>
        GetStorageSize (sts_claims ss) DoltDataVolume = Some old \<and> storage_Size (spec_Storage (db_spec d)) = Some new \<and>
        0 < lib_QuantityCmp E new old \<and>
        t = CGetSts (ObjectKeyFromObject d) # CPatchDoltDBStatus d n # u \<and>
        n = on_status (SetReadyStorageResizing (SetCondition E)) d \<and> resizes_to new (filter is_storage u))"

lemma Storage_Reconcile_wp:
  "wp (Storage_Reconcile E) (\<lambda>_ s'. \<exists>t. trace s' = trace s @ t \<and> storage_pass E (the_db (obj s)) (trace s) t) s"
proof -
  let ?d = "the_db (obj s)"
  have quiet: "\<exists>t. trace s' = trace s @ t \<and> storage_pass E ?d (trace s) t" if "silent is_storage s s'" for s'
    using that by (auto simp: silent_def storage_pass_def)
  have wait: "wp (waitForStorageResize E) (\<lambda>_ s'. \<exists>t. trace s' = trace s @ t \<and> storage_pass E ?d (trace s) t) s"
    by (rule emits_silent [OF waitForStorageResize_no_storage]) (rule quiet)
  have grow: "\<exists>t. trace s' = trace s @ t \<and> storage_pass E ?d (trace s) t"
    if "env_GetSts E (trace s) (ObjectKeyFromObject ?d) = Inr ss" "GetStorageSize (sts_claims ss) DoltDataVolume = Some old"
      "storage_Size (spec_Storage (db_spec ?d)) = Some new" "0 < lib_QuantityCmp E new old"
      "trace s' = trace s @ CGetSts (ObjectKeyFromObject ?d) # CPatchDoltDBStatus ?d (on_status (SetReadyStorageResizing (SetCondition E)) ?d) # u"
      "resizes_to new (filter is_storage u)" for ss old new u s'
    using that unfolding storage_pass_def by blast
  have here: "storage_pass E ?d (trace s) []"
      "storage_pass E ?d (trace s) [CGetSts (ObjectKeyFromObject ?d)]"
    by (auto simp: storage_pass_def)
  show ?thesis
    unfolding Storage_Reconcile_def
    by (auto simp: wp_simps Let_def wait here split: sum.split option.split intro!: wp_mono [OF growStorage_wp] grow)
qed

lemma waitForStorageResize_finishes:
  assumes "condition_library E" and "echoes_patches E"
    and "env_ListPVCs E = (\<lambda>h ns ls. Inr pvcs)" "list_all (\<lambda>v. \<not> IsResizing v) pvcs"
    and "env_GetSts E = (\<lambda>h k. Inr ss)" "sts_ready_replicas ss = spec_Replicas (db_spec (the_db (obj s)))"
  shows "wp (waitForStorageResize E)
    (\<lambda>r s'. r = (ResultZero, None) \<and> \<not> IsResizingStorage E (the_db (obj s'))) s"
proof -
  have echo: "env_PatchDoltDBStatus E h b n = Inr n" for h b n
    using assms(2) by (simp add: echoes_patches_def)
  have "\<not> list_ex IsResizing pvcs"
    using assms(4) by (auto simp: list_ex_iff list_all_iff)
  moreover have "\<not> IsResizingStorage E (on_status (SetReadyStorageResized (SetCondition E)) d)" for d
    using condition_library.resize_states_after_setters(3) [OF assms(1)] by simp
  ultimately show ?thesis
    using assms(3,5,6)
    by (simp add: waitForStorageResize_def finishStorageResize_def getStoragePVCs_def patchCondition_def
        PatchStatus_def wp_simps Let_def echo)
qed

text \<open>While a resize is marked, the switchover only asks for the states of the servers.\<close>

lemma resizing_switchover_waits:
  assumes "IsResizingStorage E (the_db (obj s))"
  shows "wp (reconcileSwitchover E) (\<lambda>u s'. u = None \<and> framed E is_query s s') s"
  unfolding reconcileSwitchover_def
proof (subst wp_bind, rule wp_mono [OF observed_states_wp], subst wp_bind, elim conjE,
    rule wp_mono [OF shouldReconcileSwitchover_wp], elim conjE)
  fix states s1 go s2
  assume f: "framed E is_query s s1" "framed E is_query s1 s2" and go: "go \<longleftrightarrow> switchover_needed E (the_db (obj s1))"
  have "\<not> switchover_needed E (the_db (obj s1))"
    unfolding switchover_needed_eq_fill [OF framed_eq_fill [OF f(1)]] using assms by (simp add: switchover_needed_def)
  with go framed_trans [OF f]
  show "wp (if \<not> go then ret None else performSwitchover E states) (\<lambda>u s'. u = None \<and> framed E is_query s s') s2"
    by (simp add: wp_simps)
qed

section \<open>Properties\<close>

text \<open>
  C24: Storage only grows, and in order.  A pass resizes claims or deletes the stateful set only when the
  desired size is above the size of the fetched set; then it first marks the status as resizing,
  patches claims to exactly the desired size, and deletes the set at most once, after the claims.
\<close>

theorem storage_only_grows:
  assumes "condition_library E" and "run_state (Storage_Reconcile E) s = (r, s')"
  shows "\<exists>t. trace s' = trace s @ t \<and> (filter is_storage t = [] \<or>
     (\<exists>ss old new n u. env_GetSts E (trace s) (ObjectKeyFromObject (the_db (obj s))) = Inr ss \<and>
        GetStorageSize (sts_claims ss) DoltDataVolume = Some old \<and>
        storage_Size (spec_Storage (db_spec (the_db (obj s)))) = Some new \<and> 0 < lib_QuantityCmp E new old \<and>
        t = CGetSts (ObjectKeyFromObject (the_db (obj s))) # CPatchDoltDBStatus (the_db (obj s)) n # u \<and>
        IsResizingStorage E n \<and> resizes_to new (filter is_storage u)))"
proof -
  have "IsResizingStorage E (on_status (SetReadyStorageResizing (SetCondition E)) d)" for d
    using condition_library.resize_states_after_setters(1) [OF assms(1)] by simp
  with wpI [OF Storage_Reconcile_wp assms(2)] show ?thesis
    unfolding storage_pass_def by blast
qed

definition small_sts :: sts where
  "small_sts = zero_sts\<lparr>sts_replicas := Some 3, sts_ready_replicas := 3, sts_claims :=
     [\<lparr>pvc_meta = ref_meta DoltDataVolume, pvc_access_modes = [], pvc_request = Some ''01Gi'', pvc_data_source = None,
      pvc_storage_class = None, pvc_conditions = []\<rparr>]\<rparr>"

theorem storage_only_grows_witness:
  "\<exists>r s' t. run_state (Storage_Reconcile (ref_env\<lparr>env_GetSts := (\<lambda>h k. Inr small_sts)\<rparr>)) (ref_cfg ref_db) = (r, s') \<and> trace s' = t \<and>
     (filter is_storage t = [] \<or> (\<exists>n u. t = CGetSts (nn ''dolt'' ''ns'') # CPatchDoltDBStatus ref_db n # u \<and>
        IsResizingStorage ref_env n \<and> resizes_to ''10Gi'' (filter is_storage u)))"
proof -
  let ?E = "ref_env\<lparr>env_GetSts := (\<lambda>h k. Inr small_sts)\<rparr>"
  obtain r s' where run: "run_state (Storage_Reconcile ?E) (ref_cfg ref_db) = (r, s')"
    by (cases "run_state (Storage_Reconcile ?E) (ref_cfg ref_db)")
  have lib: "condition_library ?E"
    by (rule keeps_contract_library) (simp add: keeps_contract_def ref_env_def)
  have d: "storage_Size (spec_Storage (db_spec ref_db)) = Some ''10Gi''" "ObjectKeyFromObject ref_db = nn ''dolt'' ''ns''"
    by (simp_all add: ref_db_def ref_spec_def ObjectKeyFromObject_def ref_meta_def)
  have "IsResizingStorage ?E n = IsResizingStorage ref_env n" for n
    by (simp add: IsResizingStorage_def)
  with storage_only_grows [OF lib run] run show ?thesis
    by (auto simp: ref_cfg_def d)
qed

text \<open>
  C25: A resize that is waiting ends, unless a failover comes in between.  When no claim is resizing any
  more and all replicas are ready, a pass over a waiting cluster that is neither updating nor switching
  its primary succeeds, and the cluster is no longer marked as resizing.  But a failover that is due
  marks the waiting cluster as switching and leaves it waiting; and a cluster that is both never gets
  out: the storage pass does nothing because the primary is being switched, and the switchover only
  queries, succeeds and leaves the object alone because storage is being resized.
\<close>

theorem waiting_resize_finishes:
  assumes "condition_library E" and "echoes_patches E" and "IsWaitingForStorageResize E (the_db (obj s))"
    and "run_state (Storage_Reconcile E) s = (r, s')"
  shows "(\<not> IsUpdating E (the_db (obj s)) \<and> \<not> IsSwitchingPrimary E (the_db (obj s)) \<and>
       env_ListPVCs E = (\<lambda>h ns ls. Inr pvcs) \<and> list_all (\<lambda>v. \<not> IsResizing v) pvcs \<and>
       env_GetSts E = (\<lambda>h k. Inr ss) \<and> sts_ready_replicas ss = spec_Replicas (db_spec (the_db (obj s))) \<longrightarrow>
       r = (ResultZero, None) \<and> \<not> IsResizingStorage E (the_db (obj s'))) \<and>
     (failover_due p (the_db (obj s)) \<and> status_CurrentPrimaryPodIndex (db_status (the_db (obj s))) = Some i \<and>
       lists_standby E (the_db (obj s)) i \<longrightarrow>
       (case run_state (ReconcilePodNotReady E p) s of (u, s2) \<Rightarrow>
          u = None \<and> IsSwitchingPrimary E (the_db (obj s2)) \<and> IsWaitingForStorageResize E (the_db (obj s2)))) \<and>
     (IsSwitchingPrimary E (the_db (obj s)) \<longrightarrow>
       r = (ResultZero, None) \<and> s' = s \<and>
       (case run_state (reconcileSwitchover E) s of (u, s2) \<Rightarrow>
          u = None \<and> eq_fill (the_db (obj s)) (the_db (obj s2)) \<and>
          (\<exists>t. trace s2 = trace s @ t \<and> list_all is_query t)))"
proof (intro conjI impI)
  assume "\<not> IsUpdating E (the_db (obj s)) \<and> \<not> IsSwitchingPrimary E (the_db (obj s)) \<and>
      env_ListPVCs E = (\<lambda>h ns ls. Inr pvcs) \<and> list_all (\<lambda>v. \<not> IsResizing v) pvcs \<and>
      env_GetSts E = (\<lambda>h k. Inr ss) \<and> sts_ready_replicas ss = spec_Replicas (db_spec (the_db (obj s)))"
  then have "wp (Storage_Reconcile E) (\<lambda>r s'. r = (ResultZero, None) \<and> \<not> IsResizingStorage E (the_db (obj s'))) s"
    using waitForStorageResize_finishes [OF assms(1,2), of pvcs ss s] assms(3)
    by (simp add: Storage_Reconcile_def shouldReconcileStorage_def wp_simps)
  from wpI [OF this assms(4)] show "r = (ResultZero, None)" "\<not> IsResizingStorage E (the_db (obj s'))"
    by simp_all
next
  assume "failover_due p (the_db (obj s)) \<and> status_CurrentPrimaryPodIndex (db_status (the_db (obj s))) = Some i \<and>
      lists_standby E (the_db (obj s)) i"
  with ReconcilePodNotReady_result [OF assms(1,2), of p s i] assms(3)
  show "case run_state (ReconcilePodNotReady E p) s of (u, s2) \<Rightarrow>
      u = None \<and> IsSwitchingPrimary E (the_db (obj s2)) \<and> IsWaitingForStorageResize E (the_db (obj s2))"
    by (auto simp: wp_def)
next
  assume switching: "IsSwitchingPrimary E (the_db (obj s))"
  then have "wp (Storage_Reconcile E) (\<lambda>r s'. r = (ResultZero, None) \<and> s' = s) s"
    by (simp add: Storage_Reconcile_def shouldReconcileStorage_def wp_simps)
  from wpI [OF this assms(4)] show "r = (ResultZero, None)" "s' = s" by simp_all
  have "IsResizingStorage E (the_db (obj s))"
    using condition_library.waiting_implies_resizing [OF assms(1,3)] .
  from resizing_switchover_waits [OF this]
  show "case run_state (reconcileSwitchover E) s of (u, s2) \<Rightarrow>
      u = None \<and> eq_fill (the_db (obj s)) (the_db (obj s2)) \<and> (\<exists>t. trace s2 = trace s @ t \<and> list_all is_query t)"
    by (auto simp: wp_def framed_def)
qed

text \<open>A waiting cluster: the pass ends the resize; after a failover it does not.\<close>

definition waiting_db :: DoltDB where
  "waiting_db = on_status (SetReadyWaitingStorageResize (SetCondition ref_env)) failover_db"

theorem waiting_resize_finishes_witness:
  "(\<exists>s'. run_state (Storage_Reconcile ref_env) (ref_cfg waiting_db) = ((ResultZero, None), s') \<and>
     IsResizingStorage ref_env waiting_db \<and> \<not> IsResizingStorage ref_env (the_db (obj s'))) \<and>
   (\<exists>s2. run_state (ReconcilePodNotReady ref_env failed_pod) (ref_cfg waiting_db) = (None, s2) \<and>
     run_state (Storage_Reconcile ref_env) s2 = ((ResultZero, None), s2) \<and> IsResizingStorage ref_env (the_db (obj s2)))"
proof -
  obtain r s' where run: "run_state (Storage_Reconcile ref_env) (ref_cfg waiting_db) = (r, s')"
    by (cases "run_state (Storage_Reconcile ref_env) (ref_cfg waiting_db)")
  have w: "IsWaitingForStorageResize ref_env waiting_db" "IsResizingStorage ref_env waiting_db"
    using ref.resize_states_after_setters(2) [of waiting_db "db_status failover_db"] by (simp_all add: waiting_db_def)
  have calm: "\<not> IsUpdating ref_env waiting_db" "\<not> IsSwitchingPrimary ref_env waiting_db"
    by (simp_all add: waiting_db_def on_status_def IsUpdating_def IsSwitchingPrimary_def failover_db_def
        SetReadyWaitingStorageResize_def SetCondition_def ref_env_def ref_db_def ref_status_def ref_is_def Let_def)
  have due: "failover_due failed_pod waiting_db" "status_CurrentPrimaryPodIndex (db_status waiting_db) = Some 0"
      "lists_standby ref_env waiting_db 0"
    using failover_db_facts
    by (simp_all add: waiting_db_def failover_due_def IsReplicationConfigured_def lists_standby_def DoltSelector_def WithDoltSelectorLabels_def
        SetReadyWaitingStorageResize_def SetCondition_def Let_def)
  let ?ss = "zero_sts\<lparr>sts_replicas := Some 3, sts_status_replicas := 3, sts_ready_replicas := 3\<rparr>"
  have lists: "env_ListPVCs ref_env = (\<lambda>h ns ls. Inr [])" "env_GetSts ref_env = (\<lambda>h k. Inr ?ss)"
    by (simp_all add: ref_env_def)
  have d: "the_db (obj (ref_cfg waiting_db)) = waiting_db" "spec_Replicas (db_spec waiting_db) = 3"
    by (simp_all add: ref_cfg_def waiting_db_def failover_db_def ref_spec_def)
  note ends = waiting_resize_finishes [OF ref_env_contract failover_db_facts(3)]
  obtain u s2 where fail: "run_state (ReconcilePodNotReady ref_env failed_pod) (ref_cfg waiting_db) = (u, s2)"
    by (cases "run_state (ReconcilePodNotReady ref_env failed_pod) (ref_cfg waiting_db)")
  have first: "r = (ResultZero, None)" "\<not> IsResizingStorage ref_env (the_db (obj s'))" "u = None"
      "IsSwitchingPrimary ref_env (the_db (obj s2))" "IsWaitingForStorageResize ref_env (the_db (obj s2))"
    using ends [OF _ run, of "[]" ?ss failed_pod 0] w calm due fail lists by (simp_all add: d)
  obtain r3 s3 where again: "run_state (Storage_Reconcile ref_env) s2 = (r3, s3)"
    by (cases "run_state (Storage_Reconcile ref_env) s2")
  have "r3 = (ResultZero, None)" "s3 = s2"
    using ends [OF first(5) again] first(4) by simp_all
  with again run first w fail ref.waiting_implies_resizing [OF first(5)] show ?thesis by simp
qed

text \<open>
  C26: A resize can get stuck.  A cluster marked as resizing but not as waiting, whose stateful set
  already has the desired size, is left as it is: the storage pass fetches the set, writes nothing and
  reports success, and as long as the mark is there no pod is updated and no switchover is started.
\<close>

theorem resize_stalls:
  assumes "IsResizingStorage E (the_db (obj s))" and "\<not> IsWaitingForStorageResize E (the_db (obj s))"
    and "shouldReconcileStorage E (the_db (obj s))"
    and "env_GetSts E (trace s) (ObjectKeyFromObject (the_db (obj s))) = Inr ss"
    and "GetStorageSize (sts_claims ss) DoltDataVolume = Some old" "storage_Size (spec_Storage (db_spec (the_db (obj s)))) = Some new"
    and "lib_QuantityCmp E new old = 0"
  shows "run_state (Storage_Reconcile E) s =
       ((ResultZero, None), s\<lparr>trace := trace s @ [CGetSts (ObjectKeyFromObject (the_db (obj s)))]\<rparr>) \<and>
     run_state (reconcileUpdates E) s = ((ResultZero, None), s) \<and>
     fst (run_state (shouldReconcileSwitchover E) s) = False"
proof -
  have "wp (Storage_Reconcile E) (\<lambda>r s'. r = (ResultZero, None) \<and>
      s' = s\<lparr>trace := trace s @ [CGetSts (ObjectKeyFromObject (the_db (obj s)))]\<rparr>) s"
    using assms(2-7) by (simp add: Storage_Reconcile_def wp_simps)
  moreover have "wp (reconcileUpdates E) (\<lambda>r s'. r = (ResultZero, None) \<and> s' = s) s"
    using assms(1) by (simp add: reconcileUpdates_def shouldReconcileUpdates_def wp_simps)
  moreover have "wp (shouldReconcileSwitchover E) (\<lambda>r _. r = False) s"
    using assms(1) by (simp add: shouldReconcileSwitchover_def wp_simps)
  ultimately show ?thesis
    by (auto simp: wp_def split: prod.splits)
qed

definition stuck_db :: DoltDB where
  "stuck_db = (on_status (SetReadyStorageResizing (SetCondition ref_env)) ref_db)\<lparr>db_spec := (ref_spec 3 1)\<lparr>spec_Storage :=
     (spec_Storage (ref_spec 3 1))\<lparr>storage_Size := Some ''01Gi''\<rparr>\<rparr>\<rparr>"

theorem resize_stalls_witness:
  "\<exists>s'. run_state (Storage_Reconcile (ref_env\<lparr>env_GetSts := (\<lambda>h k. Inr small_sts)\<rparr>)) (ref_cfg stuck_db) = ((ResultZero, None), s') \<and>
     the_db (obj s') = stuck_db \<and> IsResizingStorage ref_env stuck_db"
proof -
  let ?E = "ref_env\<lparr>env_GetSts := (\<lambda>h k. Inr small_sts)\<rparr>"
  have lib: "condition_library ?E"
    by (rule keeps_contract_library) (simp add: keeps_contract_def ref_env_def)
  have st: "db_status stuck_db = SetReadyStorageResizing (SetCondition ?E) (db_status ref_db)"
    by (simp add: stuck_db_def SetReadyStorageResizing_def SetCondition_def)
  note w = condition_library.resize_states_after_setters(1) [OF lib st]
  have "shouldReconcileStorage ?E stuck_db"
    by (simp add: shouldReconcileStorage_def st IsUpdating_def IsSwitchingPrimary_def
        SetReadyStorageResizing_def SetCondition_def ref_env_def ref_db_def ref_status_def ref_is_def Let_def)
  moreover have "IsResizingStorage ref_env stuck_db"
    using w by (simp add: IsResizingStorage_def)
  ultimately show ?thesis
    using resize_stalls [of ?E "ref_cfg stuck_db" small_sts "''01Gi''" "''01Gi''"] w
    by (simp add: ref_cfg_def small_sts_def stuck_db_def ref_spec_def ref_meta_def ref_env_def)
qed

end
