(* ===== verification/Owned_Objects.thy ===== *)
theory Owned_Objects
  imports Stateful_Set
begin

text \<open>
  The reconcilers of the objects a DoltDB owns beside its stateful set: services
  (\<open>src/pkg/controller/service\<close>), the config map (\<open>src/pkg/controller/configmap\<close>) and the RBAC objects
  (\<open>src/pkg/controller/rbac\<close>).  Each creates what is missing and patches what exists.
\<close>

section \<open>Services\<close>

definition add_port :: "service_port list \<Rightarrow> service_port list \<Rightarrow> service_port \<Rightarrow> service_port list" where
  "add_port original ports p =
     (if list_ex (\<lambda>q. sp_port q = sp_port p) original then ports else ports @ [p])"

definition updateServicePorts :: "service \<Rightarrow> service \<Rightarrow> service" where
  "updateServicePorts existingSvc desiredSvc =
     (if svc_ports existingSvc = [] then existingSvc\<lparr>svc_ports := svc_ports desiredSvc\<rparr>
      else let ports = fold (\<lambda>p acc. add_port (svc_ports existingSvc) acc p) (svc_ports desiredSvc)
                         (svc_ports existingSvc);
               ports = (if svc_type desiredSvc \<noteq> ''NodePort'' \<and> svc_type desiredSvc \<noteq> ''LoadBalancer''
                        then map (\<lambda>p. p\<lparr>sp_node_port := 0\<rparr>) ports else ports)
           in existingSvc\<lparr>svc_ports := ports\<rparr>)"

definition patchedService :: "service \<Rightarrow> service \<Rightarrow> service" where
  "patchedService existingSvc desiredSvc =
     (let s = updateServicePorts existingSvc desiredSvc;
          m = svc_meta s
      in s\<lparr>svc_allocate_node_ports := svc_allocate_node_ports desiredSvc,
           svc_selector := svc_selector desiredSvc, svc_type := svc_type desiredSvc,
           svc_meta := m\<lparr>om_annotations := merge_map (om_annotations m) (om_annotations (svc_meta desiredSvc)),
                         om_labels := merge_map (om_labels m) (om_labels (svc_meta desiredSvc))\<rparr>\<rparr>)"

definition Service_Reconcile :: "env \<Rightarrow> service \<Rightarrow> goerr option op" where
  "Service_Reconcile E desiredSvc = do {
     r \<leftarrow> k_GetService E (meta_key (svc_meta desiredSvc));
     case r of
       Inl err \<Rightarrow>
         if \<not> IsNotFound err then ret (Some (ErrV ''error getting Service: '' err))
         else do {
           c \<leftarrow> k_write E (CCreateService desiredSvc);
           ret (map_option (ErrV ''error creating Service: '') c)
         }
     | Inr existingSvc \<Rightarrow> k_write E (CPatchService existingSvc (patchedService existingSvc desiredSvc))
   }"

section \<open>Config map\<close>

record ConfigMapReconcileRequest =
  cmr_Metadata :: "object_meta option"
  cmr_Owner :: DoltDB
  cmr_Key :: namespaced_name
  cmr_Data :: strmap

definition ConfigMap_Reconcile :: "env \<Rightarrow> ConfigMapReconcileRequest \<Rightarrow> goerr option op" where
  "ConfigMap_Reconcile E req =
     (case BuildConfigMap E (cmr_Key req) (cmr_Metadata req) (cmr_Data req) (cmr_Owner req) of
        Inl err \<Rightarrow> ret (Some (ErrV ''error building ConfigMap: '' err))
      | Inr configMap \<Rightarrow> do {
          r \<leftarrow> k_GetConfigMap E (cmr_Key req);
          case r of
            Inl err \<Rightarrow>
              if \<not> IsNotFound err then ret (Some (ErrV ''error getting ConfigMap: '' err))
              else do {
                c \<leftarrow> k_write E (CCreateConfigMap configMap);
                ret (map_option (ErrV ''error creating ConfigMap: '') c)
              }
          | Inr existing \<Rightarrow> k_write E (CPatchConfigMap existing (existing\<lparr>cm_data := cm_data configMap\<rparr>))
        })"

section \<open>RBAC\<close>

definition patchServiceAccountAnnotations :: "env \<Rightarrow> service_account \<Rightarrow> DoltDB \<Rightarrow> goerr option op" where
  "patchServiceAccountAnnotations E existingSA doltdb =
     (case BuildServiceAccount E (meta_key (sa_meta existingSA)) doltdb of
        Inl err \<Rightarrow> ret (Some (ErrV ''error building desired ServiceAccount: '' err))
      | Inr desired \<Rightarrow> do {
          let m = sa_meta existingSA;
          e \<leftarrow> k_write E (CPatchServiceAccount existingSA
                 (existingSA\<lparr>sa_meta := m\<lparr>om_annotations := merge_map (om_annotations m) (om_annotations (sa_meta desired))\<rparr>\<rparr>));
          ret (map_option (ErrV ''error patching ServiceAccount annotations: '') e)
        })"

definition ReconcileServiceAccount :: "env \<Rightarrow> namespaced_name \<Rightarrow> DoltDB \<Rightarrow> (goerr + service_account) op" where
  "ReconcileServiceAccount E key doltdb = do {
     r \<leftarrow> k_GetServiceAccount E key;
     case r of
       Inr existingSA \<Rightarrow> do {
         e \<leftarrow> patchServiceAccountAnnotations E existingSA doltdb;
         ret (case e of Some err \<Rightarrow> Inl err | None \<Rightarrow> Inr existingSA)
       }
     | Inl err \<Rightarrow>
         if \<not> IsNotFound err then ret (Inl (ErrV ''error getting ServiceAccount: '' err))
         else (case BuildServiceAccount E key doltdb of
                 Inl err \<Rightarrow> ret (Inl (ErrV ''error building ServiceAccount: '' err))
               | Inr sa \<Rightarrow> do {
                   c \<leftarrow> k_write E (CCreateServiceAccount sa);
                   ret (case c of
                          Some err \<Rightarrow> Inl (ErrV ''error creating ServiceAccount: '' err)
                        | None \<Rightarrow> Inr sa)
                 })
   }"

definition doltRules :: "policy_rule list" where
  "doltRules =
     [\<lparr>rule_groups = [''k8s.dolthub.com''], rule_resources = [''doltdbs''], rule_verbs = [''get'']\<rparr>,
      \<lparr>rule_groups = [''''], rule_resources = [''pods''], rule_verbs = [''get'']\<rparr>,
      \<lparr>rule_groups = [''snapshot.storage.k8s.io''], rule_resources = [''volumesnapshots''],
       rule_verbs = [''get'', ''list'', ''watch'', ''create'', ''update'', ''patch'', ''delete'']\<rparr>]"

definition reconcileRole :: "env \<Rightarrow> namespaced_name \<Rightarrow> DoltDB \<Rightarrow> (goerr + role) op" where
  "reconcileRole E key doltdb = do {
     r \<leftarrow> k_GetRole E key;
     case r of
       Inr existingRole \<Rightarrow> ret (Inr existingRole)
     | Inl err \<Rightarrow>
         if \<not> IsNotFound err then ret (Inl (ErrV ''error getting Role: '' err))
         else (case BuildRole E key doltdb doltRules of
                 Inl err \<Rightarrow> ret (Inl (ErrV ''error building Role: '' err))
               | Inr role \<Rightarrow> do {
                   c \<leftarrow> k_write E (CCreateRole role);
                   ret (case c of Some err \<Rightarrow> Inl (ErrV ''error creating Role: '' err) | None \<Rightarrow> Inr role)
                 })
   }"

definition reconcileRoleBinding ::
    "env \<Rightarrow> namespaced_name \<Rightarrow> DoltDB \<Rightarrow> service_account \<Rightarrow> role_ref \<Rightarrow> goerr option op" where
  "reconcileRoleBinding E key doltdb sa roleRef = do {
     r \<leftarrow> k_GetRoleBinding E key;
     case r of
       Inr existingRB \<Rightarrow> ret None
     | Inl err \<Rightarrow>
         if \<not> IsNotFound err then ret (Some (ErrV ''error getting RoleBinding: '' err))
         else (case BuildRoleBinding E key doltdb sa roleRef of
                 Inl err \<Rightarrow> ret (Some (ErrV ''error building RoleBinding: '' err))
               | Inr rb \<Rightarrow> do {
                   c \<leftarrow> k_write E (CCreateRoleBinding rb);
                   ret (map_option (ErrV ''error creating RoleBinding: '') c)
                 })
   }"

definition isOwnedBy :: "object_meta \<Rightarrow> object_meta \<Rightarrow> bool" where
  "isOwnedBy owner child \<longleftrightarrow> list_ex (\<lambda>u. u = om_uid owner) (om_owner_uids child)"

definition reconcileClusterRoleBinding ::
    "env \<Rightarrow> namespaced_name \<Rightarrow> DoltDB \<Rightarrow> service_account \<Rightarrow> role_ref \<Rightarrow> goerr option op" where
  "reconcileClusterRoleBinding E key doltdb sa roleRef = do {
     r \<leftarrow> k_GetClusterRoleBinding E key;
     case r of
       Inr existingCRB \<Rightarrow>
         if \<not> isOwnedBy (db_meta doltdb) (rb_meta existingCRB)
         then ret (Some (ErrNew (''ClusterRoleBinding '' @ quoted (om_name (rb_meta existingCRB)) @ '' already exists'')))
         else ret None
     | Inl err \<Rightarrow>
         if \<not> IsNotFound err then ret (Some (ErrV ''error getting ClusterRoleBinding: '' err))
         else (case BuildClusterRoleBinding E key doltdb sa roleRef of
                 Inl err \<Rightarrow> ret (Some (ErrV ''error building ClusterRoleBinding: '' err))
               | Inr crb \<Rightarrow> do {
                   c \<leftarrow> k_write E (CCreateClusterRoleBinding crb);
                   ret (map_option (ErrV ''error creating ClusterRoleBinding: '') c)
                 })
   }"

definition authDelegatorRoleNameOrDefault :: "DoltDB \<Rightarrow> string" where
  "authDelegatorRoleNameOrDefault doltdb =
     om_name (db_meta doltdb) @ ''-'' @ om_namespace (db_meta doltdb) @ ''-'' @
     hd (split_on (CHR ''-'') (om_uid (db_meta doltdb)))"

definition ReconcileDoltRBAC :: "env \<Rightarrow> goerr option op" where
  "ReconcileDoltRBAC E = do {
     doltdb \<leftarrow> get_db;
     let key = ServiceAccountKey doltdb;
     s \<leftarrow> ReconcileServiceAccount E key doltdb;
     case s of
       Inl err \<Rightarrow> ret (Some (ErrV ''error reconciling ServiceAccount: '' err))
     | Inr sa \<Rightarrow> do {
         r \<leftarrow> reconcileRole E key doltdb;
         case r of
           Inl err \<Rightarrow> ret (Some (ErrV ''error reconciling Role: '' err))
         | Inr role \<Rightarrow> do {
             b \<leftarrow> reconcileRoleBinding E key doltdb sa
                   \<lparr>ref_group = ''rbac.authorization.k8s.io'', ref_kind = ''Role'', ref_name = om_name (role_meta role)\<rparr>;
             case b of
               Some err \<Rightarrow> ret (Some (ErrV ''error reconciling RoleBinding: '' err))
             | None \<Rightarrow> do {
                 c \<leftarrow> reconcileClusterRoleBinding E
                       (nn (authDelegatorRoleNameOrDefault doltdb @ '':auth-delegator'') (om_namespace (db_meta doltdb)))
                       doltdb sa
                       \<lparr>ref_group = ''rbac.authorization.k8s.io'', ref_kind = ''ClusterRole'',
                        ref_name = ''system:auth-delegator''\<rparr>;
                 ret (map_option (ErrV ''error reconciling system:auth-delegator ClusterRoleBinding: '') c)
               }
           }
       }
   }"

end
