(* ===== verification/Cluster_Status.thy ===== *)
theory Cluster_Status
  imports Stateful_Set
begin

text \<open>
  The status reconciler (\<open>src/pkg/controller/status\<close>): it records the ready replicas, the roles and the
  highest epoch that the servers report, a default primary, and the conditions \<open>Updated\<close> and \<open>Ready\<close>.
\<close>

section \<open>Roles and epoch\<close>

text \<open>The loop over the pods, each with the state its server reported.\<close>

fun replication_status_loop ::
    "env \<Rightarrow> ReplicationStatus \<Rightarrow> int \<Rightarrow> (int \<times> DBState) list \<Rightarrow> (ReplicationStatus \<times> int) op" where
  "replication_status_loop E replicationStatus highestEpoch [] = ret (replicationStatus, highestEpoch)"
| "replication_status_loop E replicationStatus highestEpoch ((i, dbstate) # rest) =
     (if dbs_Err dbstate \<noteq> None \<and> (dbs_Role dbstate = [] \<or> dbs_Epoch dbstate = 0) \<or> dbs_Role dbstate = []
      then replication_status_loop E replicationStatus highestEpoch rest
      else do {
        doltdb \<leftarrow> get_db;
        let podName = PodName (db_meta doltdb) i;
        let highestEpoch =
          (if dbs_Epoch dbstate > highestEpoch \<and>
              dbs_Epoch dbstate > ptr_Deref (status_ReplicationEpoch (db_status doltdb)) 0
           then dbs_Epoch dbstate else highestEpoch);
        h \<leftarrow> IsDoltDBReplicaHealthy E i;
        case h of
          Inl err \<Rightarrow> replication_status_loop E replicationStatus highestEpoch rest
        | Inr (_, healthy) \<Rightarrow>
            if \<not> healthy then replication_status_loop E replicationStatus highestEpoch rest
            else if dbs_Role dbstate = PrimaryRoleValue \<and>
              status_CurrentPrimary (db_status doltdb) \<noteq> None \<and>
              status_CurrentPrimary (db_status doltdb) \<noteq> Some podName
            then replication_status_loop E replicationStatus highestEpoch rest
            else replication_status_loop E
                   (AList.update podName
                      (if dbs_Role dbstate = PrimaryRoleValue then ReplicationStatePrimary
                       else if dbs_Role dbstate = StandbyRoleValue then ReplicationStateStandby
                       else ReplicationStateNotConfigured) replicationStatus)
                   highestEpoch rest
      })"

text \<open>
  \<open>GetDBStates\<close> returns one state for every ordinal, so pairing them up is the indexing of the code.
\<close>

definition getReplicationStatusAndEpoch :: "env \<Rightarrow> DBState list \<Rightarrow> (ReplicationStatus option \<times> int) op" where
  "getReplicationStatusAndEpoch E dbstates = do {
     repl \<leftarrow> call_Replication;
     if \<not> repl_Enabled repl then ret (None, -1)
     else do {
       doltdb \<leftarrow> get_db;
       (rs, e) \<leftarrow> replication_status_loop E [] (-1) (zip (replica_ordinals doltdb) dbstates);
       ret (Some rs, e)
     }
   }"

definition defaultPrimary :: "DoltDB \<Rightarrow> DoltDB" where
  "defaultPrimary doltdb =
     (if status_CurrentPrimaryPodIndex (db_status doltdb) \<noteq> None \<or> status_CurrentPrimary (db_status doltdb) \<noteq> None
      then doltdb
      else let podIndex = (if ReplEnabled doltdb then ptr_Deref (primary_PodIndex (ReplPrimary doltdb)) 0 else 0)
           in on_status (\<lambda>s. s\<lparr>status_CurrentPrimaryPodIndex := Some podIndex,
                               status_CurrentPrimary := Some (PodName (db_meta doltdb) podIndex)\<rparr>)
                (Replication_fill doltdb))"

section \<open>The Updated condition\<close>

definition setUpdatedCondition :: "env \<Rightarrow> goerr option op" where
  "setUpdatedCondition E = do {
     v \<leftarrow> GetRevision E;
     case v of
       Inl err \<Rightarrow> ret (Some err)
     | Inr stsUpdateRevision \<Rightarrow>
         if stsUpdateRevision = [] then ret None
         else do {
           doltdb \<leftarrow> get_db;
           r \<leftarrow> k_ListPods E (om_namespace (db_meta doltdb)) (DoltSelector doltdb);
           case r of
             Inl err \<Rightarrow> ret (Some (ErrV ''error listing Pods: '' err))
           | Inr items \<Rightarrow> do {
               let podsUpdated = int (length (filter (\<lambda>p. PodUpdated p stsUpdateRevision) items));
               modify_db (on_status (
                 if podsUpdated \<ge> spec_Replicas (db_spec doltdb) then SetUpdated (SetCondition E)
                 else if podsUpdated > 0 then SetUpdating (SetCondition E)
                 else SetPendingUpdate (SetCondition E)));
               ret None
             }
         }
   }"

section \<open>The reconciler\<close>

text \<open>What the patcher writes before it looks at the conditions.\<close>

definition statusFields :: "sts \<Rightarrow> ReplicationStatus option \<Rightarrow> int \<Rightarrow> DoltDB \<Rightarrow> DoltDB" where
  "statusFields ss replicationStatus highestEpoch d =
     (let d = on_status (\<lambda>s. s\<lparr>status_Replicas := sts_ready_replicas ss\<rparr>) d;
          d = defaultPrimary d;
          d = (if highestEpoch \<noteq> -1 then on_status (UpdateReplicationEpoch highestEpoch) d else d)
      in (case replicationStatus of
            None \<Rightarrow> d
          | Some rs \<Rightarrow> on_status (\<lambda>s. s\<lparr>status_ReplicationStatus := Some rs\<rparr>) d))"

definition statusPatcher :: "env \<Rightarrow> sts \<Rightarrow> ReplicationStatus option \<Rightarrow> int \<Rightarrow> unit op" where
  "statusPatcher E ss replicationStatus highestEpoch = do {
     modify_db (statusFields ss replicationStatus highestEpoch);
     doltdb \<leftarrow> get_db;
     if IsResizingStorage E doltdb \<or> IsSwitchingPrimary E doltdb then ret ()
     else do {
       e \<leftarrow> setUpdatedCondition E;
       modify_db (\<lambda>d. on_status (\<lambda>s. SetReadyWithDoltDB E (SetCondition E) s ss d) d)
     }
   }"

definition Status_Reconcile :: "env \<Rightarrow> outcome op" where
  "Status_Reconcile E = do {
     doltdb \<leftarrow> get_db;
     g \<leftarrow> k_GetSts E (ObjectKeyFromObject doltdb);
     let ss = (case g of Inl err \<Rightarrow> zero_sts | Inr x \<Rightarrow> x);
     repl \<leftarrow> call_Replication;
     dbstates \<leftarrow> (if repl_Enabled repl then do { NewClientSet; GetDBStates E } else ret []);
     (replicationStatus, highestEpoch) \<leftarrow> getReplicationStatusAndEpoch E dbstates;
     base \<leftarrow> get_db;
     statusPatcher E ss replicationStatus highestEpoch;
     new \<leftarrow> get_db;
     r \<leftarrow> k_PatchDoltDBStatus E base new;
     e \<leftarrow> (case r of
            Inl err \<Rightarrow> ret (Some err)
          | Inr d \<Rightarrow> do { modify_db (\<lambda>_. d); ret None });
     (if repl_Enabled repl then do { closeErr \<leftarrow> ClientSet_Close E; ret () } else ret ());
     ret (ResultZero, e)
   }"

end
