(* ===== verification/Doltdb_Controller.thy ===== *)
theory Doltdb_Controller
  imports Owned_Objects Storage Cluster_Status Replication_Controller
begin

text \<open>
  The controller of the DoltDB resource (\<open>src/internal/controller/doltdb_controller.go\<close>): it fetches
  and validates the object and runs the ten phases in order.  A phase that fails with a not-found
  error or with the skip error is passed over; any other error is recorded in the status and ends
  the pass, and so does a result that asks for another pass.
\<close>

section \<open>Config map, services, RBAC\<close>

text \<open>Generating the data of the pods fills in the replication defaults.\<close>

definition reconcileConfigMap :: "env \<Rightarrow> outcome op" where
  "reconcileConfigMap E = do {
     doltdb \<leftarrow> get_db;
     modify_db (\<lambda>d. if spec_Replicas (db_spec d) \<ge> 1 then Replication_fill d else d);
     case GenerateConfigMapData E doltdb of
       Inl err \<Rightarrow> ret (ResultZero, Some (ErrV ''error generating DoltDB ConfigMap data: '' err))
     | Inr config \<Rightarrow> do {
         e \<leftarrow> ConfigMap_Reconcile E \<lparr>cmr_Metadata = Some (db_meta doltdb), cmr_Owner = doltdb,
               cmr_Key = DefaultConfigMapKey doltdb, cmr_Data = config\<rparr>;
         ret (ResultZero, e)
       }
   }"

definition deleteServiceIfExists :: "env \<Rightarrow> namespaced_name \<Rightarrow> goerr option op" where
  "deleteServiceIfExists E key = do {
     r \<leftarrow> k_GetService E key;
     case r of
       Inl err \<Rightarrow> ret (IgnoreNotFound err)
     | Inr svc \<Rightarrow> k_write E (CDeleteService (meta_key (svc_meta svc)))
   }"

definition reconcileBuiltService :: "env \<Rightarrow> string \<Rightarrow> (DoltDB \<Rightarrow> goerr + service) \<Rightarrow> outcome op" where
  "reconcileBuiltService E kind build = do {
     doltdb \<leftarrow> get_db;
     case build doltdb of
       Inl err \<Rightarrow> ret (ResultZero, Some (ErrV (''error building '' @ kind @ '' Service: '') err))
     | Inr svc \<Rightarrow> do { e \<leftarrow> Service_Reconcile E svc; ret (ResultZero, e) }
   }"

definition reconcileInternalService :: "env \<Rightarrow> outcome op" where
  "reconcileInternalService E = reconcileBuiltService E ''internal'' (BuildDoltInternalService E)"

definition reconcilePrimaryService :: "env \<Rightarrow> outcome op" where
  "reconcilePrimaryService E = do {
     doltdb \<leftarrow> get_db;
     if status_CurrentPrimaryPodIndex (db_status doltdb) = None then ret (ResultAfter (1 * Second), None)
     else reconcileBuiltService E ''primary'' (BuildDoltPrimaryService E)
   }"

definition reconcileReaderService :: "env \<Rightarrow> outcome op" where
  "reconcileReaderService E = reconcileBuiltService E ''reader'' (BuildDoltReaderService E)"

definition reconcileStandaloneService :: "env \<Rightarrow> outcome op" where
  "reconcileStandaloneService E = reconcileBuiltService E ''standalone'' (BuildDoltService E)"

text \<open>\<open>fmt.Errorf("...: %v", err)\<close> where \<open>err\<close> may be nil, because only the result was not zero.\<close>

definition errorf :: "string \<Rightarrow> goerr option \<Rightarrow> goerr" where
  "errorf msg err = (case err of Some e \<Rightarrow> ErrV msg e | None \<Rightarrow> ErrNew (msg @ ''<nil>''))"

text \<open>
  A step of \<open>reconcileService\<close>: run it, and continue when its result is zero and its error nil.
\<close>

definition serviceStep :: "string \<Rightarrow> outcome op \<Rightarrow> outcome op \<Rightarrow> outcome op" where
  "serviceStep msg step continue = do {
     (result, err) \<leftarrow> step;
     if \<not> IsZero result \<or> err \<noteq> None then ret (ResultZero, Some (errorf msg err)) else continue
   }"

definition deleteStep :: "env \<Rightarrow> string \<Rightarrow> namespaced_name \<Rightarrow> outcome op" where
  "deleteStep E msg key = do {
     e \<leftarrow> deleteServiceIfExists E key;
     ret (ResultZero, map_option (ErrV msg) e)
   }"

definition reconcileService :: "env \<Rightarrow> outcome op" where
  "reconcileService E =
     serviceStep ''error reconciling internal Service: '' (reconcileInternalService E) (do {
       repl \<leftarrow> call_Replication;
       doltdb \<leftarrow> get_db;
       if repl_Enabled repl then
         serviceStep ''error reconciling primary Service: '' (reconcilePrimaryService E)
          (serviceStep ''error reconciling reader Service: '' (reconcileReaderService E)
            (deleteStep E ''error deleting stale standalone Service: '' (ServiceKey doltdb)))
       else
         serviceStep ''error reconciling standalone Service: '' (reconcileStandaloneService E) (do {
           (r, e) \<leftarrow> deleteStep E ''error deleting stale primary Service: '' (PrimaryServiceKey doltdb);
           if e \<noteq> None then ret (r, e)
           else deleteStep E ''error deleting stale reader Service: '' (ReaderServiceKey doltdb)
         })
     })"

definition reconcileRBAC :: "env \<Rightarrow> outcome op" where
  "reconcileRBAC E = do { e \<leftarrow> ReconcileDoltRBAC E; ret (ResultZero, e) }"

section \<open>Pod labels\<close>

text \<open>The outcome of a failed label patch: a conflict or a vanished pod asks for another pass.\<close>

definition labelPatchFailed :: "goerr \<Rightarrow> outcome" where
  "labelPatchFailed err =
     (if IsConflict err then (ResultRequeue, None)
      else if IsNotFound err then (ResultRequeue, None)
      else (ResultZero, Some err))"

definition rolePodLabels :: "DoltDB \<Rightarrow> int \<Rightarrow> int \<Rightarrow> strmap \<Rightarrow> strmap" where
  "rolePodLabels doltdb primaryIndex podIndex labels =
     (let podLabels = WithStatefulSetPod doltdb podIndex (WithLabels labels NewLabelsBuilder)
      in if podIndex = primaryIndex then WithPodPrimaryRole podLabels else WithPodStandbyRole podLabels)"

definition with_labels :: "pod \<Rightarrow> strmap \<Rightarrow> pod" where
  "with_labels p ls = p\<lparr>pod_meta := (pod_meta p)\<lparr>om_labels := ls\<rparr>\<rparr>"

fun pod_labels_loop :: "env \<Rightarrow> DoltDB \<Rightarrow> int \<Rightarrow> pod list \<Rightarrow> outcome op" where
  "pod_labels_loop E doltdb primaryIndex [] = ret (ResultZero, None)"
| "pod_labels_loop E doltdb primaryIndex (p # ps) =
     (if pod_ip p = [] \<or> pod_node p = [] then pod_labels_loop E doltdb primaryIndex ps
      else case PodIndex (pod_name p) of
        Inl err \<Rightarrow>
          ret (ResultZero, Some (ErrV (''error getting Pod '' @ quoted (pod_name p) @ '' index: '') err))
      | Inr podIndex \<Rightarrow>
          if \<not> PodReady p then pod_labels_loop E doltdb primaryIndex ps
          else do {
            e \<leftarrow> k_write E (CPatchPod p
                   (with_labels p (rolePodLabels doltdb primaryIndex podIndex (om_labels (pod_meta p)))));
            case e of
              Some err \<Rightarrow> ret (labelPatchFailed err)
            | None \<Rightarrow> pod_labels_loop E doltdb primaryIndex ps
          })"

fun clean_labels_loop :: "env \<Rightarrow> pod list \<Rightarrow> outcome op" where
  "clean_labels_loop E [] = ret (ResultZero, None)"
| "clean_labels_loop E (p # ps) =
     (if map_of (om_labels (pod_meta p)) RoleLabel = None then clean_labels_loop E ps
      else do {
        e \<leftarrow> k_write E (CPatchPod p (with_labels p (AList.delete RoleLabel (om_labels (pod_meta p)))));
        case e of
          Some err \<Rightarrow> ret (labelPatchFailed err)
        | None \<Rightarrow> clean_labels_loop E ps
      })"

definition cleanPodRoleLabels :: "env \<Rightarrow> outcome op" where
  "cleanPodRoleLabels E = do {
     doltdb \<leftarrow> get_db;
     r \<leftarrow> k_ListPods E (om_namespace (db_meta doltdb)) (DoltSelector doltdb);
     case r of
       Inl err \<Rightarrow> ret (ResultZero, Some (ErrV ''error listing Pods: '' err))
     | Inr items \<Rightarrow> clean_labels_loop E items
   }"

definition reconcilePodLabels :: "env \<Rightarrow> outcome op" where
  "reconcilePodLabels E = do {
     repl \<leftarrow> call_Replication;
     if \<not> repl_Enabled repl then cleanPodRoleLabels E
     else do {
       doltdb \<leftarrow> get_db;
       case status_CurrentPrimaryPodIndex (db_status doltdb) of
         None \<Rightarrow> ret (ResultAfter (1 * Second), None)
       | Some primaryIndex \<Rightarrow> do {
           r \<leftarrow> k_ListPods E (om_namespace (db_meta doltdb)) (DoltSelector doltdb);
           case r of
             Inl err \<Rightarrow> ret (ResultZero, Some (ErrV ''error listing Pods: '' err))
           | Inr items \<Rightarrow> pod_labels_loop E doltdb primaryIndex items
         }
     }
   }"

section \<open>Scaling down and the disruption budget\<close>

definition reconcilePreScaleDown :: "env \<Rightarrow> outcome op" where
  "reconcilePreScaleDown E = do {
     repl \<leftarrow> call_Replication;
     doltdb \<leftarrow> get_db;
     case (if repl_Enabled repl then status_CurrentPrimaryPodIndex (db_status doltdb) else None) of
       None \<Rightarrow> ret (ResultZero, None)
     | Some primaryIndex \<Rightarrow> do {
         r \<leftarrow> k_GetSts E (ObjectKeyFromObject doltdb);
         case r of
           Inl err \<Rightarrow> ret (ResultZero, IgnoreNotFound err)
         | Inr ss \<Rightarrow>
             if spec_Replicas (db_spec doltdb) \<ge> ptr_Deref (sts_replicas ss) 0 then ret (ResultZero, None)
             else if primaryIndex < spec_Replicas (db_spec doltdb) then ret (ResultZero, None)
             else do {
               e \<leftarrow> PatchDoltDB E (set_primary_PodIndex (Some 0));
               case e of
                 Some err \<Rightarrow>
                   ret (ResultZero,
                        Some (ErrV ''error patching DoltDB to transition primary before scale-down: '' err))
               | None \<Rightarrow> ret (ResultRequeue, None)
             }
       }
   }"

definition reconcilePodDisruptionBudget :: "env \<Rightarrow> outcome op" where
  "reconcilePodDisruptionBudget E = do {
     doltdb \<leftarrow> get_db;
     let key = PodDisruptionBudgetKey doltdb;
     g \<leftarrow> k_GetPDB E key;
     if spec_Replicas (db_spec doltdb) = 1 then
       (case g of
          Inl _ \<Rightarrow> ret (ResultZero, None)
        | Inr existingPDB \<Rightarrow> do {
            e \<leftarrow> k_write E (CDeletePDB (meta_key (pdb_meta existingPDB)));
            ret (ResultZero, map_option (ErrV ''error deleting PodDisruptionBudget: '') e)
          })
     else
       (case BuildPodDisruptionBudget E
               \<lparr>pdbo_Metadata = Some (db_meta doltdb), pdbo_Key = key, pdbo_MinAvailable = Some ''50%'',
                pdbo_MaxUnavailable = None, pdbo_SelectorLabels = DoltSelector doltdb\<rparr> doltdb of
          Inl err \<Rightarrow> ret (ResultZero, Some (ErrV ''error building PodDisruptionBudget: '' err))
        | Inr pdb \<Rightarrow> do {
            e \<leftarrow> (case g of
                   Inr existingPDB \<Rightarrow>
                     k_write E (CPatchPDB existingPDB
                       (existingPDB\<lparr>pdb_min_available := pdb_min_available pdb,
                          pdb_max_unavailable := pdb_max_unavailable pdb, pdb_selector := pdb_selector pdb,
                          pdb_meta := (pdb_meta existingPDB)\<lparr>om_labels := om_labels (pdb_meta pdb)\<rparr>\<rparr>))
                 | Inl _ \<Rightarrow> k_write E (CCreatePDB pdb));
            ret (ResultZero, e)
          })
   }"

section \<open>The phases\<close>

definition shouldSkipPhase :: "goerr \<Rightarrow> bool" where
  "shouldSkipPhase err \<longleftrightarrow> IsNotFound err \<or> errors_Is err (errText ErrSkipReconciliationPhase)"

type_synonym reconcilePhaseDoltDB = "string \<times> outcome op"

definition failedPhase :: "env \<Rightarrow> string \<Rightarrow> goerr \<Rightarrow> outcome op" where
  "failedPhase E name err = do {
     p \<leftarrow> PatchStatus E (on_status (Ready_PatcherFailed (''Error reconciling '' @ name @ '': '' @ errText err)
            (SetCondition E)));
     let patchErr = (case p of None \<Rightarrow> None | Some e \<Rightarrow> if IsNotFound e then None else Some e);
     ret (ResultZero, map_option (ErrV (''error reconciling '' @ name @ '': '')) (errors_Join [Some err, patchErr]))
   }"

fun run_db_phases :: "env \<Rightarrow> reconcilePhaseDoltDB list \<Rightarrow> outcome op" where
  "run_db_phases E [] = ret (ResultZero, None)"
| "run_db_phases E ((name, phase) # rest) = do {
     (result, err) \<leftarrow> phase;
     case err of
       Some e \<Rightarrow> if shouldSkipPhase e then run_db_phases E rest else failedPhase E name e
     | None \<Rightarrow> if \<not> IsZero result then ret (result, None) else run_db_phases E rest
   }"

definition doltdbPhases :: "env \<Rightarrow> reconcilePhaseDoltDB list" where
  "doltdbPhases E =
     [(''Status'', Status_Reconcile E),
      (''ConfigMap'', reconcileConfigMap E),
      (''RBAC'', reconcileRBAC E),
      (''Storage'', Storage_Reconcile E),
      (''PreScaleDown'', reconcilePreScaleDown E),
      (''StatefulSet'', Sts_Reconcile E),
      (''PodDisruptionBudget'', reconcilePodDisruptionBudget E),
      (''Service'', reconcileService E),
      (''Replication'', Replication_Reconcile E),
      (''Labels'', reconcilePodLabels E)]"

definition ConditionReasonInvalidSpec :: string where
  "ConditionReasonInvalidSpec = ''InvalidSpec''"

text \<open>
  \<open>Reconcile\<close>.  The fetched object becomes the object of the run; validation calls \<open>Replication()\<close>,
  and so fills in its defaults, only for a single replica.
\<close>

definition Doltdb_Reconcile :: "env \<Rightarrow> namespaced_name \<Rightarrow> outcome op" where
  "Doltdb_Reconcile E req = do {
     r \<leftarrow> k_GetDoltDB E req;
     case r of
       Inl err \<Rightarrow> ret (ResultZero, IgnoreNotFound err)
     | Inr fetched \<Rightarrow> do {
         modify_db (\<lambda>_. if spec_Replicas (db_spec fetched) = 1 then Replication_fill fetched else fetched);
         case ValidateReplicationSpec fetched of
           Some err \<Rightarrow> do {
             p \<leftarrow> PatchStatus E (on_status (SetCondition E (Condition ConditionTypeReady CondFalse
                    ConditionReasonInvalidSpec (''Invalid spec: '' @ errText err))));
             ret (ResultZero, map_option (ErrV ''error patching status: '') p)
           }
         | None \<Rightarrow> run_db_phases E (doltdbPhases E)
       }
   }"

end
