(* ===== verification/Objects_Properties.thy ===== *)
theory Objects_Properties
  imports Doltdb_Controller Request_Rules
begin

text \<open>
  The properties of the objects that a DoltDB owns: which pods the services select, how service ports
  are merged, the hash of the configuration, the selector of the stateful set, and the RBAC and
  disruption budget reconcilers.
\<close>

section \<open>Selectors and labels\<close>

text \<open>A label selector selects the objects that carry all of its labels.\<close>

definition selects :: "strmap \<Rightarrow> strmap \<Rightarrow> bool" where
  "selects sel ls \<longleftrightarrow> list_all (\<lambda>k. map_of ls k = map_of sel k) (map fst sel)"

lemma selects_iff: "selects sel ls \<longleftrightarrow> map_of sel \<subseteq>\<^sub>m map_of ls"
  by (auto simp: selects_def list_all_iff map_le_def dom_map_of_conv_image_fst)

lemma label_keys_distinct [simp]:
  "RoleLabel \<noteq> appLabel" "appLabel \<noteq> RoleLabel" "statefulSetPodName \<noteq> appLabel" "appLabel \<noteq> statefulSetPodName"
  "RoleLabel \<noteq> statefulSetPodName" "statefulSetPodName \<noteq> RoleLabel" "versionLabel \<noteq> appLabel" "appLabel \<noteq> versionLabel"
  by (simp_all add: RoleLabel_def appLabel_def statefulSetPodName_def versionLabel_def)

lemma map_of_DoltSelector: "map_of (DoltSelector d) = [appLabel \<mapsto> om_name (db_meta d)]"
  by (simp add: DoltSelector_def WithDoltSelectorLabels_def WithApp_def NewLabelsBuilder_def)

lemma selects_DoltSelector: "selects (DoltSelector d) ls \<longleftrightarrow> map_of ls appLabel = Some (om_name (db_meta d))"
  by (auto simp: selects_iff map_of_DoltSelector map_le_def)

lemma map_of_rev_distinct: "distinct (map fst xs) \<Longrightarrow> map_of (rev xs) = map_of xs"
  by (rule map_of_eqI) (auto simp: rev_map [symmetric] dest: map_of_is_SomeI intro: map_of_SomeD)

lemma map_of_rolePodLabels:
  "distinct (map fst ls) \<Longrightarrow> map_of (rolePodLabels d i j ls) =
     (map_of ls)(statefulSetPodName \<mapsto> PodName (db_meta d) j,
       RoleLabel \<mapsto> (if j = i then PrimaryRoleValue else StandbyRoleValue))"
  by (simp add: rolePodLabels_def Let_def WithStatefulSetPod_def WithPodPrimaryRole_def WithPodStandbyRole_def
      WithLabels_def NewLabelsBuilder_def map_of_merge_map map_of_rev_distinct fun_upd_twist [of RoleLabel])

lemma selects_primary:
  "BuildDoltPrimaryService L d = Inr svc \<Longrightarrow> status_CurrentPrimaryPodIndex (db_status d) = Some i \<Longrightarrow>
   map_of (svc_selector svc) = [appLabel \<mapsto> om_name (db_meta d), RoleLabel \<mapsto> PrimaryRoleValue,
     statefulSetPodName \<mapsto> PodName (db_meta d) i]"
  by (auto simp: BuildDoltPrimaryService_def withOwner_def clusterIPService_def WithStatefulSetPod_def
      WithPodPrimaryRole_def map_of_DoltSelector split: sum.splits)

lemma selects_reader:
  "BuildDoltReaderService L d = Inr svc \<Longrightarrow>
   map_of (svc_selector svc) = [appLabel \<mapsto> om_name (db_meta d), RoleLabel \<mapsto> StandbyRoleValue]"
  by (auto simp: BuildDoltReaderService_def withOwner_def clusterIPService_def
      WithPodStandbyRole_def map_of_DoltSelector split: sum.splits)

section \<open>Ports\<close>

definition port_numbers :: "service \<Rightarrow> int set" where
  "port_numbers svc = sp_port ` set (svc_ports svc)"

lemma add_ports_fold:
  "fold (\<lambda>p acc. add_port (svc_ports existing) acc p) ps acc = acc @ filter (\<lambda>p. sp_port p \<notin> port_numbers existing) ps"
proof (induction ps arbitrary: acc)
  case (Cons p ps)
  have "list_ex (\<lambda>q. sp_port q = sp_port p) (svc_ports existing) \<longleftrightarrow> sp_port p \<in> port_numbers existing"
    unfolding list_ex_iff port_numbers_def image_iff by metis
  with Cons show ?case by (simp add: add_port_def)
qed simp

text \<open>What happens to the node port of every port.\<close>

definition node_port_for :: "string \<Rightarrow> service_port \<Rightarrow> service_port" where
  "node_port_for ty p = (if ty \<noteq> ''NodePort'' \<and> ty \<noteq> ''LoadBalancer'' then p\<lparr>sp_node_port := 0\<rparr> else p)"

lemma updateServicePorts_ports:
  "svc_ports existing \<noteq> [] \<Longrightarrow>
   svc_ports (updateServicePorts existing desired) = map (node_port_for (svc_type desired))
     (svc_ports existing @ filter (\<lambda>p. sp_port p \<notin> port_numbers existing) (svc_ports desired))"
  by (simp add: updateServicePorts_def add_ports_fold Let_def node_port_for_def fun_eq_iff cong: map_cong)

lemma sp_port_node_port_for [simp]: "sp_port (node_port_for ty p) = sp_port p"
  by (simp add: node_port_for_def)

lemma node_port_for_idem [simp]: "node_port_for ty (node_port_for ty p) = node_port_for ty p"
  by (simp add: node_port_for_def)

lemma port_numbers_update:
  "port_numbers (updateServicePorts existing desired) = port_numbers existing \<union> port_numbers desired"
proof (cases "svc_ports existing = []")
  case True
  then show ?thesis by (simp add: updateServicePorts_def port_numbers_def)
next
  case False
  then have "port_numbers (updateServicePorts existing desired) =
      port_numbers existing \<union> sp_port ` {p \<in> set (svc_ports desired). sp_port p \<notin> port_numbers existing}"
    by (simp add: port_numbers_def updateServicePorts_ports image_Un image_image)
  then show ?thesis
    by (auto simp: port_numbers_def)
qed

lemma updateServicePorts_frame:
  "updateServicePorts existing desired = existing\<lparr>svc_ports := svc_ports (updateServicePorts existing desired)\<rparr>"
  by (simp add: updateServicePorts_def Let_def)

text \<open>Ports of the operator carry no node port, so setting them up again changes nothing.\<close>

lemma updateServicePorts_idem:
  assumes "list_all (\<lambda>p. sp_node_port p = 0) (svc_ports desired)"
  shows "updateServicePorts (updateServicePorts existing desired) desired = updateServicePorts existing desired"
proof -
  let ?u = "updateServicePorts existing desired"
  have none: "filter (\<lambda>p. sp_port p \<notin> port_numbers ?u) (svc_ports desired) = []"
    by (auto simp: port_numbers_update filter_empty_conv) (simp add: port_numbers_def)
  have "map (node_port_for (svc_type desired)) (svc_ports ?u) = svc_ports ?u"
  proof (cases "svc_ports existing = []")
    case True
    have "node_port_for (svc_type desired) p = p" if "p \<in> set (svc_ports desired)" for p
      using assms that by (simp add: node_port_for_def list_all_iff)
    with True show ?thesis by (simp add: updateServicePorts_def map_idI)
  next
    case False
    then show ?thesis by (simp add: updateServicePorts_ports)
  qed
  then have "svc_ports ?u \<noteq> [] \<Longrightarrow> svc_ports (updateServicePorts ?u desired) = svc_ports ?u"
    by (simp add: updateServicePorts_ports none)
  moreover have "svc_ports ?u = [] \<Longrightarrow> svc_ports desired = []"
    using port_numbers_update [of existing desired] by (auto simp: port_numbers_def)
  moreover have "svc_ports ?u = [] \<Longrightarrow> svc_ports (updateServicePorts ?u desired) = svc_ports desired"
    by (simp add: updateServicePorts_def)
  ultimately have same: "svc_ports (updateServicePorts ?u desired) = svc_ports ?u"
    by (cases "svc_ports ?u = []") simp_all
  have "updateServicePorts ?u desired = ?u\<lparr>svc_ports := svc_ports (updateServicePorts ?u desired)\<rparr>"
    by (rule updateServicePorts_frame)
  also have "\<dots> = ?u"
    unfolding same by simp
  finally show ?thesis .
qed

section \<open>Hash of the configuration\<close>

lemma HashConfigMapData_cong:
  assumes "map_of data = map_of data'"
  shows "HashConfigMapData L data = HashConfigMapData L data'"
proof -
  have keys: "set (map fst data) = set (map fst data')"
    using assms by (metis dom_map_of_conv_image_fst set_map)
  then have "sort (remdups (map fst data)) = sort (remdups (map fst data'))"
    by (simp add: sorted_list_of_set_sort_remdups [symmetric] del: set_map)
  moreover have "data = [] \<longleftrightarrow> data' = []"
    using keys by auto
  ultimately show ?thesis
    using assms by (simp add: HashConfigMapData_def)
qed

section \<open>Cluster role bindings\<close>

definition auth_delegator_key :: "DoltDB \<Rightarrow> namespaced_name" where
  "auth_delegator_key d = nn (authDelegatorRoleNameOrDefault d @ '':auth-delegator'') (om_namespace (db_meta d))"

definition binds_cluster :: "call \<Rightarrow> bool" where
  "binds_cluster c = (case c of CCreateClusterRoleBinding _ \<Rightarrow> True | _ \<Rightarrow> False)"

lemma ReconcileDoltRBAC_foreign:
  assumes "\<And>h. \<exists>crb. env_GetClusterRoleBinding E h (auth_delegator_key (the_db (obj s))) = Inr crb \<and>
      om_uid (db_meta (the_db (obj s))) \<notin> set (om_owner_uids (rb_meta crb))"
  shows "wp (ReconcileDoltRBAC E) (\<lambda>r s'. r \<noteq> None \<and> (\<exists>t. trace s' = trace s @ t \<and> filter binds_cluster t = [])) s"
proof -
  have refused: "wp (reconcileClusterRoleBinding E (auth_delegator_key (the_db (obj s))) (the_db (obj s)) sa ref)
      (\<lambda>r s'. r \<noteq> None \<and> trace s' = trace s1 @ [CGetClusterRoleBinding (auth_delegator_key (the_db (obj s)))]) s1" for sa ref s1
  proof -
    obtain crb where "env_GetClusterRoleBinding E (trace s1) (auth_delegator_key (the_db (obj s))) = Inr crb"
        "om_uid (db_meta (the_db (obj s))) \<notin> set (om_owner_uids (rb_meta crb))"
      using assms by blast
    then show ?thesis
      by (auto simp: reconcileClusterRoleBinding_def wp_simps isOwnedBy_def list_ex_iff)
  qed
  have quiet: "emits (\<lambda>c. \<not> binds_cluster c) (ReconcileServiceAccount E key d)" "emits (\<lambda>c. \<not> binds_cluster c) (reconcileRole E key d)"
      "emits (\<lambda>c. \<not> binds_cluster c) (reconcileRoleBinding E key d sa ref)" for key d sa ref
    unfolding ReconcileServiceAccount_def patchServiceAccountAnnotations_def reconcileRole_def reconcileRoleBinding_def
    by (intro emits_intros; simp add: binds_cluster_def)+
  have step: "wp p (\<lambda>_ s'. silent binds_cluster s s') s1" if "emits (\<lambda>c. \<not> binds_cluster c) p" "silent binds_cluster s s1"
    for p :: "'a op" and s1
    by (rule emits_silent [OF that(1)]) (rule silent_trans [OF that(2)])
  have last_step: "wp (reconcileClusterRoleBinding E (auth_delegator_key (the_db (obj s))) (the_db (obj s)) sa ref)
      (\<lambda>r s'. r \<noteq> None \<and> silent binds_cluster s s') s1" if "silent binds_cluster s s1" for sa ref s1
    by (rule wp_mono [OF refused]) (use that in \<open>auto simp: silent_def binds_cluster_def\<close>)
  have "wp (ReconcileDoltRBAC E) (\<lambda>r s'. r \<noteq> None \<and> silent binds_cluster s s') s"
    unfolding ReconcileDoltRBAC_def auth_delegator_key_def [symmetric]
    by (auto simp: wp_simps Let_def split: sum.split option.split
        intro!: wp_mono [OF step [OF quiet(1)]] wp_mono [OF step [OF quiet(2)]] wp_mono [OF step [OF quiet(3)]] wp_mono [OF last_step])
  then show ?thesis
    by (simp add: silent_def)
qed

section \<open>Properties\<close>

text \<open>
  C27: Traffic follows the role labels.  Once a pod carries the labels that the operator writes, the
  primary service selects it exactly when it is the recorded primary, and the reader service exactly
  when it is not; the labels that were there before, among them the selector label, are kept.
\<close>

theorem services_route_by_role:
  assumes "BuildDoltPrimaryService L d = Inr primarySvc" and "BuildDoltReaderService L d = Inr readerSvc"
    and "status_CurrentPrimaryPodIndex (db_status d) = Some i" and "0 \<le> i" "0 \<le> j"
    and "distinct (map fst ls)" and "selects (DoltSelector d) ls"
  shows "(selects (svc_selector primarySvc) (rolePodLabels d i j ls) \<longleftrightarrow> j = i) \<and>
     (selects (svc_selector readerSvc) (rolePodLabels d i j ls) \<longleftrightarrow> j \<noteq> i) \<and>
     selects (DoltSelector d) (rolePodLabels d i j ls)"
proof -
  have "map_of ls appLabel = Some (om_name (db_meta d))"
    using assms(7) by (simp add: selects_DoltSelector)
  then show ?thesis
    using assms(4,5)
    by (auto simp: selects_iff selects_primary [OF assms(1,3)] selects_reader [OF assms(2)] map_of_DoltSelector
        map_of_rolePodLabels [OF assms(6)] map_le_def PodName_inject)
qed

theorem services_route_by_role_witness:
  "\<exists>primarySvc readerSvc. BuildDoltPrimaryService ref_env ref_db = Inr primarySvc \<and>
     BuildDoltReaderService ref_env ref_db = Inr readerSvc \<and>
     selects (svc_selector primarySvc) (rolePodLabels ref_db 0 0 [(appLabel, ''dolt'')]) \<and>
     \<not> selects (svc_selector primarySvc) (rolePodLabels ref_db 0 1 [(appLabel, ''dolt'')]) \<and>
     selects (svc_selector readerSvc) (rolePodLabels ref_db 0 1 [(appLabel, ''dolt'')])"
proof -
  have i: "status_CurrentPrimaryPodIndex (db_status ref_db) = Some 0"
    by (simp add: ref_db_def ref_status_def)
  obtain p where p: "BuildDoltPrimaryService ref_env ref_db = Inr p"
    by (simp add: BuildDoltPrimaryService_def withOwner_def i ref_env_def)
  obtain r where r: "BuildDoltReaderService ref_env ref_db = Inr r"
    by (simp add: BuildDoltReaderService_def withOwner_def ref_env_def)
  have sel: "selects (DoltSelector ref_db) [(appLabel, ''dolt'')]"
    by (simp add: selects_DoltSelector ref_db_def ref_meta_def)
  show ?thesis
    using services_route_by_role [OF p r i, of 0 "[(appLabel, ''dolt'')]"]
      services_route_by_role [OF p r i, of 1 "[(appLabel, ''dolt'')]"] p r sel by simp
qed

text \<open>
  Merging the ports of a service loses none and is idempotent: afterwards the port numbers are
  those of the existing service and those desired, and a second reconcile leaves the ports as they are.
\<close>

lemma service_ports_merge:
  assumes "list_all (\<lambda>p. sp_node_port p = 0) (svc_ports desired)"
  shows "port_numbers (updateServicePorts existing desired) = port_numbers existing \<union> port_numbers desired \<and>
     updateServicePorts (updateServicePorts existing desired) desired = updateServicePorts existing desired"
  by (simp add: port_numbers_update updateServicePorts_idem [OF assms])

text \<open>
  C28: The hash of the configuration depends only on the content of the map, not on the order in which
  the map is visited.
\<close>

theorem config_hash_of_content:
  assumes "map_of data = map_of data'"
  shows "HashConfigMapData L data = HashConfigMapData L data'"
  by (rule HashConfigMapData_cong [OF assms])

theorem config_hash_of_content_witness:
  "HashConfigMapData ref_env [(''a'', ''x''), (''b'', ''y'')] = HashConfigMapData ref_env [(''b'', ''y''), (''a'', ''x'')]"
  by (rule config_hash_of_content) (simp add: fun_upd_twist)

text \<open>
  C29: A stateful set that is built selects its own pods, asks for the desired replicas, and has exactly
  one claim template: the one of the data volume, which asks for the desired size.
\<close>

theorem stateful_set_well_formed:
  assumes "BuildDoltStatefulSet L key d hash = Inr ss"
  shows "selects (sts_selector ss) (om_labels (pt_meta (sts_template ss))) \<and>
     sts_replicas ss = Some (spec_Replicas (db_spec d)) \<and>
     GetStorageSize (sts_claims ss) DoltDataVolume = Some (ptr_Deref (storage_Size (spec_Storage (db_spec d))) ''1'') \<and>
     (\<exists>claim. sts_claims ss = [claim] \<and> om_name (pvc_meta claim) = DoltDataVolume \<and>
        pvc_request claim = Some (ptr_Deref (storage_Size (spec_Storage (db_spec d))) ''1''))"
proof -
  have app: "map_of (merge_map m (WithVersion v (DoltSelector d))) appLabel = Some (om_name (db_meta d))" for m v
    by (simp add: map_of_merge_map WithVersion_def DoltSelector_def WithDoltSelectorLabels_def WithApp_def
        NewLabelsBuilder_def)
  from assms obtain m' meta where ss: "ss = \<lparr>sts_meta = m', sts_selector = DoltSelector d,
      sts_service_name = nn_name (InternalServiceKey d), sts_update_strategy = doltStatefulSetUpdateStrategy d,
      sts_replicas = Some (spec_Replicas (db_spec d)),
      sts_template = doltPodTemplate meta d (if spec_UpdateStrategy (db_spec d) = NeverUpdateType then [] else hash),
      sts_claims = doltVolumeClaimTemplates meta d, sts_retention = Some (doltPVCRetentionPolicy d),
      sts_status_replicas = 0, sts_ready_replicas = 0, sts_update_revision = []\<rparr>"
    by (auto simp: BuildDoltStatefulSet_def withOwner_def Let_def split: sum.splits)
  show ?thesis
    unfolding ss
    by (simp add: selects_DoltSelector doltPodTemplate_def Let_def MetaWithAnnotations_def MetaWithLabels_def app
        doltVolumeClaimTemplates_def MetaWithMetadata_def NewMetadataBuilder_def)
qed

theorem stateful_set_well_formed_witness:
  "\<exists>ss. BuildDoltStatefulSet ref_env (nn ''dolt'' ''ns'') ref_db ''h'' = Inr ss \<and> sts_replicas ss = Some 3 \<and>
     GetStorageSize (sts_claims ss) DoltDataVolume = Some ''10Gi'' \<and>
     (\<exists>claim. sts_claims ss = [claim] \<and> pvc_request claim = Some ''10Gi'')"
proof -
  obtain ss where ss: "BuildDoltStatefulSet ref_env (nn ''dolt'' ''ns'') ref_db ''h'' = Inr ss"
    by (simp add: BuildDoltStatefulSet_def withOwner_def ref_env_def Let_def)
  from stateful_set_well_formed [OF this] ss show ?thesis
    by (auto simp: ref_db_def ref_spec_def)
qed

text \<open>
  C30: A cluster role binding of another owner is not taken over: when one with the name of the binding
  exists and is not owned by the DoltDB, the RBAC reconciler fails and creates no cluster role binding.
\<close>

theorem foreign_binding_refused:
  assumes "\<And>h. \<exists>crb. env_GetClusterRoleBinding E h (auth_delegator_key (the_db (obj s))) = Inr crb \<and>
      om_uid (db_meta (the_db (obj s))) \<notin> set (om_owner_uids (rb_meta crb))"
    and "run_state (ReconcileDoltRBAC E) s = (r, s')"
  shows "r \<noteq> None \<and> (\<exists>t. trace s' = trace s @ t \<and> filter binds_cluster t = [])"
  using wpI [OF ReconcileDoltRBAC_foreign [OF assms(1)] assms(2)] .

theorem foreign_binding_refused_witness:
  "\<exists>r s'. run_state (ReconcileDoltRBAC (ref_env\<lparr>env_GetClusterRoleBinding := (\<lambda>h k. Inr \<lparr>rb_meta = zero_meta,
       rb_subjects = [], rb_role_ref = \<lparr>ref_group = [], ref_kind = [], ref_name = []\<rparr>\<rparr>)\<rparr>)) (ref_cfg ref_db) = (r, s') \<and> r \<noteq> None"
proof -
  let ?E = "ref_env\<lparr>env_GetClusterRoleBinding := (\<lambda>h k. Inr \<lparr>rb_meta = zero_meta,
       rb_subjects = [], rb_role_ref = \<lparr>ref_group = [], ref_kind = [], ref_name = []\<rparr>\<rparr>)\<rparr>"
  obtain r s' where run: "run_state (ReconcileDoltRBAC ?E) (ref_cfg ref_db) = (r, s')"
    by (cases "run_state (ReconcileDoltRBAC ?E) (ref_cfg ref_db)")
  from foreign_binding_refused [OF _ run] run show ?thesis
    by (auto simp: zero_meta_def)
qed

end
