(* ===== verification/Status_Properties.thy ===== *)
theory Status_Properties
  imports Cluster_Status Reference_Env
begin

text \<open>
  The properties of the status reconciler: what a pass may change in the status, and that it never
  competes with a switchover or a resize that is under way.
\<close>

section \<open>The loop over the server states\<close>

text \<open>What a list of reported states may contribute, for the recorded primary and epoch of \<open>d\<close>.\<close>

definition epoch_reported :: "DoltDB \<Rightarrow> DBState list \<Rightarrow> int \<Rightarrow> bool" where
  "epoch_reported d states e \<longleftrightarrow> e \<in> dbs_Epoch ` set states \<and> -1 < e \<and>
     ptr_Deref (status_ReplicationEpoch (db_status d)) 0 < e"

definition roles_follow :: "DoltDB \<Rightarrow> ReplicationStatus \<Rightarrow> bool" where
  "roles_follow d rs \<longleftrightarrow> (\<forall>p. map_of rs p = Some ReplicationStatePrimary \<longrightarrow>
     status_CurrentPrimary (db_status d) = None \<or> status_CurrentPrimary (db_status d) = Some p)"

lemma epoch_reported_Cons: "epoch_reported d states e \<Longrightarrow> epoch_reported d (st # states) e"
  by (simp add: epoch_reported_def)

lemma roles_follow_update:
  assumes "roles_follow d rs"
    and "v = ReplicationStatePrimary \<Longrightarrow>
      status_CurrentPrimary (db_status d) = None \<or> status_CurrentPrimary (db_status d) = Some p"
  shows "roles_follow d (AList.update p v rs)"
  using assms by (auto simp: roles_follow_def)

definition reads_roles :: "env \<Rightarrow> (call, dbst) cfg \<Rightarrow> int \<Rightarrow> DBState list \<Rightarrow> ReplicationStatus \<times> int \<Rightarrow> (call, dbst) cfg \<Rightarrow> bool" where
  "reads_roles E s hi states r s' \<longleftrightarrow> framed E is_query s s' \<and> roles_follow (the_db (obj s)) (fst r) \<and>
     (snd r = hi \<or> epoch_reported (the_db (obj s)) states (snd r))"

lemma framed_status:
  "framed E P s s' \<Longrightarrow> db_status (the_db (obj s')) = db_status (the_db (obj s))"
  by (simp add: framed_def eq_fillD)

lemma reads_roles_trans:
  assumes "framed E is_query s s1" and "reads_roles E s1 hi' states r s'"
    and "hi' = hi \<or> epoch_reported (the_db (obj s)) (st # states) hi'"
  shows "reads_roles E s hi (st # states) r s'"
  using assms framed_trans [OF assms(1), of s'] epoch_reported_Cons
  by (auto simp: reads_roles_def roles_follow_def epoch_reported_def framed_status [OF assms(1)])

lemma replication_status_loop_wp:
  assumes "roles_follow (the_db (obj s)) rs" and "-1 \<le> hi"
  shows "wp (replication_status_loop E rs hi xs) (reads_roles E s hi (map snd xs)) s"
  using assms
proof (induction xs arbitrary: rs hi s)
  case Nil
  then show ?case by (simp add: wp_simps reads_roles_def)
next
  case (Cons x xs)
  obtain i st where x: "x = (i, st)" by (cases x)
  let ?d = "the_db (obj s)"
  let ?hi = "if dbs_Epoch st > hi \<and> dbs_Epoch st > ptr_Deref (status_ReplicationEpoch (db_status ?d)) 0
    then dbs_Epoch st else hi"
  have rest: "wp (replication_status_loop E rs' hi' xs) (reads_roles E s hi (st # map snd xs)) s1"
    if "framed E is_query s s1" "roles_follow ?d rs'" "hi' = hi \<or> hi' = ?hi" for rs' hi' s1
  proof (rule wp_mono [OF Cons.IH])
    show "roles_follow (the_db (obj s1)) rs'"
      using that(2) by (simp add: roles_follow_def framed_status [OF that(1)])
    show "-1 \<le> hi'"
      using that(3) Cons.prems(2) by (auto split: if_splits)
    show "reads_roles E s hi (st # map snd xs) r s'" if "reads_roles E s1 hi' (map snd xs) r s'" for r s'
      by (rule reads_roles_trans [OF \<open>framed E is_query s s1\<close> that])
        (use \<open>hi' = hi \<or> hi' = ?hi\<close> Cons.prems(2) in \<open>auto simp: epoch_reported_def split: if_splits\<close>)
  qed
  have health: "keeps E is_query (IsDoltDBReplicaHealthy E i)"
    by (intro keeps_intros)
  show ?case
    using Cons.prems(1)
    by (auto simp: x wp_simps Let_def split: sum.split
        intro!: keeps_wp [OF health] rest roles_follow_update)
qed


lemma getReplicationStatusAndEpoch_wp:
  "wp (getReplicationStatusAndEpoch E states)
     (\<lambda>(rs, e) s'. framed E is_query s s' \<and> (\<forall>r. rs = Some r \<longrightarrow> roles_follow (the_db (obj s)) r) \<and>
        (e = -1 \<or> epoch_reported (the_db (obj s)) states e)) s"
proof -
  let ?s1 = "s\<lparr>obj := (obj s)\<lparr>the_db := Replication_fill (the_db (obj s))\<rparr>\<rparr>"
  have reported: "epoch_reported d (map snd (zip xs states)) e \<Longrightarrow> epoch_reported d states e" for d e and xs :: "int list"
    by (auto simp: epoch_reported_def dest: set_zip_rightD)
  have loop: "wp (replication_status_loop E [] (-1) (zip xs states)) (reads_roles E ?s1 (-1) (map snd (zip xs states))) ?s1" for xs
    by (rule replication_status_loop_wp) (simp_all add: roles_follow_def)
  have result: "framed E is_query s s' \<and> roles_follow (the_db (obj s)) (fst r) \<and>
      (snd r = -1 \<or> epoch_reported (the_db (obj s)) states (snd r))"
    if "reads_roles E ?s1 (-1) (map snd (zip xs states)) r s'" for r s' and xs :: "int list"
    using that framed_trans [OF framed_db] reported
    by (auto simp: reads_roles_def roles_follow_def epoch_reported_def dest: set_zip_rightD)
  show ?thesis
    unfolding getReplicationStatusAndEpoch_def
    by (auto simp: wp_simps framed_db split: prod.split dest: result intro!: wp_mono [OF loop])
qed

section \<open>What the patcher changes\<close>

text \<open>A change of the conditions \<open>Updated\<close> and \<open>Ready\<close> only.\<close>

definition conditions_update :: "'x lib_scheme \<Rightarrow> DoltDB \<Rightarrow> DoltDB \<Rightarrow> bool" where
  "conditions_update L d d' \<longleftrightarrow> (\<exists>cs. d' = on_status (\<lambda>s. s\<lparr>status_Conditions := cs\<rparr>) d \<and>
     (\<forall>ty. ty \<noteq> ConditionTypeUpdated \<and> ty \<noteq> ConditionTypeReady \<longrightarrow>
        lib_FindStatusCondition L cs ty = lib_FindStatusCondition L (status_Conditions (db_status d)) ty))"

lemma conditions_update_refl [simp]: "conditions_update L d d"
  by (auto simp: conditions_update_def on_status_def intro!: exI [of _ "status_Conditions (db_status d)"])

lemma conditions_update_trans:
  "conditions_update L d d' \<Longrightarrow> conditions_update L d' d'' \<Longrightarrow> conditions_update L d d''"
  by (auto simp: conditions_update_def on_status_def)

context condition_library
begin

lemma conditions_update_set:
  assumes "\<exists>c. f (db_status d) = SetCondition L c (db_status d) \<and> cond_type c \<in> {ConditionTypeUpdated, ConditionTypeReady}"
  shows "conditions_update L d (on_status f d)"
proof -
  obtain c where "f (db_status d) = SetCondition L c (db_status d)" "cond_type c \<in> {ConditionTypeUpdated, ConditionTypeReady}"
    using assms by blast
  then show ?thesis
    by (auto simp: conditions_update_def on_status_def SetCondition_def lib_find_set
        intro!: exI [of _ "lib_SetStatusCondition L (status_Conditions (db_status d)) c"])
qed

lemma conditions_update_setters:
  "conditions_update L d (on_status (SetUpdated (SetCondition L)) d)"
  "conditions_update L d (on_status (SetUpdating (SetCondition L)) d)"
  "conditions_update L d (on_status (SetPendingUpdate (SetCondition L)) d)"
  "conditions_update L d (on_status (\<lambda>s. SetReadyWithDoltDB L (SetCondition L) s ss d) d)"
  unfolding SetReadyWithDoltDB_def setter_defs by (rule conditions_update_set, force)+

lemma conditions_update_states:
  assumes "conditions_update L d d'"
  shows "IsSwitchingPrimary L d' = IsSwitchingPrimary L d" "IsResizingStorage L d' = IsResizingStorage L d"
  using assms
  by (auto simp: conditions_update_def on_status_def IsSwitchingPrimary_def IsResizingStorage_def lib_is_false)

end

text \<open>
  What a pass changes beside the conditions: a recorded primary stays, the epoch only moves up to one
  that a server reported, and no pod but the recorded primary is listed as primary.
\<close>

definition record_update :: "DBState list \<Rightarrow> DoltDB \<Rightarrow> DoltDB \<Rightarrow> bool" where
  "record_update states d d' \<longleftrightarrow>
     db_meta d' = db_meta d \<and> Replication_fill d' = (Replication_fill d)\<lparr>db_status := db_status d'\<rparr> \<and>
     (status_CurrentPrimaryPodIndex (db_status d) \<noteq> None \<or> status_CurrentPrimary (db_status d) \<noteq> None \<longrightarrow>
        status_CurrentPrimaryPodIndex (db_status d') = status_CurrentPrimaryPodIndex (db_status d) \<and>
        status_CurrentPrimary (db_status d') = status_CurrentPrimary (db_status d)) \<and>
     (status_ReplicationEpoch (db_status d') = status_ReplicationEpoch (db_status d) \<or>
      (\<exists>e. status_ReplicationEpoch (db_status d') = Some e \<and> epoch_reported d states e)) \<and>
     (status_ReplicationStatus (db_status d') = status_ReplicationStatus (db_status d) \<or>
      (\<exists>rs. status_ReplicationStatus (db_status d') = Some rs \<and> roles_follow d rs))"

lemma Replication_fill_with_status [simp]:
  "Replication_fill (d\<lparr>db_status := st\<rparr>) = (Replication_fill d)\<lparr>db_status := st\<rparr>"
  by (simp add: Replication_fill_def)

lemma defaultPrimary_cases:
  obtains "defaultPrimary d = d"
  | i where "status_CurrentPrimaryPodIndex (db_status d) = None" "status_CurrentPrimary (db_status d) = None"
      "defaultPrimary d = on_status (UpdateCurrentPrimary d i) (Replication_fill d)"
proof (cases "status_CurrentPrimaryPodIndex (db_status d) \<noteq> None \<or> status_CurrentPrimary (db_status d) \<noteq> None")
  case True
  then show thesis by (intro that(1)) (simp add: defaultPrimary_def)
next
  case False
  then show thesis
    by (intro that(2) [of "if ReplEnabled d then ptr_Deref (primary_PodIndex (ReplPrimary d)) 0 else 0"])
      (simp_all add: defaultPrimary_def on_status_def UpdateCurrentPrimary_def Let_def)
qed

lemma statusFields_record:
  assumes "\<forall>r. rs = Some r \<longrightarrow> roles_follow d r" and "e = -1 \<or> epoch_reported d states e"
  shows "record_update states d (statusFields ss rs e d) \<and>
    status_Conditions (db_status (statusFields ss rs e d)) = status_Conditions (db_status d)"
proof -
  let ?d = "on_status (\<lambda>s. s\<lparr>status_Replicas := sts_ready_replicas ss\<rparr>) d"
  have up: "UpdateReplicationEpoch e st = st\<lparr>status_ReplicationEpoch := Some e\<rparr>"
    if "epoch_reported d states e" "status_ReplicationEpoch st = status_ReplicationEpoch (db_status d)" for st
    using that by (auto simp: UpdateReplicationEpoch_def epoch_reported_def split: option.split)
  show ?thesis
    using assms
    by (cases rule: defaultPrimary_cases [of ?d])
      (auto simp: statusFields_def Let_def record_update_def on_status_def up UpdateCurrentPrimary_def
        split: option.split)
qed

lemma record_update_conditions:
  "record_update states d d' \<Longrightarrow> conditions_update L d' d'' \<Longrightarrow> record_update states d d''"
  by (auto simp: record_update_def conditions_update_def on_status_def)

text \<open>
  A whole pass: the record as above, the conditions untouched while a switchover or a resize is
  under way, and neither of them started or ended.
\<close>

definition status_pass :: "'x lib_scheme \<Rightarrow> DBState list \<Rightarrow> DoltDB \<Rightarrow> DoltDB \<Rightarrow> bool" where
  "status_pass L states d d' \<longleftrightarrow> record_update states d d' \<and>
     IsSwitchingPrimary L d' = IsSwitchingPrimary L d \<and> IsResizingStorage L d' = IsResizingStorage L d \<and>
     (IsSwitchingPrimary L d \<or> IsResizingStorage L d \<longrightarrow>
        status_Conditions (db_status d') = status_Conditions (db_status d))"

lemma same_conditions_states:
  assumes "status_Conditions (db_status d') = status_Conditions (db_status d)"
  shows "IsSwitchingPrimary L d' = IsSwitchingPrimary L d" "IsResizingStorage L d' = IsResizingStorage L d"
  using assms by (simp_all add: IsSwitchingPrimary_def IsResizingStorage_def)

lemma setUpdatedCondition_wp:
  assumes "condition_library E"
  shows "wp (setUpdatedCondition E)
    (\<lambda>_ s'. (\<exists>t. trace s' = trace s @ t \<and> list_all is_query t) \<and>
       conditions_update E (the_db (obj s)) (the_db (obj s'))) s"
proof -
  note setters = condition_library.conditions_update_setters [OF assms]
  show ?thesis
    by (auto simp: setUpdatedCondition_def GetRevision_def wp_simps Let_def setters is_read_def
        split: sum.split)
qed

lemma statusPatcher_wp:
  assumes lib: "condition_library E"
    and "\<forall>r. rs = Some r \<longrightarrow> roles_follow (the_db (obj s)) r" "e = -1 \<or> epoch_reported (the_db (obj s)) states e"
  shows "wp (statusPatcher E ss rs e)
    (\<lambda>_ s'. (\<exists>t. trace s' = trace s @ t \<and> list_all is_query t) \<and>
       status_pass E states (the_db (obj s)) (the_db (obj s'))) s"
proof -
  let ?d = "the_db (obj s)" and ?d1 = "statusFields ss rs e (the_db (obj s))"
  have d1: "record_update states ?d ?d1" "status_Conditions (db_status ?d1) = status_Conditions (db_status ?d)"
    using statusFields_record [OF assms(2,3)] by blast+
  note st = same_conditions_states [OF d1(2), of E]
  have busy: "status_pass E states ?d ?d1"
    using d1 st by (simp add: status_pass_def)
  have idle: "status_pass E states ?d (on_status (\<lambda>s. SetReadyWithDoltDB E (SetCondition E) s ss d2) d2)"
    if "conditions_update E ?d1 d2" "\<not> (IsResizingStorage E ?d1 \<or> IsSwitchingPrimary E ?d1)" for d2
  proof -
    have "conditions_update E ?d1 (on_status (\<lambda>s. SetReadyWithDoltDB E (SetCondition E) s ss d2) d2)"
      using conditions_update_trans [OF that(1)] condition_library.conditions_update_setters(4) [OF lib] by blast
    then show ?thesis
      using that(2) d1(1) st condition_library.conditions_update_states [OF lib]
      by (auto simp: status_pass_def intro: record_update_conditions)
  qed
  show ?thesis
    by (auto simp: statusPatcher_def wp_simps busy idle intro!: wp_mono [OF setUpdatedCondition_wp [OF lib]])
qed

section \<open>A pass of the reconciler\<close>

text \<open>The configuration from which a pass reads the server states: the stateful set is fetched, the cache is empty.\<close>

definition status_view :: "(call, dbst) cfg \<Rightarrow> (call, dbst) cfg" where
  "status_view s = s\<lparr>trace := trace s @ [CGetSts (ObjectKeyFromObject (the_db (obj s)))],
     obj := (obj s)\<lparr>clients := []\<rparr>\<rparr>"

text \<open>The object after a status patch: the reply of the server, or the object that was sent.\<close>

definition patched_to :: "env \<Rightarrow> DoltDB \<Rightarrow> DoltDB \<Rightarrow> DoltDB \<Rightarrow> bool" where
  "patched_to E b n d \<longleftrightarrow> (\<exists>d'. (d' = n \<or> (\<exists>h. env_PatchDoltDBStatus E h b n = Inr d')) \<and> eq_fill d' d)"

definition status_requests :: "env \<Rightarrow> (call, dbst) cfg \<Rightarrow> (call, dbst) cfg \<Rightarrow> bool" where
  "status_requests E s s' \<longleftrightarrow> (\<exists>t b n u. trace s' = trace s @ t @ CPatchDoltDBStatus b n # u \<and>
     list_all is_query (t @ u) \<and> eq_fill (the_db (obj s)) b \<and>
     status_pass E (observed_states E (status_view s)) b n \<and> patched_to E b n (the_db (obj s')))"

lemma epoch_reported_eq_fill:
  "eq_fill d d' \<Longrightarrow> epoch_reported d' states e = epoch_reported d states e"
  "eq_fill d d' \<Longrightarrow> roles_follow d' rs = roles_follow d rs"
  by (simp_all add: epoch_reported_def roles_follow_def eq_fillD)

lemma read_states_wp:
  fixes s :: "(call, dbst) cfg"
  defines "s1 \<equiv> s\<lparr>trace := trace s @ [CGetSts (ObjectKeyFromObject (the_db (obj s)))],
     obj := (obj s)\<lparr>the_db := Replication_fill (the_db (obj s))\<rparr>\<rparr>"
  shows "wp (if en then do { NewClientSet; GetDBStates E } else ret [])
    (\<lambda>st s'. framed E is_query s1 s' \<and> (st = [] \<or> st = observed_states E (status_view s))) s1"
proof (rule wp_conj)
  have "keeps E is_query (if en then do { NewClientSet; GetDBStates E } else ret [])"
    by (intro keeps_intros)
  then show "wp (if en then do { NewClientSet; GetDBStates E } else ret []) (\<lambda>_. framed E is_query s1) s1"
    by (simp add: keeps_def)
  let ?s2 = "s1\<lparr>obj := (obj s1)\<lparr>clients := []\<rparr>\<rparr>"
  have "run_state call_Replication (status_view s) = (Replication (the_db (obj s)), ?s2)"
    by (simp add: call_Replication_def get_db_def modify_db_def get_obj_def put_obj_def status_view_def s1_def)
  then have "wp (GetDBStates E) (\<lambda>st _. st = observed_states E (status_view s)) ?s2"
    by (simp add: observed_states_def wp_def split: prod.split)
  then show "wp (if en then do { NewClientSet; GetDBStates E } else ret [])
      (\<lambda>st _. st = [] \<or> st = observed_states E (status_view s)) s1"
    by (auto simp: wp_simps NewClientSet_def elim: wp_mono)
qed

lemma status_requestsI:
  assumes "framed E is_query s s1" and "trace s2 = trace s1 @ u" "list_all is_query u"
    and "status_pass E (observed_states E (status_view s)) (the_db (obj s1)) n"
    and "trace s' = trace s2 @ CPatchDoltDBStatus (the_db (obj s1)) n # v" "list_all is_query v"
    and "patched_to E (the_db (obj s1)) n (the_db (obj s'))"
  shows "status_requests E s s'"
proof -
  obtain t where "trace s1 = trace s @ t" "list_all is_query t" "eq_fill (the_db (obj s)) (the_db (obj s1))"
    using assms(1) by (auto simp: framed_def)
  then show ?thesis
    unfolding status_requests_def using assms
    by (intro exI [of _ "t @ u"] exI [of _ "the_db (obj s1)"] exI [of _ n] exI [of _ v]) simp
qed

lemma close_status_requests:
  assumes "framed E is_query s s1" and "trace s2 = trace s1 @ u" "list_all is_query u"
    and "status_pass E (observed_states E (status_view s)) (the_db (obj s1)) n"
    and "trace s3 = trace s2 @ [CPatchDoltDBStatus (the_db (obj s1)) n]"
    and "patched_to E (the_db (obj s1)) n (the_db (obj s3))"
  shows "wp (ClientSet_Close E) (\<lambda>_ s'. status_requests E s s') s3"
proof (rule keeps_wp [OF keeps_close(2)])
  fix s' assume f: "framed E is_query s3 s'"
  then obtain v where "trace s' = trace s3 @ v" "list_all is_query v" by (auto simp: framed_def)
  moreover have "patched_to E (the_db (obj s1)) n (the_db (obj s'))"
    using assms(6) f eq_fill_trans unfolding patched_to_def framed_def by blast
  ultimately show "status_requests E s s'"
    using status_requestsI [OF assms(1-4), of s' v] assms(5) by simp
qed

lemma Status_Reconcile_wp:
  assumes "condition_library E"
  shows "wp (Status_Reconcile E) (\<lambda>_. status_requests E s) s"
proof -
  let ?s1 = "s\<lparr>trace := trace s @ [CGetSts (ObjectKeyFromObject (the_db (obj s)))],
     obj := (obj s)\<lparr>the_db := Replication_fill (the_db (obj s))\<rparr>\<rparr>"
  let ?tail = "\<lambda>ss en rs e. do {
      base \<leftarrow> get_db; statusPatcher E ss rs e; new \<leftarrow> get_db; r \<leftarrow> k_PatchDoltDBStatus E base new;
      er \<leftarrow> (case r of Inl err \<Rightarrow> ret (Some err) | Inr d \<Rightarrow> do { modify_db (\<lambda>_. d); ret None });
      (if en then do { closeErr \<leftarrow> ClientSet_Close E; ret () } else ret ());
      ret (ResultZero, er) }"
  have s1: "framed E is_query s ?s1"
    using framed_db [of E is_query s] by (simp add: framed_def cache_ok_def is_read_def)
  have patch: "wp (?tail ss en rs e) (\<lambda>_. status_requests E s) s3"
    if f: "framed E is_query s s3" and "\<forall>r. rs = Some r \<longrightarrow> roles_follow (the_db (obj s)) r"
      "e = -1 \<or> epoch_reported (the_db (obj s)) (observed_states E (status_view s)) e" for ss rs e en s3
  proof -
    from f obtain t where t: "trace s3 = trace s @ t" "list_all is_query t"
        and b: "eq_fill (the_db (obj s)) (the_db (obj s3))"
      by (auto simp: framed_def)
    have p: "wp (statusPatcher E ss rs e) (\<lambda>_ s'. (\<exists>t. trace s' = trace s3 @ t \<and> list_all is_query t) \<and>
        status_pass E (observed_states E (status_view s)) (the_db (obj s3)) (the_db (obj s'))) s3"
      by (rule statusPatcher_wp [OF assms]) (use that(2,3) in \<open>simp_all add: epoch_reported_eq_fill [OF b]\<close>)
    have to: "patched_to E b n n" "env_PatchDoltDBStatus E h b n = Inr d \<Longrightarrow> patched_to E b n d" for b n h d
      unfolding patched_to_def using eq_fill_refl by blast+
    have req: "status_requests E s s'" if "status_pass E (observed_states E (status_view s)) (the_db (obj s3)) n"
        "list_all is_query u" "trace s' = trace s3 @ u @ [CPatchDoltDBStatus (the_db (obj s3)) n]"
        "patched_to E (the_db (obj s3)) n (the_db (obj s'))" for s' u n
      using that status_requestsI [OF f, of "s'\<lparr>trace := trace s3 @ u\<rparr>" u n s' "[]"] by simp
    show ?thesis
      by (auto simp: wp_simps split: sum.split intro!: wp_mono [OF p] close_status_requests [OF f])
        ((erule (1) req, simp, simp add: to) | (simp add: to))+
  qed
  have roles: "wp (getReplicationStatusAndEpoch E states)
      (\<lambda>(rs, e). wp (?tail ss en rs e) (\<lambda>_. status_requests E s)) s2"
    if f: "framed E is_query ?s1 s2" and st: "states = [] \<or> states = observed_states E (status_view s)" for ss en states s2
  proof (rule wp_mono [OF getReplicationStatusAndEpoch_wp], clarify, rule patch)
    fix rs e s3
    assume *: "framed E is_query s2 s3" "\<forall>r. rs = Some r \<longrightarrow> roles_follow (the_db (obj s2)) r"
      "e = -1 \<or> epoch_reported (the_db (obj s2)) states e"
    have b: "eq_fill (the_db (obj s)) (the_db (obj s2))"
      using framed_trans [OF s1 f] by (simp add: framed_def)
    show "framed E is_query s s3"
      by (rule framed_trans [OF framed_trans [OF s1 f] *(1)])
    show "\<forall>r. rs = Some r \<longrightarrow> roles_follow (the_db (obj s)) r"
      using *(2) by (simp add: epoch_reported_eq_fill [OF b])
    show "e = -1 \<or> epoch_reported (the_db (obj s)) (observed_states E (status_view s)) e"
      using *(3) st by (auto simp: epoch_reported_eq_fill [OF b]) (simp add: epoch_reported_def)
  qed
  have run: "wp (Status_Reconcile E) Q s =
      wp (if repl_Enabled (Replication (the_db (obj s))) then do { NewClientSet; GetDBStates E } else ret [])
        (\<lambda>states. wp (getReplicationStatusAndEpoch E states) (\<lambda>(rs, e).
           wp (?tail (case env_GetSts E (trace s) (ObjectKeyFromObject (the_db (obj s))) of Inl _ \<Rightarrow> zero_sts | Inr x \<Rightarrow> x)
                 (repl_Enabled (Replication (the_db (obj s)))) rs e) Q)) ?s1" for Q
    by (simp add: Status_Reconcile_def wp_simps Let_def case_prod_unfold)
  show ?thesis
    unfolding run by (rule wp_mono [OF read_states_wp]) (blast intro: roles)
qed

section \<open>Properties\<close>

text \<open>
  C18: A status pass writes once, and what it writes respects the record.  Beside queries it sends
  exactly one status patch.  In that patch a recorded primary stays as it was, the epoch is the
  recorded one or a higher one that some server reported during the pass, no pod other than the
  recorded primary is listed as primary, and while a switchover or a resize is under way no condition
  changes; the pass neither starts nor ends one.
\<close>

theorem status_pass_respects_record:
  assumes "condition_library E" and "run_state (Status_Reconcile E) s = (r, s')"
  shows "\<exists>t b n u. trace s' = trace s @ t @ CPatchDoltDBStatus b n # u \<and> list_all is_query (t @ u) \<and>
     eq_fill (the_db (obj s)) b \<and> status_pass E (observed_states E (status_view s)) b n"
  using wpI [OF Status_Reconcile_wp [OF assms(1)] assms(2)] unfolding status_requests_def by blast

theorem status_pass_respects_record_witness:
  "\<exists>r s' t b n u. run_state (Status_Reconcile ref_env) (ref_cfg ref_db) = (r, s') \<and>
     trace s' = t @ CPatchDoltDBStatus b n # u \<and> list_all is_query (t @ u) \<and>
     status_CurrentPrimaryPodIndex (db_status n) = Some 0"
proof -
  obtain r s' where run: "run_state (Status_Reconcile ref_env) (ref_cfg ref_db) = (r, s')"
    by (cases "run_state (Status_Reconcile ref_env) (ref_cfg ref_db)")
  have "status_CurrentPrimaryPodIndex (db_status n) = Some 0"
    if "eq_fill ref_db b" "status_pass ref_env st b n" for st b n
    using that eq_fillD(2) [OF that(1)]
    by (auto simp: status_pass_def record_update_def ref_db_def ref_status_def)
  with status_pass_respects_record [OF ref_env_contract run] run show ?thesis
    by (fastforce simp: ref_cfg_def)
qed

end
