(* ===== verification/Operator_Writes.thy ===== *)
theory Operator_Writes
  imports Doltdb_Controller Failover Status_Properties Request_Rules
begin

text \<open>
  What the operator writes, over all its DoltDB and pod reconcilers: every patch changes only the
  part of an object that is the operator's to change, and the recorded epoch never goes down.
\<close>

section \<open>Modest requests\<close>

text \<open>
  A status patch leaves the metadata and, up to defaults, the specification alone, and does not lower
  the epoch.
\<close>

definition epoch_kept :: "DoltDB \<Rightarrow> DoltDB \<Rightarrow> bool" where
  "epoch_kept b n \<longleftrightarrow> (case status_ReplicationEpoch (db_status b) of
     None \<Rightarrow> True
   | Some e \<Rightarrow> (case status_ReplicationEpoch (db_status n) of None \<Rightarrow> False | Some e' \<Rightarrow> e \<le> e'))"

definition status_only :: "DoltDB \<Rightarrow> DoltDB \<Rightarrow> bool" where
  "status_only b n \<longleftrightarrow> Replication_fill n = (Replication_fill b)\<lparr>db_status := db_status n\<rparr> \<and> epoch_kept b n"

definition same_object :: "object_meta \<Rightarrow> object_meta \<Rightarrow> bool" where
  "same_object m m' \<longleftrightarrow> om_name m' = om_name m \<and> om_namespace m' = om_namespace m"

text \<open>
  The requests the operator allows itself: the specification of a DoltDB is only ever asked for
  another primary, pods only get labels, claims only a size, the stateful set keeps its identity, its
  claim templates and its selector, and the other objects keep their names.
\<close>

definition modest :: "call \<Rightarrow> bool" where
  "modest c = (case c of
     CPatchDoltDBStatus b n \<Rightarrow> status_only b n
   | CPatchDoltDB b n \<Rightarrow> (\<exists>i. n = set_primary_PodIndex i b)
   | CPatchPod p p' \<Rightarrow> (\<exists>ls. p' = with_labels p ls)
   | CPatchPVC v v' \<Rightarrow> (\<exists>q. v' = v\<lparr>pvc_request := q\<rparr>)
   | CPatchSts x y \<Rightarrow> sts_meta y = sts_meta x \<and> sts_claims y = sts_claims x \<and> sts_selector y = sts_selector x
   | CPatchConfigMap x y \<Rightarrow> cm_meta y = cm_meta x
   | CPatchService x y \<Rightarrow> same_object (svc_meta x) (svc_meta y)
   | CPatchPDB x y \<Rightarrow> same_object (pdb_meta x) (pdb_meta y)
   | CPatchServiceAccount x y \<Rightarrow> same_object (sa_meta x) (sa_meta y)
   | CSql _ (AssumeClusterRole r e) \<Rightarrow> r = PrimaryRoleValue \<or> r = StandbyRoleValue
   | _ \<Rightarrow> True)"

lemma modest_query: "is_query c \<Longrightarrow> modest c"
  by (cases c) (auto simp: modest_def is_query_def is_read_def split: sql_stmt.split)

lemma emits_patch:
  "(\<And>d. P (CPatchDoltDBStatus d (f d))) \<Longrightarrow> emits P (PatchStatus E f)"
  "(\<And>d. P (CPatchDoltDB d (f d))) \<Longrightarrow> emits P (PatchDoltDB E f)"
  by (auto simp: emits_def PatchStatus_def PatchDoltDB_def get_db_def modify_db_def get_obj_def put_obj_def
      k_PatchDoltDBStatus_def k_PatchDoltDB_def perform_def split: sum.split)

text \<open>Status patches that only set conditions.\<close>

lemma modest_on_status:
  assumes "status_ReplicationEpoch (f (db_status d)) = status_ReplicationEpoch (db_status d)"
  shows "modest (CPatchDoltDBStatus d (on_status f d))"
  using assms by (simp add: modest_def status_only_def epoch_kept_def on_status_def split: option.split)

lemma setters_keep_epoch [simp]:
  "status_ReplicationEpoch (SetReadyStorageResizing (SetCondition E) s) = status_ReplicationEpoch s"
  "status_ReplicationEpoch (SetReadyWaitingStorageResize (SetCondition E) s) = status_ReplicationEpoch s"
  "status_ReplicationEpoch (SetReadyStorageResized (SetCondition E) s) = status_ReplicationEpoch s"
  "status_ReplicationEpoch (SetPrimarySwitching (SetCondition E) s d) = status_ReplicationEpoch s"
  "status_ReplicationEpoch (SetPrimarySwitched (SetCondition E) s) = status_ReplicationEpoch s"
  "status_ReplicationEpoch (Ready_PatcherFailed m (SetCondition E) s) = status_ReplicationEpoch s"
  by (simp_all add: setter_defs Ready_PatcherFailed_def Let_def)

lemma modest_switch_patches:
  "modest (CPatchDoltDBStatus d (switching_patch E d))"
  "modest (CPatchDoltDBStatus d (switched_patch E i e d))"
  by (auto simp: modest_def status_only_def epoch_kept_def switching_patch_def switched_patch_def on_status_def
      UpdateReplicationEpoch_max split: option.split)

lemma modest_pods:
  "modest (CPatchPod p (set_role_label r p))" "modest (CPatchPod p (with_labels p ls))"
  by (auto simp: modest_def set_role_label_def with_labels_def)

section \<open>The reconcilers are modest\<close>

lemma modest_sql [simp]:
  "modest (CSql co (AssumeClusterRole PrimaryRoleValue e))" "modest (CSql co (AssumeClusterRole StandbyRoleValue e))"
  "modest (CSql co (TransitionToStandbyStmt e n))"
  by (simp_all add: modest_def)

lemma modest_other [simp]:
  "modest (CGetDoltDB k)" "modest (CGetSts k)" "modest (CGetPod k)" "modest (CGetConfigMap k)" "modest (CGetService k)"
  "modest (CGetPDB k)" "modest (CGetServiceAccount k)" "modest (CGetRole k)" "modest (CGetRoleBinding k)"
  "modest (CGetClusterRoleBinding k)" "modest (CListPods ns ls)" "modest (CListPVCs ns ls)" "modest (CEvent r m)"
  "modest (CCreateSts ss)" "modest (CCreateConfigMap cm)" "modest (CCreateService svc)" "modest (CCreatePDB pdb)"
  "modest (CCreateServiceAccount sa)" "modest (CCreateRole ro)" "modest (CCreateRoleBinding rb)"
  "modest (CCreateClusterRoleBinding rb)" "modest (CDeletePod k)" "modest (CDeleteSts k)" "modest (CDeleteService k)"
  "modest (CDeletePDB k)"
  by (simp_all add: modest_def)

interpretation modest: set_requests modest
proof unfold_locales
  show "modest (CPatchSts x (x\<lparr>sts_template := a, sts_update_strategy := b, sts_replicas := c\<rparr>))" for x a b c
    by (simp add: modest_def)
qed (simp_all add: modest_query modest_pods)

subsection \<open>Switchover and replication\<close>

lemma modest_reconcileSwitchover [role_intros]: "emits modest (reconcileSwitchover E)"
proof -
  have phases: "emits modest (run_phases ctx (switchoverPhases E))" for ctx
    unfolding switchoverPhases_def run_phases.simps by (intro emits_intros role_intros)
  have mark: "emits modest (PatchStatus E (switching_patch E))"
    and finish: "emits modest (PatchStatus E (switched_patch E i e))" for i e
    by (rule emits_patch(1), rule modest_switch_patches)+
  show ?thesis
    unfolding reconcileSwitchover_def performSwitchover_def recordSwitchover_def
    by (intro emits_intros role_intros phases mark finish; simp)
qed

lemma modest_Replication_Reconcile [role_intros]: "emits modest (Replication_Reconcile E)"
proof -
  have "emits modest (configure_pods_loop E e is)" for e "is"
    by (induction "is") (auto intro!: emits_intros role_intros simp: Let_def)
  then show ?thesis
    unfolding Replication_Reconcile_def reconcileReplication_def by (intro emits_intros role_intros; simp)
qed

subsection \<open>Storage\<close>

lemma modest_Storage_Reconcile [role_intros]: "emits modest (Storage_Reconcile E)"
proof -
  have "modest (CPatchPVC v (v\<lparr>pvc_request := q\<rparr>))" for v q
    by (auto simp: modest_def)
  then have claims: "emits modest (resize_pvcs_loop E q ps)" for q ps
    by (induction ps) (auto intro!: emits_intros)
  have patch: "emits modest (patchCondition E f)"
    if "\<And>s. status_ReplicationEpoch (f (SetCondition E) s) = status_ReplicationEpoch s" for f
    unfolding patchCondition_def by (intro emits_intros emits_patch modest_on_status that)
  show ?thesis
    unfolding Storage_Reconcile_def growStorage_def waitForStorageResize_def finishStorageResize_def
      resizeInUsePVCs_def resizeStatefulSet_def getStoragePVCs_def
    by (intro emits_intros role_intros claims patch; simp)
qed

subsection \<open>Owned objects and labels\<close>

lemma modest_owned:
  "modest (CPatchService x (patchedService x y))" "modest (CPatchConfigMap cm (cm\<lparr>cm_data := d\<rparr>))"
  "modest (CPatchServiceAccount sa (sa\<lparr>sa_meta := (sa_meta sa)\<lparr>om_annotations := as\<rparr>\<rparr>))"
  "modest (CPatchPDB pdb (pdb\<lparr>pdb_min_available := a, pdb_max_unavailable := b, pdb_selector := c,
     pdb_meta := (pdb_meta pdb)\<lparr>om_labels := ls\<rparr>\<rparr>))"
  by (simp_all add: modest_def same_object_def patchedService_def updateServicePorts_def Let_def)

lemma modest_Service_Reconcile: "emits modest (Service_Reconcile E svc)"
  unfolding Service_Reconcile_def by (intro emits_intros; simp add: modest_owned)

lemma modest_reconcileService [role_intros]: "emits modest (reconcileService E)"
  unfolding reconcileService_def serviceStep_def deleteStep_def deleteServiceIfExists_def
    reconcileInternalService_def reconcilePrimaryService_def reconcileReaderService_def
    reconcileStandaloneService_def reconcileBuiltService_def
  by (intro emits_intros modest_Service_Reconcile; simp)

lemma modest_reconcileConfigMap [role_intros]: "emits modest (reconcileConfigMap E)"
  unfolding reconcileConfigMap_def ConfigMap_Reconcile_def
  by (intro emits_intros; simp add: modest_owned)

lemma modest_reconcileRBAC [role_intros]: "emits modest (reconcileRBAC E)"
  unfolding reconcileRBAC_def ReconcileDoltRBAC_def ReconcileServiceAccount_def patchServiceAccountAnnotations_def
    reconcileRole_def reconcileRoleBinding_def reconcileClusterRoleBinding_def
  by (intro emits_intros; simp add: modest_owned)

lemma modest_labels [role_intros]: "emits modest (reconcilePodLabels E)"
proof -
  have clean: "emits modest (clean_labels_loop E ps)" for ps
    by (induction ps) (auto intro!: emits_intros modest_pods)
  have role: "emits modest (pod_labels_loop E d i ps)" for d i ps
    by (induction ps) (auto intro!: emits_intros modest_pods)
  show ?thesis
    unfolding reconcilePodLabels_def cleanPodRoleLabels_def by (intro emits_intros clean role; simp)
qed

lemma modest_scale_down [role_intros]: "emits modest (reconcilePreScaleDown E)"
proof -
  have "modest (CPatchDoltDB d (set_primary_PodIndex (Some 0) d))" for d
    by (auto simp: modest_def)
  then show ?thesis
    unfolding reconcilePreScaleDown_def by (intro emits_intros emits_patch; simp)
qed

lemma modest_budget [role_intros]: "emits modest (reconcilePodDisruptionBudget E)"
  unfolding reconcilePodDisruptionBudget_def by (intro emits_intros; simp add: modest_owned)

subsection \<open>The controllers\<close>

lemma modest_Status_Reconcile:
  assumes "condition_library E"
  shows "emits modest (Status_Reconcile E)"
  unfolding emits_def
proof
  fix s
  obtain r s' where run: "run_state (Status_Reconcile E) s = (r, s')" by (cases "run_state (Status_Reconcile E) s")
  then obtain t b n u where tr: "trace s' = trace s @ t @ CPatchDoltDBStatus b n # u" "list_all is_query (t @ u)"
      and pass: "status_pass E (observed_states E (status_view s)) b n"
    using wpI [OF Status_Reconcile_wp [OF assms] run] by (auto simp: status_requests_def)
  have "status_only b n"
    using pass
    by (auto simp: status_pass_def record_update_def status_only_def epoch_kept_def epoch_reported_def split: option.split)
  then have "list_all modest (t @ CPatchDoltDBStatus b n # u)"
    using tr(2) by (auto simp: list_all_iff modest_query) (simp add: modest_def)
  with tr(1) run show "\<exists>t. trace (snd (run_state (Status_Reconcile E) s)) = trace s @ t \<and> list_all modest t"
    by auto
qed

lemma modest_Doltdb_Reconcile:
  assumes "condition_library E"
  shows "emits modest (Doltdb_Reconcile E req)"
proof -
  have failed: "emits modest (failedPhase E name err)" for name err
    unfolding failedPhase_def by (intro emits_intros emits_patch modest_on_status; simp)
  have phases: "emits modest (run_db_phases E ps)" if "list_all (\<lambda>(_, p). emits modest p) ps" for ps
    using that by (induction ps) (auto intro!: emits_intros failed)
  have all: "list_all (\<lambda>(_, p). emits modest p) (doltdbPhases E)"
    by (simp add: doltdbPhases_def role_intros modest_Status_Reconcile [OF assms])
  show ?thesis
    unfolding Doltdb_Reconcile_def by (intro emits_intros phases all emits_patch modest_on_status; simp)
qed

lemma modest_Pod_Reconcile: "emits modest (Pod_Reconcile E req)"
proof -
  have loop: "emits modest (failover_loop E c t ps)" for c t ps
    by (induction E c t ps rule: failover_loop.induct) (auto intro!: emits_intros role_intros simp: Let_def)
  have want: "modest (CPatchDoltDB d (set_primary_PodIndex (Some i) d))" for d i
    by (auto simp: modest_def)
  show ?thesis
    unfolding Pod_Reconcile_def DoltDBFromAnnotation_def ReconcilePodNotReady_def requestFailover_defs
      failoverTarget_def selectFailoverCandidate_def shouldReconcile_def
    by (intro emits_intros role_intros loop emits_patch want modest_switch_patches; simp)
qed

section \<open>Property\<close>

text \<open>
  C19: Every request of a pass over a DoltDB or over a pod is modest, whatever the servers answer and
  wherever the pass stops.  In particular no status patch lowers the recorded epoch or touches the
  specification, the specification is only ever asked for another primary, pods only get labels and
  claims only a size, and an existing stateful set keeps its claim templates and its selector.
\<close>

theorem operator_writes_modest:
  assumes "condition_library E"
  shows "(\<exists>t. trace (snd (run_state (Doltdb_Reconcile E req) s)) = trace s @ t \<and> list_all modest t) \<and>
     (\<exists>t. trace (snd (run_state (Pod_Reconcile E req) s)) = trace s @ t \<and> list_all modest t)"
  using modest_Doltdb_Reconcile [OF assms] modest_Pod_Reconcile by (simp add: emits_def)

theorem operator_writes_modest_witness:
  "\<exists>t. trace (snd (run_state (Doltdb_Reconcile ref_env (nn ''dolt'' ''ns'')) (ref_cfg ref_db))) = t \<and> list_all modest t"
  using operator_writes_modest [OF ref_env_contract, of "nn ''dolt'' ''ns''" "ref_cfg ref_db"]
  by (auto simp: ref_cfg_def)

end
