(* ===== verification/Controller_Properties.thy ===== *)
theory Controller_Properties
  imports Operator_Writes
begin

text \<open>
  The properties of a whole pass of the DoltDB controller: what happens to an invalid specification,
  and what a scale-down below the ordinal of the primary does, pass after pass.
\<close>

section \<open>A scale-down below the primary\<close>

text \<open>Requests that change the stateful set or the role of a server.\<close>

definition changes_cluster :: "call \<Rightarrow> bool" where
  "changes_cluster c \<longleftrightarrow> is_role_stmt c \<or> (case c of
     CCreateSts _ \<Rightarrow> True | CPatchSts _ _ \<Rightarrow> True | CDeleteSts _ \<Rightarrow> True | CDeletePod _ \<Rightarrow> True | _ \<Rightarrow> False)"

lemma changes_cluster_simps [simp]:
  "is_query c \<Longrightarrow> \<not> changes_cluster c" "\<not> changes_cluster (CPatchDoltDBStatus b n)" "\<not> changes_cluster (CPatchDoltDB b n)"
  "\<not> changes_cluster (CCreateConfigMap cm)" "\<not> changes_cluster (CPatchConfigMap cm cm')"
  "\<not> changes_cluster (CCreateServiceAccount sa)" "\<not> changes_cluster (CPatchServiceAccount sa sa')"
  "\<not> changes_cluster (CCreateRole ro)" "\<not> changes_cluster (CCreateRoleBinding rb)"
  "\<not> changes_cluster (CCreateClusterRoleBinding rb)" "\<not> changes_cluster (CGetSts k)" "\<not> changes_cluster (CListPVCs ns ls)"
  "\<not> changes_cluster (CGetDoltDB k)"
  by (auto simp: changes_cluster_def is_role_stmt_def is_query_def is_read_def split: call.splits sql_stmt.splits)

text \<open>
  The situation: replication is on, the recorded primary has an ordinal at or above the desired number
  of replicas, the stateful set \<open>ss\<close> is larger than desired, and no resize is due.
\<close>

definition blocked :: "env \<Rightarrow> sts \<Rightarrow> DoltDB \<Rightarrow> bool" where
  "blocked E ss d \<longleftrightarrow> ReplEnabled d \<and> spec_Replicas (db_spec d) < ptr_Deref (sts_replicas ss) 0 \<and>
     (case status_CurrentPrimaryPodIndex (db_status d) of None \<Rightarrow> False | Some i \<Rightarrow> spec_Replicas (db_spec d) \<le> i) \<and>
     (case (GetStorageSize (sts_claims ss) DoltDataVolume, storage_Size (spec_Storage (db_spec d))) of
        (Some old, Some new) \<Rightarrow> lib_QuantityCmp E new old = 0
      | _ \<Rightarrow> False)"

lemma blocked_cong:
  assumes "Replication_fill d' = (Replication_fill d)\<lparr>db_status := db_status d'\<rparr>"
    and "status_CurrentPrimaryPodIndex (db_status d') = status_CurrentPrimaryPodIndex (db_status d)"
  shows "blocked E ss d' = blocked E ss d"
proof -
  have "Replication (d\<lparr>db_status := st\<rparr>) = Replication d" for d st
    by (simp add: Replication_def)
  then have "Replication d' = Replication d"
    using arg_cong [OF assms(1), of Replication] by simp
  moreover have "spec_Storage (db_spec (Replication_fill d)) = spec_Storage (db_spec d)" for d
    by (simp add: Replication_fill_def)
  then have "spec_Storage (db_spec d') = spec_Storage (db_spec d)"
    using arg_cong [OF assms(1), of "\<lambda>d. spec_Storage (db_spec d)"] by simp
  moreover have "spec_Replicas (db_spec d') = spec_Replicas (db_spec d)"
    using arg_cong [OF assms(1), of "\<lambda>d. spec_Replicas (db_spec d)"] by simp
  ultimately show ?thesis
    using assms(2) by (simp add: blocked_def cong: option.case_cong)
qed

lemma blocked_eq_fill:
  assumes "eq_fill d d'"
  shows "blocked E ss d' = blocked E ss d"
proof (rule blocked_cong)
  have "(Replication_fill d)\<lparr>db_status := db_status (Replication_fill d)\<rparr> = Replication_fill d" by simp
  then show "Replication_fill d' = (Replication_fill d)\<lparr>db_status := db_status d'\<rparr>"
    using assms eq_fillD(2) [OF assms] by (simp add: eq_fill_def)
qed (simp add: eq_fillD(2) [OF assms])

lemma blocked_on_status:
  assumes "status_CurrentPrimaryPodIndex (f (db_status d)) = status_CurrentPrimaryPodIndex (db_status d)"
  shows "blocked E ss (on_status f d) = blocked E ss d"
  by (rule blocked_cong) (simp_all add: on_status_def assms)

lemma blocked_set_primary: "blocked E ss d \<Longrightarrow> blocked E ss (set_primary_PodIndex (Some j) d)"
proof -
  have "spec_Storage (db_spec (set_primary_PodIndex (Some j) d)) = spec_Storage (db_spec d)"
    by (simp add: set_primary_PodIndex_def Let_def Replication_fill_def)
  then show "blocked E ss d \<Longrightarrow> blocked E ss (set_primary_PodIndex (Some j) d)"
    by (simp add: blocked_def cong: option.case_cong)
qed

text \<open>Since \<open>s\<close>, the cluster was not changed and the situation is the same.\<close>

definition stuck :: "env \<Rightarrow> sts \<Rightarrow> (call, dbst) cfg \<Rightarrow> (call, dbst) cfg \<Rightarrow> bool" where
  "stuck E ss s s' \<longleftrightarrow> silent changes_cluster s s' \<and> blocked E ss (the_db (obj s'))"

lemma stuck_keeps:
  assumes "stuck E ss s s1" and "keeps E (\<lambda>c. \<not> changes_cluster c) p"
  shows "wp p (\<lambda>_. stuck E ss s) s1"
proof (rule keeps_wp [OF assms(2)])
  fix s' assume "framed E (\<lambda>c. \<not> changes_cluster c) s1 s'"
  then have "silent changes_cluster s1 s'" "eq_fill (the_db (obj s1)) (the_db (obj s'))"
    by (auto simp: framed_def silent_def list_all_iff filter_empty_conv)
  then show "stuck E ss s s'"
    using assms(1) silent_trans blocked_eq_fill unfolding stuck_def by blast
qed

lemma stuck_patch:
  assumes "stuck E ss s s1" and "echoes_patches E" and "\<And>d. blocked E ss d \<Longrightarrow> blocked E ss (f d)"
  shows "wp (PatchStatus E f) (\<lambda>r s'. r = None \<and> stuck E ss s s') s1" "wp (PatchDoltDB E f) (\<lambda>r s'. r = None \<and> stuck E ss s s') s1"
  using assms by (auto simp: PatchStatus_def PatchDoltDB_def wp_simps echoes_patches_def stuck_def silent_def)

lemma stuck_Status:
  assumes "condition_library E" and "echoes_patches E" and "stuck E ss s s1"
  shows "wp (Status_Reconcile E) (\<lambda>_. stuck E ss s) s1"
proof (rule wp_mono [OF Status_Reconcile_wp [OF assms(1)]])
  fix s' assume "status_requests E s1 s'"
  then obtain t b n u where tr: "trace s' = trace s1 @ t @ CPatchDoltDBStatus b n # u" "list_all is_query (t @ u)"
      and b: "eq_fill (the_db (obj s1)) b" and pass: "status_pass E (observed_states E (status_view s1)) b n"
      and to: "patched_to E b n (the_db (obj s'))"
    unfolding status_requests_def by blast
  have "silent changes_cluster s1 s'"
    using tr by (auto simp: silent_def filter_empty_conv list_all_iff)
  moreover have n: "eq_fill n (the_db (obj s'))"
    using to assms(2) by (auto simp: patched_to_def echoes_patches_def)
  have "blocked E ss b"
    using assms(3) blocked_eq_fill [OF b] by (simp add: stuck_def)
  moreover from this have "status_CurrentPrimaryPodIndex (db_status n) = status_CurrentPrimaryPodIndex (db_status b)"
    using pass by (auto simp: status_pass_def record_update_def blocked_def split: option.splits)
  ultimately have "blocked E ss n"
    using pass blocked_cong [of n b E ss] by (simp add: status_pass_def record_update_def)
  then show "stuck E ss s s'"
    using assms(3) silent_trans [OF _ \<open>silent changes_cluster s1 s'\<close>] blocked_eq_fill [OF n] by (auto simp: stuck_def)
qed

lemma keeps_modify_fill [keeps_intros]: "keeps E P (modify_db (\<lambda>d. if f d then Replication_fill d else d))"
proof -
  have "framed E P s (s\<lparr>obj := (obj s)\<lparr>the_db := if b then Replication_fill (the_db (obj s)) else the_db (obj s)\<rparr>\<rparr>)" for s b
    using framed_db [of E P s] by (cases b) simp_all
  then show ?thesis by (simp add: keeps_def wp_simps)
qed

lemma keeps_objects:
  "keeps E (\<lambda>c. \<not> changes_cluster c) (reconcileConfigMap E)" "keeps E (\<lambda>c. \<not> changes_cluster c) (reconcileRBAC E)"
  unfolding reconcileConfigMap_def ConfigMap_Reconcile_def reconcileRBAC_def ReconcileDoltRBAC_def ReconcileServiceAccount_def
    patchServiceAccountAnnotations_def reconcileRole_def reconcileRoleBinding_def reconcileClusterRoleBinding_def Let_def
  by (intro keeps_intros; simp add: is_read_def)+

lemma stuck_step:
  assumes "stuck E ss s s1" and "trace s2 = trace s1 @ [c]" "\<not> changes_cluster c" "the_db (obj s2) = the_db (obj s1)"
  shows "stuck E ss s s2"
  using assms by (auto simp: stuck_def silent_def)

lemma stuck_Storage:
  assumes "echoes_patches E" and "\<And>h k. env_GetSts E h k = Inr ss" and "stuck E ss s s1"
  shows "wp (Storage_Reconcile E) (\<lambda>_. stuck E ss s) s1"
proof -
  have setter: "blocked E ss d \<Longrightarrow> blocked E ss (on_status (SetReadyStorageResized (SetCondition E)) d)" for d
    by (subst blocked_on_status) (simp_all add: SetReadyStorageResized_def)
  have finish: "wp (finishStorageResize E) (\<lambda>_. stuck E ss s) s2" if "stuck E ss s s2" for s2
  proof -
    have "stuck E ss s (s2\<lparr>trace := trace s2 @ [CGetSts k]\<rparr>)" for k
      by (rule stuck_step [OF that, of _ "CGetSts k"]) simp_all
    then show ?thesis
      by (auto simp: finishStorageResize_def patchCondition_def wp_simps assms(2) simp del: wp_PatchStatus
          intro!: wp_mono [OF stuck_patch(1) [OF _ assms(1) setter]])
  qed
  have lists: "stuck E ss s (s1\<lparr>trace := trace s1 @ [CListPVCs ns ls]\<rparr>)" "stuck E ss s (s1\<lparr>trace := trace s1 @ [CGetSts k]\<rparr>)" for ns ls k
    by (rule stuck_step [OF assms(3), of _ "CListPVCs ns ls"], simp_all, rule stuck_step [OF assms(3), of _ "CGetSts k"], simp_all)
  have wait: "wp (waitForStorageResize E) (\<lambda>_. stuck E ss s) s1"
    by (auto simp: waitForStorageResize_def getStoragePVCs_def wp_simps Let_def lists split: sum.split
        intro!: finish assms(3))
  have "blocked E ss (the_db (obj s1))"
    using assms(3) by (simp add: stuck_def)
  then show ?thesis
    using assms(3)
    by (auto simp: Storage_Reconcile_def wp_simps wait assms(2) lists blocked_def split: option.splits)
qed

lemma stuck_PreScaleDown:
  assumes "echoes_patches E" and "\<And>h k. env_GetSts E h k = Inr ss" and "stuck E ss s s1"
  shows "wp (reconcilePreScaleDown E) (\<lambda>r s'. r = (ResultRequeue, None) \<and> stuck E ss s s') s1"
proof -
  let ?d = "the_db (obj s1)"
  obtain i where i: "ReplEnabled ?d" "status_CurrentPrimaryPodIndex (db_status ?d) = Some i" "spec_Replicas (db_spec ?d) \<le> i"
      "spec_Replicas (db_spec ?d) < ptr_Deref (sts_replicas ss) 0"
    using assms(3) by (auto simp: stuck_def blocked_def split: option.splits)
  have "stuck E ss s (s1\<lparr>obj := (obj s1)\<lparr>the_db := Replication_fill ?d\<rparr>, trace := trace s1 @ [CGetSts k]\<rparr>)" for k
    using assms(3) blocked_eq_fill [of ?d "Replication_fill ?d" E ss]
    by (auto simp: stuck_def silent_def is_read_def)
  then show ?thesis
    using i by (auto simp: reconcilePreScaleDown_def wp_simps assms(2)
        intro!: wp_mono [OF stuck_patch(2) [OF _ assms(1) blocked_set_primary]])
qed

lemma stuck_Doltdb_Reconcile:
  assumes lib: "condition_library E" and echo: "echoes_patches E" and sts: "\<And>h k. env_GetSts E h k = Inr ss"
    and d: "env_GetDoltDB E (trace s) req = Inr d" "blocked E ss d"
  shows "wp (Doltdb_Reconcile E req) (\<lambda>_. stuck E ss s) s"
proof -
  have failed: "wp (failedPhase E name err) (\<lambda>_. stuck E ss s) s1" if "stuck E ss s s1" for name err s1
  proof -
    have keep: "blocked E ss (on_status (Ready_PatcherFailed m (SetCondition E)) d)" if "blocked E ss d" for m d
      using that by (subst blocked_on_status) (simp_all add: Ready_PatcherFailed_def setter_defs)
    have "wp (PatchStatus E (on_status (Ready_PatcherFailed m (SetCondition E)))) (\<lambda>_. stuck E ss s) s1" for m
      by (rule wp_mono [OF stuck_patch(1) [OF that echo]]) (simp_all add: keep)
    then show ?thesis
      by (simp add: failedPhase_def wp_simps Let_def del: wp_PatchStatus)
  qed
  have phase: "wp (run_db_phases E ((name, p) # rest)) (\<lambda>_. stuck E ss s) s1"
    if "wp p (\<lambda>_. stuck E ss s) s1" "\<And>s2. stuck E ss s s2 \<Longrightarrow> wp (run_db_phases E rest) (\<lambda>_. stuck E ss s) s2"
    for name p rest s1
    unfolding run_db_phases.simps wp_bind
    by (rule wp_mono [OF that(1)]) (auto simp: wp_simps split: option.split intro!: that(2) failed)
  have scale: "wp (run_db_phases E ((name, reconcilePreScaleDown E) # rest)) (\<lambda>_. stuck E ss s) s1" if "stuck E ss s s1" for name rest s1
    unfolding run_db_phases.simps wp_bind
    by (rule wp_mono [OF stuck_PreScaleDown [OF echo sts that]]) (auto simp: wp_simps)
  have phases: "wp (run_db_phases E (doltdbPhases E)) (\<lambda>_. stuck E ss s) s1" if "stuck E ss s s1" for s1
    unfolding doltdbPhases_def
    by (intro phase scale stuck_Status [OF lib echo] stuck_keeps [OF _ keeps_objects(1)] stuck_keeps [OF _ keeps_objects(2)]
        stuck_Storage [OF echo sts] that)
  have s1: "stuck E ss s (s\<lparr>trace := trace s @ [CGetDoltDB req], obj := (obj s)\<lparr>the_db := d'\<rparr>\<rparr>)" if "eq_fill d d'" for d'
    using d(2) blocked_eq_fill [OF that, of E ss] by (auto simp: stuck_def silent_def)
  have "blocked E ss (on_status (SetCondition E c) d)" if "blocked E ss d" for c d
    using that by (subst blocked_on_status) simp_all
  then have invalid: "wp (PatchStatus E (on_status (SetCondition E c))) (\<lambda>_. stuck E ss s) s1" if "stuck E ss s s1" for c s1
    by (intro wp_mono [OF stuck_patch(1) [OF that echo]]) simp_all
  show ?thesis
    unfolding Doltdb_Reconcile_def
    by (auto simp: wp_simps d(1) Let_def simp del: wp_PatchStatus split: option.split intro!: phases s1 invalid)
qed

section \<open>Properties\<close>

text \<open>
  C31: A scale-down below the primary protects it, and never gets done.  When replication is on and the
  recorded primary would be removed by the desired number of replicas, a pass neither changes the
  stateful set nor deletes a pod nor changes the role of a server, whatever the other phases do; and the
  object it leaves is in the same situation, so that the next pass does no more.
\<close>

theorem scale_down_waits_for_primary:
  assumes "condition_library E" and "echoes_patches E" and "env_GetSts E = (\<lambda>h k. Inr ss)"
    and "env_GetDoltDB E (trace s) req = Inr d" "blocked E ss d"
    and "run_state (Doltdb_Reconcile E req) s = (r, s')"
  shows "\<exists>t. trace s' = trace s @ t \<and> filter changes_cluster t = [] \<and> blocked E ss (the_db (obj s'))"
proof -
  have "env_GetSts E h k = Inr ss" for h k by (simp add: assms(3))
  from wpI [OF stuck_Doltdb_Reconcile [OF assms(1,2) this assms(4,5)] assms(6)] show ?thesis
    by (auto simp: stuck_def silent_def)
qed

definition scaled_sts :: sts where
  "scaled_sts = zero_sts\<lparr>sts_replicas := Some 3, sts_ready_replicas := 3, sts_claims := [\<lparr>pvc_meta = ref_meta DoltDataVolume,
     pvc_access_modes = [], pvc_request = Some ''10Gi'', pvc_data_source = None, pvc_storage_class = None, pvc_conditions = []\<rparr>]\<rparr>"

definition scaled_db :: DoltDB where
  "scaled_db = ref_db\<lparr>db_spec := ref_spec 2 0, db_status := ref_status (Some 2) (Some 4)\<rparr>"

definition scaled_env :: env where
  "scaled_env = ref_env\<lparr>env_GetDoltDB := (\<lambda>h k. Inr scaled_db), env_GetSts := (\<lambda>h k. Inr scaled_sts)\<rparr>"

theorem scale_down_waits_for_primary_witness:
  "\<exists>r s' t. run_state (Doltdb_Reconcile scaled_env (nn ''dolt'' ''ns'')) (ref_cfg ref_db) = (r, s') \<and> trace s' = t \<and>
     filter changes_cluster t = [] \<and> blocked scaled_env scaled_sts (the_db (obj s'))"
proof -
  obtain r s' where run: "run_state (Doltdb_Reconcile scaled_env (nn ''dolt'' ''ns'')) (ref_cfg ref_db) = (r, s')"
    by (cases "run_state (Doltdb_Reconcile scaled_env (nn ''dolt'' ''ns'')) (ref_cfg ref_db)")
  have lib: "condition_library scaled_env"
    by (rule keeps_contract_library) (simp add: keeps_contract_def scaled_env_def ref_env_def)
  have E: "echoes_patches scaled_env" "env_GetSts scaled_env = (\<lambda>h k. Inr scaled_sts)"
      "env_GetDoltDB scaled_env h k = Inr scaled_db" for h k
    by (simp_all add: echoes_patches_def scaled_env_def ref_env_def)
  have "blocked scaled_env scaled_sts scaled_db"
    by (simp add: blocked_def scaled_env_def scaled_sts_def scaled_db_def ref_spec_def ref_status_def ref_env_def
        ref_meta_def Replication_def ReplicationSpec_FillWithDefaults_def)
  from scale_down_waits_for_primary [OF lib E this run] run show ?thesis
    by (auto simp: ref_cfg_def)
qed

text \<open>
  C32: An invalid specification is reported and not acted on: the pass fetches the object and sends one
  status patch whose condition \<open>Ready\<close> is false with reason \<open>InvalidSpec\<close>, and it succeeds unless that patch
  fails.
\<close>

theorem invalid_spec_reported:
  assumes "condition_library E" and "env_GetDoltDB E (trace s) req = Inr d" and "ValidateReplicationSpec d = Some err"
    and "run_state (Doltdb_Reconcile E req) s = ((res, e), s')"
  shows "\<exists>b n c. trace s' = trace s @ [CGetDoltDB req, CPatchDoltDBStatus b n] \<and> eq_fill d b \<and> status_only b n \<and>
     lib_FindStatusCondition E (status_Conditions (db_status n)) ConditionTypeReady = Some c \<and>
     cond_status c = CondFalse \<and> cond_reason c = ConditionReasonInvalidSpec \<and> res = ResultZero \<and>
     (e = None \<longleftrightarrow> (\<exists>d'. env_PatchDoltDBStatus E (trace s @ [CGetDoltDB req]) b n = Inr d'))"
proof -
  let ?b = "if spec_Replicas (db_spec d) = 1 then Replication_fill d else d"
  let ?c = "Condition ConditionTypeReady CondFalse ConditionReasonInvalidSpec (''Invalid spec: '' @ errText err)"
  let ?n = "on_status (SetCondition E ?c) ?b"
  have "wp (Doltdb_Reconcile E req) (\<lambda>(res, e) s'. trace s' = trace s @ [CGetDoltDB req, CPatchDoltDBStatus ?b ?n] \<and> res = ResultZero \<and>
      (e = None \<longleftrightarrow> (\<exists>d'. env_PatchDoltDBStatus E (trace s @ [CGetDoltDB req]) ?b ?n = Inr d'))) s"
    using assms(2,3) by (auto simp: Doltdb_Reconcile_def wp_simps Let_def split: sum.split)
  from wpI [OF this assms(4)] have *: "trace s' = trace s @ [CGetDoltDB req, CPatchDoltDBStatus ?b ?n]" "res = ResultZero"
      "e = None \<longleftrightarrow> (\<exists>d'. env_PatchDoltDBStatus E (trace s @ [CGetDoltDB req]) ?b ?n = Inr d')"
    by simp_all
  have "status_only ?b ?n"
    using modest_on_status [of "SetCondition E ?c" ?b] by (simp add: modest_def)
  moreover have "lib_FindStatusCondition E (status_Conditions (db_status ?n)) ConditionTypeReady = Some ?c"
    using condition_library.lib_find_set [OF assms(1)] by (simp add: SetCondition_def)
  moreover have "eq_fill d ?b" by simp
  ultimately show ?thesis
    using * by (intro exI [of _ ?b] exI [of _ ?n] exI [of _ ?c]) simp
qed

definition invalid_db :: DoltDB where
  "invalid_db = ref_db\<lparr>db_spec := ref_spec 1 0\<rparr>"

theorem invalid_spec_reported_witness:
  "\<exists>s' b n. run_state (Doltdb_Reconcile (ref_env\<lparr>env_GetDoltDB := (\<lambda>h k. Inr invalid_db)\<rparr>) (nn ''dolt'' ''ns'')) (ref_cfg ref_db) =
       ((ResultZero, None), s') \<and> trace s' = [CGetDoltDB (nn ''dolt'' ''ns''), CPatchDoltDBStatus b n]"
proof -
  let ?E = "ref_env\<lparr>env_GetDoltDB := (\<lambda>h k. Inr invalid_db)\<rparr>" and ?k = "nn ''dolt'' ''ns''"
  obtain res e s' where run: "run_state (Doltdb_Reconcile ?E ?k) (ref_cfg ref_db) = ((res, e), s')"
    by (metis surj_pair)
  have lib: "condition_library ?E"
    by (rule keeps_contract_library) (simp add: keeps_contract_def ref_env_def)
  obtain err where err: "ValidateReplicationSpec invalid_db = Some err"
    by (simp add: ValidateReplicationSpec_def invalid_db_def ref_db_def ref_spec_def Replication_def
        ReplicationSpec_FillWithDefaults_def)
  have "env_GetDoltDB ?E (trace (ref_cfg ref_db)) ?k = Inr invalid_db"
    by simp
  from invalid_spec_reported [OF lib this err run] run show ?thesis
    by (auto simp: ref_cfg_def ref_env_def)
qed

end
