(* ===== verification/Resource_Types.thy ===== *)
theory Resource_Types
  imports Dolt_Sql
begin

text \<open>
  The custom resources besides the DoltDB itself: \<open>Database\<close>, \<open>User\<close> and \<open>Grant\<close>
  (\<open>src/api/v1alpha/database_types.go\<close>, \<open>user_types.go\<close>, \<open>grant_types.go\<close>), \<open>Backup\<close>,
  \<open>BackupSchedule\<close> and \<open>Snapshot\<close> (\<open>backup_types.go\<close>, \<open>backupschedule_types.go\<close>,
  \<open>snapshot_types.go\<close> and their \<open>_keys.go\<close>), with their accessors.  A time is an integer number of
  nanoseconds whose value 0 is Go's zero time.
\<close>

section \<open>Metadata and references\<close>

text \<open>
  Metadata with the two fields that matter for deletion, and the time of creation.
\<close>

record resource_meta = object_meta +
  om_finalizers :: "string list"
  om_deletionTimestamp :: "int option"
  om_creationTimestamp :: int

definition is_deleted :: "resource_meta \<Rightarrow> bool" where
  "is_deleted m = (case om_deletionTimestamp m of None \<Rightarrow> False | Some t \<Rightarrow> t \<noteq> 0)"

record doltdb_ref =
  ref_Name :: string
  ref_Namespace :: string

definition CleanupPolicySkip :: string where "CleanupPolicySkip = ''Skip''"
definition CleanupPolicyDelete :: string where "CleanupPolicyDelete = ''Delete''"

definition CleanupPolicy_Validate :: "string \<Rightarrow> goerr option" where
  "CleanupPolicy_Validate c =
     (if c = CleanupPolicySkip \<or> c = CleanupPolicyDelete then None
      else Some (ErrNew (''invalid cleanupPolicy: '' @ c)))"

record SQLTemplate =
  tmpl_RequeueInterval :: "int option"
  tmpl_RetryInterval :: "int option"
  tmpl_CleanupPolicy :: "string option"

section \<open>Databases, users and grants\<close>

text \<open>The name of a database is a pointer that the schema of the resource requires.\<close>

record DatabaseSpec = SQLTemplate +
  dspec_DoltDBRef :: doltdb_ref
  dspec_Name :: string
  dspec_Collation :: string
  dspec_CharSet :: string
  dspec_SystemBranches :: "string list"
  dspec_DoltIgnorePatterns :: "string list"

record DatabaseStatus =
  dstatus_Conditions :: "condition list"

record Database =
  database_meta :: resource_meta
  database_spec :: DatabaseSpec
  database_status :: DatabaseStatus

record UserSpec = SQLTemplate +
  uspec_DoltDBRef :: doltdb_ref
  uspec_PasswordSecretKeyRef :: "secret_ref option"
  uspec_Name :: string
  uspec_Host :: string

record UserStatus =
  ustatus_Conditions :: "condition list"

record User =
  user_meta :: resource_meta
  user_spec :: UserSpec
  user_status :: UserStatus

record GrantSpec = SQLTemplate +
  gspec_DoltDBRef :: doltdb_ref
  gspec_Privileges :: "string list"
  gspec_Database :: string
  gspec_Table :: string
  gspec_Username :: string
  gspec_Host :: "string option"
  gspec_GrantOption :: bool

record GrantStatus =
  gstatus_Conditions :: "condition list"

record Grant =
  grant_meta :: resource_meta
  grant_spec :: GrantSpec
  grant_status :: GrantStatus

definition Database_SetCondition :: "'x lib_scheme \<Rightarrow> condition \<Rightarrow> DatabaseStatus \<Rightarrow> DatabaseStatus" where
  "Database_SetCondition L condition d =
     d\<lparr>dstatus_Conditions := lib_SetStatusCondition L (dstatus_Conditions d) condition\<rparr>"

definition Database_DoltDBRef :: "Database \<Rightarrow> doltdb_ref" where
  "Database_DoltDBRef d = dspec_DoltDBRef (database_spec d)"
definition Database_Name :: "Database \<Rightarrow> string" where
  "Database_Name d = dspec_Name (database_spec d)"
definition Database_IsBeingDeleted :: "Database \<Rightarrow> bool" where
  "Database_IsBeingDeleted d = is_deleted (database_meta d)"
definition Database_IsReady :: "'x lib_scheme \<Rightarrow> Database \<Rightarrow> bool" where
  "Database_IsReady L d =
     lib_IsStatusConditionTrue L (dstatus_Conditions (database_status d)) ConditionTypeReady"
definition Database_RequeueInterval :: "Database \<Rightarrow> int option" where
  "Database_RequeueInterval d = tmpl_RequeueInterval (database_spec d)"
definition Database_RetryInterval :: "Database \<Rightarrow> int option" where
  "Database_RetryInterval d = tmpl_RetryInterval (database_spec d)"
definition Database_CleanupPolicy :: "Database \<Rightarrow> string option" where
  "Database_CleanupPolicy d = tmpl_CleanupPolicy (database_spec d)"

definition User_SetCondition :: "'x lib_scheme \<Rightarrow> condition \<Rightarrow> UserStatus \<Rightarrow> UserStatus" where
  "User_SetCondition L condition u =
     u\<lparr>ustatus_Conditions := lib_SetStatusCondition L (ustatus_Conditions u) condition\<rparr>"

definition Username :: "User \<Rightarrow> string" where
  "Username u = uspec_Name (user_spec u)"
definition User_HostnameOrDefault :: "User \<Rightarrow> string" where
  "User_HostnameOrDefault u =
     (if uspec_Host (user_spec u) \<noteq> [] then uspec_Host (user_spec u) else ''%'')"
definition User_AccountName :: "User \<Rightarrow> string" where
  "User_AccountName u = quoted (Username u) @ ''@'' @ quoted (User_HostnameOrDefault u)"
definition User_IsBeingDeleted :: "User \<Rightarrow> bool" where
  "User_IsBeingDeleted u = is_deleted (user_meta u)"
definition User_IsReady :: "'x lib_scheme \<Rightarrow> User \<Rightarrow> bool" where
  "User_IsReady L u =
     lib_IsStatusConditionTrue L (ustatus_Conditions (user_status u)) ConditionTypeReady"
definition User_DoltDBRef :: "User \<Rightarrow> doltdb_ref" where
  "User_DoltDBRef u = uspec_DoltDBRef (user_spec u)"
definition User_RequeueInterval :: "User \<Rightarrow> int option" where
  "User_RequeueInterval u = tmpl_RequeueInterval (user_spec u)"
definition User_RetryInterval :: "User \<Rightarrow> int option" where
  "User_RetryInterval u = tmpl_RetryInterval (user_spec u)"
definition User_CleanupPolicy :: "User \<Rightarrow> string option" where
  "User_CleanupPolicy u = tmpl_CleanupPolicy (user_spec u)"

definition Grant_SetCondition :: "'x lib_scheme \<Rightarrow> condition \<Rightarrow> GrantStatus \<Rightarrow> GrantStatus" where
  "Grant_SetCondition L condition g =
     g\<lparr>gstatus_Conditions := lib_SetStatusCondition L (gstatus_Conditions g) condition\<rparr>"

definition Grant_IsBeingDeleted :: "Grant \<Rightarrow> bool" where
  "Grant_IsBeingDeleted g = is_deleted (grant_meta g)"
definition Grant_IsReady :: "'x lib_scheme \<Rightarrow> Grant \<Rightarrow> bool" where
  "Grant_IsReady L g =
     lib_IsStatusConditionTrue L (gstatus_Conditions (grant_status g)) ConditionTypeReady"
definition Grant_DoltDBRef :: "Grant \<Rightarrow> doltdb_ref" where
  "Grant_DoltDBRef g = gspec_DoltDBRef (grant_spec g)"
definition Grant_RequeueInterval :: "Grant \<Rightarrow> int option" where
  "Grant_RequeueInterval g = tmpl_RequeueInterval (grant_spec g)"
definition Grant_RetryInterval :: "Grant \<Rightarrow> int option" where
  "Grant_RetryInterval g = tmpl_RetryInterval (grant_spec g)"
definition Grant_CleanupPolicy :: "Grant \<Rightarrow> string option" where
  "Grant_CleanupPolicy g = tmpl_CleanupPolicy (grant_spec g)"
definition Grant_HostnameOrDefault :: "Grant \<Rightarrow> string" where
  "Grant_HostnameOrDefault g =
     (case gspec_Host (grant_spec g) of Some h \<Rightarrow> if h \<noteq> [] then h else ''%'' | None \<Rightarrow> ''%'')"
definition Grant_AccountName :: "Grant \<Rightarrow> string" where
  "Grant_AccountName g = quoted (gspec_Username (grant_spec g)) @ ''@'' @ quoted (Grant_HostnameOrDefault g)"

text \<open>
  The field indexers of the watches: which objects a change of a Secret or of a User concerns.
  An object of another type has no index value.
\<close>

definition UserPasswordSecretFieldPath :: string where
  "UserPasswordSecretFieldPath = ''.spec.passwordSecretKeyRef.name''"

definition User_IndexerFuncForFieldPath :: "string \<Rightarrow> goerr + (User \<Rightarrow> string list)" where
  "User_IndexerFuncForFieldPath fieldPath =
     (if fieldPath = UserPasswordSecretFieldPath
      then Inr (\<lambda>u. case uspec_PasswordSecretKeyRef (user_spec u) of
                      Some r \<Rightarrow> if sr_name r \<noteq> [] then [sr_name r] else []
                    | None \<Rightarrow> [])
      else Inl (ErrNew (''unsupported field path: '' @ fieldPath)))"

definition GrantUsernameFieldPath :: string where
  "GrantUsernameFieldPath = ''.spec.username''"

definition Grant_IndexerFuncForFieldPath :: "string \<Rightarrow> goerr + (Grant \<Rightarrow> string list)" where
  "Grant_IndexerFuncForFieldPath fieldPath =
     (if fieldPath = GrantUsernameFieldPath
      then Inr (\<lambda>g. if gspec_Username (grant_spec g) \<noteq> [] then [gspec_Username (grant_spec g)] else [])
      else Inl (ErrNew (''unsupported field path: '' @ fieldPath)))"

section \<open>Backups\<close>

definition DefaultBackoffLimit :: int where
  "DefaultBackoffLimit = 2"

text \<open>The empty phase is that of a backup that no pass has seen.\<close>

definition BackupPhasePending :: string where "BackupPhasePending = ''Pending''"
definition BackupPhaseRunning :: string where "BackupPhaseRunning = ''Running''"
definition BackupPhaseCompleted :: string where "BackupPhaseCompleted = ''Completed''"
definition BackupPhaseFailed :: string where "BackupPhaseFailed = ''Failed''"

lemma backup_phases_distinct [simp]:
  "BackupPhasePending \<noteq> BackupPhaseRunning" "BackupPhaseRunning \<noteq> BackupPhasePending"
  "BackupPhasePending \<noteq> BackupPhaseCompleted" "BackupPhaseCompleted \<noteq> BackupPhasePending"
  "BackupPhasePending \<noteq> BackupPhaseFailed" "BackupPhaseFailed \<noteq> BackupPhasePending"
  "BackupPhaseRunning \<noteq> BackupPhaseCompleted" "BackupPhaseCompleted \<noteq> BackupPhaseRunning"
  "BackupPhaseRunning \<noteq> BackupPhaseFailed" "BackupPhaseFailed \<noteq> BackupPhaseRunning"
  "BackupPhaseCompleted \<noteq> BackupPhaseFailed" "BackupPhaseFailed \<noteq> BackupPhaseCompleted"
  "BackupPhasePending \<noteq> []" "BackupPhaseRunning \<noteq> []" "BackupPhaseCompleted \<noteq> []" "BackupPhaseFailed \<noteq> []"
  by (simp_all add: BackupPhasePending_def BackupPhaseRunning_def BackupPhaseCompleted_def
      BackupPhaseFailed_def)

record S3BackupStorage =
  s3_Bucket :: string
  s3_Region :: string
  s3_Endpoint :: string
  s3_Prefix :: string
  s3_DynamoDBTable :: string
  s3_ForcePathStyle :: "bool option"
  s3_AccessKeyIdSecretKeyRef :: "secret_ref option"
  s3_SecretAccessKeySecretKeyRef :: "secret_ref option"

record DoltHubBackupStorage =
  hub_RemoteURL :: string
  hub_CredentialsSecretKeyRef :: "secret_ref option"

record LocalBackupStorage =
  local_Path :: string

record BackupStorage =
  storage_S3 :: "S3BackupStorage option"
  storage_DoltHub :: "DoltHubBackupStorage option"
  storage_Local :: "LocalBackupStorage option"

record BackupSpec =
  bspec_DoltDBRef :: doltdb_ref
  bspec_Storage :: BackupStorage
  bspec_Databases :: "string list"
  bspec_BackoffLimit :: "int option"
  bspec_Resources :: "blob option"
  bspec_ImagePullSecrets :: "string list"

record BackupStatus =
  bstatus_Conditions :: "condition list"
  bstatus_Phase :: string
  bstatus_StartedAt :: "int option"
  bstatus_CompletedAt :: "int option"
  bstatus_Error :: string
  bstatus_RetryCount :: int

record Backup =
  backup_meta :: resource_meta
  backup_spec :: BackupSpec
  backup_status :: BackupStatus

definition Backup_SetCondition :: "'x lib_scheme \<Rightarrow> condition \<Rightarrow> BackupStatus \<Rightarrow> BackupStatus" where
  "Backup_SetCondition L condition s =
     s\<lparr>bstatus_Conditions := lib_SetStatusCondition L (bstatus_Conditions s) condition\<rparr>"

definition Backup_DoltDBRef :: "Backup \<Rightarrow> doltdb_ref" where
  "Backup_DoltDBRef b = bspec_DoltDBRef (backup_spec b)"
definition Backup_GetBackoffLimit :: "Backup \<Rightarrow> int" where
  "Backup_GetBackoffLimit b = ptr_Deref (bspec_BackoffLimit (backup_spec b)) DefaultBackoffLimit"
definition Backup_IsReady :: "'x lib_scheme \<Rightarrow> Backup \<Rightarrow> bool" where
  "Backup_IsReady L b =
     lib_IsStatusConditionTrue L (bstatus_Conditions (backup_status b)) ConditionTypeReady"
definition IsCompleted :: "Backup \<Rightarrow> bool" where
  "IsCompleted b \<longleftrightarrow> bstatus_Phase (backup_status b) = BackupPhaseCompleted"
definition IsFailed :: "Backup \<Rightarrow> bool" where
  "IsFailed b \<longleftrightarrow> bstatus_Phase (backup_status b) = BackupPhaseFailed"
definition IsRunning :: "Backup \<Rightarrow> bool" where
  "IsRunning b \<longleftrightarrow> bstatus_Phase (backup_status b) = BackupPhaseRunning"
definition BackupJobKey :: "Backup \<Rightarrow> namespaced_name" where
  "BackupJobKey b = nn (om_name (backup_meta b) @ ''-backup'') (om_namespace (backup_meta b))"

section \<open>Backup schedules\<close>

record BackupScheduleSpec =
  bss_DoltDBRef :: doltdb_ref
  bss_Storage :: BackupStorage
  bss_Schedule :: string
  bss_Databases :: "string list"
  bss_Suspend :: "bool option"
  bss_BackoffLimit :: "int option"
  bss_Resources :: "blob option"
  bss_ImagePullSecrets :: "string list"

record BackupScheduleStatus =
  bsst_Conditions :: "condition list"
  bsst_LastScheduleTime :: "int option"
  bsst_NextScheduleTime :: "int option"
  bsst_LastBackupRef :: string

record BackupSchedule =
  schedule_meta :: resource_meta
  schedule_spec :: BackupScheduleSpec
  schedule_status :: BackupScheduleStatus

definition BackupSchedule_SetCondition ::
    "'x lib_scheme \<Rightarrow> condition \<Rightarrow> BackupScheduleStatus \<Rightarrow> BackupScheduleStatus" where
  "BackupSchedule_SetCondition L condition s =
     s\<lparr>bsst_Conditions := lib_SetStatusCondition L (bsst_Conditions s) condition\<rparr>"

definition BackupSchedule_DoltDBRef :: "BackupSchedule \<Rightarrow> doltdb_ref" where
  "BackupSchedule_DoltDBRef bs = bss_DoltDBRef (schedule_spec bs)"
definition BackupSchedule_IsReady :: "'x lib_scheme \<Rightarrow> BackupSchedule \<Rightarrow> bool" where
  "BackupSchedule_IsReady L bs =
     lib_IsStatusConditionTrue L (bsst_Conditions (schedule_status bs)) ConditionTypeReady"
definition IsSuspended :: "BackupSchedule \<Rightarrow> bool" where
  "IsSuspended bs \<longleftrightarrow> bss_Suspend (schedule_spec bs) = Some True"
definition BackupSchedule_GetBackoffLimit :: "BackupSchedule \<Rightarrow> int" where
  "BackupSchedule_GetBackoffLimit bs = ptr_Deref (bss_BackoffLimit (schedule_spec bs)) DefaultBackoffLimit"
definition BackupSchedule_CronJobKey :: "BackupSchedule \<Rightarrow> namespaced_name" where
  "BackupSchedule_CronJobKey bs =
     nn (om_name (schedule_meta bs) @ ''-backup-schedule'') (om_namespace (schedule_meta bs))"

section \<open>Snapshots\<close>

text \<open>The schedule of a snapshot is a pointer that the schema of the resource requires.\<close>

record SnapshotSpec =
  sspec_FrequencySchedule :: string
  sspec_DoltDBRef :: doltdb_ref
  sspec_Image :: string
  sspec_Version :: string
  sspec_ImagePullSecrets :: "string list"

record SnapshotStatus =
  sstatus_Conditions :: "condition list"

record Snapshot =
  snapshot_meta :: resource_meta
  snapshot_spec :: SnapshotSpec
  snapshot_status :: SnapshotStatus

definition Snapshot_SetCondition :: "'x lib_scheme \<Rightarrow> condition \<Rightarrow> SnapshotStatus \<Rightarrow> SnapshotStatus" where
  "Snapshot_SetCondition L condition s =
     s\<lparr>sstatus_Conditions := lib_SetStatusCondition L (sstatus_Conditions s) condition\<rparr>"

definition Snapshot_IsReady :: "'x lib_scheme \<Rightarrow> Snapshot \<Rightarrow> bool" where
  "Snapshot_IsReady L d =
     lib_IsStatusConditionTrue L (sstatus_Conditions (snapshot_status d)) ConditionTypeSnapshotCreated"
definition Snapshot_DoltDBRef :: "Snapshot \<Rightarrow> doltdb_ref" where
  "Snapshot_DoltDBRef d = sspec_DoltDBRef (snapshot_spec d)"
definition Snapshot_CronJobKey :: "Snapshot \<Rightarrow> string \<Rightarrow> namespaced_name" where
  "Snapshot_CronJobKey d name = nn (name @ ''-job'') (om_namespace (snapshot_meta d))"
definition Snapshot_ConfigMapKey :: "Snapshot \<Rightarrow> string \<Rightarrow> namespaced_name" where
  "Snapshot_ConfigMapKey d name = nn (name @ ''-cm'') (om_namespace (snapshot_meta d))"

text \<open>
  A cron job, restricted to what the operator sets, and the manifest of a volume snapshot that its
  pods apply (\<open>src/pkg/builder/volumesnapshot_builder.go\<close>).
\<close>

record cron_container =
  cc_Name :: string
  cc_Image :: string
  cc_Command :: "string list"
  cc_VolumeMounts :: "(string \<times> string \<times> bool) list"

record cron_job_spec =
  cjs_Schedule :: string
  cjs_TTLSecondsAfterFinished :: "int option"
  cjs_PodMeta :: object_meta
  cjs_ServiceAccountName :: string
  cjs_ImagePullSecrets :: "string list"
  cjs_Containers :: "cron_container list"
  cjs_Volumes :: "(string \<times> string) list"
  cjs_RestartPolicy :: string

record cron_job =
  cj_meta :: object_meta
  cj_spec :: cron_job_spec

record VolumeSnapshot =
  vs_APIVersion :: string
  vs_Kind :: string
  vs_Metadata :: object_meta
  vs_VolumeSnapshotClassName :: string
  vs_PersistentVolumeClaimName :: string

end
