(* ===== verification/Resource_Client.thy ===== *)
theory Resource_Client
  imports Resource_Types
begin

text \<open>
  The requests of the controllers of the other custom resources, and their replies.

  These controllers work on another object than the reconcilers of a DoltDB and make more kinds of
  requests, so they have a request type of their own.  It embeds the requests of theory
  \<open>Kube_Client\<close>: an operation on a DoltDB runs inside them through \<open>via_base\<close>.
\<close>

section \<open>Requests and replies\<close>

text \<open>A statement is the text that is sent, with the arguments of its placeholders.\<close>

datatype rcall =
    KCall call
  | RGetDatabase namespaced_name
  | RGetUser namespaced_name
  | RGetGrant namespaced_name
  | RGetBackup namespaced_name
  | RGetSchedule namespaced_name
  | RGetSnapshot namespaced_name
  | RGetCronJob namespaced_name
  | RListBackups string
  | RCreateBackup Backup
  | RCreateCronJob cron_job
  | RPatchDatabase Database Database
  | RPatchUser User User
  | RPatchGrant Grant Grant
  | RPatchDatabaseStatus Database Database
  | RPatchUserStatus User User
  | RPatchGrantStatus Grant Grant
  | RPatchBackupStatus Backup Backup
  | RPatchScheduleStatus BackupSchedule BackupSchedule
  | RPatchSnapshotStatus Snapshot Snapshot
  | RPatchCronJob cron_job cron_job
  | RExec sql_opts string "string list"
  | RQueryRow sql_opts string "string list"
  | RQuery sql_opts string "string list"
  | RBeginTx sql_opts
  | RTxQueryRow sql_opts string "string list"
  | RTxExec sql_opts string "string list"
  | RCommit sql_opts

text \<open>
  A row that is queried answers with \<open>row.Err()\<close> or with the outcome of \<open>Scan\<close>.
  \<open>re_base\<close> is the rest of the world, as theory \<open>Kube_Client\<close> describes it: it may depend on what the
  controllers of the SQL resources did before.  The finalizer functions are those of the package
  \<open>controllerutil\<close>; \<open>re_Interrupted\<close> is \<open>wait.Interrupted\<close>, \<open>re_PollRounds\<close> and \<open>re_PollErr\<close>
  are how often a poll with a deadline gets to ask and what it then returns.  \<open>re_Now\<close> is the clock;
  \<open>re_CronParse\<close> is \<open>cron.ParseStandard\<close>, which yields the method \<open>Next\<close> of a schedule, and the
  last three library functions are those of the packages \<open>json\<close> and \<open>yaml\<close>.
\<close>

record resource_env =
  re_lib :: lib
  re_ContainsFinalizer :: "string list \<Rightarrow> string \<Rightarrow> bool"
  re_AddFinalizer :: "string list \<Rightarrow> string \<Rightarrow> string list"
  re_RemoveFinalizer :: "string list \<Rightarrow> string \<Rightarrow> string list"
  re_Interrupted :: "goerr \<Rightarrow> bool"
  re_CronParse :: "string \<Rightarrow> goerr + (int \<Rightarrow> int)"
  re_JsonMarshal :: "VolumeSnapshot \<Rightarrow> blob"
  re_JsonUnmarshal :: "blob \<Rightarrow> goerr + blob"
  re_YamlMarshal :: "blob \<Rightarrow> goerr + string"
  re_base :: "rcall list \<Rightarrow> env"
  re_GetDatabase :: "rcall list \<Rightarrow> namespaced_name \<Rightarrow> goerr + Database"
  re_GetUser :: "rcall list \<Rightarrow> namespaced_name \<Rightarrow> goerr + User"
  re_GetGrant :: "rcall list \<Rightarrow> namespaced_name \<Rightarrow> goerr + Grant"
  re_GetBackup :: "rcall list \<Rightarrow> namespaced_name \<Rightarrow> goerr + Backup"
  re_GetSchedule :: "rcall list \<Rightarrow> namespaced_name \<Rightarrow> goerr + BackupSchedule"
  re_GetSnapshot :: "rcall list \<Rightarrow> namespaced_name \<Rightarrow> goerr + Snapshot"
  re_GetCronJob :: "rcall list \<Rightarrow> namespaced_name \<Rightarrow> goerr + cron_job"
  re_ListBackups :: "rcall list \<Rightarrow> string \<Rightarrow> goerr + Backup list"
  re_CreateBackup :: "rcall list \<Rightarrow> Backup \<Rightarrow> goerr option"
  re_CreateCronJob :: "rcall list \<Rightarrow> cron_job \<Rightarrow> goerr option"
  re_PatchCronJob :: "rcall list \<Rightarrow> cron_job \<Rightarrow> cron_job \<Rightarrow> goerr option"
  re_PatchBackupStatus :: "rcall list \<Rightarrow> Backup \<Rightarrow> Backup \<Rightarrow> goerr + Backup"
  re_PatchScheduleStatus :: "rcall list \<Rightarrow> BackupSchedule \<Rightarrow> BackupSchedule \<Rightarrow> goerr + BackupSchedule"
  re_PatchSnapshotStatus :: "rcall list \<Rightarrow> Snapshot \<Rightarrow> Snapshot \<Rightarrow> goerr + Snapshot"
  re_PatchDatabase :: "rcall list \<Rightarrow> Database \<Rightarrow> Database \<Rightarrow> goerr + Database"
  re_PatchUser :: "rcall list \<Rightarrow> User \<Rightarrow> User \<Rightarrow> goerr + User"
  re_PatchGrant :: "rcall list \<Rightarrow> Grant \<Rightarrow> Grant \<Rightarrow> goerr + Grant"
  re_PatchDatabaseStatus :: "rcall list \<Rightarrow> Database \<Rightarrow> Database \<Rightarrow> goerr + Database"
  re_PatchUserStatus :: "rcall list \<Rightarrow> User \<Rightarrow> User \<Rightarrow> goerr + User"
  re_PatchGrantStatus :: "rcall list \<Rightarrow> Grant \<Rightarrow> Grant \<Rightarrow> goerr + Grant"
  re_Exec :: "rcall list \<Rightarrow> sql_opts \<Rightarrow> string \<Rightarrow> string list \<Rightarrow> goerr option"
  re_QueryRow :: "rcall list \<Rightarrow> sql_opts \<Rightarrow> string \<Rightarrow> string list \<Rightarrow> goerr + (goerr + int)"
  re_QueryNames :: "rcall list \<Rightarrow> sql_opts \<Rightarrow> string \<Rightarrow> string list \<Rightarrow> goerr + string rows"
  re_QueryIgnores :: "rcall list \<Rightarrow> sql_opts \<Rightarrow> string \<Rightarrow> string list \<Rightarrow> goerr + (string \<times> bool) rows"
  re_QueryStatus :: "rcall list \<Rightarrow> sql_opts \<Rightarrow> string \<Rightarrow> string list \<Rightarrow> goerr + int rows"
  re_BeginTx :: "rcall list \<Rightarrow> sql_opts \<Rightarrow> goerr option"
  re_TxQueryRow :: "rcall list \<Rightarrow> sql_opts \<Rightarrow> string \<Rightarrow> string list \<Rightarrow> goerr + (goerr + int)"
  re_TxExec :: "rcall list \<Rightarrow> sql_opts \<Rightarrow> string \<Rightarrow> string list \<Rightarrow> goerr option"
  re_Commit :: "rcall list \<Rightarrow> sql_opts \<Rightarrow> goerr option"
  re_PollRounds :: "rcall list \<Rightarrow> nat"
  re_PollErr :: "rcall list \<Rightarrow> goerr"
  re_Now :: "rcall list \<Rightarrow> int"

type_synonym ('o, 'a) rop = "(rcall, 'o, 'a) prog"

definition r_GetDatabase where "r_GetDatabase E k = perform (RGetDatabase k) (\<lambda>h. re_GetDatabase E h k)"
definition r_GetUser where "r_GetUser E k = perform (RGetUser k) (\<lambda>h. re_GetUser E h k)"
definition r_GetGrant where "r_GetGrant E k = perform (RGetGrant k) (\<lambda>h. re_GetGrant E h k)"
definition r_GetBackup where "r_GetBackup E k = perform (RGetBackup k) (\<lambda>h. re_GetBackup E h k)"
definition r_GetSchedule where "r_GetSchedule E k = perform (RGetSchedule k) (\<lambda>h. re_GetSchedule E h k)"
definition r_GetSnapshot where "r_GetSnapshot E k = perform (RGetSnapshot k) (\<lambda>h. re_GetSnapshot E h k)"
definition r_GetCronJob where "r_GetCronJob E k = perform (RGetCronJob k) (\<lambda>h. re_GetCronJob E h k)"
definition r_ListBackups where "r_ListBackups E ns = perform (RListBackups ns) (\<lambda>h. re_ListBackups E h ns)"
definition r_CreateBackup where "r_CreateBackup E b = perform (RCreateBackup b) (\<lambda>h. re_CreateBackup E h b)"
definition r_CreateCronJob where "r_CreateCronJob E j = perform (RCreateCronJob j) (\<lambda>h. re_CreateCronJob E h j)"
definition r_PatchCronJob where
  "r_PatchCronJob E b n = perform (RPatchCronJob b n) (\<lambda>h. re_PatchCronJob E h b n)"
definition r_PatchBackupStatus where
  "r_PatchBackupStatus E b n = perform (RPatchBackupStatus b n) (\<lambda>h. re_PatchBackupStatus E h b n)"
definition r_PatchScheduleStatus where
  "r_PatchScheduleStatus E b n = perform (RPatchScheduleStatus b n) (\<lambda>h. re_PatchScheduleStatus E h b n)"
definition r_PatchSnapshotStatus where
  "r_PatchSnapshotStatus E b n = perform (RPatchSnapshotStatus b n) (\<lambda>h. re_PatchSnapshotStatus E h b n)"
definition r_PatchDatabase where
  "r_PatchDatabase E b n = perform (RPatchDatabase b n) (\<lambda>h. re_PatchDatabase E h b n)"
definition r_PatchUser where "r_PatchUser E b n = perform (RPatchUser b n) (\<lambda>h. re_PatchUser E h b n)"
definition r_PatchGrant where "r_PatchGrant E b n = perform (RPatchGrant b n) (\<lambda>h. re_PatchGrant E h b n)"
definition r_PatchDatabaseStatus where
  "r_PatchDatabaseStatus E b n = perform (RPatchDatabaseStatus b n) (\<lambda>h. re_PatchDatabaseStatus E h b n)"
definition r_PatchUserStatus where
  "r_PatchUserStatus E b n = perform (RPatchUserStatus b n) (\<lambda>h. re_PatchUserStatus E h b n)"
definition r_PatchGrantStatus where
  "r_PatchGrantStatus E b n = perform (RPatchGrantStatus b n) (\<lambda>h. re_PatchGrantStatus E h b n)"

definition Client_Exec where
  "Client_Exec E c q args = perform (RExec c q args) (\<lambda>h. re_Exec E h c q args)"
definition Client_QueryRow where
  "Client_QueryRow E c q args = perform (RQueryRow c q args) (\<lambda>h. re_QueryRow E h c q args)"
definition r_QueryNames where
  "r_QueryNames E c q args = perform (RQuery c q args) (\<lambda>h. re_QueryNames E h c q args)"
definition r_QueryIgnores where
  "r_QueryIgnores E c q args = perform (RQuery c q args) (\<lambda>h. re_QueryIgnores E h c q args)"
definition r_QueryStatus where
  "r_QueryStatus E c q args = perform (RQuery c q args) (\<lambda>h. re_QueryStatus E h c q args)"
definition r_BeginTx where "r_BeginTx E c = perform (RBeginTx c) (\<lambda>h. re_BeginTx E h c)"
definition r_TxQueryRow where
  "r_TxQueryRow E c q args = perform (RTxQueryRow c q args) (\<lambda>h. re_TxQueryRow E h c q args)"
definition r_TxExec where
  "r_TxExec E c q args = perform (RTxExec c q args) (\<lambda>h. re_TxExec E h c q args)"
definition r_Commit where "r_Commit E c = perform (RCommit c) (\<lambda>h. re_Commit E h c)"

lemmas r_defs =
  r_GetDatabase_def r_GetUser_def r_GetGrant_def r_PatchDatabase_def r_PatchUser_def r_PatchGrant_def
  r_PatchDatabaseStatus_def r_PatchUserStatus_def r_PatchGrantStatus_def Client_Exec_def
  r_GetBackup_def r_GetSchedule_def r_GetSnapshot_def r_GetCronJob_def r_ListBackups_def
  r_CreateBackup_def r_CreateCronJob_def r_PatchCronJob_def r_PatchBackupStatus_def
  r_PatchScheduleStatus_def r_PatchSnapshotStatus_def r_QueryStatus_def
  Client_QueryRow_def r_QueryNames_def r_QueryIgnores_def r_BeginTx_def r_TxQueryRow_def r_TxExec_def
  r_Commit_def

text \<open>
  An operation of the other theories, on an object of its own: its requests go to the same trace,
  and its replies come from the environment as it is when the operation starts.
\<close>

definition via_base ::
    "resource_env \<Rightarrow> 'i \<Rightarrow> (env \<Rightarrow> (call, 'i, 'a) prog) \<Rightarrow> ('o, 'a \<times> 'i) rop" where
  "via_base E x p = State (\<lambda>s.
     case run_state (p (re_base E (trace s))) \<lparr>trace = [], obj = x\<rparr> of
       (a, s') \<Rightarrow> ((a, obj s'), s\<lparr>trace := trace s @ map KCall (trace s')\<rparr>))"

text \<open>What the environment decides at this point without being sent a request.\<close>

definition peek_resource :: "(rcall list \<Rightarrow> 'a) \<Rightarrow> ('o, 'a) rop" where
  "peek_resource f = State (\<lambda>s. (f (trace s), s))"

text \<open>
  A patch of the object in memory: remember it, mutate it, send the difference, and take over the
  object the server returns.
\<close>

definition patch_object :: "('o \<Rightarrow> 'o \<Rightarrow> ('o, goerr + 'o) rop) \<Rightarrow> ('o \<Rightarrow> 'o) \<Rightarrow> ('o, goerr option) rop" where
  "patch_object send f = do {
     base \<leftarrow> get_obj;
     put_obj (f base);
     r \<leftarrow> send base (f base);
     case r of
       Inl e \<Rightarrow> ret (Some e)
     | Inr new \<Rightarrow> do { put_obj new; ret None }
   }"

section \<open>Symbolic execution\<close>

lemmas wp_r [wp_simps] = r_defs [THEN arg_cong, of "\<lambda>p. wp p Q s" for Q s, unfolded wp_perform]

lemma wp_via_base [wp_simps]:
  "wp (via_base E x p) Q s =
     wp (p (re_base E (trace s))) (\<lambda>a s'. Q (a, obj s') (s\<lparr>trace := trace s @ map KCall (trace s')\<rparr>))
       \<lparr>trace = [], obj = x\<rparr>"
  by (simp add: wp_def via_base_def split: prod.splits)

lemma wp_peek_resource [wp_simps]: "wp (peek_resource f) Q s = Q (f (trace s)) s"
  by (simp add: wp_def peek_resource_def)

end
