(* ===== verification/Sql_Statements.thy ===== *)
theory Sql_Statements
  imports Resource_Client
begin

text \<open>
  Package \<open>sql\<close> (\<open>src/pkg/dolt/sql\<close>), the statements for databases, users, grants, branches and
  ignored tables: \<open>database.go\<close>, \<open>user.go\<close>, \<open>grant.go\<close> and \<open>vcs.go\<close>.  The text of every statement
  is the one the code formats.
\<close>

section \<open>Databases\<close>

definition backquoted :: "string \<Rightarrow> string" where
  "backquoted s = CHR 0x60 # s @ [CHR 0x60]"

text \<open>
  The pattern \<open>^[a-zA-Z0-9_]+$\<close>, with the letters and digits by their byte ranges.  The \<open>%q\<close> of the error message is written without the escapes of
  Go's quoting.
\<close>

definition identifier_char :: "char \<Rightarrow> bool" where
  "identifier_char c =
     (let n = (of_char c :: nat)
      in n \<in> {97..122} \<or> n \<in> {65..90} \<or> n \<in> {48..57} \<or> c = CHR 0x5F)"

definition validIdentifier :: "string \<Rightarrow> bool" where
  "validIdentifier s \<longleftrightarrow> s \<noteq> [] \<and> list_all identifier_char s"

definition sanitizeIdentifier :: "string \<Rightarrow> goerr + string" where
  "sanitizeIdentifier name =
     (let s = filter (\<lambda>c. c \<noteq> CHR 0x60) name
      in if s = [] \<or> \<not> validIdentifier s then Inl (ErrNew (''invalid identifier: '' @ dquoted name))
         else Inr s)"

record DatabaseOpts =
  dopts_CharSet :: string
  dopts_Collation :: string

definition databaseOptionsText :: "DatabaseOpts \<Rightarrow> string" where
  "databaseOptionsText opts =
     (if dopts_CharSet opts \<noteq> [] then '' CHARACTER SET = '' @ quoted (dopts_CharSet opts) else []) @
     (if dopts_Collation opts \<noteq> [] then '' COLLATE = '' @ quoted (dopts_Collation opts) else []) @ '';''"

definition createDatabaseText :: "string \<Rightarrow> DatabaseOpts \<Rightarrow> string" where
  "createDatabaseText safe opts =
     ''CREATE DATABASE IF NOT EXISTS '' @ backquoted safe @ databaseOptionsText opts"

definition CreateDatabase :: "resource_env \<Rightarrow> sql_opts \<Rightarrow> string \<Rightarrow> DatabaseOpts \<Rightarrow> ('o, goerr option) rop" where
  "CreateDatabase E c database opts =
     (case sanitizeIdentifier database of
        Inl err \<Rightarrow> ret (Some err)
      | Inr safe \<Rightarrow> Client_Exec E c (createDatabaseText safe opts) [])"

definition dropDatabaseText :: "string \<Rightarrow> string" where
  "dropDatabaseText safe = ''DROP DATABASE IF EXISTS '' @ backquoted safe @ '';''"

definition DropDatabase :: "resource_env \<Rightarrow> sql_opts \<Rightarrow> string \<Rightarrow> ('o, goerr option) rop" where
  "DropDatabase E c database =
     (case sanitizeIdentifier database of
        Inl err \<Rightarrow> ret (Some err)
      | Inr safe \<Rightarrow> Client_Exec E c (dropDatabaseText safe) [])"

definition useDatabaseText :: "string \<Rightarrow> string" where
  "useDatabaseText safe = ''USE '' @ backquoted safe @ '';''"

definition UseDatabase :: "resource_env \<Rightarrow> sql_opts \<Rightarrow> string \<Rightarrow> ('o, goerr option) rop" where
  "UseDatabase E c database =
     (case sanitizeIdentifier database of
        Inl err \<Rightarrow> ret (Some err)
      | Inr safe \<Rightarrow> Client_Exec E c (useDatabaseText safe) [])"

section \<open>Branches and ignored tables\<close>

definition ErrBranchExists :: goerr where
  "ErrBranchExists = Sentinel ''branch already exists''"

text \<open>The text of \<open>DOLT_BRANCH\<close> with its two literal arguments.\<close>

definition createBranchText :: string where
  "createBranchText =
     ''CALL DOLT_BRANCH('' @ quoted ''-c'' @ '', '' @ quoted ''main'' @ '', ?)''"

definition createBranch :: "resource_env \<Rightarrow> sql_opts \<Rightarrow> string \<Rightarrow> ('o, goerr option) rop" where
  "createBranch E c branch = do {
     row \<leftarrow> Client_QueryRow E c ''SELECT COUNT(*) FROM dolt_branches WHERE name = ?;'' [branch];
     case row of
       Inl err \<Rightarrow> ret (Some (ErrW (''error checking if branch '' @ quoted branch @ '' exists: '') err))
     | Inr (Inl err) \<Rightarrow> ret (Some err)
     | Inr (Inr count) \<Rightarrow>
         if count > 0 then ret (Some ErrBranchExists)
         else Client_Exec E c createBranchText [branch]
   }"

text \<open>Both branches of the test for \<open>ErrBranchExists\<close> go on with the next branch.\<close>

fun CreateBranches :: "resource_env \<Rightarrow> sql_opts \<Rightarrow> string list \<Rightarrow> ('o, goerr option) rop" where
  "CreateBranches E c [] = ret None"
| "CreateBranches E c (branch # branches) = do {
     err \<leftarrow> createBranch E c branch;
     case err of
       Some e \<Rightarrow> if errors_Is e (errText ErrBranchExists) then CreateBranches E c branches
                 else CreateBranches E c branches
     | None \<Rightarrow> CreateBranches E c branches
   }"

text \<open>
  The loop over the patterns declares an \<open>err\<close> of its own, so the deferred function always finds the
  outer one nil and commits; what it assigns to \<open>err\<close> is not the value that is returned.
\<close>

fun dolt_ignore_loop :: "resource_env \<Rightarrow> sql_opts \<Rightarrow> string list \<Rightarrow> ('o, goerr option) rop" where
  "dolt_ignore_loop E c [] = ret None"
| "dolt_ignore_loop E c (pattern # patterns) = do {
     row \<leftarrow> r_TxQueryRow E c ''SELECT COUNT(*) FROM dolt_ignore WHERE pattern = ?'' [pattern];
     case row of
       Inl err \<Rightarrow> ret (Some (ErrW (''error checking if pattern '' @ quoted pattern @ '' exists: '') err))
     | Inr (Inl err) \<Rightarrow>
         ret (Some (ErrW (''error checking if pattern '' @ quoted pattern @ '' exists: '') err))
     | Inr (Inr count) \<Rightarrow>
         if count = 0 then do {
           e \<leftarrow> r_TxExec E c ''INSERT INTO dolt_ignore (pattern, ignored) VALUES (?, true)'' [pattern];
           case e of
             Some err \<Rightarrow> ret (Some (ErrW (''error inserting pattern '' @ quoted pattern @ '': '') err))
           | None \<Rightarrow> dolt_ignore_loop E c patterns
         }
         else dolt_ignore_loop E c patterns
   }"

definition CreateDoltIgnore :: "resource_env \<Rightarrow> sql_opts \<Rightarrow> string list \<Rightarrow> ('o, goerr option) rop" where
  "CreateDoltIgnore E c patterns = do {
     b \<leftarrow> r_BeginTx E c;
     case b of
       Some err \<Rightarrow> ret (Some (ErrW ''error beginning transaction to create dolt ignore: '' err))
     | None \<Rightarrow> do {
         result \<leftarrow> dolt_ignore_loop E c patterns;
         commitErr \<leftarrow> r_Commit E c;
         ret result
       }
   }"

text \<open>The listings used by the tests of the package: neither reads \<open>rows.Err()\<close>.\<close>

definition GetBranches :: "resource_env \<Rightarrow> sql_opts \<Rightarrow> ('o, goerr + string list) rop" where
  "GetBranches E c = do {
     q \<leftarrow> r_QueryNames E c ''SELECT name FROM dolt_branches'' [];
     ret (case q of
            Inl err \<Rightarrow> Inl (ErrW ''error getting branches: '' err)
          | Inr (rows, _) \<Rightarrow>
              (case scan_rows rows of
                 Inl err \<Rightarrow> Inl (ErrW ''error scanning branch name: '' err)
               | Inr branches \<Rightarrow> Inr branches))
   }"

definition GetDoltIgnore :: "resource_env \<Rightarrow> sql_opts \<Rightarrow> ('o, goerr + (string \<times> bool) list) rop" where
  "GetDoltIgnore E c = do {
     q \<leftarrow> r_QueryIgnores E c ''SELECT pattern, ignored FROM dolt_ignore'' [];
     ret (case q of
            Inl err \<Rightarrow> Inl (ErrW ''error getting dolt ignore entries: '' err)
          | Inr (rows, _) \<Rightarrow>
              (case scan_rows rows of
                 Inl err \<Rightarrow> Inl (ErrW ''error scanning dolt ignore entry: '' err)
               | Inr doltIgnores \<Rightarrow> Inr doltIgnores))
   }"

section \<open>Users\<close>

definition ErrInvalidUserIdentifier :: goerr where
  "ErrInvalidUserIdentifier = Sentinel ''invalid user identifier''"

record CreateUserOpts =
  uopts_IdentifiedByPassword :: string
  uopts_IdentifiedBy :: string

type_synonym CreateUserOpt = "CreateUserOpts \<Rightarrow> CreateUserOpts"

definition WithIdentifiedByPassword :: "string \<Rightarrow> CreateUserOpt" where
  "WithIdentifiedByPassword password cuo = cuo\<lparr>uopts_IdentifiedByPassword := password\<rparr>"

definition WithIdentifiedBy :: "string \<Rightarrow> CreateUserOpt" where
  "WithIdentifiedBy password cuo = cuo\<lparr>uopts_IdentifiedBy := password\<rparr>"

definition user_opts :: "CreateUserOpt list \<Rightarrow> CreateUserOpts" where
  "user_opts createUserOpts =
     fold (\<lambda>setOpt opts. setOpt opts) createUserOpts
       \<lparr>uopts_IdentifiedByPassword = [], uopts_IdentifiedBy = []\<rparr>"

text \<open>The texts of \<open>CREATE USER\<close> and \<open>ALTER USER\<close> differ in their first words.\<close>

definition identifiedText :: "string \<Rightarrow> string \<Rightarrow> CreateUserOpts \<Rightarrow> string" where
  "identifiedText verb accountName opts =
     verb @ accountName @ '' '' @
     (if uopts_IdentifiedByPassword opts \<noteq> []
      then ''IDENTIFIED BY PASSWORD '' @ quoted (uopts_IdentifiedByPassword opts) @ '' ''
      else ''IDENTIFIED BY '' @ quoted (uopts_IdentifiedBy opts) @ '' '') @ '';''"

definition CreateUser :: "resource_env \<Rightarrow> sql_opts \<Rightarrow> string \<Rightarrow> CreateUserOpt list \<Rightarrow> ('o, goerr option) rop" where
  "CreateUser E c accountName createUserOpts =
     (let opts = user_opts createUserOpts
      in if uopts_IdentifiedByPassword opts = [] \<and> uopts_IdentifiedBy opts = []
         then ret (Some ErrInvalidUserIdentifier)
         else Client_Exec E c (identifiedText ''CREATE USER IF NOT EXISTS '' accountName opts) [])"

definition dropUserText :: "string \<Rightarrow> string" where
  "dropUserText accountName = ''DROP USER IF EXISTS '' @ accountName @ '';''"

definition DropUser :: "resource_env \<Rightarrow> sql_opts \<Rightarrow> string \<Rightarrow> ('o, goerr option) rop" where
  "DropUser E c accountName = Client_Exec E c (dropUserText accountName) []"

definition AlterUser :: "resource_env \<Rightarrow> sql_opts \<Rightarrow> string \<Rightarrow> CreateUserOpt list \<Rightarrow> ('o, goerr option) rop" where
  "AlterUser E c accountName createUserOpts =
     Client_Exec E c (identifiedText ''ALTER USER '' accountName (user_opts createUserOpts)) []"

definition UserExists :: "resource_env \<Rightarrow> sql_opts \<Rightarrow> string \<Rightarrow> string \<Rightarrow> ('o, bool \<times> goerr option) rop" where
  "UserExists E c username host = do {
     row \<leftarrow> Client_QueryRow E c ''SELECT COUNT(*) FROM mysql.user WHERE user=? AND host=?'' [username, host];
     ret (case row of
            Inl err \<Rightarrow> (False, Some err)
          | Inr (Inl err) \<Rightarrow> (False, Some err)
          | Inr (Inr count) \<Rightarrow> (count > 0, None))
   }"

section \<open>Grants\<close>

definition escapeWildcard :: "string \<Rightarrow> string" where
  "escapeWildcard s = (if s = ''*'' then s else backquoted s)"

text \<open>The only option is \<open>WithGrantOption()\<close>; a list of options is whether it is there.\<close>

definition grantText :: "string list \<Rightarrow> string \<Rightarrow> string \<Rightarrow> string \<Rightarrow> bool \<Rightarrow> string" where
  "grantText privileges database table accountName grantOption =
     ''GRANT '' @ str_join '','' privileges @ '' ON '' @ escapeWildcard database @ ''.'' @
     escapeWildcard table @ '' TO '' @ accountName @ '' '' @
     (if grantOption then ''WITH GRANT OPTION '' else []) @ '';''"

definition Client_Grant ::
    "resource_env \<Rightarrow> sql_opts \<Rightarrow> string list \<Rightarrow> string \<Rightarrow> string \<Rightarrow> string \<Rightarrow> bool \<Rightarrow> ('o, goerr option) rop" where
  "Client_Grant E c privileges database table accountName grantOption =
     Client_Exec E c (grantText privileges database table accountName grantOption) []"

definition revokeText :: "string list \<Rightarrow> string \<Rightarrow> string \<Rightarrow> string \<Rightarrow> bool \<Rightarrow> string" where
  "revokeText privileges database table accountName grantOption =
     (let privileges = (if grantOption then privileges @ [''GRANT OPTION''] else privileges)
      in ''REVOKE '' @ str_join '','' privileges @ '' ON '' @ escapeWildcard database @ ''.'' @
         escapeWildcard table @ '' FROM '' @ accountName)"

definition Client_Revoke ::
    "resource_env \<Rightarrow> sql_opts \<Rightarrow> string list \<Rightarrow> string \<Rightarrow> string \<Rightarrow> string \<Rightarrow> bool \<Rightarrow> ('o, goerr option) rop" where
  "Client_Revoke E c privileges database table accountName grantOption =
     Client_Exec E c (revokeText privileges database table accountName grantOption) []"

section \<open>Sanitized identifiers\<close>

lemma sanitizeIdentifier_Inr:
  "sanitizeIdentifier name = Inr s \<longleftrightarrow> s = filter (\<lambda>c. c \<noteq> CHR 0x60) name \<and> validIdentifier s"
  by (auto simp: sanitizeIdentifier_def Let_def validIdentifier_def)

text \<open>A valid identifier is left alone, and sanitizing twice changes nothing more.\<close>

lemma identifier_char_plain: "identifier_char c \<Longrightarrow> c \<noteq> CHR 0x60 \<and> c \<noteq> CHR 0x27 \<and> c \<noteq> CHR 0x3B"
  by (auto simp: identifier_char_def)

lemma sanitizeIdentifier_valid: "validIdentifier s \<Longrightarrow> sanitizeIdentifier s = Inr s"
  by (auto simp: sanitizeIdentifier_Inr validIdentifier_def list_all_iff identifier_char_plain
      intro!: filter_True [symmetric] dest: identifier_char_plain)

lemma sanitizeIdentifier_idem: "sanitizeIdentifier name = Inr s \<Longrightarrow> sanitizeIdentifier s = Inr s"
  by (auto simp: sanitizeIdentifier_Inr intro: sanitizeIdentifier_valid dest: sanitizeIdentifier_valid)

text \<open>The errors of single branches are not reported.\<close>

lemma wp_CreateBranches_None: "wp (CreateBranches E c bs) (\<lambda>e _. e = None) s"
proof (induction bs arbitrary: s)
  case (Cons b bs)
  show ?case
    unfolding CreateBranches.simps wp_bind
    by (rule wp_any) (simp add: wp_simps Cons split: option.split)
qed (simp add: wp_simps)

end
