(* ===== verification/Sql_Resources.thy ===== *)
theory Sql_Resources
  imports Sql_Statements
begin

text \<open>
  The reconciler and finalizer shared by the SQL resources (\<open>src/pkg/controller/database\<close>) and the
  controllers of databases, users and grants that plug into them
  (\<open>src/internal/controller/database_controller.go\<close>, \<open>user_controller.go\<close>, \<open>grant_controller.go\<close>).

  The Go interfaces \<open>Resource\<close>, \<open>WrappedReconciler\<close> and \<open>WrappedFinalizer\<close> are records of
  operations.  The object in memory is the resource that the controller fetched; the wrapped
  operations and the shared code reach it through the same pointer.
\<close>

section \<open>Interfaces\<close>

text \<open>
  A \<open>Patcher\<close> sees a status only through \<open>SetCondition\<close>, and the statuses of the three kinds hold
  nothing but their conditions.
\<close>

type_synonym patcher = "condition list set_condition \<Rightarrow> condition list \<Rightarrow> condition list"

record 'o Resource =
  res_GetName :: "'o \<Rightarrow> string"
  res_GetNamespace :: "'o \<Rightarrow> string"
  res_DoltDBRef :: "'o \<Rightarrow> doltdb_ref"
  res_IsBeingDeleted :: "'o \<Rightarrow> bool"
  res_RequeueInterval :: "'o \<Rightarrow> int option"
  res_RetryInterval :: "'o \<Rightarrow> int option"
  res_CleanupPolicy :: "'o \<Rightarrow> string option"

record 'o WrappedReconciler =
  wr_Reconcile :: "sql_opts \<Rightarrow> ('o, goerr option) rop"
  wr_PatchStatus :: "patcher \<Rightarrow> ('o, goerr option) rop"

record 'o WrappedFinalizer =
  wf_AddFinalizer :: "('o, goerr option) rop"
  wf_RemoveFinalizer :: "('o, goerr option) rop"
  wf_ContainsFinalizer :: "'o \<Rightarrow> bool"
  wf_Reconcile :: "sql_opts \<Rightarrow> ('o, goerr option) rop"

record SqlOptions =
  sqlo_RequeueInterval :: int
  sqlo_LogSql :: bool

type_synonym SqlOpt = "SqlOptions \<Rightarrow> SqlOptions"

definition WithRequeueInterval :: "int \<Rightarrow> SqlOpt" where
  "WithRequeueInterval interval opts = opts\<lparr>sqlo_RequeueInterval := interval\<rparr>"
definition WithLogSql :: "bool \<Rightarrow> SqlOpt" where
  "WithLogSql logSql opts = opts\<lparr>sqlo_LogSql := logSql\<rparr>"

definition NewSqlOptions :: "SqlOpt list \<Rightarrow> SqlOptions" where
  "NewSqlOptions opts =
     fold (\<lambda>setOpt so. setOpt so) opts \<lparr>sqlo_RequeueInterval = 30 * Second, sqlo_LogSql = False\<rparr>"

section \<open>Waiting for the cluster\<close>

abbreviation db_obj :: "DoltDB \<Rightarrow> dbst" where
  "db_obj d \<equiv> \<lparr>the_db = d, clients = []\<rparr>"

definition WaitForDoltDB :: "env \<Rightarrow> DoltDB \<Rightarrow> outcome op" where
  "WaitForDoltDB B doltdb = do {
     h \<leftarrow> IsStatefulSetHealthy B (nn (om_name (db_meta doltdb)) (om_namespace (db_meta doltdb)))
            (InternalServiceKey doltdb)
            [WithDesiredReplicas (spec_Replicas (db_spec doltdb)),
             WithPort (listener_Port (server_Listener (spec_Server (db_spec doltdb)))),
             WithEndpointPolicy EndpointPolicyAll];
     ret (case h of
            Inl err \<Rightarrow> (ResultZero, Some err)
          | Inr healthy \<Rightarrow> (if \<not> healthy then ResultAfter Second else ResultZero, None))
   }"

definition resource_doltdb :: "resource_env \<Rightarrow> 'o Resource \<Rightarrow> 'o \<Rightarrow> ('o, goerr + DoltDB) rop" where
  "resource_doltdb E R resource = do {
     (r, _) \<leftarrow> via_base E () (\<lambda>B. DoltDBRef B (ref_Name (res_DoltDBRef R resource))
                 (ref_Namespace (res_DoltDBRef R resource)) (res_GetNamespace R resource));
     ret r
   }"

definition resource_wait :: "resource_env \<Rightarrow> DoltDB \<Rightarrow> ('o, outcome) rop" where
  "resource_wait E doltdb = do { (r, _) \<leftarrow> via_base E (db_obj doltdb) (\<lambda>B. WaitForDoltDB B doltdb); ret r }"

definition resource_connect :: "resource_env \<Rightarrow> DoltDB \<Rightarrow> ('o, goerr + sql_opts) rop" where
  "resource_connect E doltdb = do {
     (r, _) \<leftarrow> via_base E (db_obj doltdb) (\<lambda>B. NewClientWithDoltDB B []);
     ret r
   }"

text \<open>The deferred \<open>Close\<close>; its error is only logged.\<close>

definition resource_close :: "resource_env \<Rightarrow> DoltDB \<Rightarrow> sql_opts \<Rightarrow> ('o, unit) rop" where
  "resource_close E doltdb client = do {
     r \<leftarrow> via_base E (db_obj doltdb) (\<lambda>B. Client_Close B client);
     ret ()
   }"

section \<open>The finalizer\<close>

definition SqlFinalizer_AddFinalizer :: "'o WrappedFinalizer \<Rightarrow> ('o, goerr option) rop" where
  "SqlFinalizer_AddFinalizer F = do {
     resource \<leftarrow> get_obj;
     if wf_ContainsFinalizer F resource then ret None
     else do {
       e \<leftarrow> wf_AddFinalizer F;
       ret (map_option (ErrV ''error adding finalizer in TemplateFinalizer: '') e)
     }
   }"

definition finalizeConnected :: "'o Resource \<Rightarrow> 'o WrappedFinalizer \<Rightarrow> sql_opts \<Rightarrow> ('o, outcome) rop" where
  "finalizeConnected R F client = do {
     resource \<leftarrow> get_obj;
     e \<leftarrow> (if ptr_Deref (res_CleanupPolicy R resource) CleanupPolicyDelete = CleanupPolicyDelete
           then wf_Reconcile F client else ret None);
     case e of
       Some err \<Rightarrow> ret (ResultZero, Some (ErrV ''error reconciling in TemplateFinalizer: '' err))
     | None \<Rightarrow> do {
         e \<leftarrow> wf_RemoveFinalizer F;
         ret (ResultZero, map_option (ErrV ''error removing finalizer in TemplateFinalizer: '') e)
       }
   }"

definition SqlFinalizer_Finalize ::
    "resource_env \<Rightarrow> 'o Resource \<Rightarrow> 'o WrappedFinalizer \<Rightarrow> ('o, outcome) rop" where
  "SqlFinalizer_Finalize E R F = do {
     resource \<leftarrow> get_obj;
     if \<not> wf_ContainsFinalizer F resource then ret (ResultZero, None)
     else do {
       d \<leftarrow> resource_doltdb E R resource;
       case d of
         Inl err \<Rightarrow>
           if IsNotFound err then do {
             e \<leftarrow> wf_RemoveFinalizer F;
             ret (ResultZero,
                  map_option (ErrV (''error removing '' @ res_GetName R resource @ '' finalizer: '')) e)
           }
           else ret (ResultZero, Some (ErrV ''error getting doltdb: '' err))
       | Inr doltdb \<Rightarrow> do {
           (result, err) \<leftarrow> resource_wait E doltdb;
           if \<not> IsZero result \<or> err \<noteq> None then ret (result, err)
           else do {
             c \<leftarrow> resource_connect E doltdb;
             case c of
               Inl err \<Rightarrow> ret (ResultZero, Some (ErrV ''error connecting to DoltDB: '' err))
             | Inr client \<Rightarrow> do {
                 out \<leftarrow> finalizeConnected R F client;
                 resource_close E doltdb client;
                 ret out
               }
           }
         }
     }
   }"

section \<open>The reconciler\<close>

definition retryResult :: "'o Resource \<Rightarrow> goerr option \<Rightarrow> ('o, outcome) rop" where
  "retryResult R err = do {
     resource \<leftarrow> get_obj;
     ret (case res_RetryInterval R resource of
            Some d \<Rightarrow> (ResultAfter d, None)
          | None \<Rightarrow> (if err \<noteq> None then ResultRequeue else ResultZero, None))
   }"

definition requeueResult :: "SqlOptions \<Rightarrow> 'o Resource \<Rightarrow> goerr option \<Rightarrow> ('o, outcome) rop" where
  "requeueResult opts R err = do {
     resource \<leftarrow> get_obj;
     ret (if err \<noteq> None then (ResultRequeue, None)
          else case res_RequeueInterval R resource of
            Some d \<Rightarrow> (ResultAfter d, None)
          | None \<Rightarrow>
              if sqlo_RequeueInterval opts > 0 then (ResultAfter (sqlo_RequeueInterval opts), None)
              else (ResultZero, None))
   }"

definition reconcileConnected ::
    "SqlOptions \<Rightarrow> 'o Resource \<Rightarrow> 'o WrappedReconciler \<Rightarrow> 'o WrappedFinalizer \<Rightarrow> sql_opts \<Rightarrow> ('o, outcome) rop" where
  "reconcileConnected opts R W F client = do {
     reconcileErr \<leftarrow> wr_Reconcile W client;
     resource \<leftarrow> get_obj;
     case reconcileErr of
       Some err \<Rightarrow> do {
         patchErr \<leftarrow> wr_PatchStatus W (Ready_PatcherFailed
                       (''Error creating '' @ res_GetName R resource @ '': '' @ errText err));
         retryResult R (errors_Join [Some err, patchErr])
       }
     | None \<Rightarrow> do {
         e \<leftarrow> SqlFinalizer_AddFinalizer F;
         resource \<leftarrow> get_obj;
         let finalizerErr =
           map_option (ErrV (''error adding finalizer to '' @ res_GetName R resource @ '': '')) e;
         patchErr \<leftarrow> wr_PatchStatus W (Ready_PatcherWithError finalizerErr);
         requeueResult opts R (errors_Join [finalizerErr, patchErr])
       }
   }"

definition SqlReconciler_Reconcile ::
    "resource_env \<Rightarrow> SqlOptions \<Rightarrow> 'o Resource \<Rightarrow> 'o WrappedReconciler \<Rightarrow> 'o WrappedFinalizer \<Rightarrow> ('o, outcome) rop" where
  "SqlReconciler_Reconcile E opts R W F = do {
     resource \<leftarrow> get_obj;
     if res_IsBeingDeleted R resource then do {
       (result, err) \<leftarrow> SqlFinalizer_Finalize E R F;
       if \<not> IsZero result \<or> err \<noteq> None then ret (result, err) else ret (ResultZero, None)
     }
     else do {
       d \<leftarrow> resource_doltdb E R resource;
       case d of
         Inl err \<Rightarrow> do {
           patchErr \<leftarrow> wr_PatchStatus W (Ready_PatcherRefResolver (Some err) ''DoltDB'');
           ret (ResultZero, map_option (ErrV ''error getting DoltDB: '') (errors_Join [Some err, patchErr]))
         }
       | Inr doltdb \<Rightarrow> do {
           (result, err) \<leftarrow> resource_wait E doltdb;
           if \<not> IsZero result \<or> err \<noteq> None then
             (case err of
                Some e \<Rightarrow> do {
                  patchErr \<leftarrow> wr_PatchStatus W (Ready_PatcherWithError (Some e));
                  ret (result, errors_Join [Some e, patchErr])
                }
              | None \<Rightarrow> ret (result, None))
           else do {
             c \<leftarrow> resource_connect E doltdb;
             case c of
               Inl err \<Rightarrow> do {
                 patchErr \<leftarrow> wr_PatchStatus W (Ready_PatcherFailed (''Error connecting to DoltDB: '' @ errText err));
                 retryResult R (errors_Join [Some err, patchErr])
               }
             | Inr client \<Rightarrow> do {
                 out \<leftarrow> reconcileConnected opts R W F client;
                 resource_close E doltdb client;
                 ret out
               }
           }
         }
     }
   }"

section \<open>Databases\<close>

definition databaseFinalizerName :: string where
  "databaseFinalizerName = ''database.k8s.dolthub.com/finalizer''"

definition database_resource :: "Database Resource" where
  "database_resource = \<lparr>res_GetName = om_name \<circ> database_meta, res_GetNamespace = om_namespace \<circ> database_meta,
     res_DoltDBRef = Database_DoltDBRef, res_IsBeingDeleted = Database_IsBeingDeleted,
     res_RequeueInterval = Database_RequeueInterval, res_RetryInterval = Database_RetryInterval,
     res_CleanupPolicy = Database_CleanupPolicy\<rparr>"

definition createDatabaseResource :: "resource_env \<Rightarrow> sql_opts \<Rightarrow> (Database, goerr option) rop" where
  "createDatabaseResource E client = do {
     database \<leftarrow> get_obj;
     let opts = \<lparr>dopts_CharSet = dspec_CharSet (database_spec database),
                 dopts_Collation = dspec_Collation (database_spec database)\<rparr>;
     e \<leftarrow> CreateDatabase E client (Database_Name database) opts;
     case e of
       Some err \<Rightarrow> ret (Some (ErrV ''error creating database in DoltDB: '' err))
     | None \<Rightarrow> do {
     e \<leftarrow> UseDatabase E client (Database_Name database);
     case e of
       Some err \<Rightarrow> ret (Some (ErrV ''error calling use database in DoltDB: '' err))
     | None \<Rightarrow> do {
     e \<leftarrow> CreateDoltIgnore E client (dspec_DoltIgnorePatterns (database_spec database));
     case e of
       Some err \<Rightarrow> ret (Some (ErrV ''error creating dolt_ignore in DoltDB: '' err))
     | None \<Rightarrow> do {
     e \<leftarrow> CreateBranches E client (dspec_SystemBranches (database_spec database));
     ret (map_option (ErrV ''error creating branches in DoltDB: '') e)
     } } }
   }"

definition Database_PatchStatus :: "resource_env \<Rightarrow> patcher \<Rightarrow> (Database, goerr option) rop" where
  "Database_PatchStatus E p = do {
     e \<leftarrow> patch_object (r_PatchDatabaseStatus E)
            (\<lambda>d. d\<lparr>database_status := (database_status d)\<lparr>dstatus_Conditions :=
                 p (\<lambda>c cs. lib_SetStatusCondition (re_lib E) cs c) (dstatus_Conditions (database_status d))\<rparr>\<rparr>);
     ret (map_option (ErrV ''error patching Database status: '') e)
   }"

definition wrappedDatabaseReconciler :: "resource_env \<Rightarrow> Database WrappedReconciler" where
  "wrappedDatabaseReconciler E =
     \<lparr>wr_Reconcile = createDatabaseResource E, wr_PatchStatus = Database_PatchStatus E\<rparr>"

definition Database_ContainsFinalizer :: "resource_env \<Rightarrow> Database \<Rightarrow> bool" where
  "Database_ContainsFinalizer E d =
     re_ContainsFinalizer E (om_finalizers (database_meta d)) databaseFinalizerName"

definition database_finalizers :: "(string list \<Rightarrow> string list) \<Rightarrow> Database \<Rightarrow> Database" where
  "database_finalizers f d =
     d\<lparr>database_meta := (database_meta d)\<lparr>om_finalizers := f (om_finalizers (database_meta d))\<rparr>\<rparr>"

definition Database_patch :: "resource_env \<Rightarrow> (Database \<Rightarrow> Database) \<Rightarrow> (Database, goerr option) rop" where
  "Database_patch E patchFn = do {
     e \<leftarrow> patch_object (r_PatchDatabase E) patchFn;
     ret (map_option (ErrV ''error patching Database finalizer: '') e)
   }"

definition Database_AddFinalizer :: "resource_env \<Rightarrow> (Database, goerr option) rop" where
  "Database_AddFinalizer E = do {
     d \<leftarrow> get_obj;
     if Database_ContainsFinalizer E d then ret None
     else Database_patch E (database_finalizers (\<lambda>fs. re_AddFinalizer E fs databaseFinalizerName))
   }"

definition Database_RemoveFinalizer :: "resource_env \<Rightarrow> (Database, goerr option) rop" where
  "Database_RemoveFinalizer E = do {
     d \<leftarrow> get_obj;
     if \<not> Database_ContainsFinalizer E d then ret None
     else Database_patch E (database_finalizers (\<lambda>fs. re_RemoveFinalizer E fs databaseFinalizerName))
   }"

definition dropDatabaseResource :: "resource_env \<Rightarrow> sql_opts \<Rightarrow> (Database, goerr option) rop" where
  "dropDatabaseResource E client = do {
     database \<leftarrow> get_obj;
     e \<leftarrow> DropDatabase E client (Database_Name database);
     ret (map_option (ErrV ''error dropping database in DoltDB: '') e)
   }"

definition wrappedDatabaseFinalizer :: "resource_env \<Rightarrow> Database WrappedFinalizer" where
  "wrappedDatabaseFinalizer E =
     \<lparr>wf_AddFinalizer = Database_AddFinalizer E, wf_RemoveFinalizer = Database_RemoveFinalizer E,
      wf_ContainsFinalizer = Database_ContainsFinalizer E, wf_Reconcile = dropDatabaseResource E\<rparr>"

definition Database_Reconcile ::
    "resource_env \<Rightarrow> SqlOpt list \<Rightarrow> namespaced_name \<Rightarrow> (Database, outcome) rop" where
  "Database_Reconcile E sqlOpts req = do {
     r \<leftarrow> r_GetDatabase E req;
     case r of
       Inl err \<Rightarrow> ret (ResultZero, IgnoreNotFound err)
     | Inr db \<Rightarrow> do {
         put_obj db;
         (result, err) \<leftarrow> SqlReconciler_Reconcile E (NewSqlOptions sqlOpts) database_resource
           (wrappedDatabaseReconciler E) (wrappedDatabaseFinalizer E);
         ret (result, map_option (ErrV ''error reconciling in TemplateReconciler: '') err)
       }
   }"

section \<open>Users\<close>

definition UserFinalizerName :: string where
  "UserFinalizerName = ''user.k8s.dolthub.com/finalizer''"

definition user_resource :: "User Resource" where
  "user_resource = \<lparr>res_GetName = om_name \<circ> user_meta, res_GetNamespace = om_namespace \<circ> user_meta,
     res_DoltDBRef = User_DoltDBRef, res_IsBeingDeleted = User_IsBeingDeleted,
     res_RequeueInterval = User_RequeueInterval, res_RetryInterval = User_RetryInterval,
     res_CleanupPolicy = User_CleanupPolicy\<rparr>"

text \<open>The password and the options that come with it; an error to read it ends the pass.\<close>

definition userPassword :: "resource_env \<Rightarrow> User \<Rightarrow> (User, goerr + (string \<times> CreateUserOpt list)) rop" where
  "userPassword E user =
     (case uspec_PasswordSecretKeyRef (user_spec user) of
        None \<Rightarrow> ret (Inr ([], []))
      | Some key \<Rightarrow> do {
          (r, _) \<leftarrow> via_base E () (\<lambda>B. SecretKeyRefValue B key (om_namespace (user_meta user)));
          ret (case r of
                 Inl err \<Rightarrow> Inl (ErrV ''error reading user password secret: '' err)
               | Inr password \<Rightarrow> Inr (password, [WithIdentifiedBy password]))
        })"

definition createUserResource :: "resource_env \<Rightarrow> sql_opts \<Rightarrow> (User, goerr option) rop" where
  "createUserResource E client = do {
     user \<leftarrow> get_obj;
     p \<leftarrow> userPassword E user;
     case p of
       Inl err \<Rightarrow> ret (Some err)
     | Inr (password, createUserOpts) \<Rightarrow> do {
         (exists, existsErr) \<leftarrow> UserExists E client (Username user) (User_HostnameOrDefault user);
         if \<not> exists then do {
           e \<leftarrow> CreateUser E client (User_AccountName user) createUserOpts;
           ret (map_option (ErrV ''error creating User: '') e)
         }
         else if password \<noteq> [] then do {
           e \<leftarrow> AlterUser E client (User_AccountName user) createUserOpts;
           ret (map_option (ErrV ''error altering User: '') e)
         }
         else ret None
       }
   }"

definition User_PatchStatus :: "resource_env \<Rightarrow> patcher \<Rightarrow> (User, goerr option) rop" where
  "User_PatchStatus E p = do {
     e \<leftarrow> patch_object (r_PatchUserStatus E)
            (\<lambda>u. u\<lparr>user_status := (user_status u)\<lparr>ustatus_Conditions :=
                 p (\<lambda>c cs. lib_SetStatusCondition (re_lib E) cs c) (ustatus_Conditions (user_status u))\<rparr>\<rparr>);
     ret (map_option (ErrV ''error patching User status: '') e)
   }"

definition wrappedUserReconciler :: "resource_env \<Rightarrow> User WrappedReconciler" where
  "wrappedUserReconciler E =
     \<lparr>wr_Reconcile = createUserResource E, wr_PatchStatus = User_PatchStatus E\<rparr>"

definition User_ContainsFinalizer :: "resource_env \<Rightarrow> User \<Rightarrow> bool" where
  "User_ContainsFinalizer E u = re_ContainsFinalizer E (om_finalizers (user_meta u)) UserFinalizerName"

definition user_finalizers :: "(string list \<Rightarrow> string list) \<Rightarrow> User \<Rightarrow> User" where
  "user_finalizers f u =
     u\<lparr>user_meta := (user_meta u)\<lparr>om_finalizers := f (om_finalizers (user_meta u))\<rparr>\<rparr>"

definition User_patch :: "resource_env \<Rightarrow> (User \<Rightarrow> User) \<Rightarrow> (User, goerr option) rop" where
  "User_patch E patchFn = do {
     e \<leftarrow> patch_object (r_PatchUser E) patchFn;
     ret (map_option (ErrV ''error removing finalizer to User: '') e)
   }"

definition User_AddFinalizer :: "resource_env \<Rightarrow> (User, goerr option) rop" where
  "User_AddFinalizer E = do {
     u \<leftarrow> get_obj;
     if User_ContainsFinalizer E u then ret None
     else User_patch E (user_finalizers (\<lambda>fs. re_AddFinalizer E fs UserFinalizerName))
   }"

definition User_RemoveFinalizer :: "resource_env \<Rightarrow> (User, goerr option) rop" where
  "User_RemoveFinalizer E = do {
     u \<leftarrow> get_obj;
     if \<not> User_ContainsFinalizer E u then ret None
     else User_patch E (user_finalizers (\<lambda>fs. re_RemoveFinalizer E fs UserFinalizerName))
   }"

definition dropUserResource :: "resource_env \<Rightarrow> sql_opts \<Rightarrow> (User, goerr option) rop" where
  "dropUserResource E client = do {
     user \<leftarrow> get_obj;
     e \<leftarrow> DropUser E client (User_AccountName user);
     ret (map_option (ErrV ''error dropping user in DoltDB: '') e)
   }"

definition wrappedUserFinalizer :: "resource_env \<Rightarrow> User WrappedFinalizer" where
  "wrappedUserFinalizer E =
     \<lparr>wf_AddFinalizer = User_AddFinalizer E, wf_RemoveFinalizer = User_RemoveFinalizer E,
      wf_ContainsFinalizer = User_ContainsFinalizer E, wf_Reconcile = dropUserResource E\<rparr>"

definition User_Reconcile ::
    "resource_env \<Rightarrow> SqlOpt list \<Rightarrow> namespaced_name \<Rightarrow> (User, outcome) rop" where
  "User_Reconcile E sqlOpts req = do {
     r \<leftarrow> r_GetUser E req;
     case r of
       Inl err \<Rightarrow> ret (ResultZero, IgnoreNotFound err)
     | Inr user \<Rightarrow> do {
         put_obj user;
         (result, err) \<leftarrow> SqlReconciler_Reconcile E (NewSqlOptions sqlOpts) user_resource
           (wrappedUserReconciler E) (wrappedUserFinalizer E);
         ret (result, map_option (ErrV ''error reconciling in User Controller: '') err)
       }
   }"

section \<open>Grants\<close>

definition GrantFinalizerName :: string where
  "GrantFinalizerName = ''grant.k8s.dolthub.com/finalizer''"

definition grant_resource :: "Grant Resource" where
  "grant_resource = \<lparr>res_GetName = om_name \<circ> grant_meta, res_GetNamespace = om_namespace \<circ> grant_meta,
     res_DoltDBRef = Grant_DoltDBRef, res_IsBeingDeleted = Grant_IsBeingDeleted,
     res_RequeueInterval = Grant_RequeueInterval, res_RetryInterval = Grant_RetryInterval,
     res_CleanupPolicy = Grant_CleanupPolicy\<rparr>"

definition createGrantResource :: "resource_env \<Rightarrow> sql_opts \<Rightarrow> (Grant, goerr option) rop" where
  "createGrantResource E client = do {
     grant \<leftarrow> get_obj;
     e \<leftarrow> Client_Grant E client (gspec_Privileges (grant_spec grant)) (gspec_Database (grant_spec grant))
            (gspec_Table (grant_spec grant)) (Grant_AccountName grant) (gspec_GrantOption (grant_spec grant));
     ret (map_option (ErrV ''error granting privileges in DoltDB: '') e)
   }"

definition Grant_PatchStatus :: "resource_env \<Rightarrow> patcher \<Rightarrow> (Grant, goerr option) rop" where
  "Grant_PatchStatus E p = do {
     e \<leftarrow> patch_object (r_PatchGrantStatus E)
            (\<lambda>g. g\<lparr>grant_status := (grant_status g)\<lparr>gstatus_Conditions :=
                 p (\<lambda>c cs. lib_SetStatusCondition (re_lib E) cs c) (gstatus_Conditions (grant_status g))\<rparr>\<rparr>);
     ret (map_option (ErrV ''error patching Grant status: '') e)
   }"

definition wrappedGrantReconciler :: "resource_env \<Rightarrow> Grant WrappedReconciler" where
  "wrappedGrantReconciler E =
     \<lparr>wr_Reconcile = createGrantResource E, wr_PatchStatus = Grant_PatchStatus E\<rparr>"

definition Grant_ContainsFinalizer :: "resource_env \<Rightarrow> Grant \<Rightarrow> bool" where
  "Grant_ContainsFinalizer E g = re_ContainsFinalizer E (om_finalizers (grant_meta g)) GrantFinalizerName"

definition grant_finalizers :: "(string list \<Rightarrow> string list) \<Rightarrow> Grant \<Rightarrow> Grant" where
  "grant_finalizers f g =
     g\<lparr>grant_meta := (grant_meta g)\<lparr>om_finalizers := f (om_finalizers (grant_meta g))\<rparr>\<rparr>"

definition Grant_patch :: "resource_env \<Rightarrow> (Grant \<Rightarrow> Grant) \<Rightarrow> (Grant, goerr option) rop" where
  "Grant_patch E patchFn = do {
     e \<leftarrow> patch_object (r_PatchGrant E) patchFn;
     ret (map_option (ErrV ''error patching Grant: '') e)
   }"

definition Grant_AddFinalizer :: "resource_env \<Rightarrow> (Grant, goerr option) rop" where
  "Grant_AddFinalizer E = do {
     g \<leftarrow> get_obj;
     if Grant_ContainsFinalizer E g then ret None
     else Grant_patch E (grant_finalizers (\<lambda>fs. re_AddFinalizer E fs GrantFinalizerName))
   }"

definition Grant_RemoveFinalizer :: "resource_env \<Rightarrow> (Grant, goerr option) rop" where
  "Grant_RemoveFinalizer E = do {
     g \<leftarrow> get_obj;
     if \<not> Grant_ContainsFinalizer E g then ret None
     else Grant_patch E (grant_finalizers (\<lambda>fs. re_RemoveFinalizer E fs GrantFinalizerName))
   }"

definition userKey :: "Grant \<Rightarrow> namespaced_name" where
  "userKey grant = nn (gspec_Username (grant_spec grant)) (om_namespace (grant_meta grant))"

text \<open>
  \<open>wait.PollUntilContextTimeout\<close> with the condition that the User is gone.  The number of rounds is
  what fits into ten seconds; when they are used up, the poll returns the error of its context.
\<close>

fun poll_user_gone :: "resource_env \<Rightarrow> namespaced_name \<Rightarrow> nat \<Rightarrow> (Grant, goerr option) rop" where
  "poll_user_gone E key 0 = do { err \<leftarrow> peek_resource (re_PollErr E); ret (Some err) }"
| "poll_user_gone E key (Suc n) = do {
     r \<leftarrow> r_GetUser E key;
     case r of
       Inl err \<Rightarrow> if IsNotFound err then ret None else ret (Some err)
     | Inr user \<Rightarrow> poll_user_gone E key n
   }"

definition revokeGrantResource :: "resource_env \<Rightarrow> sql_opts \<Rightarrow> (Grant, goerr option) rop" where
  "revokeGrantResource E client = do {
     grant \<leftarrow> get_obj;
     rounds \<leftarrow> peek_resource (re_PollRounds E);
     p \<leftarrow> poll_user_gone E (userKey grant) rounds;
     case p of
       None \<Rightarrow> ret None
     | Some err \<Rightarrow>
         if \<not> re_Interrupted E err
         then ret (Some (ErrV ''error checking if user exists in DoltDB: '' err))
         else do {
           e \<leftarrow> Client_Revoke E client (gspec_Privileges (grant_spec grant))
                  (gspec_Database (grant_spec grant)) (gspec_Table (grant_spec grant))
                  (Grant_AccountName grant) (gspec_GrantOption (grant_spec grant));
           ret (map_option (ErrV ''error revoking grant in DoltDB: '') e)
         }
   }"

definition wrappedGrantFinalizer :: "resource_env \<Rightarrow> Grant WrappedFinalizer" where
  "wrappedGrantFinalizer E =
     \<lparr>wf_AddFinalizer = Grant_AddFinalizer E, wf_RemoveFinalizer = Grant_RemoveFinalizer E,
      wf_ContainsFinalizer = Grant_ContainsFinalizer E, wf_Reconcile = revokeGrantResource E\<rparr>"

definition Grant_Reconcile ::
    "resource_env \<Rightarrow> SqlOpt list \<Rightarrow> namespaced_name \<Rightarrow> (Grant, outcome) rop" where
  "Grant_Reconcile E sqlOpts req = do {
     r \<leftarrow> r_GetGrant E req;
     case r of
       Inl err \<Rightarrow> ret (ResultZero, IgnoreNotFound err)
     | Inr grant \<Rightarrow> do {
         put_obj grant;
         (result, err) \<leftarrow> SqlReconciler_Reconcile E (NewSqlOptions sqlOpts) grant_resource
           (wrappedGrantReconciler E) (wrappedGrantFinalizer E);
         ret (result, map_option (ErrV ''error reconciling GrantController: '') err)
       }
   }"

end
