(* ===== verification/Sql_Lifecycle.thy ===== *)
theory Sql_Lifecycle
  imports Sql_Resources Request_Rules
begin

text \<open>
  The life cycle of a SQL resource: which requests a pass over a database, a user or a grant may
  make, given the requests before.  The shared reconciler and finalizer are verified once, in the
  locale \<open>sql_resource\<close> over the interfaces they are written against; the three kinds of
  resources are its interpretations.
\<close>

section \<open>Requests that respect a rule\<close>

text \<open>A rule says of a history and a request whether the request may come next.\<close>

fun obeys :: "('c list \<Rightarrow> 'c \<Rightarrow> bool) \<Rightarrow> 'c list \<Rightarrow> 'c list \<Rightarrow> bool" where
  "obeys R h [] \<longleftrightarrow> True"
| "obeys R h (c # t) \<longleftrightarrow> R h c \<and> obeys R (h @ [c]) t"

lemma obeys_append: "obeys R h (t @ u) \<longleftrightarrow> obeys R h t \<and> obeys R (h @ t) u"
  by (induction t arbitrary: h) auto

lemma obeys_all: "(\<And>h c. c \<in> set t \<Longrightarrow> R h c) \<Longrightarrow> obeys R h t"
  by (induction t arbitrary: h) auto

lemma obeys_mono: "obeys R h t \<Longrightarrow> (\<And>h c. R h c \<Longrightarrow> R' h c) \<Longrightarrow> obeys R' h t"
  by (induction t arbitrary: h) auto

definition follows :: "('c list \<Rightarrow> 'c \<Rightarrow> bool) \<Rightarrow> ('c, 'o) cfg \<Rightarrow> ('c, 'o) cfg \<Rightarrow> bool" where
  "follows R s s' \<longleftrightarrow> (\<exists>t. trace s' = trace s @ t \<and> obeys R (trace s) t)"

lemma follows_refl [simp]: "follows R s s"
  by (simp add: follows_def)

lemma follows_trans: "follows R s s1 \<Longrightarrow> follows R s1 s' \<Longrightarrow> follows R s s'"
  unfolding follows_def by (auto simp: obeys_append)

lemma follows_obj [simp]: "follows R s (s'\<lparr>obj := x\<rparr>) \<longleftrightarrow> follows R s s'"
  by (simp add: follows_def)

lemma follows_step: "R (trace s) c \<Longrightarrow> follows R s (s\<lparr>trace := trace s @ [c]\<rparr>)"
  by (simp add: follows_def)

text \<open>Chains of steps: \<open>s\<close> is where the operation started, \<open>s1\<close> where it is now.\<close>

lemma follows_perform:
  "follows R s s1 \<Longrightarrow> R (trace s1) c \<Longrightarrow>
     (\<And>s2. follows R s s2 \<Longrightarrow> trace s2 = trace s1 @ [c] \<Longrightarrow> obj s2 = obj s1 \<Longrightarrow> Q (f (trace s1)) s2) \<Longrightarrow>
   wp (perform c f) Q s1"
  by (simp add: wp_simps follows_trans [OF _ follows_step])

lemma wp_follows:
  assumes "wp p (\<lambda>a s'. follows R s1 s' \<and> P a s') s1" and "follows R s s1"
    and "\<And>a s'. follows R s s' \<Longrightarrow> P a s' \<Longrightarrow> Q a s'"
  shows "wp p Q s1"
  using assms(1) by (rule wp_mono) (blast intro: assms follows_trans)

lemma wp_follows_only:
  assumes "wp p (\<lambda>_ s'. follows R s1 s') s1" and "follows R s s1"
    and "\<And>a s'. follows R s s' \<Longrightarrow> Q a s'"
  shows "wp p Q s1"
  using assms(1) by (rule wp_mono) (blast intro: assms follows_trans)

lemma follows_via_base:
  assumes "\<And>B. emits P (p B)" and "\<And>h c. P c \<Longrightarrow> R h (KCall c)"
  shows "wp (via_base E x p) (\<lambda>_ s'. follows R s s' \<and> obj s' = obj s) s"
  unfolding wp_via_base
proof (rule wp_runI)
  fix a s' assume "run_state (p (re_base E (trace s))) \<lparr>trace = [], obj = x\<rparr> = (a, s')"
  then obtain t where "trace s' = t" "list_all P t"
    using emitsD [OF assms(1)] by force
  then show "follows R s (s\<lparr>trace := trace s @ map KCall (trace s')\<rparr>) \<and>
      obj (s\<lparr>trace := trace s @ map KCall (trace s')\<rparr>) = obj s"
    by (auto simp: follows_def list_all_iff intro!: obeys_all assms(2))
qed

section \<open>What was answered before\<close>

text \<open>\<open>seen F h\<close>: some request of the history \<open>h\<close>, with the history before it, satisfies \<open>F\<close>.\<close>

definition seen :: "('c list \<Rightarrow> 'c \<Rightarrow> bool) \<Rightarrow> 'c list \<Rightarrow> bool" where
  "seen F h \<longleftrightarrow> (\<exists>i < length h. F (take i h) (h ! i))"

lemma seen_snoc: "seen F (h @ [c]) \<longleftrightarrow> seen F h \<or> F h c"
proof -
  have "(i < length (h @ [c]) \<and> F (take i (h @ [c])) ((h @ [c]) ! i)) \<longleftrightarrow>
      (i < length h \<and> F (take i h) (h ! i)) \<or> (i = length h \<and> F h c)" for i
    by (cases "i < length h") (auto simp: nth_append less_Suc_eq)
  then show ?thesis
    by (auto simp: seen_def)
qed

lemma seen_append: "seen F h \<Longrightarrow> seen F (h @ t)"
  by (induction t rule: rev_induct) (simp_all flip: append_assoc add: seen_snoc)

lemma seen_follows: "seen F (trace s) \<Longrightarrow> follows R s s' \<Longrightarrow> seen F (trace s')"
  by (auto simp: follows_def intro: seen_append)

definition acknowledged :: "resource_env \<Rightarrow> string \<Rightarrow> rcall list \<Rightarrow> bool" where
  "acknowledged E q = seen (\<lambda>h c. case c of
      RExec cl q' args \<Rightarrow> q' = q \<and> re_Exec E h cl q' args = None | _ \<Rightarrow> False)"

text \<open>The DoltDB that a resource refers to: in its own namespace unless the reference names one.\<close>

definition doltdb_key :: "'o Resource \<Rightarrow> 'o \<Rightarrow> namespaced_name" where
  "doltdb_key R d =
     (let r = res_DoltDBRef R d
      in nn (ref_Name r) (if ref_Namespace r = [] then res_GetNamespace R d else ref_Namespace r))"

definition doltdb_gone :: "resource_env \<Rightarrow> namespaced_name \<Rightarrow> rcall list \<Rightarrow> bool" where
  "doltdb_gone E key = seen (\<lambda>h c. c = KCall (CGetDoltDB key) \<and>
      (case env_GetDoltDB (re_base E h) [] key of Inl err \<Rightarrow> IsNotFound err | Inr _ \<Rightarrow> False))"

definition user_gone :: "resource_env \<Rightarrow> namespaced_name \<Rightarrow> rcall list \<Rightarrow> bool" where
  "user_gone E key = seen (\<lambda>h c. c = RGetUser key \<and>
      (case re_GetUser E h key of Inl err \<Rightarrow> IsNotFound err | Inr _ \<Rightarrow> False))"

definition user_found :: "resource_env \<Rightarrow> string \<Rightarrow> string \<Rightarrow> rcall list \<Rightarrow> bool" where
  "user_found E username host = seen (\<lambda>h c. case c of
      RQueryRow cl q args \<Rightarrow> args = [username, host] \<and>
        (case re_QueryRow E h cl q args of Inr (Inr count) \<Rightarrow> count > 0 | _ \<Rightarrow> False)
    | _ \<Rightarrow> False)"

lemmas seen_defs = acknowledged_def doltdb_gone_def user_gone_def user_found_def

section \<open>The life cycle\<close>

text \<open>
  What a kind of resource calls creating, dropping, adding and removing its finalizer, and what it
  takes for the object to be there or gone on the server.
\<close>

record 'o kind =
  k_create :: "'o \<Rightarrow> rcall \<Rightarrow> bool"
  k_drop :: "'o \<Rightarrow> rcall \<Rightarrow> bool"
  k_add :: "'o \<Rightarrow> rcall \<Rightarrow> bool"
  k_remove :: "'o \<Rightarrow> rcall \<Rightarrow> bool"
  k_status :: "rcall \<Rightarrow> bool"
  k_created :: "'o \<Rightarrow> rcall list \<Rightarrow> bool"
  k_cleaned :: "'o \<Rightarrow> rcall list \<Rightarrow> bool"

definition cleans :: "'o Resource \<Rightarrow> 'o \<Rightarrow> bool" where
  "cleans R d \<longleftrightarrow> ptr_Deref (res_CleanupPolicy R d) CleanupPolicyDelete = CleanupPolicyDelete"

definition lifecycle ::
    "resource_env \<Rightarrow> 'o Resource \<Rightarrow> 'o kind \<Rightarrow> 'o \<Rightarrow> rcall list \<Rightarrow> rcall \<Rightarrow> bool" where
  "lifecycle E R K d h c \<longleftrightarrow>
     (\<exists>q. c = KCall q \<and> is_query q) \<or>
     (if res_IsBeingDeleted R d
      then k_drop K d c \<and> cleans R d \<or>
           k_remove K d c \<and> (\<not> cleans R d \<or> doltdb_gone E (doltdb_key R d) h \<or> k_cleaned K d h)
      else k_create K d c \<or> k_status K c \<or> k_add K d c \<and> k_created K d h)"

lemma lifecycle_query: "is_query c \<Longrightarrow> lifecycle E R K d h (KCall c)"
  by (simp add: lifecycle_def)

text \<open>
  The contract of the wrapped operations, on the resource \<open>d\<close> that was fetched: creating and
  cleaning up make only requests of their kind, leave the object alone, and return no error only
  when the server was seen to have the object, or not to have it any more.
\<close>

locale sql_resource =
  fixes E :: resource_env and R :: "'o Resource" and W :: "'o WrappedReconciler"
    and F :: "'o WrappedFinalizer" and K :: "'o kind" and d :: 'o
  assumes create:
      "obj s = d \<Longrightarrow> \<not> res_IsBeingDeleted R d \<Longrightarrow>
         wp (wr_Reconcile W c) (\<lambda>e s'. follows (lifecycle E R K d) s s' \<and>
               (obj s' = d \<and> (e = None \<longrightarrow> k_created K d (trace s')))) s"
    and cleanup:
      "obj s = d \<Longrightarrow> res_IsBeingDeleted R d \<Longrightarrow> cleans R d \<Longrightarrow>
         wp (wf_Reconcile F c) (\<lambda>e s'. follows (lifecycle E R K d) s s' \<and>
               (obj s' = d \<and> (e = None \<longrightarrow> k_cleaned K d (trace s')))) s"
    and status:
      "\<not> res_IsBeingDeleted R d \<Longrightarrow> wp (wr_PatchStatus W p) (\<lambda>_ s'. follows (lifecycle E R K d) s s') s"
    and add:
      "obj s = d \<Longrightarrow> \<not> res_IsBeingDeleted R d \<Longrightarrow> k_created K d (trace s) \<Longrightarrow>
         wp (wf_AddFinalizer F) (\<lambda>_ s'. follows (lifecycle E R K d) s s') s"
    and remove:
      "obj s = d \<Longrightarrow> res_IsBeingDeleted R d \<Longrightarrow>
       \<not> cleans R d \<or> doltdb_gone E (doltdb_key R d) (trace s) \<or> k_cleaned K d (trace s) \<Longrightarrow>
         wp (wf_RemoveFinalizer F) (\<lambda>_ s'. follows (lifecycle E R K d) s s') s"
begin

abbreviation rule :: "rcall list \<Rightarrow> rcall \<Rightarrow> bool" where
  "rule \<equiv> lifecycle E R K d"

lemma base:
  assumes "\<And>B. emits is_query (p B)"
  shows "wp (via_base E x p) (\<lambda>_ s'. follows rule s s' \<and> obj s' = obj s) s"
  using assms by (rule follows_via_base) (rule lifecycle_query)

lemma waits:
  "wp (resource_wait E db) (\<lambda>_ s'. follows rule s s' \<and> obj s' = obj s) s"
  "wp (resource_connect E db) (\<lambda>_ s'. follows rule s s' \<and> obj s' = obj s) s"
  "wp (resource_close E db c) (\<lambda>_ s'. follows rule s s' \<and> obj s' = obj s) s"
proof -
  have "emits is_query (WaitForDoltDB B db)" for B
    unfolding WaitForDoltDB_def by (intro emits_intros emits_mono [OF emits_health(2)]) simp
  from base [OF this] show "wp (resource_wait E db) (\<lambda>_ s'. follows rule s s' \<and> obj s' = obj s) s"
    unfolding resource_wait_def wp_bind by (rule wp_mono) (simp add: wp_simps split: prod.splits)
  have "emits is_query (NewClientWithDoltDB B [])" "emits is_query (Client_Close B c)" for B
    by (rule keeps_emits keeps_client_basic)+
  from this [THEN base]
  show "wp (resource_connect E db) (\<lambda>_ s'. follows rule s s' \<and> obj s' = obj s) s"
    "wp (resource_close E db c) (\<lambda>_ s'. follows rule s s' \<and> obj s' = obj s) s"
    unfolding resource_connect_def resource_close_def wp_bind
    by (auto elim!: wp_mono simp: wp_simps split: prod.splits)
qed

lemma resolves:
  "wp (resource_doltdb E R r) (\<lambda>x s'. follows rule s s' \<and>
     (obj s' = obj s \<and> (\<forall>err. x = Inl err \<and> IsNotFound err \<longrightarrow> doltdb_gone E (doltdb_key R r) (trace s')))) s"
  by (auto simp: resource_doltdb_def wp_simps DoltDBRef_def follows_def lifecycle_query
      doltdb_gone_def doltdb_key_def Let_def seen_snoc)

lemma removal:
  assumes "obj s = d" and "res_IsBeingDeleted R d" and "follows rule s0 s"
    and "\<not> cleans R d \<or> doltdb_gone E (doltdb_key R d) (trace s) \<or> k_cleaned K d (trace s)"
  shows "wp (State_Monad.bind (wf_RemoveFinalizer F) (\<lambda>e. ret (g e))) (\<lambda>_ s'. follows rule s0 s') s"
  unfolding wp_bind
  by (rule wp_follows_only [OF remove [OF assms(1,2,4)] assms(3)]) (simp add: wp_return)

lemma finalize_connected:
  assumes "obj s = d" and "res_IsBeingDeleted R d" and "follows rule s0 s"
  shows "wp (finalizeConnected R F c) (\<lambda>_ s'. follows rule s0 s') s"
proof -
  let ?rest = "\<lambda>e. case e of
      Some err \<Rightarrow> ret (ResultZero, Some (ErrV ''error reconciling in TemplateFinalizer: '' err))
    | None \<Rightarrow> State_Monad.bind (wf_RemoveFinalizer F)
        (\<lambda>e. ret (ResultZero, map_option (ErrV ''error removing finalizer in TemplateFinalizer: '') e))"
  have rest: "wp (?rest e) (\<lambda>_ s'. follows rule s0 s') s1"
    if "follows rule s0 s1" "obj s1 = d" "e = None \<Longrightarrow> \<not> cleans R d \<or> k_cleaned K d (trace s1)" for e s1
    by (cases e) (use that in \<open>simp_all add: wp_return removal [OF that(2) assms(2) that(1)]\<close>)
  show ?thesis
  proof (cases "cleans R d")
    case True
    have "wp (wf_Reconcile F c) (\<lambda>e. wp (?rest e) (\<lambda>_ s'. follows rule s0 s')) s"
      by (rule wp_follows [OF cleanup [OF assms(1,2) True] assms(3)]) (rule rest, simp_all)
    with True assms(1) show ?thesis
      unfolding finalizeConnected_def by (simp add: wp_bind [of get_obj] wp_get_obj wp_bind [of "wf_Reconcile F c"] cleans_def)
  next
    case False
    with rest [OF assms(3,1), of None] assms(1) show ?thesis
      unfolding finalizeConnected_def by (simp add: wp_bind [of get_obj] wp_get_obj wp_bind [of "ret None"] wp_return cleans_def)
  qed
qed

lemma close:
  assumes "wp p (\<lambda>_ s'. follows rule s0 s') s"
  shows "wp (State_Monad.bind p (\<lambda>out. State_Monad.bind (resource_close E db c) (\<lambda>_. ret out)))
    (\<lambda>_ s'. follows rule s0 s') s"
  unfolding wp_bind
  by (rule wp_mono [OF assms], rule wp_follows [OF waits(3)]) (simp_all add: wp_return)

lemma connected:
  assumes "follows rule s0 s" and "obj s = d"
    and "\<And>c s1. follows rule s0 s1 \<Longrightarrow> obj s1 = d \<Longrightarrow> wp (p c) (\<lambda>_ s'. follows rule s0 s') s1"
    and "\<And>err s1. follows rule s0 s1 \<Longrightarrow> wp (q err) (\<lambda>_ s'. follows rule s0 s') s1"
    and "\<And>result err s1. follows rule s0 s1 \<Longrightarrow> wp (r result err) (\<lambda>_ s'. follows rule s0 s') s1"
  shows "wp (State_Monad.bind (resource_wait E db) (\<lambda>(result, err).
      if \<not> IsZero result \<or> err \<noteq> None then r result err
      else State_Monad.bind (resource_connect E db) (\<lambda>x. case x of
          Inl err \<Rightarrow> q err
        | Inr c \<Rightarrow> State_Monad.bind (p c) (\<lambda>out. State_Monad.bind (resource_close E db c) (\<lambda>_. ret out)))))
    (\<lambda>_ s'. follows rule s0 s') s"
proof -
  have "wp (State_Monad.bind (resource_connect E db) (\<lambda>x. case x of
          Inl err \<Rightarrow> q err
        | Inr c \<Rightarrow> State_Monad.bind (p c) (\<lambda>out. State_Monad.bind (resource_close E db c) (\<lambda>_. ret out))))
      (\<lambda>_ s'. follows rule s0 s') s1" if s1: "follows rule s0 s1" "obj s1 = d" for s1
    unfolding wp_bind [of "resource_connect E db"]
    by (rule wp_follows [OF waits(2) s1(1)]) (simp add: s1 assms close wp_case_sum split: sum.split)
  then show ?thesis
    unfolding wp_bind [of "resource_wait E db"]
    by (intro wp_follows [OF waits(1) assms(1)]) (simp add: assms split: prod.split)
qed

lemma finalize:
  assumes d: "obj s = d" and del: "res_IsBeingDeleted R d"
  shows "wp (SqlFinalizer_Finalize E R F) (\<lambda>_ s'. follows rule s s') s"
proof -
  have *: "wp (resource_doltdb E R d) (\<lambda>x. wp (case x of
           Inl err \<Rightarrow> if IsNotFound err then State_Monad.bind (wf_RemoveFinalizer F) (\<lambda>e. ret (g e))
                       else ret (g' err)
         | Inr db \<Rightarrow> p db) (\<lambda>_ s'. follows rule s s')) s"
    if "\<And>s1 db. follows rule s s1 \<Longrightarrow> obj s1 = d \<Longrightarrow> wp (p db) (\<lambda>_ s'. follows rule s s') s1"
    for g g' p
    by (rule wp_follows [OF resolves follows_refl])
      (simp add: d del that removal wp_return split: sum.split)
  show ?thesis
    unfolding SqlFinalizer_Finalize_def wp_bind [of get_obj] wp_get_obj d wp_if
      wp_bind [of "resource_doltdb E R d"]
    by (simp add: wp_return)
      (intro impI *, erule (1) connected; simp add: finalize_connected del wp_return)
qed

lemma patched:
  assumes "follows rule s0 s" and "\<not> res_IsBeingDeleted R d"
    and "\<And>e s1. follows rule s0 s1 \<Longrightarrow> wp (g e) (\<lambda>_ s'. follows rule s0 s') s1"
  shows "wp (State_Monad.bind (wr_PatchStatus W p) g) (\<lambda>_ s'. follows rule s0 s') s"
  unfolding wp_bind by (rule wp_follows_only [OF status [OF assms(2)] assms(1)]) (rule assms(3))

lemma results:
  "follows rule s0 s \<Longrightarrow> wp (retryResult R e) (\<lambda>_ s'. follows rule s0 s') s"
  "follows rule s0 s \<Longrightarrow> wp (requeueResult opts R e) (\<lambda>_ s'. follows rule s0 s') s"
  by (simp_all add: retryResult_def requeueResult_def wp_bind wp_get_obj wp_return)

lemma add_finalizer:
  assumes "follows rule s0 s" and "obj s = d" and "\<not> res_IsBeingDeleted R d" and "k_created K d (trace s)"
    and "\<And>e s1. follows rule s0 s1 \<Longrightarrow> wp (g e) (\<lambda>_ s'. follows rule s0 s') s1"
  shows "wp (State_Monad.bind (SqlFinalizer_AddFinalizer F) g) (\<lambda>_ s'. follows rule s0 s') s"
proof -
  have "wp (wf_AddFinalizer F) (\<lambda>e. wp (g (h e)) (\<lambda>_ s'. follows rule s0 s')) s" for h
    by (rule wp_follows_only [OF add [OF assms(2-4)] assms(1)]) (rule assms(5))
  then show ?thesis
    by (simp add: SqlFinalizer_AddFinalizer_def wp_bind wp_get_obj wp_return wp_if assms)
qed

lemma reconcile_connected:
  assumes s: "follows rule s0 s" "obj s = d" and live: "\<not> res_IsBeingDeleted R d"
  shows "wp (reconcileConnected opts R W F c) (\<lambda>_ s'. follows rule s0 s') s"
  unfolding reconcileConnected_def wp_bind [of "wr_Reconcile W c"]
  apply (rule wp_follows [OF create [OF s(2) live] s(1)])
  subgoal premises s1 for e s1
    using s1 by (cases e)
      (simp_all add: wp_bind [of get_obj] wp_get_obj add_finalizer patched results live Let_def)
  done

theorem reconcile:
  assumes d: "obj s = d"
  shows "wp (SqlReconciler_Reconcile E opts R W F) (\<lambda>_ s'. follows rule s s') s"
proof (cases "res_IsBeingDeleted R d")
  case True
  then show ?thesis
    unfolding SqlReconciler_Reconcile_def wp_bind [of get_obj] wp_get_obj d
    by (simp add: wp_bind) (rule wp_mono [OF finalize [OF d]]; simp add: wp_return split: prod.split)
next
  case False
  have *: "wp (State_Monad.bind (resource_doltdb E R d) (\<lambda>x. case x of Inl err \<Rightarrow> p err | Inr db \<Rightarrow> q db))
      (\<lambda>_ s'. follows rule s s') s"
    if "\<And>s1 err. follows rule s s1 \<Longrightarrow> wp (p err) (\<lambda>_ s'. follows rule s s') s1"
      "\<And>s1 db. follows rule s s1 \<Longrightarrow> obj s1 = d \<Longrightarrow> wp (q db) (\<lambda>_ s'. follows rule s s') s1" for p q
    unfolding wp_bind by (rule wp_follows [OF resolves follows_refl]) (simp add: that d split: sum.split)
  have "wp (if res_IsBeingDeleted R d then p else q) Q s" if "wp q Q s" for p q :: "('o, outcome) rop" and Q
    using that False by simp
  then show ?thesis
    unfolding SqlReconciler_Reconcile_def wp_bind [of get_obj] wp_get_obj d
    by this (intro * connected; simp add: reconcile_connected patched results False wp_return split: option.split)
qed

end

end
