(* ===== verification/Reference_Resources.thy ===== *)
theory Reference_Resources
  imports Resource_Client Reference_Env
begin

text \<open>
  The world of theory \<open>Reference_Env\<close> with the finalizer functions of the library as they are
  documented, an API server that answers every patch with the object it was sent, and servers that
  accept every statement and hold neither branches nor ignored tables nor users.
\<close>

definition ref_rmeta :: "string \<Rightarrow> resource_meta" where
  "ref_rmeta n = object_meta.extend (ref_meta n) \<lparr>om_finalizers = [], om_deletionTimestamp = None,
     om_creationTimestamp = 0\<rparr>"

definition ref_template :: SQLTemplate where
  "ref_template = \<lparr>tmpl_RequeueInterval = None, tmpl_RetryInterval = None, tmpl_CleanupPolicy = None\<rparr>"

definition ref_database :: Database where
  "ref_database = \<lparr>database_meta = ref_rmeta ''orders'',
     database_spec = SQLTemplate.extend ref_template \<lparr>dspec_DoltDBRef = \<lparr>ref_Name = ''dolt'', ref_Namespace = []\<rparr>,
       dspec_Name = ''orders'', dspec_Collation = [], dspec_CharSet = ''utf8mb4'', dspec_SystemBranches = [''dev''],
       dspec_DoltIgnorePatterns = [''tmp%'']\<rparr>,
     database_status = \<lparr>dstatus_Conditions = []\<rparr>\<rparr>"

definition ref_user :: User where
  "ref_user = \<lparr>user_meta = ref_rmeta ''app-user'',
     user_spec = SQLTemplate.extend ref_template \<lparr>uspec_DoltDBRef = \<lparr>ref_Name = ''dolt'', ref_Namespace = []\<rparr>,
       uspec_PasswordSecretKeyRef = None, uspec_Name = ''app'', uspec_Host = []\<rparr>,
     user_status = \<lparr>ustatus_Conditions = []\<rparr>\<rparr>"

definition ref_grant :: Grant where
  "ref_grant = \<lparr>grant_meta = ref_rmeta ''app-grant'',
     grant_spec = SQLTemplate.extend ref_template \<lparr>gspec_DoltDBRef = \<lparr>ref_Name = ''dolt'', ref_Namespace = []\<rparr>,
       gspec_Privileges = [''SELECT''], gspec_Database = ''orders'', gspec_Table = ''*'',
       gspec_Username = ''app'', gspec_Host = None, gspec_GrantOption = False\<rparr>,
     grant_status = \<lparr>gstatus_Conditions = []\<rparr>\<rparr>"

definition ref_storage :: BackupStorage where
  "ref_storage = \<lparr>storage_S3 = None, storage_DoltHub = None, storage_Local = Some \<lparr>local_Path = ''/backups''\<rparr>\<rparr>"

definition ref_backup :: Backup where
  "ref_backup = \<lparr>backup_meta = ref_rmeta ''nightly'',
     backup_spec = \<lparr>bspec_DoltDBRef = \<lparr>ref_Name = ''dolt'', ref_Namespace = []\<rparr>, bspec_Storage = ref_storage,
       bspec_Databases = [''orders'', ''stock''], bspec_BackoffLimit = Some 3, bspec_Resources = None,
       bspec_ImagePullSecrets = []\<rparr>,
     backup_status = \<lparr>bstatus_Conditions = [], bstatus_Phase = [], bstatus_StartedAt = None,
       bstatus_CompletedAt = None, bstatus_Error = [], bstatus_RetryCount = 0\<rparr>\<rparr>"

definition ref_schedule :: BackupSchedule where
  "ref_schedule = \<lparr>schedule_meta = ref_rmeta ''hourly'',
     schedule_spec = \<lparr>bss_DoltDBRef = \<lparr>ref_Name = ''dolt'', ref_Namespace = []\<rparr>, bss_Storage = ref_storage,
       bss_Schedule = ''0 * * * *'', bss_Databases = [], bss_Suspend = None, bss_BackoffLimit = None,
       bss_Resources = None, bss_ImagePullSecrets = []\<rparr>,
     schedule_status = \<lparr>bsst_Conditions = [], bsst_LastScheduleTime = None, bsst_NextScheduleTime = None,
       bsst_LastBackupRef = []\<rparr>\<rparr>"

definition ref_snapshot :: Snapshot where
  "ref_snapshot = \<lparr>snapshot_meta = ref_rmeta ''daily'',
     snapshot_spec = \<lparr>sspec_FrequencySchedule = ''0 0 * * *'',
       sspec_DoltDBRef = \<lparr>ref_Name = ''dolt'', ref_Namespace = []\<rparr>, sspec_Image = ''bitnami/kubectl'',
       sspec_Version = ''latest'', sspec_ImagePullSecrets = []\<rparr>,
     snapshot_status = \<lparr>sstatus_Conditions = []\<rparr>\<rparr>"

definition ref_users :: "namespaced_name \<rightharpoonup> User" where
  "ref_users = [nn ''app-user'' ''ns'' \<mapsto> ref_user]"

definition stored :: "(namespaced_name \<rightharpoonup> 'a) \<Rightarrow> namespaced_name \<Rightarrow> goerr + 'a" where
  "stored m k = (case m k of None \<Rightarrow> Inl (ApiErr NotFound []) | Some x \<Rightarrow> Inr x)"

definition ref_renv :: resource_env where
  "ref_renv = \<lparr>re_lib = lib.truncate ref_env,
     re_ContainsFinalizer = (\<lambda>fs f. f \<in> set fs),
     re_AddFinalizer = (\<lambda>fs f. if f \<in> set fs then fs else fs @ [f]),
     re_RemoveFinalizer = (\<lambda>fs f. removeAll f fs),
     re_Interrupted = (\<lambda>err. err = Sentinel ''context deadline exceeded''),
     re_CronParse = (\<lambda>e. Inr (\<lambda>t. t + 3600 * Second)),
     re_JsonMarshal = vs_Kind, re_JsonUnmarshal = Inr, re_YamlMarshal = Inr,
     re_base = (\<lambda>h. ref_env),
     re_GetDatabase = (\<lambda>h k. Inr ref_database),
     re_GetUser = (\<lambda>h. stored ref_users),
     re_GetGrant = (\<lambda>h k. Inr ref_grant),
     re_GetBackup = (\<lambda>h k. Inr ref_backup),
     re_GetSchedule = (\<lambda>h k. Inr ref_schedule),
     re_GetSnapshot = (\<lambda>h k. Inr ref_snapshot),
     re_GetCronJob = (\<lambda>h k. Inl (ApiErr NotFound [])),
     re_ListBackups = (\<lambda>h ns. Inr [ref_backup]),
     re_CreateBackup = (\<lambda>h b. None), re_CreateCronJob = (\<lambda>h j. None), re_PatchCronJob = (\<lambda>h b n. None),
     re_PatchBackupStatus = (\<lambda>h b n. Inr n), re_PatchScheduleStatus = (\<lambda>h b n. Inr n),
     re_PatchSnapshotStatus = (\<lambda>h b n. Inr n),
     re_PatchDatabase = (\<lambda>h b n. Inr n), re_PatchUser = (\<lambda>h b n. Inr n), re_PatchGrant = (\<lambda>h b n. Inr n),
     re_PatchDatabaseStatus = (\<lambda>h b n. Inr n), re_PatchUserStatus = (\<lambda>h b n. Inr n),
     re_PatchGrantStatus = (\<lambda>h b n. Inr n),
     re_Exec = (\<lambda>h c q args. None),
     re_QueryRow = (\<lambda>h c q args. Inr (Inr 0)),
     re_QueryNames = (\<lambda>h c q args. Inr ([], None)),
     re_QueryIgnores = (\<lambda>h c q args. Inr ([], None)),
     re_QueryStatus = (\<lambda>h c q args. Inr ([Inr 0], None)),
     re_BeginTx = (\<lambda>h c. None),
     re_TxQueryRow = (\<lambda>h c q args. Inr (Inr 0)),
     re_TxExec = (\<lambda>h c q args. None),
     re_Commit = (\<lambda>h c. None),
     re_PollRounds = (\<lambda>h. 11),
     re_PollErr = (\<lambda>h. Sentinel ''context deadline exceeded''),
     re_Now = (\<lambda>h. 5000 * Second)\<rparr>"

end
