(* ===== verification/Sql_Properties.thy ===== *)
theory Sql_Properties
  imports Sql_Lifecycle Reference_Resources
begin

text \<open>
  The properties of the SQL resources: databases, users and grants follow the life cycle of theory
  \<open>Sql_Lifecycle\<close>.
\<close>

section \<open>Single statements and loops\<close>

lemma exec_follows:
  assumes "R (trace s) (RExec c q args)"
  shows "wp (Client_Exec E c q args) (\<lambda>e s'. follows R s s' \<and>
    (obj s' = obj s \<and> (e = None \<longrightarrow> acknowledged E q (trace s')))) s"
  using assms by (simp add: wp_simps follows_step acknowledged_def seen_snoc)

lemma dolt_ignore_follows:
  assumes "\<And>p h q. p \<in> set ps \<Longrightarrow> R h (RTxQueryRow c q [p]) \<and> R h (RTxExec c q [p])"
  shows "wp (dolt_ignore_loop E c ps) (\<lambda>_ s'. follows R s s' \<and> obj s' = obj s) s"
  using assms
proof (induction ps arbitrary: s)
  case (Cons p ps)
  have IH: "follows R s s1 \<Longrightarrow> obj s1 = obj s \<Longrightarrow>
      wp (dolt_ignore_loop E c ps) (\<lambda>_ s'. follows R s s' \<and> obj s' = obj s) s1" for s1
    by (rule wp_follows [OF Cons.IH]) (simp_all add: Cons.prems)
  have "R h (RTxQueryRow c q [p])" "R h (RTxExec c q [p])" for h q
    using Cons.prems by auto
  then have "follows R s (s\<lparr>trace := trace s @ [RTxQueryRow c q [p]]\<rparr>)"
    "follows R s (s\<lparr>trace := trace s @ [RTxQueryRow c q [p], RTxExec c q' [p]]\<rparr>)" for q q'
    by (simp_all add: follows_def)
  then show ?case
    by (simp add: wp_simps IH split: sum.split option.split)
qed (simp add: wp_simps)

lemma branches_follows:
  assumes "\<And>b h q. b \<in> set bs \<Longrightarrow> R h (RQueryRow c q [b]) \<and> R h (RExec c createBranchText [b])"
  shows "wp (CreateBranches E c bs) (\<lambda>_ s'. follows R s s' \<and> obj s' = obj s) s"
  using assms
proof (induction bs arbitrary: s)
  case (Cons b bs)
  have "R h (RQueryRow c q [b])" "R h (RExec c createBranchText [b])" for h q
    using Cons.prems by auto
  then have "wp (createBranch E c b) (\<lambda>_ s'. follows R s s' \<and> obj s' = obj s) s"
    by (simp add: createBranch_def wp_simps follows_def split: sum.split)
  then show ?case
    unfolding CreateBranches.simps wp_bind
    by (rule wp_follows [OF _ follows_refl])
      (auto split: option.split intro!: wp_follows [OF Cons.IH] simp: Cons.prems)
qed (simp add: wp_simps)

lemma patch_object_follows:
  assumes "\<And>b n. send b n = perform (C b n) (\<lambda>h. f h b n)" and "R (trace s) (C (obj s) (g (obj s)))"
  shows "wp (patch_object send g) (\<lambda>_ s'. follows R s s') s"
  using assms(2) by (simp add: patch_object_def assms(1) wp_simps follows_def split: sum.split)

lemma user_found_follows: "user_found E u h (trace s) \<Longrightarrow> follows R s s' \<Longrightarrow> user_found E u h (trace s')"
  unfolding user_found_def by (rule seen_follows)

text \<open>A step that may fail, in the style of the code: an error is wrapped and returned.\<close>

lemma follows_then:
  assumes "wp p (\<lambda>e s'. follows R s1 s' \<and> (obj s' = obj s1 \<and> (e = None \<longrightarrow> A s'))) s1" and "follows R s s1"
    and "\<And>err s'. follows R s s' \<Longrightarrow> obj s' = obj s1 \<Longrightarrow> Q (Some (g err)) s'"
    and "\<And>s'. follows R s s' \<Longrightarrow> follows R s1 s' \<Longrightarrow> obj s' = obj s1 \<Longrightarrow> A s' \<Longrightarrow> wp rest Q s'"
  shows "wp (State_Monad.bind p (\<lambda>e. case e of None \<Rightarrow> rest | Some err \<Rightarrow> ret (Some (g err)))) Q s1"
  unfolding wp_bind
  by (rule wp_mono [OF assms(1)])
    (auto split: option.split simp: wp_return intro: assms(3,4) follows_trans [OF assms(2)])

lemma follows_last:
  assumes "wp p (\<lambda>e s'. follows R s1 s' \<and> (obj s' = obj s1 \<and> (e = None \<longrightarrow> A s'))) s1" and "follows R s s1"
  shows "wp (State_Monad.bind p (\<lambda>e. ret (map_option g e)))
    (\<lambda>e s'. follows R s s' \<and> (obj s' = obj s1 \<and> (e = None \<longrightarrow> A s'))) s1"
  unfolding wp_bind
  by (rule wp_mono [OF assms(1)]) (auto simp: wp_return intro: follows_trans [OF assms(2)])

lemma acknowledged_follows: "acknowledged E q (trace s) \<Longrightarrow> follows R s s' \<Longrightarrow> acknowledged E q (trace s')"
  unfolding acknowledged_def by (rule seen_follows)

lemma patch_wrapped_follows:
  assumes "\<And>b n. send b n = perform (C b n) (\<lambda>h. f h b n)" and "R (trace s) (C (obj s) (g (obj s)))"
  shows "wp (State_Monad.bind (patch_object send g) (\<lambda>e. ret (w e))) (\<lambda>_ s'. follows R s s') s"
  unfolding wp_bind
  by (rule wp_mono [OF patch_object_follows [where R = R and C = C and f = f and g = g]])
    (simp_all add: assms wp_return)

section \<open>Databases\<close>

definition database_opts :: "Database \<Rightarrow> DatabaseOpts" where
  "database_opts d = \<lparr>dopts_CharSet = dspec_CharSet (database_spec d),
     dopts_Collation = dspec_Collation (database_spec d)\<rparr>"

definition database_request :: "Database \<Rightarrow> rcall \<Rightarrow> bool" where
  "database_request d c = (case c of
      RExec _ q args \<Rightarrow>
        (\<exists>safe. sanitizeIdentifier (Database_Name d) = Inr safe \<and>
           q \<in> {createDatabaseText safe (database_opts d), useDatabaseText safe} \<and> args = []) \<or>
        q = createBranchText \<and> (\<exists>b \<in> set (dspec_SystemBranches (database_spec d)). args = [b])
    | RQueryRow _ _ args \<Rightarrow> \<exists>b \<in> set (dspec_SystemBranches (database_spec d)). args = [b]
    | RBeginTx _ \<Rightarrow> True | RCommit _ \<Rightarrow> True
    | RTxQueryRow _ _ args \<Rightarrow> \<exists>p \<in> set (dspec_DoltIgnorePatterns (database_spec d)). args = [p]
    | RTxExec _ _ args \<Rightarrow> \<exists>p \<in> set (dspec_DoltIgnorePatterns (database_spec d)). args = [p]
    | _ \<Rightarrow> False)"

definition database_kind :: "resource_env \<Rightarrow> Database kind" where
  "database_kind E = \<lparr>
     k_create = database_request,
     k_drop = (\<lambda>d c. \<exists>safe cl. sanitizeIdentifier (Database_Name d) = Inr safe \<and>
                       c = RExec cl (dropDatabaseText safe) []),
     k_add = (\<lambda>d c. \<not> Database_ContainsFinalizer E d \<and>
        c = RPatchDatabase d (database_finalizers (\<lambda>fs. re_AddFinalizer E fs databaseFinalizerName) d)),
     k_remove = (\<lambda>d c. Database_ContainsFinalizer E d \<and>
        c = RPatchDatabase d (database_finalizers (\<lambda>fs. re_RemoveFinalizer E fs databaseFinalizerName) d)),
     k_status = (\<lambda>c. \<exists>b st. c = RPatchDatabaseStatus b (b\<lparr>database_status := st\<rparr>)),
     k_created = (\<lambda>d h. \<exists>safe. sanitizeIdentifier (Database_Name d) = Inr safe \<and>
        acknowledged E (createDatabaseText safe (database_opts d)) h \<and>
        acknowledged E (useDatabaseText safe) h),
     k_cleaned = (\<lambda>d h. \<exists>safe. sanitizeIdentifier (Database_Name d) = Inr safe \<and>
        acknowledged E (dropDatabaseText safe) h)\<rparr>"

text \<open>A statement that names the database, and the acknowledgement of such a statement.\<close>

definition named_ack :: "resource_env \<Rightarrow> string \<Rightarrow> (string \<Rightarrow> string) \<Rightarrow> rcall list \<Rightarrow> bool" where
  "named_ack E name q h \<longleftrightarrow> (\<exists>safe. sanitizeIdentifier name = Inr safe \<and> acknowledged E (q safe) h)"

lemma named_follows:
  assumes "\<And>safe. sanitizeIdentifier name = Inr safe \<Longrightarrow> R (trace s) (RExec c (q safe) [])"
  shows "wp (case sanitizeIdentifier name of
        Inl err \<Rightarrow> ret (Some err) | Inr safe \<Rightarrow> Client_Exec E c (q safe) []) (\<lambda>e s'. follows R s s' \<and>
      (obj s' = obj s \<and> (e = None \<longrightarrow> named_ack E name q (trace s')))) s"
  using assms by (auto simp: wp_simps follows_step named_ack_def acknowledged_def seen_snoc split: sum.split)

lemma named_ack_follows: "named_ack E n q (trace s) \<Longrightarrow> follows R s s' \<Longrightarrow> named_ack E n q (trace s')"
  unfolding named_ack_def by (blast intro: acknowledged_follows)

lemma ignore_follows:
  assumes "\<And>h. R h (RBeginTx c)" and "\<And>h. R h (RCommit c)"
    and "\<And>p h q. p \<in> set ps \<Longrightarrow> R h (RTxQueryRow c q [p]) \<and> R h (RTxExec c q [p])"
  shows "wp (CreateDoltIgnore E c ps) (\<lambda>_ s'. follows R s s' \<and> obj s' = obj s) s"
proof -
  have steps: "follows R s1 (s1\<lparr>trace := trace s1 @ [RBeginTx c]\<rparr>)"
    "follows R s1 (s1\<lparr>trace := trace s1 @ [RCommit c]\<rparr>)" for s1 :: "(rcall, 'a) cfg"
    by (simp_all add: follows_step assms)
  have "wp (do { result \<leftarrow> dolt_ignore_loop E c ps; commitErr \<leftarrow> r_Commit E c; ret result })
      (\<lambda>_ s'. follows R s s' \<and> obj s' = obj s) s1" if "follows R s s1" "obj s1 = obj s" for s1
    unfolding wp_bind
    by (rule wp_follows [OF dolt_ignore_follows [OF assms(3)] that(1)])
      (simp_all add: wp_return wp_r that follows_trans [OF _ steps(2)])
  from this [OF steps(1)] steps(1) show ?thesis
    unfolding CreateDoltIgnore_def wp_bind [of "r_BeginTx E c"] wp_r
    by (simp add: wp_return split: option.split)
qed

lemma database_create:
  fixes E d
  defines "R \<equiv> lifecycle E database_resource (database_kind E) d"
  assumes s: "obj s = d" and live: "\<not> Database_IsBeingDeleted d"
  shows "wp (createDatabaseResource E c) (\<lambda>e s'. follows R s s' \<and>
           (obj s' = d \<and> (e = None \<longrightarrow> k_created (database_kind E) d (trace s')))) s"
proof -
  have allowed: "database_request d c \<Longrightarrow> R h c" for h c
    using live by (simp add: R_def lifecycle_def database_resource_def database_kind_def)
  let ?name = "Database_Name d" and ?text = "\<lambda>safe. createDatabaseText safe (database_opts d)"
  let ?Q = "\<lambda>e s'. follows R s s' \<and> (obj s' = d \<and> (e = None \<longrightarrow>
      named_ack E ?name ?text (trace s') \<and> named_ack E ?name useDatabaseText (trace s')))"
  have ignore: "wp (CreateDoltIgnore E c (dspec_DoltIgnorePatterns (database_spec d)))
      (\<lambda>e s'. follows R s s' \<and> (obj s' = obj s \<and> (e = None \<longrightarrow> True))) s" for s :: "(rcall, Database) cfg"
    by (rule wp_mono [OF ignore_follows]) (simp_all add: allowed database_request_def)
  have branches: "wp (CreateBranches E c (dspec_SystemBranches (database_spec d)))
      (\<lambda>e s'. follows R s s' \<and> obj s' = obj s) s" for s :: "(rcall, Database) cfg"
    by (rule branches_follows) (simp add: allowed database_request_def)
  have last: "wp (State_Monad.bind (CreateBranches E c (dspec_SystemBranches (database_spec d))) (\<lambda>e. ret (map_option g e))) ?Q s1"
    if "follows R s s1" "obj s1 = d" "named_ack E ?name ?text (trace s1)" "named_ack E ?name useDatabaseText (trace s1)" for s1 g
    unfolding wp_bind
    by (rule wp_mono [OF branches])
      (use that in \<open>auto simp: wp_return intro: follows_trans named_ack_follows\<close>)
  have "wp (createDatabaseResource E c) ?Q s"
    unfolding createDatabaseResource_def wp_bind [of get_obj] wp_get_obj s Let_def
      CreateDatabase_def UseDatabase_def database_opts_def [symmetric]
  proof (rule follows_then [OF named_follows [where q = ?text and R = R] follows_refl], goal_cases)
    case (3 s1)
    note s1 = this
    show ?case
    proof (rule follows_then [OF named_follows [where q = useDatabaseText and R = R] s1(1)], goal_cases)
      case (3 s2)
      note s2 = this
      show ?case
        by (rule follows_then [OF ignore s2(1)], simp_all add: s s1 s2, rule last)
          (use s1 s2 in \<open>auto simp: s intro: named_ack_follows\<close>)
    qed (simp_all add: allowed database_request_def s s1)
  qed (simp_all add: allowed database_request_def s)
  then show ?thesis
    by (rule wp_mono) (auto simp: database_kind_def named_ack_def)
qed

lemmas database_interface =
  database_resource_def wrappedDatabaseReconciler_def wrappedDatabaseFinalizer_def database_kind_def

interpretation database: sql_resource E database_resource "wrappedDatabaseReconciler E"
    "wrappedDatabaseFinalizer E" "database_kind E" d for E d
proof (unfold_locales, goal_cases)
  case (1 s c)
  then show ?case
    using database_create [of s d E c] by (simp add: database_interface)
next
  case (2 s c)
  then have "wp (dropDatabaseResource E c) (\<lambda>e s'. follows (lifecycle E database_resource (database_kind E) d) s s' \<and>
      (obj s' = obj s \<and> (e = None \<longrightarrow> named_ack E (Database_Name d) dropDatabaseText (trace s')))) s"
    unfolding dropDatabaseResource_def DropDatabase_def wp_bind [of get_obj] wp_get_obj
    by (intro follows_last [OF _ follows_refl]) (auto simp: lifecycle_def database_kind_def intro!: named_follows)
  then show ?case
    using 2 by (simp add: database_interface named_ack_def)
next
  case (3 p s)
  then show ?case
    by (auto simp: wrappedDatabaseReconciler_def Database_PatchStatus_def r_PatchDatabaseStatus_def
        lifecycle_def database_kind_def intro!: patch_wrapped_follows)
next
  case (4 s)
  then show ?case
    by (auto simp: wrappedDatabaseFinalizer_def Database_AddFinalizer_def Database_patch_def r_PatchDatabase_def
        wp_bind [of get_obj] wp_get_obj wp_return lifecycle_def database_kind_def intro!: patch_wrapped_follows)
next
  case (5 s)
  then show ?case
    by (auto simp: wrappedDatabaseFinalizer_def Database_RemoveFinalizer_def Database_patch_def r_PatchDatabase_def
        wp_bind [of get_obj] wp_get_obj wp_return lifecycle_def database_kind_def intro!: patch_wrapped_follows)
qed

section \<open>Users\<close>

definition identified_as :: "string \<Rightarrow> User \<Rightarrow> string \<Rightarrow> bool" where
  "identified_as verb u q \<longleftrightarrow>
     (\<exists>pw. pw \<noteq> [] \<and> q = identifiedText verb (User_AccountName u) (user_opts [WithIdentifiedBy pw]))"

definition user_kind :: "resource_env \<Rightarrow> User kind" where
  "user_kind E = \<lparr>
     k_create = (\<lambda>u c. case c of
         RQueryRow _ _ args \<Rightarrow> args = [Username u, User_HostnameOrDefault u]
       | RExec _ q args \<Rightarrow> args = [] \<and>
           (identified_as ''CREATE USER IF NOT EXISTS '' u q \<or> identified_as ''ALTER USER '' u q)
       | _ \<Rightarrow> False),
     k_drop = (\<lambda>u c. \<exists>cl. c = RExec cl (dropUserText (User_AccountName u)) []),
     k_add = (\<lambda>u c. \<not> User_ContainsFinalizer E u \<and>
        c = RPatchUser u (user_finalizers (\<lambda>fs. re_AddFinalizer E fs UserFinalizerName) u)),
     k_remove = (\<lambda>u c. User_ContainsFinalizer E u \<and>
        c = RPatchUser u (user_finalizers (\<lambda>fs. re_RemoveFinalizer E fs UserFinalizerName) u)),
     k_status = (\<lambda>c. \<exists>b st. c = RPatchUserStatus b (b\<lparr>user_status := st\<rparr>)),
     k_created = (\<lambda>u h. user_found E (Username u) (User_HostnameOrDefault u) h \<or>
        (\<exists>q. identified_as ''CREATE USER IF NOT EXISTS '' u q \<and> acknowledged E q h)),
     k_cleaned = (\<lambda>u h. acknowledged E (dropUserText (User_AccountName u)) h)\<rparr>"

text \<open>The parts of a creation: the password, the test for the account and a statement.\<close>

lemma userPassword_follows:
  assumes "obj s = d"
  shows "wp (userPassword E d) (\<lambda>x s'. follows (lifecycle E user_resource (user_kind E) d) s s' \<and> (obj s' = d \<and>
      (\<forall>pw os. x = Inr (pw, os) \<longrightarrow> os = [] \<and> pw = [] \<or> os = [WithIdentifiedBy pw]))) s"
proof (cases "uspec_PasswordSecretKeyRef (user_spec d)")
  case (Some key)
  have "emits is_query (SecretKeyRefValue B key ns)" for B ns
    unfolding SecretKeyRefValue_def by (intro emits_intros) simp
  then have "wp (via_base E () (\<lambda>B. SecretKeyRefValue B key ns))
      (\<lambda>_ s'. follows (lifecycle E user_resource (user_kind E) d) s s' \<and> obj s' = obj s) s" for ns
    by (rule follows_via_base) (rule lifecycle_query)
  with Some show ?thesis
    unfolding userPassword_def
    by (simp add: wp_bind) (rule wp_mono, assumption, auto simp: assms wp_return split: prod.split sum.splits)
qed (simp add: userPassword_def wp_return assms)

lemma user_create_allowed:
  "\<not> User_IsBeingDeleted d \<Longrightarrow> k_create (user_kind E) d c \<Longrightarrow> lifecycle E user_resource (user_kind E) d h c"
  by (simp add: lifecycle_def user_resource_def)

lemma userExists_follows:
  fixes E d
  defines "R \<equiv> lifecycle E user_resource (user_kind E) d"
  assumes "\<not> User_IsBeingDeleted d"
  shows "wp (UserExists E c (Username d) (User_HostnameOrDefault d)) (\<lambda>x s'. follows R s1 s' \<and> (obj s' = obj s1 \<and>
      (fst x \<longrightarrow> user_found E (Username d) (User_HostnameOrDefault d) (trace s')))) s1"
proof -
  have allowed: "k_create (user_kind E) d c \<Longrightarrow> R h c" for h c
    unfolding R_def by (rule user_create_allowed [OF assms(2)])
  show ?thesis
    unfolding UserExists_def
    by (simp add: wp_simps follows_step allowed user_kind_def user_found_def seen_snoc split: sum.split)
qed

lemma user_statement_follows:
  fixes E d
  defines "R \<equiv> lifecycle E user_resource (user_kind E) d"
  assumes live: "\<not> User_IsBeingDeleted d" and s1: "follows R s s1" "obj s1 = d"
    and q: "identified_as ''CREATE USER IF NOT EXISTS '' d q \<or>
      identified_as ''ALTER USER '' d q \<and> user_found E (Username d) (User_HostnameOrDefault d) (trace s1)"
  shows "wp (do { e \<leftarrow> Client_Exec E c q []; ret (map_option g e) }) (\<lambda>e s'. follows R s s' \<and>
      (obj s' = d \<and> (e = None \<longrightarrow> k_created (user_kind E) d (trace s')))) s1"
proof -
  have "R (trace s1) (RExec c q [])"
    unfolding R_def using q by (intro user_create_allowed [OF live]) (auto simp: user_kind_def)
  from exec_follows [where R = R and E = E, OF this] s1 q show ?thesis
    unfolding wp_bind
    by (elim wp_mono) (auto simp: wp_return user_kind_def intro: follows_trans user_found_follows)
qed

lemma user_create:
  fixes E d
  defines "R \<equiv> lifecycle E user_resource (user_kind E) d"
  assumes s: "obj s = d" and live: "\<not> User_IsBeingDeleted d"
  shows "wp (createUserResource E c) (\<lambda>e s'. follows R s s' \<and>
           (obj s' = d \<and> (e = None \<longrightarrow> k_created (user_kind E) d (trace s')))) s"
proof -
  let ?Q = "\<lambda>e s'. follows R s s' \<and> (obj s' = d \<and> (e = None \<longrightarrow> k_created (user_kind E) d (trace s')))"
  have tail: "wp (if \<not> ex then do { e \<leftarrow> CreateUser E c (User_AccountName d) os; ret (map_option g e) }
         else if pw \<noteq> [] then do { e \<leftarrow> AlterUser E c (User_AccountName d) os; ret (map_option g' e) }
         else ret None) ?Q s1"
    if s1: "follows R s s1" "obj s1 = d" "ex \<longrightarrow> user_found E (Username d) (User_HostnameOrDefault d) (trace s1)"
      and os: "os = [] \<and> pw = [] \<or> os = [WithIdentifiedBy pw]" for ex pw os g g' s1
  proof -
    have opts: "uopts_IdentifiedByPassword (user_opts os) = []" "uopts_IdentifiedBy (user_opts os) = pw"
      using os by (auto simp: user_opts_def WithIdentifiedBy_def)
    have txt1: "identified_as verb d (identifiedText verb (User_AccountName d) (user_opts os))" if "pw \<noteq> []" for verb
      using os that by (auto simp: identified_as_def)
    have found: "k_created (user_kind E) d (trace s1)" if ex
      using s1(3) that by (simp add: user_kind_def)
    show ?thesis
      by (simp add: CreateUser_def AlterUser_def opts wp_return wp_bind [of "ret _"] s1 txt1 found
          user_statement_follows [OF live, of E, folded R_def])
  qed
  have "wp (userPassword E d) (\<lambda>p. wp (case p of
       Inl err \<Rightarrow> ret (Some err)
     | Inr (password, os) \<Rightarrow> do {
         (exists, existsErr) \<leftarrow> UserExists E c (Username d) (User_HostnameOrDefault d);
         if \<not> exists then do { e \<leftarrow> CreateUser E c (User_AccountName d) os; ret (map_option g e) }
         else if password \<noteq> [] then do { e \<leftarrow> AlterUser E c (User_AccountName d) os; ret (map_option g' e) }
         else ret None
       }) ?Q) s" for g g'
    apply (rule wp_follows [OF userPassword_follows [OF s, of E, folded R_def] follows_refl])
    subgoal premises p for x s1
    proof (cases x)
      case (Inr y)
      obtain pw os where y: "y = (pw, os)" by force
      with p Inr have os: "os = [] \<and> pw = [] \<or> os = [WithIdentifiedBy pw]" by blast
      show ?thesis
        unfolding Inr y sum.case prod.case wp_bind [of "UserExists E c (Username d) (User_HostnameOrDefault d)"]
        by (rule wp_follows [OF userExists_follows [OF live, of E, folded R_def] p(1)], unfold case_prod_beta,
            rule tail [OF _ _ _ os]) (use p in simp_all)
    qed (use p in \<open>simp add: wp_return\<close>)
    done
  then show ?thesis
    unfolding createUserResource_def wp_bind [of get_obj] wp_get_obj s wp_bind [of "userPassword E d"] .
qed

lemmas user_interface =
  user_resource_def wrappedUserReconciler_def wrappedUserFinalizer_def user_kind_def

interpretation user: sql_resource E user_resource "wrappedUserReconciler E"
    "wrappedUserFinalizer E" "user_kind E" d for E d
proof (unfold_locales, goal_cases)
  case (1 s c)
  then show ?case
    using user_create [of s d E c] by (simp add: user_interface)
next
  case (2 s c)
  then have "wp (dropUserResource E c) (\<lambda>e s'. follows (lifecycle E user_resource (user_kind E) d) s s' \<and>
      (obj s' = obj s \<and> (e = None \<longrightarrow> acknowledged E (dropUserText (User_AccountName d)) (trace s')))) s"
    unfolding dropUserResource_def DropUser_def wp_bind [of get_obj] wp_get_obj
    by (intro follows_last [OF _ follows_refl]) (auto simp: lifecycle_def user_kind_def intro!: exec_follows)
  then show ?case
    using 2 by (simp add: user_interface)
next
  case (3 p s)
  then show ?case
    by (auto simp: wrappedUserReconciler_def User_PatchStatus_def r_PatchUserStatus_def
        lifecycle_def user_kind_def intro!: patch_wrapped_follows)
next
  case (4 s)
  then show ?case
    by (auto simp: wrappedUserFinalizer_def User_AddFinalizer_def User_patch_def r_PatchUser_def
        wp_bind [of get_obj] wp_get_obj wp_return lifecycle_def user_kind_def intro!: patch_wrapped_follows)
next
  case (5 s)
  then show ?case
    by (auto simp: wrappedUserFinalizer_def User_RemoveFinalizer_def User_patch_def r_PatchUser_def
        wp_bind [of get_obj] wp_get_obj wp_return lifecycle_def user_kind_def intro!: patch_wrapped_follows)
qed

section \<open>Grants\<close>

definition grant_text :: "Grant \<Rightarrow> string" where
  "grant_text g = grantText (gspec_Privileges (grant_spec g)) (gspec_Database (grant_spec g))
     (gspec_Table (grant_spec g)) (Grant_AccountName g) (gspec_GrantOption (grant_spec g))"

definition revoke_text :: "Grant \<Rightarrow> string" where
  "revoke_text g = revokeText (gspec_Privileges (grant_spec g)) (gspec_Database (grant_spec g))
     (gspec_Table (grant_spec g)) (Grant_AccountName g) (gspec_GrantOption (grant_spec g))"

definition grant_kind :: "resource_env \<Rightarrow> Grant kind" where
  "grant_kind E = \<lparr>
     k_create = (\<lambda>g c. \<exists>cl. c = RExec cl (grant_text g) []),
     k_drop = (\<lambda>g c. c = RGetUser (userKey g) \<or> (\<exists>cl. c = RExec cl (revoke_text g) [])),
     k_add = (\<lambda>g c. \<not> Grant_ContainsFinalizer E g \<and>
        c = RPatchGrant g (grant_finalizers (\<lambda>fs. re_AddFinalizer E fs GrantFinalizerName) g)),
     k_remove = (\<lambda>g c. Grant_ContainsFinalizer E g \<and>
        c = RPatchGrant g (grant_finalizers (\<lambda>fs. re_RemoveFinalizer E fs GrantFinalizerName) g)),
     k_status = (\<lambda>c. \<exists>b st. c = RPatchGrantStatus b (b\<lparr>grant_status := st\<rparr>)),
     k_created = (\<lambda>g h. acknowledged E (grant_text g) h),
     k_cleaned = (\<lambda>g h. user_gone E (userKey g) h \<or> acknowledged E (revoke_text g) h)\<rparr>"

lemma poll_follows:
  assumes "\<And>h. R h (RGetUser key)"
  shows "wp (poll_user_gone E key n)
    (\<lambda>e s'. follows R s s' \<and> (obj s' = obj s \<and> (e = None \<longrightarrow> user_gone E key (trace s')))) s"
proof (induction n arbitrary: s)
  case (Suc n)
  have step: "follows R s (s\<lparr>trace := trace s @ [RGetUser key]\<rparr>)"
    by (simp add: follows_step assms)
  show ?case
    using step wp_follows [OF Suc.IH step]
    by (auto simp: wp_simps user_gone_def seen_snoc split: sum.split)
qed (simp add: wp_simps)

lemma revoke_follows:
  fixes E d
  defines "R \<equiv> lifecycle E grant_resource (grant_kind E) d"
  assumes s: "obj s = d" and "Grant_IsBeingDeleted d" and "cleans grant_resource d"
  shows "wp (revokeGrantResource E c) (\<lambda>e s'. follows R s s' \<and> (obj s' = d \<and>
     (e = None \<longrightarrow> k_cleaned (grant_kind E) d (trace s')))) s"
proof -
  have allowed: "k_drop (grant_kind E) d c \<Longrightarrow> R h c" for h c
    using assms by (simp add: R_def lifecycle_def grant_resource_def)
  have poll: "wp (poll_user_gone E (userKey d) n)
    (\<lambda>e s'. follows R s s' \<and> (obj s' = obj s \<and> (e = None \<longrightarrow> user_gone E (userKey d) (trace s')))) s" for n
    by (rule poll_follows) (simp add: allowed grant_kind_def)
  let ?Q = "\<lambda>e s'. follows R s s' \<and> (obj s' = d \<and> (e = None \<longrightarrow> k_cleaned (grant_kind E) d (trace s')))"
  have revoke: "wp (do { e \<leftarrow> Client_Exec E c (revoke_text d) []; ret (map_option g e) }) ?Q s1"
    if "follows R s s1" "obj s1 = d" for s1 g
    by (rule wp_mono [OF follows_last [OF exec_follows that(1)]])
      (simp_all add: allowed grant_kind_def that)
  have "?Q None s1" if "follows R s s1" "obj s1 = d" "user_gone E (userKey d) (trace s1)" for s1
    using that by (simp add: grant_kind_def)
  then show ?thesis
    unfolding revokeGrantResource_def wp_bind [of get_obj] wp_get_obj wp_bind [of "peek_resource _"]
      wp_peek_resource s Client_Revoke_def revoke_text_def [symmetric] wp_bind [of "poll_user_gone _ _ _"]
    by (intro wp_follows [OF poll follows_refl]) (simp add: wp_return s revoke split: option.split)
qed

lemmas grant_interface =
  grant_resource_def wrappedGrantReconciler_def wrappedGrantFinalizer_def grant_kind_def

interpretation grant: sql_resource E grant_resource "wrappedGrantReconciler E"
    "wrappedGrantFinalizer E" "grant_kind E" d for E d
proof (unfold_locales, goal_cases)
  case (1 s c)
  then have "wp (createGrantResource E c) (\<lambda>e s'. follows (lifecycle E grant_resource (grant_kind E) d) s s' \<and>
      (obj s' = obj s \<and> (e = None \<longrightarrow> acknowledged E (grant_text d) (trace s')))) s"
    unfolding createGrantResource_def Client_Grant_def wp_bind [of get_obj] wp_get_obj grant_text_def [symmetric]
    by (intro follows_last [OF _ follows_refl]) (auto simp: lifecycle_def grant_kind_def intro!: exec_follows)
  then show ?case
    using 1 by (simp add: grant_interface)
next
  case (2 s c)
  then show ?case
    using revoke_follows [of s d E c] by (simp add: grant_interface)
next
  case (3 p s)
  then show ?case
    by (auto simp: wrappedGrantReconciler_def Grant_PatchStatus_def r_PatchGrantStatus_def
        lifecycle_def grant_kind_def intro!: patch_wrapped_follows)
next
  case (4 s)
  then show ?case
    by (auto simp: wrappedGrantFinalizer_def Grant_AddFinalizer_def Grant_patch_def r_PatchGrant_def
        wp_bind [of get_obj] wp_get_obj wp_return lifecycle_def grant_kind_def intro!: patch_wrapped_follows)
next
  case (5 s)
  then show ?case
    by (auto simp: wrappedGrantFinalizer_def Grant_RemoveFinalizer_def Grant_patch_def r_PatchGrant_def
        wp_bind [of get_obj] wp_get_obj wp_return lifecycle_def grant_kind_def intro!: patch_wrapped_follows)
qed

section \<open>The life cycle of the three kinds\<close>

text \<open>What a pass does once the resource is fetched, on a fresh trace.\<close>

lemma fetched_follows:
  assumes "\<And>d s. obj s = d \<Longrightarrow> wp (p d) (\<lambda>_ s'. follows (R d) s s') s"
    and "get = perform c (\<lambda>h. reply h)"
  shows "wp (do { r \<leftarrow> get; case r of Inl err \<Rightarrow> ret (g err) | Inr d \<Rightarrow> do { put_obj d; x \<leftarrow> p d; ret (f x) } })
     (\<lambda>_ s'. case reply [] of
        Inl err \<Rightarrow> trace s' = [c]
      | Inr d \<Rightarrow> \<exists>t. trace s' = c # t \<and> obeys (R d) [c] t) \<lparr>trace = [], obj = x0\<rparr>"
  by (simp add: assms(2) wp_simps split: sum.split)
    (intro allI impI wp_mono [OF assms(1)]; force simp: follows_def)

text \<open>
  C33: every pass over a database, a user or a grant fetches the resource and then follows its
  life cycle.  On a live resource it sends, besides queries, only the statements that create the
  object, under its sanitized name or its account, and patches of the status; the finalizer is
  added only after the server acknowledged the creation.  On a deleted resource it sends only the
  statements that clean up, and only if the cleanup policy asks for them; the finalizer is removed
  only if the policy does not ask for a cleanup, the DoltDB that the resource refers to was looked up
  and not found, or the server acknowledged the cleanup (for a grant, also if the User it names is gone).
\<close>

theorem sql_resources_follow_lifecycle:
  "wp (Database_Reconcile E opts req) (\<lambda>_ s'. case re_GetDatabase E [] req of
       Inl err \<Rightarrow> trace s' = [RGetDatabase req]
     | Inr d \<Rightarrow> \<exists>t. trace s' = RGetDatabase req # t \<and>
                 obeys (lifecycle E database_resource (database_kind E) d) [RGetDatabase req] t)
     \<lparr>trace = [], obj = database\<rparr> \<and>
   wp (User_Reconcile E opts req) (\<lambda>_ s'. case re_GetUser E [] req of
       Inl err \<Rightarrow> trace s' = [RGetUser req]
     | Inr u \<Rightarrow> \<exists>t. trace s' = RGetUser req # t \<and>
                 obeys (lifecycle E user_resource (user_kind E) u) [RGetUser req] t)
     \<lparr>trace = [], obj = user\<rparr> \<and>
   wp (Grant_Reconcile E opts req) (\<lambda>_ s'. case re_GetGrant E [] req of
       Inl err \<Rightarrow> trace s' = [RGetGrant req]
     | Inr g \<Rightarrow> \<exists>t. trace s' = RGetGrant req # t \<and>
                 obeys (lifecycle E grant_resource (grant_kind E) g) [RGetGrant req] t)
     \<lparr>trace = [], obj = grant\<rparr>"
  unfolding Database_Reconcile_def User_Reconcile_def Grant_Reconcile_def case_prod_beta
  by (intro conjI fetched_follows database.reconcile user.reconcile grant.reconcile
      r_GetDatabase_def r_GetUser_def r_GetGrant_def)

section \<open>Names in statements\<close>

text \<open>
  How a reader of a statement takes a back-quoted identifier off it: the part before the first
  back quote, the identifier, and the part after the second one.
\<close>

definition read_identifier :: "string \<Rightarrow> string \<times> string \<times> string" where
  "read_identifier q =
     (let rest = tl (dropWhile (\<lambda>c. c \<noteq> CHR 0x60) q)
      in (takeWhile (\<lambda>c. c \<noteq> CHR 0x60) q, takeWhile (\<lambda>c. c \<noteq> CHR 0x60) rest,
          tl (dropWhile (\<lambda>c. c \<noteq> CHR 0x60) rest)))"

lemma upto_backquote:
  assumes "CHR 0x60 \<notin> set xs"
  shows "takeWhile (\<lambda>c. c \<noteq> CHR 0x60) (xs @ CHR 0x60 # ys) = xs"
    and "dropWhile (\<lambda>c. c \<noteq> CHR 0x60) (xs @ CHR 0x60 # ys) = CHR 0x60 # ys"
  using assms by (induction xs) auto

lemma read_backquoted:
  "CHR 0x60 \<notin> set pre \<Longrightarrow> CHR 0x60 \<notin> set name \<Longrightarrow>
     read_identifier (pre @ backquoted name @ post) = (pre, name, post)"
  by (simp add: read_identifier_def backquoted_def upto_backquote)

lemma valid_no_backquote: "validIdentifier s \<Longrightarrow> CHR 0x60 \<notin> set s"
  by (auto simp: validIdentifier_def list_all_iff dest!: bspec dest: identifier_char_plain)

lemma read_texts:
  assumes "validIdentifier name"
  shows "read_identifier (dropDatabaseText name) = (''DROP DATABASE IF EXISTS '', name, '';'')"
    and "read_identifier (useDatabaseText name) = (''USE '', name, '';'')"
    and "read_identifier (createDatabaseText name opts) = (''CREATE DATABASE IF NOT EXISTS '', name, databaseOptionsText opts)"
  unfolding dropDatabaseText_def useDatabaseText_def createDatabaseText_def
  by (rule read_backquoted; use valid_no_backquote [OF assms] in simp)+

lemma named_sends:
  assumes "\<And>safe. validIdentifier safe \<Longrightarrow> read_identifier (q safe) = (pre, safe, post)"
  shows "wp (case sanitizeIdentifier name of
      Inl err \<Rightarrow> ret (Some err) | Inr safe \<Rightarrow> Client_Exec E c (q safe) [])
    (\<lambda>e s'. (\<exists>err. e = Some err \<and> trace s' = trace s) \<or>
      (\<exists>q. trace s' = trace s @ [RExec c q []] \<and> validIdentifier (filter (\<lambda>c. c \<noteq> CHR 0x60) name) \<and>
         read_identifier q = (pre, filter (\<lambda>c. c \<noteq> CHR 0x60) name, post))) s"
  using assms by (auto simp: wp_simps sanitizeIdentifier_Inr split: sum.split)

text \<open>
  C34: a database is dropped, used or created under exactly one identifier, which reads back from
  the statement: the name without back quotes, made of letters, digits and underscores only, with
  nothing of the name left in the rest of the statement.  For any other name nothing is sent.
\<close>

theorem database_name_roundtrip:
  "wp (DropDatabase E c name) (\<lambda>e s'. (\<exists>err. e = Some err \<and> trace s' = trace s) \<or>
      (\<exists>q. trace s' = trace s @ [RExec c q []] \<and> validIdentifier (filter (\<lambda>c. c \<noteq> CHR 0x60) name) \<and>
         read_identifier q = (''DROP DATABASE IF EXISTS '', filter (\<lambda>c. c \<noteq> CHR 0x60) name, '';''))) s \<and>
   wp (UseDatabase E c name) (\<lambda>e s'. (\<exists>err. e = Some err \<and> trace s' = trace s) \<or>
      (\<exists>q. trace s' = trace s @ [RExec c q []] \<and> validIdentifier (filter (\<lambda>c. c \<noteq> CHR 0x60) name) \<and>
         read_identifier q = (''USE '', filter (\<lambda>c. c \<noteq> CHR 0x60) name, '';''))) s \<and>
   wp (CreateDatabase E c name opts) (\<lambda>e s'. (\<exists>err. e = Some err \<and> trace s' = trace s) \<or>
      (\<exists>q. trace s' = trace s @ [RExec c q []] \<and> validIdentifier (filter (\<lambda>c. c \<noteq> CHR 0x60) name) \<and>
         read_identifier q = (''CREATE DATABASE IF NOT EXISTS '', filter (\<lambda>c. c \<noteq> CHR 0x60) name,
                              databaseOptionsText opts))) s"
  unfolding DropDatabase_def UseDatabase_def CreateDatabase_def
  by (intro conjI named_sends read_texts)

section \<open>Errors that are not seen\<close>

text \<open>
  C35: the cleanup of a grant looks for the User by the name of the account, not by the name of the
  object.  If the User that holds the account has another name in the cluster, the cleanup takes it
  for deleted: it reports success without a \<open>REVOKE\<close>, so the finalizer goes and the privileges stay.
\<close>

theorem grant_not_revoked:
  assumes users: "\<And>h k. re_GetUser E h k = stored users k"
    and holder: "users (nn name (om_namespace (grant_meta g))) = Some u" "User_AccountName u = Grant_AccountName g"
    and elsewhere: "users (userKey g) = None"
    and polls: "0 < re_PollRounds E (trace s)" and s: "obj s = g"
  shows "wp (revokeGrantResource E c) (\<lambda>e s'. e = None \<and> trace s' = trace s @ [RGetUser (userKey g)]) s"
proof -
  obtain n where "re_PollRounds E (trace s) = Suc n"
    using polls by (cases "re_PollRounds E (trace s)") auto
  then show ?thesis
    using elsewhere by (simp add: revokeGrantResource_def wp_simps s users stored_def)
qed

theorem grant_not_revoked_witness:
  "User_AccountName ref_user = Grant_AccountName ref_grant \<and>
   ref_users (nn ''app-user'' (om_namespace (grant_meta ref_grant))) = Some ref_user \<and>
   wp (revokeGrantResource ref_renv zero_opts)
     (\<lambda>e s'. e = None \<and> trace s' = [] @ [RGetUser (nn ''app'' ''ns'')]) \<lparr>trace = [], obj = ref_grant\<rparr>"
proof -
  have ref: "User_AccountName ref_user = Grant_AccountName ref_grant" "userKey ref_grant = nn ''app'' ''ns''"
    "om_namespace (grant_meta ref_grant) = ''ns''"
    by (simp_all add: User_AccountName_def Grant_AccountName_def Username_def User_HostnameOrDefault_def
        Grant_HostnameOrDefault_def userKey_def ref_user_def ref_grant_def ref_rmeta_def ref_meta_def
        SQLTemplate.defs object_meta.defs ref_template_def)
  show ?thesis
    using grant_not_revoked [of ref_renv ref_users "''app-user''" ref_grant ref_user "\<lparr>trace = [], obj = ref_grant\<rparr>" zero_opts]
    by (simp add: ref ref_users_def ref_renv_def)
qed

text \<open>
  What the transaction of the ignored tables sends for a pattern: the count of its entries and, when that
  is 0, next the insertion.
\<close>

definition tries_pattern :: "resource_env \<Rightarrow> sql_opts \<Rightarrow> rcall list \<Rightarrow> rcall list \<Rightarrow> string \<Rightarrow> bool" where
  "tries_pattern E c h t p \<longleftrightarrow>
     (let count = ''SELECT COUNT(*) FROM dolt_ignore WHERE pattern = ?'';
          insertion = ''INSERT INTO dolt_ignore (pattern, ignored) VALUES (?, true)''
      in \<exists>pre post. t = pre @ RTxQueryRow c count [p] # post \<and>
           (re_TxQueryRow E (h @ pre) c count [p] = Inr (Inr 0) \<longrightarrow> (\<exists>rest. post = RTxExec c insertion [p] # rest)))"

lemma tries_pattern_later:
  assumes "tries_pattern E c (h @ u) t p"
  shows "tries_pattern E c h (u @ t) p"
proof -
  let ?count = "''SELECT COUNT(*) FROM dolt_ignore WHERE pattern = ?''"
  from assms obtain pre post where "t = pre @ RTxQueryRow c ?count [p] # post"
      "re_TxQueryRow E (h @ u @ pre) c ?count [p] = Inr (Inr 0) \<longrightarrow>
         (\<exists>rest. post = RTxExec c ''INSERT INTO dolt_ignore (pattern, ignored) VALUES (?, true)'' [p] # rest)"
    unfolding tries_pattern_def Let_def by auto
  then show ?thesis
    unfolding tries_pattern_def Let_def by (intro exI [of _ "u @ pre"] exI [of _ post]) simp
qed

lemma dolt_ignore_loop_tries:
  fixes s :: "(rcall, 'o) cfg"
  assumes "\<And>h q p. \<exists>n. re_TxQueryRow E h c q [p] = Inr (Inr n)" and "\<And>h q p. re_TxExec E h c q [p] = None"
  shows "wp (dolt_ignore_loop E c ps)
    (\<lambda>e s'. e = None \<and> (\<exists>t. trace s' = trace s @ t \<and> (\<forall>p \<in> set ps. tries_pattern E c (trace s) t p))) s"
proof (induction ps arbitrary: s)
  case (Cons p ps)
  let ?count = "''SELECT COUNT(*) FROM dolt_ignore WHERE pattern = ?''"
  obtain n where n: "re_TxQueryRow E (trace s) c ?count [p] = Inr (Inr n)"
    using assms(1) by blast
  have rest: "wp (dolt_ignore_loop E c ps)
      (\<lambda>e s'. e = None \<and> (\<exists>t. trace s' = trace s @ t \<and> (\<forall>p \<in> set (p # ps). tries_pattern E c (trace s) t p))) s1"
    if s1: "trace s1 = trace s @ u" and u: "\<And>t. tries_pattern E c (trace s) (u @ t) p"
    for u and s1 :: "(rcall, 'o) cfg"
  proof (rule wp_mono [OF Cons.IH], elim conjE exE)
    fix e :: "goerr option" and s' t
    assume "e = None" and t: "trace s' = trace s1 @ t" "\<forall>p \<in> set ps. tries_pattern E c (trace s1) t p"
    then show "e = None \<and> (\<exists>t. trace s' = trace s @ t \<and> (\<forall>p \<in> set (p # ps). tries_pattern E c (trace s) t p))"
      using u by (intro conjI exI [of _ "u @ t"]) (auto simp: s1 intro: tries_pattern_later)
  qed
  show ?case
  proof (cases "n = 0")
    case True
    have "tries_pattern E c (trace s) ([RTxQueryRow c ?count [p],
        RTxExec c ''INSERT INTO dolt_ignore (pattern, ignored) VALUES (?, true)'' [p]] @ t) p" for t
      unfolding tries_pattern_def Let_def by (rule exI [of _ "[]"]) auto
    from rest [OF _ this] True show ?thesis
      by (simp add: wp_bind wp_r wp_return n assms(2))
  next
    case False
    have "tries_pattern E c (trace s) ([RTxQueryRow c ?count [p]] @ t) p" for t
      unfolding tries_pattern_def Let_def by (rule exI [of _ "[]"]) (use n False in auto)
    from rest [OF _ this] False show ?thesis
      by (simp add: wp_bind wp_r wp_return n)
  qed
qed (simp add: wp_return)

lemma emits_CreateBranches: "emits (\<lambda>_. True) (CreateBranches E c bs)"
  by (induction bs) (auto simp: createBranch_def Client_QueryRow_def Client_Exec_def intro!: emits_intros)

text \<open>
  C36: The reconciler of a database hides errors.  Once the database exists and can be used and the
  statements of the transaction for the ignored tables succeed, it reports success whatever the server
  answers to the commit of that transaction and to every statement about branches; the insertions for
  the patterns that were missing are all in that transaction, so a refused commit loses them.
\<close>

theorem database_errors_hidden:
  fixes s :: "(rcall, Database) cfg"
  assumes "validIdentifier (Database_Name (obj s))"
    and "\<And>h q. re_Exec E h c q [] = None" and "\<And>h. re_BeginTx E h c = None"
    and "\<And>h q p. \<exists>n. re_TxQueryRow E h c q [p] = Inr (Inr n)" and "\<And>h q p. re_TxExec E h c q [p] = None"
  shows "wp (createDatabaseResource E c) (\<lambda>e s'. e = None \<and>
     (\<exists>t u v. trace s' = trace s @ t @ RBeginTx c # u @ RCommit c # v \<and>
        (\<forall>p \<in> set (dspec_DoltIgnorePatterns (database_spec (obj s))).
           tries_pattern E c (trace s @ t @ [RBeginTx c]) u p))) s"
proof -
  let ?ps = "dspec_DoltIgnorePatterns (database_spec (obj s))"
  let ?hidden = "\<lambda>(e :: goerr option) s'. e = None \<and>
     (\<exists>t u v. trace s' = trace s @ t @ RBeginTx c # u @ RCommit c # v \<and>
        (\<forall>p \<in> set ?ps. tries_pattern E c (trace s @ t @ [RBeginTx c]) u p))"
  have branches: "wp (CreateBranches E c bs) (\<lambda>e s'. e = None \<and> (\<exists>v. trace s' = trace s1 @ v)) s1"
    for bs and s1 :: "(rcall, Database) cfg"
  proof (rule wp_conj [OF wp_CreateBranches_None])
    have "emits (\<lambda>_. True) (CreateBranches E c bs :: (Database, goerr option) rop)"
      by (rule emits_CreateBranches)
    then obtain v where "trace (snd (run_state (CreateBranches E c bs) s1)) = trace s1 @ v"
      unfolding emits_def by blast
    then show "wp (CreateBranches E c bs) (\<lambda>_ s'. \<exists>v. trace s' = trace s1 @ v) s1"
      by (auto simp: wp_def split: prod.splits)
  qed
  have ends: "wp (CreateBranches E c bs) (\<lambda>e s'. e = None \<and>
      (\<exists>t u. (\<exists>v. trace s' = trace s @ t @ RBeginTx c # u @ RCommit c # v) \<and>
        (\<forall>p \<in> set ?ps. tries_pattern E c (trace s @ t @ [RBeginTx c]) u p))) s1"
    if "trace s1 = trace s @ t @ RBeginTx c # u @ [RCommit c]"
      "\<forall>p \<in> set ?ps. tries_pattern E c (trace s @ t @ [RBeginTx c]) u p"
    for bs t u and s1 :: "(rcall, Database) cfg"
  proof (rule wp_mono [OF branches], elim conjE exE)
    fix e :: "goerr option" and s' v
    assume "e = None" "trace s' = trace s1 @ v"
    with that show "e = None \<and> (\<exists>t u. (\<exists>v. trace s' = trace s @ t @ RBeginTx c # u @ RCommit c # v) \<and>
        (\<forall>p \<in> set ?ps. tries_pattern E c (trace s @ t @ [RBeginTx c]) u p))"
      by (intro conjI exI [of _ t] exI [of _ u] exI [of _ v]) simp_all
  qed
  have "wp (CreateDoltIgnore E c ?ps) (\<lambda>e. wp (case e of None \<Rightarrow> do { e \<leftarrow> CreateBranches E c bs; ret (map_option f e) }
      | Some err \<Rightarrow> ret (g err)) ?hidden) s1" if "trace s1 = trace s @ t"
    for bs f g t and s1 :: "(rcall, Database) cfg"
    unfolding CreateDoltIgnore_def
    by (auto simp: wp_bind wp_r assms(3) wp_return that
        intro!: wp_mono [OF dolt_ignore_loop_tries [OF assms(4,5)]] ends [of _ t])
  then show ?thesis
    unfolding createDatabaseResource_def
    by (simp add: wp_bind [of get_obj] wp_get_obj CreateDatabase_def UseDatabase_def
        sanitizeIdentifier_valid assms(1,2) wp_bind wp_r Let_def)
qed

definition lossy_env :: resource_env where
  "lossy_env = ref_renv\<lparr>re_TxQueryRow := \<lambda>h c q args. Inr (Inr 0),
     re_Commit := \<lambda>h c. Some (ErrNew ''commit failed''), re_QueryRow := \<lambda>h c q args. Inl (ErrNew ''no connection'')\<rparr>"

theorem database_errors_hidden_witness:
  "wp (createDatabaseResource lossy_env zero_opts) (\<lambda>e s'. e = None \<and>
     (\<exists>t u v. trace s' = t @ RTxExec zero_opts ''INSERT INTO dolt_ignore (pattern, ignored) VALUES (?, true)'' [''tmp%''] #
        u @ RCommit zero_opts # v)) \<lparr>trace = [], obj = ref_database\<rparr>"
proof -
  have "wp (createDatabaseResource lossy_env zero_opts) (\<lambda>e s'. e = None \<and>
      (\<exists>t u v. trace s' = [] @ t @ RBeginTx zero_opts # u @ RCommit zero_opts # v \<and>
        (\<forall>p \<in> set [''tmp%'']. tries_pattern lossy_env zero_opts ([] @ t @ [RBeginTx zero_opts]) u p)))
      \<lparr>trace = [], obj = ref_database\<rparr>"
    using database_errors_hidden [of "\<lparr>trace = [], obj = ref_database\<rparr>" lossy_env zero_opts]
    by (simp add: lossy_env_def ref_renv_def Database_Name_def ref_database_def SQLTemplate.defs validIdentifier_def
        identifier_char_def)
  then show ?thesis
  proof (rule wp_mono, elim conjE exE)
    fix e :: "goerr option" and s' t u v
    assume "e = None" and tr: "trace s' = [] @ t @ RBeginTx zero_opts # u @ RCommit zero_opts # v"
      and "\<forall>p \<in> set [''tmp%'']. tries_pattern lossy_env zero_opts ([] @ t @ [RBeginTx zero_opts]) u p"
    then obtain pre rest where u: "u = pre @ RTxQueryRow zero_opts ''SELECT COUNT(*) FROM dolt_ignore WHERE pattern = ?'' [''tmp%''] #
        RTxExec zero_opts ''INSERT INTO dolt_ignore (pattern, ignored) VALUES (?, true)'' [''tmp%''] # rest"
      by (auto simp: tries_pattern_def lossy_env_def)
    show "e = None \<and> (\<exists>t u v. trace s' = t @ RTxExec zero_opts
        ''INSERT INTO dolt_ignore (pattern, ignored) VALUES (?, true)'' [''tmp%''] # u @ RCommit zero_opts # v)"
      using \<open>e = None\<close> tr u
      by (intro conjI exI [of _ "t @ RBeginTx zero_opts # pre @
          [RTxQueryRow zero_opts ''SELECT COUNT(*) FROM dolt_ignore WHERE pattern = ?'' [''tmp%'']]"]
          exI [of _ rest] exI [of _ v]) simp_all
  qed
qed

end
