(* ===== verification/Backup_Controller.thy ===== *)
theory Backup_Controller
  imports Sql_Resources
begin

text \<open>
  Backups: the stored procedures (\<open>src/pkg/dolt/sql/backup.go\<close>), the execution of a backup
  (\<open>src/pkg/controller/backup/backup.go\<close>) and the controller with its phases and retries
  (\<open>src/internal/controller/backup_controller.go\<close>).
\<close>

section \<open>Stored procedures\<close>

text \<open>\<open>strings.ToLower\<close> on the ASCII letters.\<close>

definition to_lower :: "char \<Rightarrow> char" where
  "to_lower c = (let n = (of_char c :: nat) in if n \<in> {65..90} then char_of (n + 32) else c)"

definition systemDatabases :: "string list" where
  "systemDatabases = [''information_schema'', ''mysql'', ''dolt_cluster'']"

definition FilterSystemDatabases :: "string list \<Rightarrow> string list" where
  "FilterSystemDatabases databases = filter (\<lambda>db. map to_lower db \<notin> set systemDatabases) databases"

definition ListDatabases :: "resource_env \<Rightarrow> sql_opts \<Rightarrow> ('o, goerr + string list) rop" where
  "ListDatabases E c = do {
     q \<leftarrow> r_QueryNames E c ''SHOW DATABASES'' [];
     ret (case q of
            Inl err \<Rightarrow> Inl (ErrW ''error listing databases: '' err)
          | Inr (rows, rowsErr) \<Rightarrow>
              (case scan_rows rows of
                 Inl err \<Rightarrow> Inl (ErrW ''error scanning database name: '' err)
               | Inr databases \<Rightarrow>
                   (case rowsErr of
                      Some err \<Rightarrow> Inl (ErrW ''error iterating databases: '' err)
                    | None \<Rightarrow> Inr (FilterSystemDatabases databases))))
   }"

text \<open>
  The four calls of \<open>dolt_backup\<close> read one row with a status.  A single \<open>if rows.Next()\<close> that finds a
  row leaves \<open>rows.Err()\<close> nil.
\<close>

definition backupText :: "string \<Rightarrow> nat \<Rightarrow> string" where
  "backupText verb n = ''CALL dolt_backup('' @ str_join '', '' (quoted verb # replicate n ''?'') @ '')''"

definition statusRow :: "string \<Rightarrow> string \<Rightarrow> int rows \<Rightarrow> goerr option" where
  "statusRow method call r =
     (case r of
        ([], rowsErr) \<Rightarrow> rowsErr
      | (Inl scanErr # _, _) \<Rightarrow> Some (ErrW (''error scanning '' @ method @ '' status: '') scanErr)
      | (Inr status # _, _) \<Rightarrow>
          if status \<noteq> 0 then Some (ErrNew (''dolt_backup('' @ call @ '') returned status '' @ show_int status))
          else None)"

definition AddBackup :: "resource_env \<Rightarrow> sql_opts \<Rightarrow> string \<Rightarrow> string \<Rightarrow> ('o, goerr option) rop" where
  "AddBackup E c name url = do {
     q \<leftarrow> r_QueryStatus E c (backupText ''add'' 2) [name, url];
     ret (case q of
            Inl err \<Rightarrow> if sublist ''already exists'' (errText err) then None
                       else Some (ErrW (''error adding backup '' @ quoted name @ '': '') err)
          | Inr r \<Rightarrow> statusRow ''AddBackup''
                       (str_join '', '' [quoted ''add'', quoted name, quoted url]) r)
   }"

definition SyncBackup :: "resource_env \<Rightarrow> sql_opts \<Rightarrow> string \<Rightarrow> ('o, goerr option) rop" where
  "SyncBackup E c name = do {
     q \<leftarrow> r_QueryStatus E c (backupText ''sync'' 1) [name];
     ret (case q of
            Inl err \<Rightarrow> Some (ErrW (''error syncing backup '' @ quoted name @ '': '') err)
          | Inr r \<Rightarrow> statusRow ''SyncBackup'' (str_join '', '' [quoted ''sync'', quoted name]) r)
   }"

definition SyncBackupURL :: "resource_env \<Rightarrow> sql_opts \<Rightarrow> string \<Rightarrow> ('o, goerr option) rop" where
  "SyncBackupURL E c url = do {
     q \<leftarrow> r_QueryStatus E c (backupText ''sync-url'' 1) [url];
     ret (case q of
            Inl err \<Rightarrow> Some (ErrW (''error syncing backup to URL '' @ quoted url @ '': '') err)
          | Inr r \<Rightarrow> statusRow ''SyncBackupURL'' (str_join '', '' [quoted ''sync-url'', quoted url]) r)
   }"

definition RemoveBackup :: "resource_env \<Rightarrow> sql_opts \<Rightarrow> string \<Rightarrow> ('o, goerr option) rop" where
  "RemoveBackup E c name = do {
     q \<leftarrow> r_QueryStatus E c (backupText ''remove'' 1) [name];
     ret (case q of
            Inl err \<Rightarrow> Some (ErrW (''error removing backup '' @ quoted name @ '': '') err)
          | Inr r \<Rightarrow> statusRow ''RemoveBackup'' (str_join '', '' [quoted ''remove'', quoted name]) r)
   }"

definition BackupDatabase :: "resource_env \<Rightarrow> sql_opts \<Rightarrow> string \<Rightarrow> string \<Rightarrow> string \<Rightarrow> ('o, goerr option) rop" where
  "BackupDatabase E c database backupName backupURL = do {
     e \<leftarrow> UseDatabase E c database;
     case e of
       Some err \<Rightarrow> ret (Some (ErrW (''error setting database '' @ quoted database @ '': '') err))
     | None \<Rightarrow> do {
     e \<leftarrow> AddBackup E c backupName backupURL;
     case e of
       Some err \<Rightarrow> ret (Some (ErrW (''error adding backup for database '' @ quoted database @ '': '') err))
     | None \<Rightarrow> do {
     e \<leftarrow> SyncBackup E c backupName;
     ret (map_option (ErrW (''error syncing backup for database '' @ quoted database @ '': '')) e)
     } }
   }"

definition SyncBackupDatabase :: "resource_env \<Rightarrow> sql_opts \<Rightarrow> string \<Rightarrow> string \<Rightarrow> ('o, goerr option) rop" where
  "SyncBackupDatabase E c database backupURL = do {
     e \<leftarrow> UseDatabase E c database;
     case e of
       Some err \<Rightarrow> ret (Some (ErrW (''error setting database '' @ quoted database @ '': '') err))
     | None \<Rightarrow> do {
     e \<leftarrow> SyncBackupURL E c backupURL;
     ret (map_option (ErrW (''error syncing backup for database '' @ quoted database @ '': '')) e)
     }
   }"

section \<open>Destinations\<close>

definition buildS3URL :: "S3BackupStorage \<Rightarrow> string" where
  "buildS3URL s3 =
     (let dynamoTable = (if s3_DynamoDBTable s3 \<noteq> [] then s3_DynamoDBTable s3 else s3_Bucket s3);
          url = ''aws://['' @ dynamoTable @ '':'' @ s3_Bucket s3 @ '']''
      in if s3_Prefix s3 \<noteq> [] then url @ ''/'' @ s3_Prefix s3 else url)"

definition BuildBackupURL :: "BackupStorage \<Rightarrow> goerr + string" where
  "BuildBackupURL storage =
     (case storage_S3 storage of
        Some s3 \<Rightarrow> Inr (buildS3URL s3)
      | None \<Rightarrow>
          (case storage_DoltHub storage of
             Some hub \<Rightarrow> Inr (hub_RemoteURL hub)
           | None \<Rightarrow>
               (case storage_Local storage of
                  Some l \<Rightarrow> Inr (''file://'' @ local_Path l)
                | None \<Rightarrow> Inl (ErrNew ''no storage backend specified''))))"

text \<open>The first eight bytes of the digest are the first sixteen digits of its hexadecimal form.\<close>

definition stableBackupName :: "'x lib_scheme \<Rightarrow> string \<Rightarrow> string \<Rightarrow> string" where
  "stableBackupName L url database = ''bk-'' @ database @ ''-'' @ take 16 (lib_Sha256Hex L url)"

section \<open>Credentials in the environment of the servers\<close>

definition s3EnvVars :: "S3BackupStorage \<Rightarrow> env_var list" where
  "s3EnvVars s3 =
     (case s3_AccessKeyIdSecretKeyRef s3 of
        Some r \<Rightarrow> [\<lparr>ev_name = ''AWS_ACCESS_KEY_ID'', ev_value = [], ev_value_from = Some (SecretKeyRef r)\<rparr>]
      | None \<Rightarrow> []) @
     (case s3_SecretAccessKeySecretKeyRef s3 of
        Some r \<Rightarrow> [\<lparr>ev_name = ''AWS_SECRET_ACCESS_KEY'', ev_value = [], ev_value_from = Some (SecretKeyRef r)\<rparr>]
      | None \<Rightarrow> []) @
     (if s3_Region s3 \<noteq> [] then [\<lparr>ev_name = ''AWS_REGION'', ev_value = s3_Region s3, ev_value_from = None\<rparr>]
      else [])"

definition containsEnvVar :: "env_var list \<Rightarrow> string \<Rightarrow> bool" where
  "containsEnvVar envVars name \<longleftrightarrow> list_ex (\<lambda>e. ev_name e = name) envVars"

definition hasEnvVars :: "env_var list \<Rightarrow> env_var list \<Rightarrow> bool" where
  "hasEnvVars current desired \<longleftrightarrow> list_all (\<lambda>d. containsEnvVar current (ev_name d)) desired"

fun validate_refs_loop :: "env \<Rightarrow> string \<Rightarrow> secret_ref option list \<Rightarrow> goerr option op" where
  "validate_refs_loop B namespace [] = ret None"
| "validate_refs_loop B namespace (None # refs) = validate_refs_loop B namespace refs"
| "validate_refs_loop B namespace (Some r # refs) = do {
     x \<leftarrow> k_GetSecret B (nn (sr_name r) namespace);
     case x of
       Inl err \<Rightarrow> ret (Some (ErrW (''secret '' @ quoted (sr_name r) @ '' not found in namespace '' @
                                  quoted namespace @ '': '') err))
     | Inr secret \<Rightarrow>
         if map_of (sec_data secret) (sr_key r) = None
         then ret (Some (ErrNew (''key '' @ quoted (sr_key r) @ '' not found in secret '' @
                                 quoted (namespace @ ''/'' @ sr_name r))))
         else validate_refs_loop B namespace refs
   }"

definition validateSecretRefs :: "env \<Rightarrow> string \<Rightarrow> S3BackupStorage \<Rightarrow> goerr option op" where
  "validateSecretRefs B namespace s3 =
     validate_refs_loop B namespace [s3_AccessKeyIdSecretKeyRef s3, s3_SecretAccessKeySecretKeyRef s3]"

definition add_env_vars :: "env_var list \<Rightarrow> env_var list \<Rightarrow> env_var list" where
  "add_env_vars desired current =
     fold (\<lambda>d vars. if containsEnvVar vars (ev_name d) then vars else vars @ [d]) desired current"

definition EnsureS3EnvVars :: "env \<Rightarrow> S3BackupStorage \<Rightarrow> goerr option op" where
  "EnsureS3EnvVars B s3 = do {
     doltdb \<leftarrow> get_db;
     if s3EnvVars s3 = [] then ret None
     else if hasEnvVars (spec_Env (db_spec doltdb)) (s3EnvVars s3) then ret None
     else do {
       e \<leftarrow> validateSecretRefs B (om_namespace (db_meta doltdb)) s3;
       case e of
         Some err \<Rightarrow> ret (Some (ErrW ''error validating S3 secret references: '' err))
       | None \<Rightarrow>
           PatchDoltDB B (\<lambda>d. d\<lparr>db_spec := (db_spec d)\<lparr>spec_Env :=
                            add_env_vars (s3EnvVars s3) (spec_Env (db_spec d))\<rparr>\<rparr>)
     }
   }"

section \<open>Execution\<close>

fun backup_loop :: "resource_env \<Rightarrow> sql_opts \<Rightarrow> string \<Rightarrow> string list \<Rightarrow> ('o, goerr option) rop" where
  "backup_loop E c backupURL [] = ret None"
| "backup_loop E c backupURL (db # databases) = do {
     e \<leftarrow> BackupDatabase E c db (stableBackupName (re_lib E) backupURL db) backupURL;
     case e of
       Some err \<Rightarrow> ret (Some (ErrW (''error backing up database '' @ quoted db @ '': '') err))
     | None \<Rightarrow> backup_loop E c backupURL databases
   }"

definition backupDatabases :: "resource_env \<Rightarrow> sql_opts \<Rightarrow> Backup \<Rightarrow> ('o, goerr + string list) rop" where
  "backupDatabases E c backup =
     (if bspec_Databases (backup_spec backup) = [] then do {
        r \<leftarrow> ListDatabases E c;
        ret (case r of Inl err \<Rightarrow> Inl (ErrW ''error listing databases: '' err) | Inr dbs \<Rightarrow> Inr dbs)
      }
      else ret (Inr (bspec_Databases (backup_spec backup))))"

definition Backup_Execute :: "resource_env \<Rightarrow> sql_opts \<Rightarrow> (Backup, goerr option) rop" where
  "Backup_Execute E c = do {
     backup \<leftarrow> get_obj;
     d \<leftarrow> backupDatabases E c backup;
     case d of
       Inl err \<Rightarrow> ret (Some err)
     | Inr databases \<Rightarrow>
         if databases = [] then ret None
         else (case BuildBackupURL (bspec_Storage (backup_spec backup)) of
                 Inl err \<Rightarrow> ret (Some (ErrW ''error building backup URL: '' err))
               | Inr backupURL \<Rightarrow> backup_loop E c backupURL databases)
   }"

definition ShouldRetry :: "int \<Rightarrow> int \<Rightarrow> int \<times> bool" where
  "ShouldRetry retryCount backoffLimit =
     (if retryCount \<ge> backoffLimit then (0, True) else (retryCount * (30 * Second), False))"

section \<open>The controller\<close>

definition PatchBackupStatus :: "resource_env \<Rightarrow> (BackupStatus \<Rightarrow> BackupStatus) \<Rightarrow> (Backup, goerr option) rop" where
  "PatchBackupStatus E patcher =
     patch_object (r_PatchBackupStatus E) (\<lambda>b. b\<lparr>backup_status := patcher (backup_status b)\<rparr>)"

abbreviation set_backup :: "resource_env \<Rightarrow> BackupStatus set_condition" where
  "set_backup E \<equiv> Backup_SetCondition (re_lib E)"

definition pendingStatus :: "resource_env \<Rightarrow> BackupStatus \<Rightarrow> BackupStatus" where
  "pendingStatus E s = SetBackupPending (set_backup E) (s\<lparr>bstatus_Phase := BackupPhasePending\<rparr>)"

definition runningStatus :: "resource_env \<Rightarrow> int \<Rightarrow> BackupStatus \<Rightarrow> BackupStatus" where
  "runningStatus E now s =
     SetBackupRunning (set_backup E)
       (s\<lparr>bstatus_Phase := BackupPhaseRunning,
          bstatus_StartedAt := (case bstatus_StartedAt s of None \<Rightarrow> Some now | Some t \<Rightarrow> Some t)\<rparr>)"

definition completedStatus :: "resource_env \<Rightarrow> int \<Rightarrow> BackupStatus \<Rightarrow> BackupStatus" where
  "completedStatus E now s =
     SetBackupCompleted (set_backup E)
       (s\<lparr>bstatus_Phase := BackupPhaseCompleted, bstatus_CompletedAt := Some now\<rparr>)"

text \<open>\<open>RetryCount\<close> is an \<open>int32\<close>.\<close>

definition wrap32 :: "int \<Rightarrow> int" where
  "wrap32 x = (x + 2 ^ 31) mod 2 ^ 32 - 2 ^ 31"

definition retriedStatus :: "BackupStatus \<Rightarrow> BackupStatus" where
  "retriedStatus s = s\<lparr>bstatus_RetryCount := wrap32 (bstatus_RetryCount s + 1)\<rparr>"

definition failedStatus :: "resource_env \<Rightarrow> int \<Rightarrow> string \<Rightarrow> BackupStatus \<Rightarrow> BackupStatus" where
  "failedStatus E now msg s =
     SetBackupFailed (set_backup E)
       (s\<lparr>bstatus_Phase := BackupPhaseFailed, bstatus_CompletedAt := Some now, bstatus_Error := msg\<rparr>) msg"

definition ensurePending :: "resource_env \<Rightarrow> (Backup, goerr option) rop" where
  "ensurePending E = do {
     bk \<leftarrow> get_obj;
     if bstatus_Phase (backup_status bk) \<noteq> [] then ret None
     else PatchBackupStatus E (pendingStatus E)
   }"

definition resolve_doltdb :: "resource_env \<Rightarrow> doltdb_ref \<Rightarrow> string \<Rightarrow> ('o, goerr + DoltDB) rop" where
  "resolve_doltdb E r namespace = do {
     (x, _) \<leftarrow> via_base E () (\<lambda>B. DoltDBRef B (ref_Name r) (ref_Namespace r) namespace);
     ret x
   }"

definition ensureReady :: "resource_env \<Rightarrow> doltdb_ref \<Rightarrow> string \<Rightarrow> ('o, outcome + DoltDB) rop" where
  "ensureReady E r namespace = do {
     d \<leftarrow> resolve_doltdb E r namespace;
     case d of
       Inl err \<Rightarrow> ret (Inl (ResultZero, Some (ErrW ''error resolving DoltDB: '' err)))
     | Inr doltdb \<Rightarrow> do {
         (result, err) \<leftarrow> resource_wait E doltdb;
         ret (if err \<noteq> None \<or> \<not> IsZero result then Inl (result, err) else Inr doltdb)
       }
   }"

definition blocks :: "Backup \<Rightarrow> Backup \<Rightarrow> bool" where
  "blocks bk other \<longleftrightarrow> om_name (backup_meta other) \<noteq> om_name (backup_meta bk) \<and>
     ref_Name (bspec_DoltDBRef (backup_spec other)) = ref_Name (bspec_DoltDBRef (backup_spec bk)) \<and>
     IsRunning other"

definition hasRunningBackup :: "resource_env \<Rightarrow> (Backup, goerr + bool) rop" where
  "hasRunningBackup E = do {
     bk \<leftarrow> get_obj;
     l \<leftarrow> r_ListBackups E (om_namespace (backup_meta bk));
     ret (case l of
            Inl err \<Rightarrow> Inl (ErrW ''error listing backups: '' err)
          | Inr items \<Rightarrow> Inr (list_ex (blocks bk) items))
   }"

text \<open>The part of \<open>executeBackup\<close> that runs with an open client; the deferred \<open>Close\<close> comes after it.\<close>

definition executeConnected :: "resource_env \<Rightarrow> sql_opts \<Rightarrow> (Backup, goerr option) rop" where
  "executeConnected E client = do {
     e \<leftarrow> Backup_Execute E client;
     case e of
       Some err \<Rightarrow> ret (Some err)
     | None \<Rightarrow> do {
         completedAt \<leftarrow> peek_resource (re_Now E);
         PatchBackupStatus E (completedStatus E completedAt)
       }
   }"

definition ensureCredentials :: "resource_env \<Rightarrow> DoltDB \<Rightarrow> (Backup, goerr option \<times> DoltDB) rop" where
  "ensureCredentials E doltdb = do {
     bk \<leftarrow> get_obj;
     case storage_S3 (bspec_Storage (backup_spec bk)) of
       None \<Rightarrow> ret (None, doltdb)
     | Some s3 \<Rightarrow> do {
         (e, st) \<leftarrow> via_base E (db_obj doltdb) (\<lambda>B. EnsureS3EnvVars B s3);
         ret (map_option (ErrW ''error ensuring S3 credentials: '') e, the_db st)
       }
   }"

definition executeBackup :: "resource_env \<Rightarrow> DoltDB \<Rightarrow> (Backup, goerr option) rop" where
  "executeBackup E doltdb = do {
     now \<leftarrow> peek_resource (re_Now E);
     e \<leftarrow> PatchBackupStatus E (runningStatus E now);
     case e of
       Some err \<Rightarrow> ret (Some (ErrW ''error setting running status: '' err))
     | None \<Rightarrow> do {
         (e, doltdb) \<leftarrow> ensureCredentials E doltdb;
         case e of
           Some err \<Rightarrow> ret (Some err)
         | None \<Rightarrow> do {
             c \<leftarrow> resource_connect E doltdb;
             case c of
               Inl err \<Rightarrow> ret (Some (ErrW ''error connecting to DoltDB: '' err))
             | Inr client \<Rightarrow> do {
                 out \<leftarrow> executeConnected E client;
                 resource_close E doltdb client;
                 ret out
               }
           }
       }
   }"

definition handleFailure :: "resource_env \<Rightarrow> goerr \<Rightarrow> (Backup, outcome) rop" where
  "handleFailure E backupErr = do {
     patchErr \<leftarrow> PatchBackupStatus E retriedStatus;
     bk \<leftarrow> get_obj;
     let (requeueAfter, limitExceeded) =
       ShouldRetry (bstatus_RetryCount (backup_status bk)) (Backup_GetBackoffLimit bk);
     if limitExceeded then do {
       now \<leftarrow> peek_resource (re_Now E);
       let msg = ''backoff limit exceeded after '' @ show_int (bstatus_RetryCount (backup_status bk)) @
                 '' retries: '' @ errText backupErr;
       ignored \<leftarrow> PatchBackupStatus E (failedStatus E now msg);
       ret (ResultZero, None)
     }
     else ret (ResultAfter requeueAfter, None)
   }"

definition processBackup :: "resource_env \<Rightarrow> (Backup, outcome) rop" where
  "processBackup E = do {
     e \<leftarrow> ensurePending E;
     case e of
       Some err \<Rightarrow> ret (ResultRequeue, Some err)
     | None \<Rightarrow> do {
     bk \<leftarrow> get_obj;
     r \<leftarrow> ensureReady E (Backup_DoltDBRef bk) (om_namespace (backup_meta bk));
     case r of
       Inl out \<Rightarrow> ret out
     | Inr doltdb \<Rightarrow> do {
     running \<leftarrow> hasRunningBackup E;
     case running of
       Inl err \<Rightarrow> ret (ResultRequeue, Some err)
     | Inr True \<Rightarrow> ret (ResultAfter (30 * Second), None)
     | Inr False \<Rightarrow> do {
     e \<leftarrow> executeBackup E doltdb;
     case e of
       Some err \<Rightarrow> handleFailure E err
     | None \<Rightarrow> ret (ResultZero, None)
     } } }
   }"

definition Backup_Reconcile :: "resource_env \<Rightarrow> namespaced_name \<Rightarrow> (Backup, outcome) rop" where
  "Backup_Reconcile E req = do {
     r \<leftarrow> r_GetBackup E req;
     case r of
       Inl err \<Rightarrow> ret (ResultZero, IgnoreNotFound err)
     | Inr bk \<Rightarrow> do {
         put_obj bk;
         if IsCompleted bk \<or> IsFailed bk then ret (ResultZero, None) else processBackup E
       }
   }"

end
