(* ===== verification/Resource_Rules.thy ===== *)
theory Resource_Rules
  imports Backup_Controller Sql_Lifecycle Reference_Resources
begin

text \<open>
  Rules for the controllers of backups, schedules and snapshots: operations that leave the object in
  memory alone, the requests an operation makes on each run, merge patches as an API server applies
  them, and a DoltDB that is ready.
\<close>

section \<open>Operations that leave the object alone\<close>

text \<open>\<open>calm R p\<close>: on every run, \<open>p\<close> makes only requests that satisfy \<open>R\<close> and does not touch the object.\<close>

definition calm :: "(rcall \<Rightarrow> bool) \<Rightarrow> ('o, 'a) rop \<Rightarrow> bool" where
  "calm P p \<longleftrightarrow> (\<forall>s. wp p (\<lambda>_ s'. follows (\<lambda>_. P) s s' \<and> obj s' = obj s) s)"

named_theorems calm_intros \<open>structural rules for computations that leave the object alone\<close>

lemma calm_wp:
  assumes "calm P p" and "\<And>a s'. follows (\<lambda>_. P) s s' \<Longrightarrow> obj s' = obj s \<Longrightarrow> Q a s'"
  shows "wp p Q s"
  using assms(1) [unfolded calm_def, rule_format] by (rule wp_mono) (simp add: assms(2))

lemma calm_bind [calm_intros]:
  assumes "calm P p" and "\<And>a. calm P (f a)"
  shows "calm P (State_Monad.bind p f)"
  unfolding calm_def wp_bind
  by (intro allI calm_wp [OF assms(1)] calm_wp [OF assms(2)]) (auto intro: follows_trans)

lemma calm_basic [calm_intros]:
  "calm P (ret a)" "calm P get_obj" "calm P (peek_resource f)"
  by (simp_all add: calm_def wp_simps)

lemma calm_perform: "P c \<Longrightarrow> calm P (perform c f)"
  by (simp add: calm_def wp_simps follows_step)

lemma calm_r [calm_intros]:
  "P (RExec c q args) \<Longrightarrow> calm P (Client_Exec E c q args)"
  "P (RQuery c q args) \<Longrightarrow> calm P (r_QueryNames E c q args)"
  "P (RQuery c q args) \<Longrightarrow> calm P (r_QueryStatus E c q args)"
  "P (RListBackups ns) \<Longrightarrow> calm P (r_ListBackups E ns)"
  by (simp_all add: r_defs calm_perform)

lemma calm_via_base [calm_intros]:
  assumes "\<And>B. emits (\<lambda>c. P (KCall c)) (p B)"
  shows "calm P (via_base E x p)"
  unfolding calm_def using assms by (intro allI follows_via_base) auto

section \<open>Requests that leave the custom resource alone\<close>

text \<open>Requests that neither touch the custom resource nor reach the SQL server, and statements.\<close>

definition ambient :: "rcall \<Rightarrow> bool" where
  "ambient c = (case c of KCall _ \<Rightarrow> True | RListBackups _ \<Rightarrow> True | _ \<Rightarrow> False)"

definition is_statement :: "rcall \<Rightarrow> bool" where
  "is_statement c = (case c of RExec _ _ _ \<Rightarrow> True | RQuery _ _ _ \<Rightarrow> True | _ \<Rightarrow> False)"

lemma request_simps [simp]:
  "ambient (KCall k)" "ambient (RListBackups ns)" "\<not> ambient (RPatchBackupStatus b n)"
  "is_statement (RExec c q args)" "is_statement (RQuery c q args)" "\<not> is_statement (RPatchBackupStatus b n)"
  by (simp_all add: ambient_def is_statement_def)

lemma calm_via_base_ambient:
  assumes "\<And>B. emits P (p B)"
  shows "calm ambient (via_base E x p)"
  by (rule calm_via_base) (rule emits_mono [OF assms], simp)

lemma emits_credentials: "emits (\<lambda>c. True) (EnsureS3EnvVars B s3)"
proof -
  have "emits (\<lambda>c. True) (validate_refs_loop B ns rs)" for ns rs
    by (induction B ns rs rule: validate_refs_loop.induct) (auto intro!: emits_intros)
  then show ?thesis
    unfolding EnsureS3EnvVars_def validateSecretRefs_def by (intro emits_intros) simp_all
qed

lemma calm_base_operations [calm_intros]:
  "calm ambient (resource_wait E db)" "calm ambient (resource_connect E db)" "calm ambient (resource_close E db c)"
  "calm ambient (resolve_doltdb E r ns)" "calm ambient (ensureCredentials E db)"
proof -
  have "emits is_query (WaitForDoltDB B db)" for B
    unfolding WaitForDoltDB_def by (intro emits_intros emits_mono [OF emits_health(2)]) simp
  from calm_via_base_ambient [OF this] show "calm ambient (resource_wait E db)"
    unfolding resource_wait_def by (rule calm_bind) (simp add: calm_basic split: prod.split)
  have "emits is_query (NewClientWithDoltDB B [])" "emits is_query (Client_Close B c)" for B
    by (rule keeps_emits keeps_client_basic)+
  from this [THEN calm_via_base_ambient]
  show "calm ambient (resource_connect E db)" "calm ambient (resource_close E db c)"
    unfolding resource_connect_def resource_close_def
    by (auto intro!: calm_bind calm_basic split: prod.split)
  have "emits is_query (DoltDBRef B n ns' ns)" for B n ns'
    unfolding DoltDBRef_def by (intro emits_intros) simp_all
  from calm_via_base_ambient [OF this] show "calm ambient (resolve_doltdb E r ns)"
    unfolding resolve_doltdb_def by (rule calm_bind) (simp add: calm_basic split: prod.split)
  from calm_via_base_ambient [OF emits_credentials] show "calm ambient (ensureCredentials E db)"
    unfolding ensureCredentials_def
    by (auto intro!: calm_bind [OF calm_basic(2)] calm_bind calm_basic split: prod.split option.split)
qed

lemma calm_ready: "calm ambient (ensureReady E r ns)"
  unfolding ensureReady_def
  by (auto intro!: calm_bind [OF calm_base_operations(4)] calm_bind [OF calm_base_operations(1)] calm_basic
      split: sum.split)

lemma calm_running: "calm ambient (hasRunningBackup E)"
  unfolding hasRunningBackup_def by (intro calm_bind calm_basic calm_r) simp

lemma calm_trace:
  fixes s :: "(rcall, 'o) cfg"
  assumes "calm P p"
    and "\<And>a s' t. trace s' = trace s @ t \<Longrightarrow> list_all P t \<Longrightarrow> obj s' = obj s \<Longrightarrow> Q a s'"
  shows "wp p Q s"
proof (rule calm_wp [OF assms(1)])
  fix a s' assume "follows (\<lambda>_. P) s s'" and same: "obj s' = obj s"
  moreover have "obeys (\<lambda>_. P) h u \<longleftrightarrow> list_all P u" for h u
    by (induction u arbitrary: h) auto
  ultimately show "Q a s'"
    using assms(2) by (auto simp: follows_def)
qed

section \<open>The requests of each run\<close>

text \<open>\<open>runs Q p\<close>: on every run \<open>p\<close> leaves the object alone, and \<open>Q\<close> holds of the history before, the result and the requests.\<close>

definition runs :: "('c list \<Rightarrow> 'a \<Rightarrow> 'c list \<Rightarrow> bool) \<Rightarrow> ('c, 'o, 'a) prog \<Rightarrow> bool" where
  "runs Q p \<longleftrightarrow> (\<forall>s. wp p (\<lambda>a s'. \<exists>t. trace s' = trace s @ t \<and> obj s' = obj s \<and> Q (trace s) a t) s)"

lemma runs_wp:
  assumes "runs Q p"
    and "\<And>a s' t. trace s' = trace s @ t \<Longrightarrow> obj s' = obj s \<Longrightarrow> Q (trace s) a t \<Longrightarrow> R a s'"
  shows "wp p R s"
  using assms(1) [unfolded runs_def, rule_format] by (rule wp_mono) (blast intro: assms(2))

section \<open>Merge patches\<close>

text \<open>
  A merge patch changes the fields in which the two objects differ and leaves the others.
\<close>

definition merged :: "'a \<Rightarrow> 'a \<Rightarrow> 'a \<Rightarrow> 'a" where
  "merged base new old = (if new = base then old else new)"

section \<open>A ready DoltDB\<close>

lemma ref_ready:
  assumes base: "\<And>h. re_base E h = ref_env"
  shows "wp (ensureReady E \<lparr>ref_Name = ''dolt'', ref_Namespace = []\<rparr> ''ns'') (\<lambda>r _. \<exists>db. r = Inr db) s"
proof -
  have "fst (run_state (DoltDBRef ref_env ''dolt'' [] ''ns'') \<lparr>trace = [], obj = ()\<rparr>) = Inr ref_db"
    by code_simp
  then obtain s1 where s1: "run_state (DoltDBRef ref_env ''dolt'' [] ''ns'') \<lparr>trace = [], obj = ()\<rparr> = (Inr ref_db, s1)"
    by (metis prod.collapse)
  have "fst (run_state (WaitForDoltDB ref_env ref_db) \<lparr>trace = [], obj = db_obj ref_db\<rparr>) = (ResultZero, None)"
    by code_simp
  then obtain s2 where
    s2: "run_state (WaitForDoltDB ref_env ref_db) \<lparr>trace = [], obj = db_obj ref_db\<rparr> = ((ResultZero, None), s2)"
    by (metis prod.collapse)
  have "wp (DoltDBRef ref_env ''dolt'' [] ''ns'') Q \<lparr>trace = [], obj = ()\<rparr> = Q (Inr ref_db) s1"
    "wp (WaitForDoltDB ref_env ref_db) Q' \<lparr>trace = [], obj = db_obj ref_db\<rparr> = Q' (ResultZero, None) s2" for Q Q'
    by (simp_all add: wp_def s1 s2)
  then show ?thesis
    by (simp add: ensureReady_def resolve_doltdb_def resource_wait_def wp_bind wp_return wp_via_base base IsZero_def)
qed

end
