(* ===== verification/Backup_Properties.thy ===== *)
theory Backup_Properties
  imports Resource_Rules
begin

text \<open>
  The properties of backups: the phases of a backup as an abstract machine, and the end of the
  retries.
\<close>

section \<open>What a backup sends to the server\<close>

text \<open>The requests for one database, and when the server's answer to one of them is a success.\<close>

definition backup_requests :: "'x lib_scheme \<Rightarrow> sql_opts \<Rightarrow> string \<Rightarrow> string \<Rightarrow> rcall list" where
  "backup_requests L c url db = (case sanitizeIdentifier db of
      Inl _ \<Rightarrow> []
    | Inr safe \<Rightarrow> [RExec c (useDatabaseText safe) [],
        RQuery c (backupText ''add'' 2) [stableBackupName L url db, url],
        RQuery c (backupText ''sync'' 1) [stableBackupName L url db]])"

definition statement_ok :: "resource_env \<Rightarrow> rcall list \<Rightarrow> rcall \<Rightarrow> bool" where
  "statement_ok E h c = (case c of
      RExec cl q args \<Rightarrow> re_Exec E h cl q args = None
    | RQuery cl q args \<Rightarrow>
        (case re_QueryStatus E h cl q args of
           Inl err \<Rightarrow> q = backupText ''add'' 2 \<and> sublist ''already exists'' (errText err)
         | Inr ([], rowsErr) \<Rightarrow> rowsErr = None
         | Inr (row # _, _) \<Rightarrow> row = Inr 0)
    | _ \<Rightarrow> False)"

definition ran_for :: "resource_env \<Rightarrow> sql_opts \<Rightarrow> string \<Rightarrow> string list \<Rightarrow> rcall list \<Rightarrow> rcall list \<Rightarrow> bool" where
  "ran_for E c url dbs h t \<longleftrightarrow> (\<forall>db \<in> set dbs. \<exists>safe. sanitizeIdentifier db = Inr safe) \<and>
     t = concat (map (backup_requests (re_lib E) c url) dbs) \<and> obeys (statement_ok E) h t"

lemma statusRow_None: "statusRow m q r = None \<longleftrightarrow> (case r of ([], e) \<Rightarrow> e = None | (row # _, _) \<Rightarrow> row = Inr 0)"
  by (auto simp: statusRow_def split: prod.splits list.splits sum.splits)

lemma backup_texts_distinct: "backupText ''sync'' 1 \<noteq> backupText ''add'' 2"
  by (simp add: backupText_def quoted_def numeral_2_eq_2)

lemma BackupDatabase_runs:
  "runs (\<lambda>h e t. list_all is_statement t \<and> (e = None \<longrightarrow> ran_for E c url [db] h t))
     (BackupDatabase E c db (stableBackupName (re_lib E) url db) url)"
  unfolding runs_def BackupDatabase_def UseDatabase_def AddBackup_def SyncBackup_def
  using backup_texts_distinct
  by (auto simp: wp_simps ran_for_def backup_requests_def statement_ok_def statusRow_None
      split: sum.splits option.splits)

lemma ran_for_Cons:
  "ran_for E c url [db] h t \<Longrightarrow> ran_for E c url dbs (h @ t) u \<Longrightarrow> ran_for E c url (db # dbs) h (t @ u)"
  by (auto simp: ran_for_def obeys_append)

lemma backup_loop_runs:
  "runs (\<lambda>h e t. list_all is_statement t \<and> (e = None \<longrightarrow> ran_for E c url dbs h t)) (backup_loop E c url dbs)"
proof (induction dbs)
  case Nil
  show ?case
    by (simp add: runs_def wp_simps ran_for_def)
next
  case (Cons db dbs)
  have "wp (backup_loop E c url dbs) (\<lambda>e s'. \<exists>u. trace s' = trace s @ u \<and> obj s' = obj s \<and>
      list_all is_statement u \<and> (e = None \<longrightarrow> ran_for E c url (db # dbs) (trace s) u)) s1"
    if "trace s1 = trace s @ t" "obj s1 = obj s" "list_all is_statement t" "ran_for E c url [db] (trace s) t"
    for s s1 :: "(rcall, 'a) cfg" and t
    by (rule runs_wp [OF Cons.IH]) (use that in \<open>auto intro: ran_for_Cons\<close>)
  then show ?case
    unfolding runs_def backup_loop.simps wp_bind
    by (intro allI runs_wp [OF BackupDatabase_runs]) (auto simp: wp_return split: option.split)
qed

text \<open>
  A complete run of a backup: the databases are those of the specification or, when it names none,
  those the server lists but its own, and each of them was added and synchronised.
\<close>

definition complete_run :: "resource_env \<Rightarrow> sql_opts \<Rightarrow> BackupSpec \<Rightarrow> rcall list \<Rightarrow> rcall list \<Rightarrow> bool" where
  "complete_run E c spec h t \<longleftrightarrow> (\<exists>url dbs listing u. t = listing @ u \<and> ran_for E c url dbs (h @ listing) u \<and>
     (dbs \<noteq> [] \<longrightarrow> BuildBackupURL (bspec_Storage spec) = Inr url) \<and>
     (if bspec_Databases spec \<noteq> [] then listing = [] \<and> dbs = bspec_Databases spec
      else listing = [RQuery c ''SHOW DATABASES'' []] \<and>
        (\<exists>names. re_QueryNames E h c ''SHOW DATABASES'' [] = Inr (map Inr names, None) \<and>
           dbs = FilterSystemDatabases names)))"

lemma scan_rows_Inr: "scan_rows rows = Inr xs \<longleftrightarrow> rows = map Inr xs"
  by (induction rows arbitrary: xs rule: scan_rows.induct) (auto split: sum.splits)

lemma ran_for_Nil [simp]: "ran_for E c url [] h []"
  by (simp add: ran_for_def)

lemma complete_run_named:
  "ran_for E c url dbs h t \<Longrightarrow> bspec_Databases spec = dbs \<Longrightarrow> dbs \<noteq> [] \<Longrightarrow>
     BuildBackupURL (bspec_Storage spec) = Inr url \<Longrightarrow> complete_run E c spec h t"
  unfolding complete_run_def by (intro exI [of _ url] exI [of _ dbs] exI [of _ "[]"] exI [of _ t]) simp

lemma complete_run_listed:
  "ran_for E c url dbs (h @ [RQuery c ''SHOW DATABASES'' []]) t \<Longrightarrow> bspec_Databases spec = [] \<Longrightarrow>
     re_QueryNames E h c ''SHOW DATABASES'' [] = Inr (map Inr names, None) \<Longrightarrow>
     dbs = FilterSystemDatabases names \<Longrightarrow> dbs \<noteq> [] \<longrightarrow> BuildBackupURL (bspec_Storage spec) = Inr url \<Longrightarrow>
     complete_run E c spec h (RQuery c ''SHOW DATABASES'' [] # t)"
  unfolding complete_run_def
  by (intro exI [of _ url] exI [of _ dbs] exI [of _ "[RQuery c ''SHOW DATABASES'' []]"] exI [of _ t]) auto

lemma Execute_runs:
  "wp (Backup_Execute E c) (\<lambda>e s'. \<exists>t. trace s' = trace s @ t \<and> obj s' = obj s \<and> list_all is_statement t \<and>
     (e = None \<longrightarrow> complete_run E c (backup_spec (obj s)) (trace s) t)) s"
proof -
  let ?spec = "backup_spec (obj s)" and ?list = "RQuery c ''SHOW DATABASES'' []"
  let ?Q = "\<lambda>e s'. \<exists>t. trace s' = trace s @ t \<and> obj s' = obj s \<and> list_all is_statement t \<and>
     (e = None \<longrightarrow> complete_run E c ?spec (trace s) t)"
  have named: "wp (backup_loop E c url (bspec_Databases ?spec)) ?Q s"
    if "bspec_Databases ?spec \<noteq> []" "BuildBackupURL (bspec_Storage ?spec) = Inr url" for url
    by (rule runs_wp [OF backup_loop_runs]) (use that in \<open>auto intro: complete_run_named\<close>)
  have listed: "wp (backup_loop E c url (FilterSystemDatabases names)) ?Q (s\<lparr>trace := trace s @ [?list]\<rparr>)"
    if "bspec_Databases ?spec = []" "BuildBackupURL (bspec_Storage ?spec) = Inr url"
      "re_QueryNames E (trace s) c ''SHOW DATABASES'' [] = Inr (map Inr names, None)" for url names
    by (rule runs_wp [OF backup_loop_runs]) (use that in \<open>auto intro: complete_run_listed\<close>)
  have none: "complete_run E c ?spec (trace s) [?list]"
    if "bspec_Databases ?spec = []" "FilterSystemDatabases names = []"
      "re_QueryNames E (trace s) c ''SHOW DATABASES'' [] = Inr (map Inr names, None)" for names
    by (rule complete_run_listed [where dbs = "[]" and names = names]) (use that in simp_all)
  show ?thesis
    unfolding Backup_Execute_def backupDatabases_def ListDatabases_def
    by (auto simp: wp_simps scan_rows_Inr named listed none split: sum.splits option.splits)
qed

section \<open>The status on the server\<close>

definition merge_status :: "BackupStatus \<Rightarrow> BackupStatus \<Rightarrow> BackupStatus \<Rightarrow> BackupStatus" where
  "merge_status base new old =
     \<lparr>bstatus_Conditions = merged (bstatus_Conditions base) (bstatus_Conditions new) (bstatus_Conditions old),
      bstatus_Phase = merged (bstatus_Phase base) (bstatus_Phase new) (bstatus_Phase old),
      bstatus_StartedAt = merged (bstatus_StartedAt base) (bstatus_StartedAt new) (bstatus_StartedAt old),
      bstatus_CompletedAt = merged (bstatus_CompletedAt base) (bstatus_CompletedAt new) (bstatus_CompletedAt old),
      bstatus_Error = merged (bstatus_Error base) (bstatus_Error new) (bstatus_Error old),
      bstatus_RetryCount = merged (bstatus_RetryCount base) (bstatus_RetryCount new) (bstatus_RetryCount old)\<rparr>"

text \<open>What is stored after a history of requests, of which the server accepted some patches.\<close>

fun status_after ::
    "(rcall list \<Rightarrow> Backup \<Rightarrow> Backup \<Rightarrow> bool) \<Rightarrow> BackupStatus \<Rightarrow> rcall list \<Rightarrow> rcall list \<Rightarrow> BackupStatus" where
  "status_after acc st h [] = st"
| "status_after acc st h (c # t) = status_after acc (case c of
      RPatchBackupStatus b n \<Rightarrow>
        if acc h b n then merge_status (backup_status b) (backup_status n) st else st
    | _ \<Rightarrow> st) (h @ [c]) t"

definition accepts :: "resource_env \<Rightarrow> rcall list \<Rightarrow> Backup \<Rightarrow> Backup \<Rightarrow> bool" where
  "accepts E h b n \<longleftrightarrow> \<not> isl (re_PatchBackupStatus E h b n)"

definition server_status :: "resource_env \<Rightarrow> Backup \<Rightarrow> rcall list \<Rightarrow> BackupStatus" where
  "server_status E d h = status_after (accepts E) (backup_status d) [] h"

text \<open>
  An API server that stores the backup \<open>d\<close> and whose status only the controller patches: it answers
  a read, and a patch it accepts, with what is stored then.  It may reject any request.
\<close>

definition backup_server :: "resource_env \<Rightarrow> Backup \<Rightarrow> bool" where
  "backup_server E d \<longleftrightarrow>
     (\<forall>h k b. re_GetBackup E h k = Inr b \<longrightarrow> b = d\<lparr>backup_status := server_status E d h\<rparr>) \<and>
     (\<forall>h b n b'. re_PatchBackupStatus E h b n = Inr b' \<longrightarrow>
        b' = d\<lparr>backup_status := server_status E d (h @ [RPatchBackupStatus b n])\<rparr>)"

lemma status_after_append: "status_after acc st h (t @ u) = status_after acc (status_after acc st h t) (h @ t) u"
  by (induction t arbitrary: st h) simp_all

lemma server_status_patch:
  "server_status E d (h @ [RPatchBackupStatus b n]) =
     (if accepts E h b n then merge_status (backup_status b) (backup_status n) (server_status E d h)
      else server_status E d h)"
  by (simp add: server_status_def status_after_append)

lemma server_status_other:
  "ambient c \<or> is_statement c \<Longrightarrow> server_status E d (h @ [c]) = server_status E d h"
  "server_status E d (h @ [RGetBackup k]) = server_status E d h"
  by (cases c) (simp_all add: server_status_def status_after_append ambient_def is_statement_def)

lemma server_status_quiet:
  "list_all (\<lambda>c. ambient c \<or> is_statement c) t \<Longrightarrow> server_status E d (h @ t) = server_status E d h"
  by (induction t rule: rev_induct) (simp_all flip: append_assoc add: server_status_other(1))

section \<open>The phases of a backup\<close>

text \<open>
  The abstract machine: a phase and the number of failed attempts.  An attempt is counted when it
  fails, whether or not its phase was recorded; the limit is compared with the number before or
  after the failure at hand, since the server may not have recorded that one.
\<close>

definition active :: "string \<Rightarrow> bool" where
  "active p \<longleftrightarrow> p \<notin> {[], BackupPhaseCompleted, BackupPhaseFailed}"

inductive backup_step :: "int \<Rightarrow> string \<times> int \<Rightarrow> string \<times> int \<Rightarrow> bool" for limit where
  start: "backup_step limit ([], n) (BackupPhasePending, n)"
| attempt: "active p \<Longrightarrow> backup_step limit (p, n) (BackupPhaseRunning, n)"
| complete: "backup_step limit (BackupPhaseRunning, n) (BackupPhaseCompleted, n)"
| retry: "active p \<Longrightarrow> backup_step limit (p, n) (p, wrap32 (n + 1))"
| give_up: "active p \<Longrightarrow> n \<ge> limit \<or> wrap32 (n + 1) \<ge> limit \<Longrightarrow> backup_step limit (p, n) (BackupPhaseFailed, n)"

inductive_cases backup_stepE: "backup_step limit s s'"

definition phase_state :: "BackupStatus \<Rightarrow> string \<times> int" where
  "phase_state st = (bstatus_Phase st, bstatus_RetryCount st)"

text \<open>
  Which requests a pass over the backup \<open>d\<close> may make: a patch that is accepted is a step of the
  machine, and completes the backup only after a complete run; statements are sent only while the
  server has the backup as running.
\<close>

definition backup_rule :: "resource_env \<Rightarrow> Backup \<Rightarrow> rcall list \<Rightarrow> rcall \<Rightarrow> bool" where
  "backup_rule E d h c = (case c of
      RPatchBackupStatus b n \<Rightarrow> accepts E h b n \<longrightarrow>
        backup_step (Backup_GetBackoffLimit d) (phase_state (server_status E d h))
          (phase_state (server_status E d (h @ [c]))) \<and>
        (bstatus_Phase (server_status E d (h @ [c])) = BackupPhaseCompleted \<longrightarrow>
           (\<exists>h0 cl t. h = h0 @ t \<and> complete_run E cl (backup_spec d) h0 t))
    | RGetBackup _ \<Rightarrow> True
    | _ \<Rightarrow> ambient c \<or> is_statement c \<and> bstatus_Phase (server_status E d h) = BackupPhaseRunning)"

lemma backup_rule_simps:
  "ambient c \<Longrightarrow> backup_rule E d h c" "backup_rule E d h (RGetBackup k)"
  "is_statement c \<Longrightarrow> bstatus_Phase (server_status E d h) = BackupPhaseRunning \<Longrightarrow> backup_rule E d h c"
  "\<not> accepts E h b n \<Longrightarrow> backup_rule E d h (RPatchBackupStatus b n)"
  by (auto simp: backup_rule_def ambient_def is_statement_def split: rcall.splits)

lemma statements_obey:
  "list_all is_statement t \<Longrightarrow> bstatus_Phase (server_status E d h) = BackupPhaseRunning \<Longrightarrow>
     obeys (backup_rule E d) h t"
  by (induction t arbitrary: h) (simp_all add: backup_rule_simps server_status_other(1))

lemma calm_follows:
  assumes "calm ambient p" and "follows (backup_rule E d) s0 s"
    and "\<And>a s'. follows (backup_rule E d) s0 s' \<Longrightarrow> obj s' = obj s \<Longrightarrow>
           server_status E d (trace s') = server_status E d (trace s) \<Longrightarrow> Q a s'"
  shows "wp p Q s"
proof (rule calm_trace [OF assms(1)])
  fix a t and s' :: "(rcall, 'a) cfg" assume t: "trace s' = trace s @ t" "list_all ambient t" and same: "obj s' = obj s"
  have "list_all ambient u \<Longrightarrow> obeys (backup_rule E d) h u" for h u
    by (induction u arbitrary: h) (auto simp: backup_rule_simps)
  then have "follows (backup_rule E d) s s'" "server_status E d (trace s') = server_status E d (trace s)"
    using t by (auto simp: follows_def intro!: server_status_quiet elim: list.pred_mono_strong)
  then show "Q a s'"
    using assms(2,3) same by (blast intro: follows_trans)
qed

text \<open>A server that accepts every patch.\<close>

definition reliable :: "resource_env \<Rightarrow> bool" where
  "reliable E \<longleftrightarrow> (\<forall>h b n. accepts E h b n)"

abbreviation phase_at :: "resource_env \<Rightarrow> Backup \<Rightarrow> (rcall, Backup) cfg \<Rightarrow> string" where
  "phase_at E d s \<equiv> bstatus_Phase (server_status E d (trace s))"

abbreviation retries_at :: "resource_env \<Rightarrow> Backup \<Rightarrow> (rcall, Backup) cfg \<Rightarrow> int" where
  "retries_at E d s \<equiv> bstatus_RetryCount (server_status E d (trace s))"

text \<open>A patch of the status that is either accepted, and answered with what is stored, or rejected.\<close>

lemma patch_backup:
  fixes s :: "(rcall, Backup) cfg"
  defines "st \<equiv> backup_status (obj s)"
  assumes server: "backup_server E d" and s0: "follows (backup_rule E d) s0 s"
    and step: "let new = merge_status st (f st) (server_status E d (trace s)) in
        backup_step (Backup_GetBackoffLimit d) (phase_state (server_status E d (trace s))) (phase_state new) \<and>
        (bstatus_Phase new = BackupPhaseCompleted \<longrightarrow>
          (\<exists>h0 cl t. trace s = h0 @ t \<and> complete_run E cl (backup_spec d) h0 t))"
    and accepted: "\<And>s'. follows (backup_rule E d) s0 s' \<Longrightarrow>
        server_status E d (trace s') = merge_status st (f st) (server_status E d (trace s)) \<Longrightarrow>
        obj s' = d\<lparr>backup_status := server_status E d (trace s')\<rparr> \<Longrightarrow> Q None s'"
    and rejected: "\<And>err s'. follows (backup_rule E d) s0 s' \<Longrightarrow>
        server_status E d (trace s') = server_status E d (trace s) \<Longrightarrow>
        obj s' = (obj s)\<lparr>backup_status := f st\<rparr> \<Longrightarrow> \<not> reliable E \<Longrightarrow> Q (Some err) s'"
  shows "wp (PatchBackupStatus E f) Q s"
proof -
  let ?n = "(obj s)\<lparr>backup_status := f st\<rparr>"
  let ?c = "RPatchBackupStatus (obj s) ?n" and ?reply = "re_PatchBackupStatus E (trace s) (obj s) ?n"
  have f: "follows (backup_rule E d) s0 s'" if "trace s' = trace s @ [?c]" for s' :: "(rcall, Backup) cfg"
  proof -
    have "backup_rule E d (trace s) ?c"
      using step by (simp add: backup_rule_def server_status_patch st_def [symmetric] Let_def)
    then show ?thesis
      using that by (intro follows_trans [OF s0]) (simp add: follows_def)
  qed
  have "Q None (s\<lparr>trace := trace s @ [?c], obj := b'\<rparr>)" if reply: "?reply = Inr b'" for b'
  proof -
    have "b' = d\<lparr>backup_status := server_status E d (trace s @ [?c])\<rparr>"
      using server reply unfolding backup_server_def by blast
    then show ?thesis
      by (intro accepted f) (simp_all add: server_status_patch accepts_def reply [unfolded st_def] st_def)
  qed
  moreover have "Q (Some err) (s\<lparr>obj := ?n, trace := trace s @ [?c]\<rparr>)" if "?reply = Inl err" for err
  proof -
    have "\<not> accepts E (trace s) (obj s) ?n"
      by (simp add: accepts_def that)
    then show ?thesis
      by (intro rejected f) (auto simp: server_status_patch reliable_def)
  qed
  ultimately show ?thesis
    by (auto simp: PatchBackupStatus_def patch_object_def wp_simps st_def split: sum.split)
qed

section \<open>The operations follow the machine\<close>

lemma status_fields [simp]:
  "bstatus_Phase (pendingStatus E st) = BackupPhasePending"
  "bstatus_RetryCount (pendingStatus E st) = bstatus_RetryCount st"
  "bstatus_Phase (runningStatus E now st) = BackupPhaseRunning"
  "bstatus_RetryCount (runningStatus E now st) = bstatus_RetryCount st"
  "bstatus_Phase (completedStatus E now st) = BackupPhaseCompleted"
  "bstatus_RetryCount (completedStatus E now st) = bstatus_RetryCount st"
  "bstatus_Phase (retriedStatus st) = bstatus_Phase st"
  "bstatus_RetryCount (retriedStatus st) = wrap32 (bstatus_RetryCount st + 1)"
  "bstatus_Phase (failedStatus E now msg st) = BackupPhaseFailed"
  "bstatus_RetryCount (failedStatus E now msg st) = bstatus_RetryCount st"
  by (simp_all add: pendingStatus_def runningStatus_def completedStatus_def retriedStatus_def failedStatus_def
      SetBackupPending_def SetBackupRunning_def SetBackupCompleted_def SetBackupFailed_def
      Backup_SetCondition_def Let_def)

lemma merge_status_fields [simp]:
  "bstatus_Phase (merge_status b n st) = merged (bstatus_Phase b) (bstatus_Phase n) (bstatus_Phase st)"
  "bstatus_RetryCount (merge_status b n st) =
     merged (bstatus_RetryCount b) (bstatus_RetryCount n) (bstatus_RetryCount st)"
  by (simp_all add: merge_status_def)

lemma wrap32_Suc: "wrap32 (n + 1) \<noteq> n"
proof
  assume "wrap32 (n + 1) = n"
  then have "2 ^ 32 * ((n + 1 + 2 ^ 31) div 2 ^ 32) = 1"
    unfolding minus_mod_eq_mult_div [symmetric] by (simp add: wrap32_def)
  then show False
    by (simp add: zmult_eq_1_iff)
qed

text \<open>The object in memory is what the server has.\<close>

definition in_step :: "resource_env \<Rightarrow> Backup \<Rightarrow> (rcall, Backup) cfg \<Rightarrow> bool" where
  "in_step E d s \<longleftrightarrow> obj s = d\<lparr>backup_status := server_status E d (trace s)\<rparr>"

text \<open>After a failed attempt the phase in memory may be ahead of the server's.\<close>

definition after_failure :: "resource_env \<Rightarrow> Backup \<Rightarrow> int \<Rightarrow> (rcall, Backup) cfg \<Rightarrow> bool" where
  "after_failure E d n s \<longleftrightarrow> active (phase_at E d s) \<and> retries_at E d s = n \<and>
     (\<exists>st. obj s = d\<lparr>backup_status := st\<rparr> \<and> bstatus_Phase st \<noteq> BackupPhaseFailed \<and> bstatus_RetryCount st = n)"

lemma after_failureI:
  "obj s = d\<lparr>backup_status := st\<rparr> \<Longrightarrow> active (phase_at E d s) \<Longrightarrow> bstatus_Phase st \<noteq> BackupPhaseFailed \<Longrightarrow>
     bstatus_RetryCount st = n \<Longrightarrow> retries_at E d s = n \<Longrightarrow> after_failure E d n s"
  by (auto simp: after_failure_def)

lemma after_failure_cong:
  "obj s' = obj s \<Longrightarrow> server_status E d (trace s') = server_status E d (trace s) \<Longrightarrow>
     after_failure E d n s' = after_failure E d n s"
  by (simp add: after_failure_def)

lemma active_phases [simp]:
  "active BackupPhasePending" "active BackupPhaseRunning" "\<not> active BackupPhaseCompleted"
  "\<not> active BackupPhaseFailed" "\<not> active []"
  by (simp_all add: active_def)

lemma ensurePending_follows:
  assumes server: "backup_server E d" and s: "in_step E d s" "follows (backup_rule E d) s0 s"
    and phase: "phase_at E d s \<notin> {BackupPhaseCompleted, BackupPhaseFailed}"
    and stop: "\<And>err s'. follows (backup_rule E d) s0 s' \<Longrightarrow> \<not> reliable E \<Longrightarrow> Q (Some err) s'"
    and cont: "\<And>s'. follows (backup_rule E d) s0 s' \<Longrightarrow> in_step E d s' \<Longrightarrow> retries_at E d s' = retries_at E d s \<Longrightarrow>
        active (phase_at E d s') \<Longrightarrow> Q None s'"
  shows "wp (ensurePending E) Q s"
proof -
  have "wp (PatchBackupStatus E (pendingStatus E)) Q s" if "phase_at E d s = []"
    by (rule patch_backup [OF server s(2)])
      (use that s(1) in \<open>auto simp: in_step_def phase_state_def merged_def Let_def
         intro!: backup_step.intros stop cont\<close>)
  then show ?thesis
    using s phase cont by (auto simp: ensurePending_def wp_simps in_step_def active_def)
qed

lemma executeConnected_follows:
  assumes server: "backup_server E d" and s: "in_step E d s" "follows (backup_rule E d) s0 s"
    and phase: "phase_at E d s = BackupPhaseRunning"
    and fail: "\<And>err s'. follows (backup_rule E d) s0 s' \<Longrightarrow> after_failure E d (retries_at E d s) s' \<Longrightarrow> Q (Some err) s'"
    and cont: "\<And>s'. follows (backup_rule E d) s0 s' \<Longrightarrow> phase_at E d s' = BackupPhaseCompleted \<Longrightarrow> Q None s'"
  shows "wp (executeConnected E c) Q s"
  unfolding executeConnected_def wp_bind
proof (rule wp_mono [OF Execute_runs], elim exE conjE)
  fix e :: "goerr option" and t and s' :: "(rcall, Backup) cfg"
  assume t: "trace s' = trace s @ t" "obj s' = obj s" "list_all is_statement t"
    and complete: "e = None \<longrightarrow> complete_run E c (backup_spec (obj s)) (trace s) t"
  have f: "follows (backup_rule E d) s0 s'"
    by (rule follows_trans [OF s(2)]) (use t in \<open>simp add: follows_def statements_obey phase\<close>)
  have same: "server_status E d (trace s') = server_status E d (trace s)"
    unfolding t(1) by (rule server_status_quiet) (use t(3) in \<open>auto elim: list.pred_mono_strong\<close>)
  then have failed: "after_failure E d (retries_at E d s) s'"
    using s(1) phase by (intro after_failureI [where st = "server_status E d (trace s)"]) (simp_all add: in_step_def t(2))
  have "wp (PatchBackupStatus E (completedStatus E now)) Q s'" if "e = None" for now
  proof (rule patch_backup [OF server f])
    have "\<exists>h0 cl u. trace s' = h0 @ u \<and> complete_run E cl (backup_spec d) h0 u"
      using complete that s(1) t(1) by (auto simp: in_step_def)
    then show "let new = merge_status (backup_status (obj s')) (completedStatus E now (backup_status (obj s')))
          (server_status E d (trace s')) in
        backup_step (Backup_GetBackoffLimit d) (phase_state (server_status E d (trace s'))) (phase_state new) \<and>
        (bstatus_Phase new = BackupPhaseCompleted \<longrightarrow>
          (\<exists>h0 cl t. trace s' = h0 @ t \<and> complete_run E cl (backup_spec d) h0 t))"
      using s(1) same phase t(2)
      by (simp add: in_step_def phase_state_def merged_def Let_def backup_step.complete)
  qed (use s(1) same phase t(2) in \<open>auto simp: in_step_def merged_def intro!: fail cont after_failureI\<close>)
  then show "wp (case e of Some err \<Rightarrow> ret (Some err) | None \<Rightarrow> State_Monad.bind (peek_resource (re_Now E))
      (\<lambda>completedAt. PatchBackupStatus E (completedStatus E completedAt))) Q s'"
    by (auto simp: wp_return wp_bind wp_peek_resource fail [OF f failed] split: option.split)
qed

lemma executeBackup_follows:
  assumes server: "backup_server E d" and s: "in_step E d s" "follows (backup_rule E d) s0 s"
    and phase: "active (phase_at E d s)"
    and fail: "\<And>err s'. follows (backup_rule E d) s0 s' \<Longrightarrow> after_failure E d (retries_at E d s) s' \<Longrightarrow> Q (Some err) s'"
    and cont: "\<And>s'. follows (backup_rule E d) s0 s' \<Longrightarrow> phase_at E d s' = BackupPhaseCompleted \<Longrightarrow> Q None s'"
  shows "wp (executeBackup E db) Q s"
proof -
  let ?running = "\<lambda>s'. follows (backup_rule E d) s0 s' \<and> in_step E d s' \<and>
      phase_at E d s' = BackupPhaseRunning \<and> retries_at E d s' = retries_at E d s"
  have calm: "wp p (\<lambda>_. ?running) s1" if "calm ambient p" "?running s1" for p :: "(Backup, 'x) rop" and s1
    by (rule calm_follows [OF that(1)]) (use that(2) in \<open>auto simp: in_step_def\<close>)
  have failed: "Q (Some err) s1" if "?running s1" for err s1
    by (rule fail) (use that in \<open>auto simp: in_step_def intro: after_failureI\<close>)
  have close: "wp (State_Monad.bind (resource_close E db c) (\<lambda>_. ret e)) Q s1"
    if "follows (backup_rule E d) s0 s1" "e = None \<Longrightarrow> phase_at E d s1 = BackupPhaseCompleted"
      "e \<noteq> None \<Longrightarrow> after_failure E d (retries_at E d s) s1" for db c e s1
    unfolding wp_bind
  proof (rule calm_follows [OF calm_base_operations(3) that(1)])
    fix s2 :: "(rcall, Backup) cfg"
    assume s2: "follows (backup_rule E d) s0 s2" "obj s2 = obj s1"
      "server_status E d (trace s2) = server_status E d (trace s1)"
    from s2(1) fail cont that(2,3) show "wp (ret e) Q s2"
      unfolding after_failure_cong [OF s2(2,3), symmetric] s2(3) [symmetric] by (cases e) (simp_all add: wp_return)
  qed
  have connected: "wp (State_Monad.bind (executeConnected E c) (\<lambda>out. State_Monad.bind (resource_close E db c)
      (\<lambda>_. ret out))) Q s1" if "?running s1" for db c s1
    unfolding wp_bind [of "executeConnected E c"]
    by (rule executeConnected_follows [OF server]) (use that close in auto)
  have connect: "wp (State_Monad.bind (resource_connect E db) (\<lambda>c. case c of
      Inl err \<Rightarrow> ret (Some (g err))
    | Inr client \<Rightarrow> State_Monad.bind (executeConnected E client) (\<lambda>out. State_Monad.bind (resource_close E db client)
        (\<lambda>_. ret out)))) Q s1" if "?running s1" for db s1 g
    unfolding wp_bind [of "resource_connect E db"]
    by (rule wp_mono [OF calm [OF calm_base_operations(2) that]])
      (auto simp: wp_return failed connected split: sum.split)
  show ?thesis
    unfolding executeBackup_def wp_bind [of "peek_resource (re_Now E)"] wp_peek_resource wp_bind [of "PatchBackupStatus E f" for f]
  proof (rule patch_backup [OF server s(2)], goal_cases)
    case 1
    show ?case
      using s(1) phase by (auto simp: in_step_def phase_state_def merged_def Let_def backup_step.attempt)
  next
    case (2 s1)
    have "?running s1"
      using 2 s(1) by (auto simp: in_step_def merged_def)
    then show ?case
      unfolding option.case wp_bind [of "ensureCredentials E db"]
      by (rule wp_mono [OF calm [OF calm_base_operations(5)]])
        (auto simp: wp_return failed connect split: option.split)
  next
    case (3 err s1)
    show ?case
      using 3 s(1) phase by (auto simp: wp_return in_step_def intro!: fail after_failureI)
  qed
qed

text \<open>What a failed attempt leaves when the server records it: one more retry below the limit, or the end.\<close>

definition counted :: "resource_env \<Rightarrow> Backup \<Rightarrow> int \<Rightarrow> (rcall, Backup) cfg \<Rightarrow> bool" where
  "counted E d n s \<longleftrightarrow> phase_at E d s = BackupPhaseFailed \<or>
     active (phase_at E d s) \<and> retries_at E d s = wrap32 (n + 1) \<and> wrap32 (n + 1) < Backup_GetBackoffLimit d"

lemma handleFailure_follows:
  assumes server: "backup_server E d" and s: "after_failure E d n s" "follows (backup_rule E d) s0 s"
  shows "wp (handleFailure E err) (\<lambda>_ s'. follows (backup_rule E d) s0 s' \<and> (reliable E \<longrightarrow> counted E d n s')) s"
proof -
  obtain st where st: "obj s = d\<lparr>backup_status := st\<rparr>" "bstatus_Phase st \<noteq> BackupPhaseFailed"
    "bstatus_RetryCount st = n" "retries_at E d s = n" and active: "active (phase_at E d s)"
    using s(1) by (auto simp: after_failure_def)
  let ?Q = "\<lambda>_ s'. follows (backup_rule E d) s0 s' \<and> (reliable E \<longrightarrow> counted E d n s')"
  have rest: "wp (State_Monad.bind get_obj (\<lambda>bk. let (requeueAfter, limitExceeded) =
        ShouldRetry (bstatus_RetryCount (backup_status bk)) (Backup_GetBackoffLimit bk) in
      if limitExceeded then do {
        now \<leftarrow> peek_resource (re_Now E);
        let msg = m bk;
        ignored \<leftarrow> PatchBackupStatus E (failedStatus E now msg);
        ret (ResultZero, None)
      } else ret (ResultAfter requeueAfter, None))) ?Q s1"
    if s1: "follows (backup_rule E d) s0 s1" "active (phase_at E d s1)" "obj s1 = d\<lparr>backup_status := stm\<rparr>"
      "bstatus_Phase stm \<noteq> BackupPhaseFailed" "bstatus_RetryCount stm = wrap32 (n + 1)"
      "retries_at E d s1 = (if reliable E then wrap32 (n + 1) else retries_at E d s1)"
      "retries_at E d s1 \<in> {n, wrap32 (n + 1)}" for s1 stm m
  proof -
    have "wp (PatchBackupStatus E (failedStatus E now msg)) ?Q s1"
      if "bstatus_RetryCount stm \<ge> Backup_GetBackoffLimit d" for now msg
      by (rule patch_backup [OF server s1(1)])
        (use that s1 in \<open>auto simp: phase_state_def merged_def Let_def counted_def intro!: backup_step.give_up\<close>)
    moreover have "?Q a s1" if "bstatus_RetryCount stm < Backup_GetBackoffLimit d" for a
      using that s1 by (simp add: counted_def split: if_splits)
    ultimately show ?thesis
      using s1(1,3) by (simp add: wp_simps ShouldRetry_def Let_def Backup_GetBackoffLimit_def)
  qed
  show ?thesis
    unfolding handleFailure_def wp_bind [of "PatchBackupStatus E retriedStatus"]
  proof (rule patch_backup [OF server s(2)], goal_cases)
    case 1
    show ?case
      using st active by (simp add: phase_state_def merged_def Let_def wrap32_Suc active_def backup_step.retry)
  next
    case (2 s1)
    show ?case
      by (rule rest [OF _ _ 2(3)])
        (use 2 st active in \<open>auto simp: merged_def active_def wrap32_Suc\<close>)
  next
    case (3 _ s1)
    show ?case
      by (rule rest [OF _ _ 3(3) [unfolded st(1), simplified]]) (use 3 st active in auto)
  qed
qed

section \<open>Passes\<close>

text \<open>Nothing keeps a pass from its attempt: the DoltDB is ready and no other backup is running.\<close>

definition unobstructed :: "resource_env \<Rightarrow> Backup \<Rightarrow> bool" where
  "unobstructed E d \<longleftrightarrow>
     (\<forall>s :: (rcall, Backup) cfg. wp (ensureReady E (Backup_DoltDBRef d) (om_namespace (backup_meta d)))
        (\<lambda>r _. \<exists>doltdb. r = Inr doltdb) s) \<and>
     (\<forall>h ns. \<exists>items. re_ListBackups E h ns = Inr items \<and> \<not> list_ex (blocks d) items)"

definition progress :: "resource_env \<Rightarrow> Backup \<Rightarrow> int \<Rightarrow> (rcall, Backup) cfg \<Rightarrow> bool" where
  "progress E d n s \<longleftrightarrow> (reliable E \<and> unobstructed E d \<longrightarrow> phase_at E d s = BackupPhaseCompleted \<or> counted E d n s)"

lemma progress_obstructed: "\<not> unobstructed E d \<Longrightarrow> progress E d n s" "\<not> reliable E \<Longrightarrow> progress E d n s"
  by (simp_all add: progress_def)

lemma hasRunning_unobstructed:
  "in_step E d s \<Longrightarrow> wp (hasRunningBackup E) (\<lambda>r _. unobstructed E d \<longrightarrow> r = Inr False) s"
proof -
  assume s: "in_step E d s"
  obtain items where "unobstructed E d \<Longrightarrow> re_ListBackups E (trace s) (om_namespace (backup_meta d)) = Inr items \<and>
      \<not> list_ex (blocks d) items"
    unfolding unobstructed_def by meson
  moreover have "blocks (d\<lparr>backup_status := st\<rparr>) = blocks d" for st
    by (simp add: blocks_def fun_eq_iff)
  ultimately show ?thesis
    using s by (auto simp: hasRunningBackup_def wp_simps in_step_def)
qed

lemma processBackup_follows:
  assumes server: "backup_server E d" and s: "in_step E d s" "follows (backup_rule E d) s0 s"
    and phase: "phase_at E d s \<notin> {BackupPhaseCompleted, BackupPhaseFailed}"
  shows "wp (processBackup E) (\<lambda>_ s'. follows (backup_rule E d) s0 s' \<and> progress E d (retries_at E d s) s') s"
proof -
  let ?n = "retries_at E d s"
  let ?Q = "\<lambda>_ s'. follows (backup_rule E d) s0 s' \<and> progress E d ?n s'"
  let ?ready = "\<lambda>s'. follows (backup_rule E d) s0 s' \<and> in_step E d s' \<and> active (phase_at E d s') \<and>
      retries_at E d s' = ?n"
  have calm: "wp p (\<lambda>_. ?ready) s1" if "calm ambient p" "?ready s1" for p :: "(Backup, 'x) rop" and s1
    by (rule calm_follows [OF that(1)]) (use that(2) in \<open>auto simp: in_step_def\<close>)
  let ?execute = "\<lambda>db. State_Monad.bind (executeBackup E db) (\<lambda>e. case e of
      Some err \<Rightarrow> handleFailure E err | None \<Rightarrow> ret (ResultZero, None))"
  let ?check = "\<lambda>db. State_Monad.bind (hasRunningBackup E) (\<lambda>running. case running of
      Inl err \<Rightarrow> ret (ResultRequeue, Some err) | Inr True \<Rightarrow> ret (ResultAfter (30 * Second), None)
    | Inr False \<Rightarrow> ?execute db)"
  have execute: "wp (?execute db) ?Q s1" if s1: "?ready s1" for db s1
  proof -
    have "wp (handleFailure E err) ?Q s2" if "after_failure E d ?n s2" "follows (backup_rule E d) s0 s2" for err s2
      by (rule wp_mono [OF handleFailure_follows [OF server that]]) (simp add: progress_def)
    then show ?thesis
      unfolding wp_bind
      by (intro executeBackup_follows [OF server]) (use s1 in \<open>auto simp: wp_return progress_def\<close>)
  qed
  have check: "wp (?check db) ?Q s1" if s1: "?ready s1" for db s1
    unfolding wp_bind [of "hasRunningBackup E"]
    by (rule wp_mono [OF wp_conj [OF calm [OF calm_running s1] hasRunning_unobstructed [of E d]]])
      (use s1 in \<open>auto simp: wp_return execute progress_obstructed split: sum.split bool.split\<close>)
  have "wp (State_Monad.bind (ensureReady E (Backup_DoltDBRef d) (om_namespace (backup_meta d)))
      (\<lambda>r. case r of Inl out \<Rightarrow> ret out | Inr db \<Rightarrow> ?check db)) ?Q s1" if s1: "?ready s1" for s1
  proof -
    have "wp (ensureReady E (Backup_DoltDBRef d) (om_namespace (backup_meta d)))
        (\<lambda>r _. unobstructed E d \<longrightarrow> (\<exists>db. r = Inr db)) s1"
      by (cases "unobstructed E d") (auto simp: wp_any, auto simp: unobstructed_def)
    then show ?thesis
      unfolding wp_bind [of "ensureReady E r ns" for r ns]
      by (rule wp_mono [OF wp_conj [OF calm [OF calm_ready s1]]])
        (auto simp: wp_return check progress_obstructed split: sum.split)
  qed
  then show ?thesis
    unfolding processBackup_def wp_bind [of "ensurePending E"]
    by (intro ensurePending_follows [OF server s phase])
      (auto simp: wp_return wp_bind [of get_obj] wp_get_obj in_step_def Backup_DoltDBRef_def progress_obstructed)
qed

lemma Reconcile_follows:
  assumes server: "backup_server E d"
  shows "wp (Backup_Reconcile E req) (\<lambda>_ s'. follows (backup_rule E d) s s' \<and>
    (if phase_at E d s \<in> {BackupPhaseCompleted, BackupPhaseFailed} then trace s' = trace s @ [RGetBackup req]
     else \<not> isl (re_GetBackup E (trace s) req) \<longrightarrow> progress E d (retries_at E d s) s')) s"
proof -
  let ?s = "s\<lparr>trace := trace s @ [RGetBackup req], obj := d\<lparr>backup_status := server_status E d (trace s)\<rparr>\<rparr>"
  have f: "follows (backup_rule E d) s (s\<lparr>trace := trace s @ [RGetBackup req]\<rparr>)"
    by (rule follows_step) (simp add: backup_rule_simps)
  have "wp (processBackup E) (\<lambda>_ s'. follows (backup_rule E d) s s' \<and> progress E d (retries_at E d s) s') ?s"
    if "phase_at E d s \<notin> {BackupPhaseCompleted, BackupPhaseFailed}"
    by (rule wp_mono [OF processBackup_follows [OF server]])
      (use that f in \<open>auto simp: in_step_def server_status_other(2)\<close>)
  moreover have "b = d\<lparr>backup_status := server_status E d (trace s)\<rparr>" if "re_GetBackup E (trace s) req = Inr b" for b
    using server that by (simp add: backup_server_def)
  ultimately show ?thesis
    using f by (auto simp: Backup_Reconcile_def wp_simps IsCompleted_def IsFailed_def split: sum.split)
qed

lemma follows_steps:
  assumes "follows (backup_rule E d) s s'"
  shows "(backup_step (Backup_GetBackoffLimit d))\<^sup>*\<^sup>* (phase_state (server_status E d (trace s)))
    (phase_state (server_status E d (trace s')))"
proof -
  obtain t where t: "trace s' = trace s @ t" "obeys (backup_rule E d) (trace s) t"
    using assms by (auto simp: follows_def)
  have "obeys (backup_rule E d) h t \<Longrightarrow> (backup_step (Backup_GetBackoffLimit d))\<^sup>*\<^sup>*
      (phase_state (server_status E d h)) (phase_state (server_status E d (h @ t)))" for h
  proof (induction t rule: rev_induct)
    case (snoc c t)
    then have IH: "(backup_step (Backup_GetBackoffLimit d))\<^sup>*\<^sup>* (phase_state (server_status E d h))
        (phase_state (server_status E d (h @ t)))" and c: "backup_rule E d (h @ t) c"
      by (simp_all add: obeys_append)
    show ?case
    proof (cases "\<exists>b n. c = RPatchBackupStatus b n \<and> accepts E (h @ t) b n")
      case True
      with c have "backup_step (Backup_GetBackoffLimit d) (phase_state (server_status E d (h @ t)))
          (phase_state (server_status E d ((h @ t) @ [c])))"
        by (auto simp: backup_rule_def)
      with IH show ?thesis
        by simp
    next
      case False
      then have "server_status E d ((h @ t) @ [c]) = server_status E d (h @ t)"
        by (cases c) (simp_all add: server_status_def status_after_append)
      with IH show ?thesis
        by simp
    qed
  qed simp
  with t show ?thesis
    by simp
qed

fun passes :: "resource_env \<Rightarrow> namespaced_name \<Rightarrow> nat \<Rightarrow> (Backup, unit) rop" where
  "passes E req 0 = ret ()"
| "passes E req (Suc k) = do { passes E req k; result \<leftarrow> Backup_Reconcile E req; ret () }"

lemma wrap32_id: "- (2 ^ 31) \<le> x \<Longrightarrow> x < 2 ^ 31 \<Longrightarrow> wrap32 x = x"
  by (simp add: wrap32_def)

lemma passes_count:
  assumes server: "backup_server E d" "reliable E" "unobstructed E d" "\<And>h. \<not> isl (re_GetBackup E h req)"
    and range: "- (2 ^ 31) \<le> n" "n < 2 ^ 31 - 1" "Backup_GetBackoffLimit d < 2 ^ 31" and n: "n = retries_at E d s"
  shows "wp (passes E req k) (\<lambda>_ s'. phase_at E d s' \<in> {BackupPhaseCompleted, BackupPhaseFailed} \<or>
    retries_at E d s' = n + int k \<and> (k > 0 \<longrightarrow> n + int k < Backup_GetBackoffLimit d)) s"
proof (induction k)
  case 0
  show ?case
    by (simp add: wp_return n)
next
  case (Suc k)
  have pass: "phase_at E d s2 \<in> {BackupPhaseCompleted, BackupPhaseFailed} \<or>
      retries_at E d s2 = n + int (Suc k) \<and> n + int (Suc k) < Backup_GetBackoffLimit d"
    if "phase_at E d s1 \<notin> {BackupPhaseCompleted, BackupPhaseFailed}" "progress E d (retries_at E d s1) s2"
      "retries_at E d s1 = n + int k" "k > 0 \<longrightarrow> n + int k < Backup_GetBackoffLimit d" for s1 s2
  proof -
    have "wrap32 (n + int k + 1) = n + int (Suc k)"
      using that(4) range by (cases "k = 0") (simp_all add: wrap32_id)
    then show ?thesis
      using that(2,3) server by (auto simp: progress_def counted_def)
  qed
  show ?case
    unfolding passes.simps wp_bind
  proof (rule wp_mono [OF Suc.IH], rule wp_mono [OF Reconcile_follows [OF server(1)]], goal_cases)
    case (1 u s1 out s2)
    show ?case
    proof (cases "phase_at E d s1 \<in> {BackupPhaseCompleted, BackupPhaseFailed}")
      case True
      with 1 have "phase_at E d s2 = phase_at E d s1"
        by (simp add: server_status_other)
      with True show ?thesis
        by (auto simp: wp_return)
    next
      case False
      with 1 pass [of s1 s2] show ?thesis
        by (simp add: wp_return server(4))
    qed
  qed
qed

text \<open>
  C37: a backup ends.  When the API server records the patches of its status, the DoltDB is ready and
  no other backup runs, then after as many passes as the backoff limit allows attempts the backup is
  completed or failed, whatever the SQL server answers.
\<close>

theorem backup_ends:
  assumes "backup_server E d" and "reliable E" and "unobstructed E d"
    and "\<And>h. \<not> isl (re_GetBackup E h req)"
    and "0 \<le> retries_at E d s" and "retries_at E d s < 2 ^ 31 - 1" and "Backup_GetBackoffLimit d < 2 ^ 31"
    and "run_state (passes E req k) s = ((), s')"
    and "k > 0" and "retries_at E d s + int k \<ge> Backup_GetBackoffLimit d"
  shows "phase_at E d s' \<in> {BackupPhaseCompleted, BackupPhaseFailed}"
  using wpI [OF passes_count [OF assms(1-4) _ assms(6,7) refl] assms(8)] assms(5,9,10) by auto

text \<open>
  C38: a backup follows its phases.  Whatever the servers reject, each pass moves the recorded phase
  and retry count along the machine \<open>backup_step\<close>: statements are sent only while the backup is
  recorded as running, it is recorded as completed only directly after every database was backed up,
  and a backup that is completed or failed is left alone.
\<close>

theorem backup_follows_phases:
  assumes "backup_server E d" and "run_state (Backup_Reconcile E req) s = (out, s')"
  shows "(\<exists>t. trace s' = trace s @ t \<and> obeys (backup_rule E d) (trace s) t) \<and>
    (backup_step (Backup_GetBackoffLimit d))\<^sup>*\<^sup>* (phase_state (server_status E d (trace s)))
      (phase_state (server_status E d (trace s'))) \<and>
    (phase_at E d s \<in> {BackupPhaseCompleted, BackupPhaseFailed} \<longrightarrow> trace s' = trace s @ [RGetBackup req])"
proof -
  from wpI [OF Reconcile_follows [OF assms(1)] assms(2)]
  have "follows (backup_rule E d) s s'" and
    "phase_at E d s \<in> {BackupPhaseCompleted, BackupPhaseFailed} \<longrightarrow> trace s' = trace s @ [RGetBackup req]"
    by simp_all
  with follows_steps [OF this(1)] show ?thesis
    by (simp add: follows_def)
qed

section \<open>A concrete server\<close>

definition backup_env :: "(rcall list \<Rightarrow> Backup \<Rightarrow> Backup \<Rightarrow> bool) \<Rightarrow> resource_env" where
  "backup_env acc = ref_renv\<lparr>
     re_GetBackup := \<lambda>h k. Inr (ref_backup\<lparr>backup_status := status_after acc (backup_status ref_backup) [] h\<rparr>),
     re_PatchBackupStatus := \<lambda>h b n.
       if acc h b n then Inr (ref_backup\<lparr>backup_status :=
              status_after acc (backup_status ref_backup) [] (h @ [RPatchBackupStatus b n])\<rparr>)
       else Inl (ApiErr Conflict []),
     re_Exec := \<lambda>h c q args. Some (ErrNew ''no connection'')\<rparr>"

lemma accepts_backup_env [simp]: "accepts (backup_env acc) = acc"
  by (simp add: fun_eq_iff accepts_def backup_env_def)

lemma backup_env_server: "backup_server (backup_env acc) ref_backup"
  unfolding backup_server_def server_status_def accepts_backup_env by (simp add: backup_env_def)

lemma backup_env_ready: "unobstructed (backup_env acc) ref_backup"
proof -
  have ref: "Backup_DoltDBRef ref_backup = \<lparr>ref_Name = ''dolt'', ref_Namespace = []\<rparr>"
    "om_namespace (backup_meta ref_backup) = ''ns''"
    by (simp_all add: ref_backup_def Backup_DoltDBRef_def ref_rmeta_def ref_meta_def object_meta.defs)
  have "wp (ensureReady (backup_env acc) \<lparr>ref_Name = ''dolt'', ref_Namespace = []\<rparr> ''ns'') (\<lambda>r _. \<exists>db. r = Inr db) s"
    for s :: "(rcall, Backup) cfg"
    by (rule ref_ready) (simp add: backup_env_def ref_renv_def)
  moreover have "re_ListBackups (backup_env acc) h ns = Inr [ref_backup]" for h ns
    by (simp add: backup_env_def ref_renv_def)
  ultimately show ?thesis
    by (simp add: unobstructed_def blocks_def ref)
qed

lemma ref_backup_start:
  "phase_state (server_status E ref_backup []) = ([], 0)" "Backup_GetBackoffLimit ref_backup = 3"
  by (simp_all add: server_status_def ref_backup_def phase_state_def Backup_GetBackoffLimit_def ptr_Deref_def)

theorem backup_ends_witness:
  "phase_at (backup_env (\<lambda>h b n. True)) ref_backup
     (snd (run_state (passes (backup_env (\<lambda>h b n. True)) (nn ''nightly'' ''ns'') 3) \<lparr>trace = [], obj = ref_backup\<rparr>))
   \<in> {BackupPhaseCompleted, BackupPhaseFailed}"
  using ref_backup_start(1) [of "backup_env (\<lambda>h b n. True)"]
  by (intro backup_ends [where k = 3 and s = "\<lparr>trace = [], obj = ref_backup\<rparr>" and req = "nn ''nightly'' ''ns''"]
      backup_env_server backup_env_ready)
    (simp_all add: reliable_def phase_state_def ref_backup_start(2) prod_eq_iff, simp add: backup_env_def)

theorem backup_follows_phases_witness:
  "let E = backup_env (\<lambda>h b n. length h > 3); s = \<lparr>trace = [], obj = ref_backup\<rparr>;
       s' = snd (run_state (Backup_Reconcile E (nn ''nightly'' ''ns'')) s)
   in (\<exists>t. trace s' = t \<and> obeys (backup_rule E ref_backup) [] t) \<and>
      (backup_step 3)\<^sup>*\<^sup>* ([], 0) (phase_state (server_status E ref_backup (trace s')))"
  using backup_follows_phases [OF backup_env_server [of "\<lambda>h b n. length h > 3"] surjective_pairing,
      of "nn ''nightly'' ''ns''" "\<lparr>trace = [], obj = ref_backup\<rparr>"]
  by (simp add: Let_def ref_backup_start)

end
