(* ===== verification/Backup_Schedule.thy ===== *)
theory Backup_Schedule
  imports Backup_Controller
begin

text \<open>
  Backup schedules: when a backup is due and what it looks like
  (\<open>src/pkg/controller/backupschedule/backupschedule.go\<close>), and the controller
  (\<open>src/internal/controller/backupschedule_controller.go\<close>).  Times are nanoseconds.
\<close>

section \<open>When and what\<close>

definition IsAlreadyExists :: "goerr \<Rightarrow> bool" where
  "IsAlreadyExists err \<longleftrightarrow> as_api err = Some AlreadyExists"

definition LastScheduleTime :: "BackupSchedule \<Rightarrow> int" where
  "LastScheduleTime bs =
     (case bsst_LastScheduleTime (schedule_status bs) of
        Some t \<Rightarrow> t
      | None \<Rightarrow> om_creationTimestamp (schedule_meta bs))"

text \<open>\<open>Time.Sub\<close> stops at the largest duration.\<close>

definition ComputeRequeueAfter :: "resource_env \<Rightarrow> string \<Rightarrow> int \<Rightarrow> int \<Rightarrow> int" where
  "ComputeRequeueAfter E schedule lastTime now =
     (case re_CronParse E schedule of
        Inl err \<Rightarrow> 60 * Second
      | Inr sched \<Rightarrow>
          if sched lastTime < now then 10 * Second else min (sched lastTime - now) (2 ^ 63 - 1))"

definition scheduledMeta :: "BackupSchedule \<Rightarrow> int \<Rightarrow> object_meta" where
  "scheduledMeta bs now =
     \<lparr>om_name = om_name (schedule_meta bs) @ ''-'' @ show_int (now div Second),
      om_namespace = om_namespace (schedule_meta bs), om_uid = [],
      om_labels = [(''k8s.dolthub.com/backup-schedule'', om_name (schedule_meta bs))],
      om_annotations = [], om_owner_uids = []\<rparr>"

definition scheduledSpec :: "BackupScheduleSpec \<Rightarrow> BackupSpec" where
  "scheduledSpec spec =
     \<lparr>bspec_DoltDBRef = bss_DoltDBRef spec, bspec_Storage = bss_Storage spec,
      bspec_Databases = bss_Databases spec, bspec_BackoffLimit = bss_BackoffLimit spec,
      bspec_Resources = bss_Resources spec, bspec_ImagePullSecrets = bss_ImagePullSecrets spec\<rparr>"

definition zeroBackupStatus :: BackupStatus where
  "zeroBackupStatus = \<lparr>bstatus_Conditions = [], bstatus_Phase = [], bstatus_StartedAt = None,
     bstatus_CompletedAt = None, bstatus_Error = [], bstatus_RetryCount = 0\<rparr>"

definition BuildBackup :: "'x lib_scheme \<Rightarrow> BackupSchedule \<Rightarrow> int \<Rightarrow> goerr + Backup" where
  "BuildBackup L bs now =
     (case lib_SetControllerReference L (object_meta.truncate (schedule_meta bs)) (scheduledMeta bs now) of
        Inl err \<Rightarrow> Inl (ErrW ''error setting owner reference: '' err)
      | Inr m \<Rightarrow> Inr \<lparr>backup_meta = object_meta.extend m
                  \<lparr>om_finalizers = [], om_deletionTimestamp = None, om_creationTimestamp = 0\<rparr>,
               backup_spec = scheduledSpec (schedule_spec bs), backup_status = zeroBackupStatus\<rparr>)"

section \<open>The reconciler\<close>

definition PatchBackupScheduleStatus ::
    "resource_env \<Rightarrow> (BackupScheduleStatus \<Rightarrow> BackupScheduleStatus) \<Rightarrow> (BackupSchedule, goerr option) rop" where
  "PatchBackupScheduleStatus E patcher =
     patch_object (r_PatchScheduleStatus E) (\<lambda>bs. bs\<lparr>schedule_status := patcher (schedule_status bs)\<rparr>)"

definition nextStatus :: "resource_env \<Rightarrow> int \<Rightarrow> BackupScheduleStatus \<Rightarrow> BackupScheduleStatus" where
  "nextStatus E next s =
     SetBackupScheduleCreated (BackupSchedule_SetCondition (re_lib E)) (s\<lparr>bsst_NextScheduleTime := Some next\<rparr>)"

definition lastStatus :: "int \<Rightarrow> string \<Rightarrow> BackupScheduleStatus \<Rightarrow> BackupScheduleStatus" where
  "lastStatus now name s = s\<lparr>bsst_LastScheduleTime := Some now, bsst_LastBackupRef := name\<rparr>"

text \<open>The part of \<open>Reconcile\<close> after the check that the backup is due.\<close>

definition createScheduled :: "resource_env \<Rightarrow> int \<Rightarrow> int \<Rightarrow> (BackupSchedule, outcome) rop" where
  "createScheduled E now requeueAfter = do {
     bs \<leftarrow> get_obj;
     case BuildBackup (re_lib E) bs now of
       Inl err \<Rightarrow> ret (ResultZero, Some (ErrW ''error building Backup: '' err))
     | Inr bk \<Rightarrow> do {
     e \<leftarrow> r_CreateBackup E bk;
     case e of
       Some err \<Rightarrow>
         if IsAlreadyExists err then ret (ResultAfter requeueAfter, None)
         else ret (ResultRequeue,
                   Some (ErrW (''error creating Backup '' @ quoted (om_name (backup_meta bk)) @ '': '') err))
     | None \<Rightarrow> do {
     e \<leftarrow> PatchBackupScheduleStatus E (lastStatus now (om_name (backup_meta bk)));
     case e of
       Some err \<Rightarrow> ret (ResultZero, Some (ErrW ''error patching schedule status: '' err))
     | None \<Rightarrow> do {
     bs \<leftarrow> get_obj;
     ret (ResultAfter (ComputeRequeueAfter E (bss_Schedule (schedule_spec bs)) now now), None)
     } } }
   }"

definition Schedule_Reconcile :: "resource_env \<Rightarrow> (BackupSchedule, outcome) rop" where
  "Schedule_Reconcile E = do {
     now \<leftarrow> peek_resource (re_Now E);
     bs \<leftarrow> get_obj;
     let lastTime = LastScheduleTime bs;
     case re_CronParse E (bss_Schedule (schedule_spec bs)) of
       Inl err \<Rightarrow> ret (ResultZero, Some (ErrW (''error parsing cron schedule '' @
                        quoted (bss_Schedule (schedule_spec bs)) @ '': '') err))
     | Inr sched \<Rightarrow> do {
     let nextScheduleTime = sched lastTime;
     e \<leftarrow> PatchBackupScheduleStatus E (nextStatus E nextScheduleTime);
     case e of
       Some err \<Rightarrow> ret (ResultZero, Some (ErrW ''error patching schedule status: '' err))
     | None \<Rightarrow> do {
     bs \<leftarrow> get_obj;
     let requeueAfter = ComputeRequeueAfter E (bss_Schedule (schedule_spec bs)) lastTime now;
     if now < nextScheduleTime then ret (ResultAfter requeueAfter, None)
     else createScheduled E now requeueAfter
     } }
   }"

section \<open>The controller\<close>

definition BackupSchedule_Reconcile :: "resource_env \<Rightarrow> namespaced_name \<Rightarrow> (BackupSchedule, outcome) rop" where
  "BackupSchedule_Reconcile E req = do {
     r \<leftarrow> r_GetSchedule E req;
     case r of
       Inl err \<Rightarrow> ret (ResultZero, IgnoreNotFound err)
     | Inr bs \<Rightarrow> do {
     put_obj bs;
     if IsSuspended bs then ret (ResultZero, None)
     else do {
       r \<leftarrow> ensureReady E (BackupSchedule_DoltDBRef bs) (om_namespace (schedule_meta bs));
       case r of
         Inl out \<Rightarrow> ret out
       | Inr doltdb \<Rightarrow> Schedule_Reconcile E
     } }
   }"

end
