(* ===== verification/Schedule_Properties.thy ===== *)
theory Schedule_Properties
  imports Backup_Schedule Resource_Rules
begin

text \<open>
  The properties of backup schedules: over any number of passes the backups that are created are
  those of an abstract scheduler that is asked at the times the passes read from the clock.
\<close>

section \<open>The abstract scheduler\<close>

text \<open>Of the times it is asked at, those at which a backup is due after the last one.\<close>

fun due_times :: "(int \<Rightarrow> int) \<Rightarrow> int \<Rightarrow> int list \<Rightarrow> int list" where
  "due_times next l [] = []"
| "due_times next l (now # ts) =
     (if next l \<le> now then now # due_times next now ts else due_times next l ts)"

lemma due_times_append:
  "due_times next l (ts @ us) = due_times next l ts @ due_times next (last (l # due_times next l ts)) us"
  by (induction ts arbitrary: l) auto

text \<open>Two backups in a row are at least one tick of the schedule apart.\<close>

lemma due_times_spaced: "i < length (due_times next l ts) \<Longrightarrow>
    next ((l # due_times next l ts) ! i) \<le> due_times next l ts ! i"
  by (induction ts arbitrary: l i) (auto simp: less_Suc_eq_0_disj)

section \<open>What the server stores\<close>

definition merge_schedule :: "BackupScheduleStatus \<Rightarrow> BackupScheduleStatus \<Rightarrow> BackupScheduleStatus \<Rightarrow> BackupScheduleStatus" where
  "merge_schedule base new old =
     \<lparr>bsst_Conditions = merged (bsst_Conditions base) (bsst_Conditions new) (bsst_Conditions old),
      bsst_LastScheduleTime = merged (bsst_LastScheduleTime base) (bsst_LastScheduleTime new) (bsst_LastScheduleTime old),
      bsst_NextScheduleTime = merged (bsst_NextScheduleTime base) (bsst_NextScheduleTime new) (bsst_NextScheduleTime old),
      bsst_LastBackupRef = merged (bsst_LastBackupRef base) (bsst_LastBackupRef new) (bsst_LastBackupRef old)\<rparr>"

definition schedule_after :: "BackupScheduleStatus \<Rightarrow> rcall list \<Rightarrow> BackupScheduleStatus" where
  "schedule_after st h = fold (\<lambda>c st. case c of
      RPatchScheduleStatus b n \<Rightarrow> merge_schedule (schedule_status b) (schedule_status n) st
    | _ \<Rightarrow> st) h st"

definition schedule_at :: "BackupSchedule \<Rightarrow> rcall list \<Rightarrow> BackupSchedule" where
  "schedule_at d h = d\<lparr>schedule_status := schedule_after (schedule_status d) h\<rparr>"

text \<open>An API server that stores the schedule \<open>d\<close> and records every patch of its status.\<close>

definition schedule_server :: "resource_env \<Rightarrow> BackupSchedule \<Rightarrow> bool" where
  "schedule_server E d \<longleftrightarrow>
     (\<forall>h k bs. re_GetSchedule E h k = Inr bs \<longrightarrow> bs = schedule_at d h) \<and>
     (\<forall>h b n. re_PatchScheduleStatus E h b n = Inr (schedule_at d (h @ [RPatchScheduleStatus b n])))"

text \<open>The backups that the server created.\<close>

fun created :: "resource_env \<Rightarrow> rcall list \<Rightarrow> rcall list \<Rightarrow> Backup list" where
  "created E h [] = []"
| "created E h (c # t) = (case c of
      RCreateBackup b \<Rightarrow> if re_CreateBackup E h b = None then [b] else []
    | _ \<Rightarrow> []) @ created E (h @ [c]) t"

lemma created_append: "created E h (t @ u) = created E h t @ created E (h @ t) u"
  by (induction t arbitrary: h) auto

text \<open>
  The times at which passes read the clock.  A pass reads it right before the patch that sets the next
  time of the schedule; the other patch of a pass comes right after the creation of a backup.
\<close>

fun is_creation :: "rcall \<Rightarrow> bool" where
  "is_creation (RCreateBackup b) = True"
| "is_creation _ = False"

fun readings :: "resource_env \<Rightarrow> rcall list \<Rightarrow> rcall list \<Rightarrow> int list" where
  "readings E h [] = []"
| "readings E h (c # t) = (case c of
      RPatchScheduleStatus b n \<Rightarrow> if h \<noteq> [] \<and> is_creation (last h) then [] else [re_Now E h]
    | _ \<Rightarrow> []) @ readings E (h @ [c]) t"

lemma readings_append: "readings E h (t @ u) = readings E h t @ readings E (h @ t) u"
  by (induction t arbitrary: h) auto

lemma readings_clock: "set (readings E h t) \<subseteq> range (re_Now E)"
  by (induction t arbitrary: h) (auto split: rcall.splits)

lemma merge_schedule_same [simp]: "merge_schedule st new st = new"
  by (simp add: merge_schedule_def merged_def)

lemma schedule_at_patch:
  "schedule_at d (h @ [RPatchScheduleStatus (schedule_at d h) n]) = d\<lparr>schedule_status := schedule_status n\<rparr>"
  by (simp add: schedule_at_def schedule_after_def)

lemma schedule_at_other: "(\<And>b n. c \<noteq> RPatchScheduleStatus b n) \<Longrightarrow> schedule_at d (h @ [c]) = schedule_at d h"
  by (simp add: schedule_at_def schedule_after_def split: rcall.split)

lemma ambient_schedule:
  "list_all ambient t \<Longrightarrow> schedule_at d (h @ t) = schedule_at d h"
  "list_all ambient t \<Longrightarrow> created E h t = []"
  "list_all ambient t \<Longrightarrow> readings E h t = []"
proof -
  show "list_all ambient t \<Longrightarrow> readings E h t = []"
    by (induction t arbitrary: h) (auto simp: ambient_def split: rcall.splits)
  show "list_all ambient t \<Longrightarrow> schedule_at d (h @ t) = schedule_at d h"
    by (induction t arbitrary: h rule: rev_induct)
      (auto simp flip: append_assoc simp: ambient_def intro!: trans [OF schedule_at_other] split: rcall.splits)
  show "list_all ambient t \<Longrightarrow> created E h t = []"
    by (induction t arbitrary: h) (auto simp: ambient_def split: rcall.splits)
qed

lemma schedule_at_fields [simp]:
  "schedule_spec (schedule_at d h) = schedule_spec d" "schedule_meta (schedule_at d h) = schedule_meta d"
  by (simp_all add: schedule_at_def)

section \<open>One pass\<close>

text \<open>
  Nothing keeps a pass from its decision: the schedule can be read and is not suspended, the DoltDB
  is ready, and the backup can be built and created.
\<close>

definition clear :: "resource_env \<Rightarrow> BackupSchedule \<Rightarrow> bool" where
  "clear E d \<longleftrightarrow> (\<forall>h k. \<not> isl (re_GetSchedule E h k)) \<and> \<not> IsSuspended d \<and>
     (\<forall>s :: (rcall, BackupSchedule) cfg. wp (ensureReady E (BackupSchedule_DoltDBRef d) (om_namespace (schedule_meta d)))
        (\<lambda>r _. \<exists>doltdb. r = Inr doltdb) s) \<and>
     (\<forall>h b. re_CreateBackup E h b = None) \<and> (\<forall>now. \<not> isl (BuildBackup (re_lib E) d now))"

text \<open>
  From the history \<open>h\<close> on, the requests \<open>t\<close> made the backups for the due ones among the times
  \<open>clocks\<close>, which are some of the readings of the clock, in their order.
\<close>

definition keeps_schedule ::
    "resource_env \<Rightarrow> BackupSchedule \<Rightarrow> (int \<Rightarrow> int) \<Rightarrow> rcall list \<Rightarrow> int list \<Rightarrow> rcall list \<Rightarrow> bool" where
  "keeps_schedule E d next h clocks t \<longleftrightarrow>
     (let l = LastScheduleTime (schedule_at d h); due = due_times next l clocks in
      map Inr (created E h t) = map (BuildBackup (re_lib E) d) due \<and>
      LastScheduleTime (schedule_at d (h @ t)) = last (l # due) \<and>
      subseq clocks (readings E h t))"

lemma keeps_schedule_append:
  assumes "keeps_schedule E d next h ts t" and "keeps_schedule E d next (h @ t) us u"
  shows "keeps_schedule E d next h (ts @ us) (t @ u)"
proof -
  have "subseq (ts @ us) (readings E h (t @ u))"
    unfolding readings_append
    by (rule list_emb_append_mono) (use assms in \<open>auto simp: keeps_schedule_def Let_def\<close>)
  with assms show ?thesis
    by (auto simp: keeps_schedule_def Let_def created_append due_times_append last_append)
qed

lemma BuildBackup_at [simp]: "BuildBackup L (schedule_at d h) = BuildBackup L d"
  by (simp add: BuildBackup_def scheduledMeta_def fun_eq_iff split: sum.split)

lemma LastScheduleTime_status:
  "LastScheduleTime (d\<lparr>schedule_status := nextStatus E t (schedule_status (schedule_at d h))\<rparr>) = LastScheduleTime (schedule_at d h)"
  "LastScheduleTime (d\<lparr>schedule_status := lastStatus now name st\<rparr>) = now"
  by (simp_all add: LastScheduleTime_def nextStatus_def lastStatus_def SetBackupScheduleCreated_def Let_def
      BackupSchedule_SetCondition_def schedule_at_def split: option.split)

text \<open>A patch of the status of a schedule that is in step with the server.\<close>

lemma wp_patch_schedule:
  assumes "schedule_server E d" and "obj s = schedule_at d (trace s)"
  shows "wp (PatchBackupScheduleStatus E f) Q s =
    (let c = RPatchScheduleStatus (schedule_at d (trace s))
         ((schedule_at d (trace s))\<lparr>schedule_status := f (schedule_status (schedule_at d (trace s)))\<rparr>)
     in Q None (s\<lparr>trace := trace s @ [c], obj := schedule_at d (trace s @ [c])\<rparr>))"
  using assms by (simp add: PatchBackupScheduleStatus_def patch_object_def wp_simps schedule_server_def Let_def)

text \<open>
  At most \<open>n\<close> decisions from \<open>s\<close> to \<open>s'\<close>; and when nothing was in the way exactly \<open>n\<close>, one for every
  reading of the clock.
\<close>

definition on_schedule ::
    "resource_env \<Rightarrow> BackupSchedule \<Rightarrow> (int \<Rightarrow> int) \<Rightarrow> nat \<Rightarrow> (rcall, 'o) cfg \<Rightarrow> (rcall, 'o) cfg \<Rightarrow> bool" where
  "on_schedule E d sched n s s' \<longleftrightarrow> (\<exists>t clocks. trace s' = trace s @ t \<and>
     keeps_schedule E d sched (trace s) clocks t \<and> length clocks \<le> n \<and> 
     (clear E d \<longrightarrow> length clocks = n \<and> clocks = readings E (trace s) t))"

lemma on_scheduleI:
  "keeps_schedule E d sched (trace s) clocks t \<Longrightarrow> trace s' = trace s @ t \<Longrightarrow> length clocks \<le> n \<Longrightarrow>
     (clear E d \<Longrightarrow> length clocks = n \<and> clocks = readings E (trace s) t) \<Longrightarrow> on_schedule E d sched n s s'"
  unfolding on_schedule_def by blast

lemma on_schedule_trans:
  assumes "on_schedule E d sched m s s1" and "on_schedule E d sched n s1 s'"
  shows "on_schedule E d sched (m + n) s s'"
proof -
  obtain t ts u us where "trace s1 = trace s @ t" "keeps_schedule E d sched (trace s) ts t" "length ts \<le> m"
    "clear E d \<longrightarrow> length ts = m \<and> ts = readings E (trace s) t" "trace s' = trace s1 @ u" "keeps_schedule E d sched (trace s1) us u" "length us \<le> n"
    "clear E d \<longrightarrow> length us = n \<and> us = readings E (trace s1) u"
    using assms by (auto simp: on_schedule_def)
  then show ?thesis
    by (intro on_scheduleI [of E d sched s "ts @ us" "t @ u"]) (auto intro: keeps_schedule_append simp: readings_append)
qed

lemma on_schedule_quiet:
  assumes "trace s' = trace s @ t" and "schedule_at d (trace s @ t) = schedule_at d (trace s)"
    and "created E (trace s) t = []" and "readings E (trace s) t = []" and "clear E d \<Longrightarrow> n = 0"
  shows "on_schedule E d sched n s s'"
  using assms by (intro on_scheduleI [of E d sched s "[]" t]) (auto simp: keeps_schedule_def)

lemma not_clear:
  "BuildBackup (re_lib E) d now = Inl err \<Longrightarrow> \<not> clear E d" "re_CreateBackup E h b = Some err \<Longrightarrow> \<not> clear E d"
  "re_GetSchedule E h k = Inl err \<Longrightarrow> \<not> clear E d" "IsSuspended d \<Longrightarrow> \<not> clear E d"
  unfolding clear_def by (metis isl_def, metis option.distinct(1), metis isl_def, simp)

lemma createScheduled_keeps:
  assumes server: "schedule_server E d" and s: "obj s = schedule_at d (trace s)"
    and due: "sched (LastScheduleTime (schedule_at d (trace s))) \<le> now"
    and h: "trace s = trace s0 @ [c]" "readings E (trace s0) [c] = [now]" "created E (trace s0) [c] = []"
      "LastScheduleTime (schedule_at d (trace s)) = LastScheduleTime (schedule_at d (trace s0))"
  shows "wp (createScheduled E now requeue) (\<lambda>_. on_schedule E d sched 1 s0) s"
proof (cases "BuildBackup (re_lib E) d now")
  case (Inl err)
  then have "\<not> clear E d"
    by (rule not_clear)
  with h have "on_schedule E d sched 1 s0 s"
    by (intro on_scheduleI [of E d sched s0 "[]" "[c]"]) (simp_all add: keeps_schedule_def)
  then show ?thesis
    by (simp add: createScheduled_def wp_simps s Inl)
next
  case (Inr b)
  let ?h = "trace s @ [RCreateBackup b]"
  have step: "schedule_at d ?h = schedule_at d (trace s)"
    by (rule schedule_at_other) simp
  show ?thesis
  proof (cases "re_CreateBackup E (trace s) b")
    case None
    let ?c = "RPatchScheduleStatus (schedule_at d ?h) ((schedule_at d ?h)\<lparr>schedule_status :=
        lastStatus now (om_name (backup_meta b)) (schedule_status (schedule_at d ?h))\<rparr>)"
    have clock: "readings E (trace s0) [c, RCreateBackup b, ?c] = [now]"
      using readings_append [of E "trace s0" "[c]" "[RCreateBackup b, ?c]"] h(2) by simp
    have "created E (trace s0) [c, RCreateBackup b, ?c] = [b]"
      using None h(1,3) by simp
    moreover have "LastScheduleTime (schedule_at d (?h @ [?c])) = now"
      by (simp only: schedule_at_patch) (simp add: LastScheduleTime_status)
    ultimately have "keeps_schedule E d sched (trace s0) [now] [c, RCreateBackup b, ?c]"
      using due h(1,4) Inr clock by (simp add: keeps_schedule_def del: readings.simps)
    then have "on_schedule E d sched 1 s0 (s\<lparr>trace := ?h @ [?c], obj := x\<rparr>)" for x
      by (rule on_scheduleI) (use clock in \<open>simp_all add: h(1) del: readings.simps\<close>)
    with server s show ?thesis
      by (simp add: createScheduled_def wp_simps Inr None wp_patch_schedule [OF server] step Let_def)
  next
    case (Some err)
    have "on_schedule E d sched 1 s0 (s\<lparr>trace := ?h\<rparr>)"
      using not_clear(2) [OF Some] Some h step
      by (intro on_scheduleI [of E d sched s0 "[]" "[c, RCreateBackup b]"]) (simp_all add: keeps_schedule_def)
    then show ?thesis
      by (simp add: createScheduled_def wp_simps s Inr Some)
  qed
qed

lemma schedule_pass:
  assumes server: "schedule_server E d" and parse: "re_CronParse E (bss_Schedule (schedule_spec d)) = Inr sched"
    and s: "obj s = schedule_at d (trace s)" and fresh: "trace s \<noteq> []" "\<not> is_creation (last (trace s))"
  shows "wp (Schedule_Reconcile E) (\<lambda>_. on_schedule E d sched 1 s) s"
proof -
  let ?h = "trace s" and ?now = "re_Now E (trace s)"
  let ?l = "LastScheduleTime (schedule_at d ?h)"
  define c where "c = RPatchScheduleStatus (schedule_at d ?h) ((schedule_at d ?h)\<lparr>schedule_status :=
     nextStatus E (sched ?l) (schedule_status (schedule_at d ?h))\<rparr>)"
  define s1 where "s1 = s\<lparr>trace := ?h @ [c], obj := schedule_at d (?h @ [c])\<rparr>"
  have s1: "trace s1 = ?h @ [c]" "obj s1 = schedule_at d (trace s1)"
    "LastScheduleTime (schedule_at d (trace s1)) = ?l" "created E ?h [c] = []"
    "readings E ?h [c] = [?now]"
    by (simp_all add: s1_def c_def schedule_at_patch LastScheduleTime_status fresh)
  have "wp (createScheduled E ?now requeue) (\<lambda>_. on_schedule E d sched 1 s) s1" if "sched ?l \<le> ?now" for requeue
    by (rule createScheduled_keeps [OF server s1(2)]) (use that s1 in simp_all)
  moreover have "on_schedule E d sched 1 s s1" if "?now < sched ?l"
  proof (rule on_scheduleI [of E d sched s "[?now]" "[c]"])
    show "keeps_schedule E d sched ?h [?now] [c]"
      using that s1 by (simp add: keeps_schedule_def del: readings.simps)
  qed (simp_all add: s1 del: readings.simps)
  ultimately show ?thesis
    by (simp add: Schedule_Reconcile_def wp_bind wp_peek_resource wp_get_obj s parse wp_patch_schedule [OF server s]
        Let_def c_def [symmetric] s1_def [symmetric] wp_return wp_if s1(2))
qed

section \<open>Any number of passes\<close>

lemma quiet_at:
  assumes "trace s' = trace s @ RGetSchedule req # t" and "list_all ambient t"
  shows "schedule_at d (trace s') = schedule_at d (trace s)"
  using ambient_schedule(1) [OF assms(2), of d "trace s @ [RGetSchedule req]"]
    schedule_at_other [of "RGetSchedule req" d "trace s"] assms(1) by simp

lemma quiet_requests:
  assumes "trace s' = trace s @ RGetSchedule req # t" and "list_all ambient t" and "clear E d \<Longrightarrow> n = 0"
  shows "on_schedule E d sched n s s'"
  using assms quiet_at [OF assms(1,2), of d] by (auto intro!: on_schedule_quiet simp: ambient_schedule(2,3))

lemma schedule_ready:
  assumes server: "schedule_server E d" and parse: "re_CronParse E (bss_Schedule (schedule_spec d)) = Inr sched"
    and s: "trace s = trace s0 @ [RGetSchedule req]" "obj s = schedule_at d (trace s0)"
  shows "wp (State_Monad.bind (ensureReady E (BackupSchedule_DoltDBRef d) (om_namespace (schedule_meta d)))
      (case_sum ret (\<lambda>doltdb. Schedule_Reconcile E))) (\<lambda>_. on_schedule E d sched 1 s0) s"
proof -
  let ?ready = "ensureReady E (BackupSchedule_DoltDBRef d) (om_namespace (schedule_meta d))"
  have "wp ?ready (\<lambda>_ s'. \<exists>t. trace s' = trace s @ t \<and> list_all ambient t \<and> obj s' = obj s) s"
    by (rule calm_trace [OF calm_ready]) auto
  moreover have "wp ?ready (\<lambda>r _. clear E d \<longrightarrow> (\<exists>db. r = Inr db)) s"
    by (cases "clear E d") (auto simp: wp_any, auto simp: clear_def)
  ultimately show ?thesis
    unfolding wp_bind
  proof (rule wp_mono [OF wp_conj], elim conjE exE)
    fix r :: "outcome + DoltDB" and t and s1 :: "(rcall, BackupSchedule) cfg"
    assume s1: "trace s1 = trace s @ t" "list_all ambient t" "obj s1 = obj s"
      and r: "clear E d \<longrightarrow> (\<exists>db. r = Inr db)"
    from s1(1) s(1) have trace: "trace s1 = trace s0 @ RGetSchedule req # t"
      by simp
    have "on_schedule E d sched 0 s0 s1"
      by (rule quiet_requests [OF trace s1(2)]) simp
    have fresh: "trace s1 \<noteq> []" "\<not> is_creation (last (trace s1))"
      using s1(2) by (cases t rule: rev_cases; cases "last t"; simp add: trace ambient_def)+
    from on_schedule_trans [OF \<open>on_schedule E d sched 0 s0 s1\<close>, of 1] have "wp (Schedule_Reconcile E) (\<lambda>_. on_schedule E d sched 1 s0) s1"
      by (intro wp_mono [OF schedule_pass [OF server parse]]) (simp_all add: s1(3) s(2) fresh quiet_at [OF trace s1(2)])
    then show "wp (case_sum ret (\<lambda>doltdb. Schedule_Reconcile E) r) (\<lambda>_. on_schedule E d sched 1 s0) s1"
      using r quiet_requests [OF trace s1(2), of E d 1] by (cases r) (simp_all add: wp_return)
  qed
qed

lemma schedule_reconcile:
  assumes server: "schedule_server E d" and parse: "re_CronParse E (bss_Schedule (schedule_spec d)) = Inr sched"
  shows "wp (BackupSchedule_Reconcile E req) (\<lambda>_. on_schedule E d sched 1 s) s"
proof -
  have skip: "on_schedule E d sched 1 s s'" if "\<not> clear E d" "trace s' = trace s @ [RGetSchedule req]"
    for s' :: "(rcall, BackupSchedule) cfg"
    by (rule quiet_requests [of s' s req "[]"]) (use that in simp_all)
  show ?thesis
  proof (cases "re_GetSchedule E (trace s) req")
    case (Inl err)
    with skip not_clear(3) show ?thesis
      by (simp add: BackupSchedule_Reconcile_def wp_bind wp_r wp_return)
  next
    case (Inr b)
    then have b: "b = schedule_at d (trace s)"
      using server by (simp add: schedule_server_def)
    have same: "IsSuspended (schedule_at d h) = IsSuspended d" "BackupSchedule_DoltDBRef (schedule_at d h) = BackupSchedule_DoltDBRef d" for h
      by (simp_all add: IsSuspended_def BackupSchedule_DoltDBRef_def)
    show ?thesis
      using skip not_clear(4) schedule_ready [OF server parse]
      by (simp add: BackupSchedule_Reconcile_def wp_bind [of "r_GetSchedule E req"] wp_bind [of "put_obj x" for x] wp_r
          wp_put_obj wp_return Inr b same wp_if)
  qed
qed

fun schedule_passes :: "resource_env \<Rightarrow> namespaced_name \<Rightarrow> nat \<Rightarrow> (BackupSchedule, unit) rop" where
  "schedule_passes E req 0 = ret ()"
| "schedule_passes E req (Suc k) = do { schedule_passes E req k; result \<leftarrow> BackupSchedule_Reconcile E req; ret () }"

lemma schedule_passes_keep:
  assumes server: "schedule_server E d" and parse: "re_CronParse E (bss_Schedule (schedule_spec d)) = Inr sched"
  shows "wp (schedule_passes E req k) (\<lambda>_. on_schedule E d sched k s) s"
proof (induction k)
  case 0
  show ?case
    by (simp add: wp_return on_schedule_quiet [of _ _ "[]"])
next
  case (Suc k)
  show ?case
    unfolding schedule_passes.simps wp_bind
    by (rule wp_mono [OF Suc.IH], rule wp_mono [OF schedule_reconcile [OF assms]])
      (use on_schedule_trans [where m = k and n = 1] in \<open>auto simp: wp_return\<close>)
qed

text \<open>
  C39: The schedule is kept.  When the API server records the status of the schedule, the backups that
  exist after any number of passes are exactly those that an abstract scheduler asks for at some of the
  times that the passes read from the clock, in their order; so two backups are at least one tick of
  the schedule apart, whatever else fails.  When nothing keeps the passes from deciding, these are the
  readings of all passes, one of each, and no backup that is due is missed.
\<close>

theorem schedule_is_kept:
  assumes "schedule_server E d" and "re_CronParse E (bss_Schedule (schedule_spec d)) = Inr sched"
    and "run_state (schedule_passes E req k) s = ((), s')"
  shows "\<exists>t clocks. trace s' = trace s @ t \<and> length clocks \<le> k \<and> subseq clocks (readings E (trace s) t) \<and>
    (clear E d \<longrightarrow> clocks = readings E (trace s) t \<and> length clocks = k) \<and>
    map Inr (created E (trace s) t) =
      map (BuildBackup (re_lib E) d) (due_times sched (LastScheduleTime (schedule_at d (trace s))) clocks)"
  using wpI [OF schedule_passes_keep [OF assms(1,2)] assms(3)]
  by (auto simp: on_schedule_def keeps_schedule_def Let_def)

definition schedule_env :: resource_env where
  "schedule_env = ref_renv\<lparr>re_GetSchedule := \<lambda>h k. Inr (schedule_at ref_schedule h),
     re_PatchScheduleStatus := \<lambda>h b n. Inr (schedule_at ref_schedule (h @ [RPatchScheduleStatus b n]))\<rparr>"

lemma schedule_env_clear: "clear schedule_env ref_schedule"
proof -
  have ref: "BackupSchedule_DoltDBRef ref_schedule = \<lparr>ref_Name = ''dolt'', ref_Namespace = []\<rparr>"
    "om_namespace (schedule_meta ref_schedule) = ''ns''" "\<not> IsSuspended ref_schedule"
    by (simp_all add: ref_schedule_def BackupSchedule_DoltDBRef_def IsSuspended_def ref_rmeta_def ref_meta_def
        object_meta.defs)
  have "wp (ensureReady schedule_env \<lparr>ref_Name = ''dolt'', ref_Namespace = []\<rparr> ''ns'')
      (\<lambda>r _. \<exists>db. r = Inr db) s" for s :: "(rcall, BackupSchedule) cfg"
    by (rule ref_ready) (simp add: schedule_env_def ref_renv_def)
  then show ?thesis
    by (simp add: clear_def ref schedule_env_def ref_renv_def BuildBackup_def ref_env_def lib.defs)
qed

text \<open>Two passes at the same time, an hour and more after the schedule was created: one backup.\<close>

theorem schedule_is_kept_witness:
  "\<exists>t. trace (snd (run_state (schedule_passes schedule_env (nn ''hourly'' ''ns'') 2)
       \<lparr>trace = [], obj = ref_schedule\<rparr>)) = t \<and> length (created schedule_env [] t) = 1"
proof -
  let ?run = "run_state (schedule_passes schedule_env (nn ''hourly'' ''ns'') 2) \<lparr>trace = [], obj = ref_schedule\<rparr>"
  have server: "schedule_server schedule_env ref_schedule"
    by (simp add: schedule_server_def schedule_env_def)
  have parse: "re_CronParse schedule_env (bss_Schedule (schedule_spec ref_schedule)) = Inr (\<lambda>t. t + 3600 * Second)"
    by (simp add: schedule_env_def ref_renv_def)
  obtain t clocks where t: "trace (snd ?run) = t" "length clocks = 2"
    "clocks = readings schedule_env [] t"
    "map Inr (created schedule_env [] t) = map (BuildBackup (re_lib schedule_env) ref_schedule)
       (due_times (\<lambda>t. t + 3600 * Second) (LastScheduleTime (schedule_at ref_schedule [])) clocks)"
    using schedule_is_kept [OF server parse, of "nn ''hourly'' ''ns''" 2 "\<lparr>trace = [], obj = ref_schedule\<rparr>" "snd ?run"]
      schedule_env_clear by (auto simp: prod_eq_iff)
  obtain a b where "clocks = [a, b]"
    using t(2) by (auto simp: numeral_2_eq_2 length_Suc_conv)
  moreover have "re_Now schedule_env = (\<lambda>h. 5000 * Second)"
    by (simp add: schedule_env_def ref_renv_def)
  with readings_clock [of schedule_env "[]" t] t(3) have "set clocks \<subseteq> {5000 * Second}"
    by auto
  ultimately have clocks: "clocks = [5000 * Second, 5000 * Second]"
    by simp
  have "LastScheduleTime (schedule_at ref_schedule []) = 0"
    by (simp add: schedule_at_def schedule_after_def LastScheduleTime_def ref_schedule_def ref_rmeta_def object_meta.defs)
  with t(4) have "length (created schedule_env [] t) = 1"
    unfolding clocks by (auto simp: Second_def dest: arg_cong [of _ _ length])
  with t(1) show ?thesis
    by blast
qed

end
