(* ===== verification/Snapshots.thy ===== *)
theory Snapshots
  imports Backup_Controller Builders
begin

text \<open>
  Volume snapshots: the manifest of a snapshot and the cron job that applies it
  (\<open>src/pkg/builder/volumesnapshot_builder.go\<close>, \<open>cronjob_builder.go\<close>), their reconciler
  (\<open>src/pkg/controller/volumesnapshot/volumesnapshot.go\<close>) and the controller
  (\<open>src/internal/controller/snapshot_controller.go\<close>).
\<close>

section \<open>Objects\<close>

definition SnapshotClassNameConst :: string where
  "SnapshotClassNameConst = ''csi-hostpath-snapclass-v1''"
definition VolumeSnapshotAPIVersion :: string where
  "VolumeSnapshotAPIVersion = ''snapshot.storage.k8s.io/v1''"
definition VolumeSnapshotKind :: string where
  "VolumeSnapshotKind = ''VolumeSnapshot''"
definition ConfigmapKey :: string where
  "ConfigmapKey = ''dolt.yaml''"
definition ttlSecondsAfterFinished :: int where
  "ttlSecondsAfterFinished = 300"

text \<open>\<open>BuildExternalSnapshot\<close> always returns a nil error.\<close>

definition BuildExternalSnapshot :: "string \<Rightarrow> DoltDB \<Rightarrow> VolumeSnapshot" where
  "BuildExternalSnapshot pvcName doltdb =
     \<lparr>vs_APIVersion = VolumeSnapshotAPIVersion, vs_Kind = VolumeSnapshotKind,
      vs_Metadata = MetaWithLabels (WithPartOf (om_name (db_meta doltdb)) NewLabelsBuilder)
        (NewMetadataBuilder (nn (pvcName @ ''-${DATE}'') (om_namespace (db_meta doltdb)))),
      vs_VolumeSnapshotClassName =
        ptr_Deref (storage_StorageClassName (spec_Storage (db_spec doltdb))) SnapshotClassNameConst,
      vs_PersistentVolumeClaimName = pvcName\<rparr>"

record CronJobOpts =
  cjo_Metadata :: "object_meta option"
  cjo_Key :: namespaced_name
  cjo_ConfigMapName :: string
  cjo_Schedule :: string

definition buildVolume :: "CronJobOpts \<Rightarrow> (string \<times> string) list" where
  "buildVolume options = [(''yaml-volume'', cjo_ConfigMapName options)]"

definition buildContainerSpec :: "CronJobOpts \<Rightarrow> Snapshot \<Rightarrow> cron_container list" where
  "buildContainerSpec options snapshot =
     [\<lparr>cc_Name = nn_name (cjo_Key options),
       cc_Image = sspec_Image (snapshot_spec snapshot) @ '':'' @ sspec_Version (snapshot_spec snapshot),
       cc_Command = [''/bin/sh'', ''-c'',
         ''export DATE=$(date +%s) && envsubst < /tmp/'' @ ConfigmapKey @ '' | kubectl apply -f -''],
       cc_VolumeMounts = [(''yaml-volume'', ''/tmp'', True)]\<rparr>]"

definition BuildCronJob :: "'x lib_scheme \<Rightarrow> CronJobOpts \<Rightarrow> DoltDB \<Rightarrow> Snapshot \<Rightarrow> goerr + cron_job" where
  "BuildCronJob L options doltdb snapshot =
     (let labels = WithManagedBy (om_name (snapshot_meta snapshot))
            (WithPartOf (om_name (db_meta doltdb)) NewLabelsBuilder);
          objMeta = MetaWithLabels labels
            (MetaWithMetadata (cjo_Metadata options) (NewMetadataBuilder (cjo_Key options)));
          spec = \<lparr>cjs_Schedule = cjo_Schedule options,
            cjs_TTLSecondsAfterFinished = Some ttlSecondsAfterFinished, cjs_PodMeta = objMeta,
            cjs_ServiceAccountName = nn_name (ServiceAccountKey doltdb),
            cjs_ImagePullSecrets = sspec_ImagePullSecrets (snapshot_spec snapshot),
            cjs_Containers = buildContainerSpec options snapshot, cjs_Volumes = buildVolume options,
            cjs_RestartPolicy = ''OnFailure''\<rparr>
      in withOwner L doltdb ''CronJob'' objMeta (\<lambda>m. \<lparr>cj_meta = m, cj_spec = spec\<rparr>))"

section \<open>The reconciler of the objects\<close>

definition jsonToYamlMarshal :: "resource_env \<Rightarrow> VolumeSnapshot \<Rightarrow> goerr + string" where
  "jsonToYamlMarshal E snapshot =
     (case re_JsonUnmarshal E (re_JsonMarshal E snapshot) of
        Inl err \<Rightarrow> Inl (ErrV ''error marshaling JSON for VolumeSnapshot: '' err)
      | Inr jsonObj \<Rightarrow>
          (case re_YamlMarshal E jsonObj of
             Inl err \<Rightarrow> Inl (ErrV ''error marshaling YAML for VolumeSnapshot: '' err)
           | Inr yamlData \<Rightarrow> Inr yamlData))"

text \<open>
  The requests of \<open>buildOrPatchConfigMap\<close>.  The code continues with the object it built, not with
  the one that it patched.
\<close>

definition createOrPatchConfigMap :: "env \<Rightarrow> namespaced_name \<Rightarrow> config_map \<Rightarrow> (call, 'o, goerr option) prog" where
  "createOrPatchConfigMap B key configMap = do {
     r \<leftarrow> k_GetConfigMap B key;
     case r of
       Inl err \<Rightarrow>
         if \<not> IsNotFound err then ret (Some (ErrV ''error getting ConfigMap: '' err))
         else do {
           e \<leftarrow> k_write B (CCreateConfigMap configMap);
           ret (map_option (ErrV ''error creating ConfigMap: '') e)
         }
     | Inr existing \<Rightarrow> do {
         e \<leftarrow> k_write B (CPatchConfigMap existing (existing\<lparr>cm_data := cm_data configMap\<rparr>));
         ret (map_option (ErrV ''error patching ConfigMap: '') e)
       }
   }"

abbreviation snapshot_object_meta :: "Snapshot \<Rightarrow> object_meta" where
  "snapshot_object_meta snapshot \<equiv> object_meta.truncate (snapshot_meta snapshot)"

definition buildOrPatchConfigMap ::
    "resource_env \<Rightarrow> DoltDB \<Rightarrow> Snapshot \<Rightarrow> string \<Rightarrow> string \<Rightarrow> (Snapshot, goerr + config_map) rop" where
  "buildOrPatchConfigMap E owner snapshot yamlData pvcName =
     (let key = Snapshot_ConfigMapKey snapshot pvcName
      in case BuildConfigMap (re_lib E) key (Some (snapshot_object_meta snapshot))
                [(ConfigmapKey, yamlData)] owner of
           Inl err \<Rightarrow> ret (Inl (ErrV ''error building ConfigMap: '' err))
         | Inr configMap \<Rightarrow> do {
             (e, _) \<leftarrow> via_base E () (\<lambda>B. createOrPatchConfigMap B key configMap);
             ret (case e of Some err \<Rightarrow> Inl err | None \<Rightarrow> Inr configMap)
           })"

definition cronJobOpts :: "Snapshot \<Rightarrow> string \<Rightarrow> config_map \<Rightarrow> CronJobOpts" where
  "cronJobOpts snapshot pvcName configMap =
     \<lparr>cjo_Metadata = Some (snapshot_object_meta snapshot), cjo_Key = Snapshot_CronJobKey snapshot pvcName,
      cjo_ConfigMapName = om_name (cm_meta configMap),
      cjo_Schedule = sspec_FrequencySchedule (snapshot_spec snapshot)\<rparr>"

definition buildOrPatchCronJob ::
    "resource_env \<Rightarrow> DoltDB \<Rightarrow> Snapshot \<Rightarrow> string \<Rightarrow> config_map \<Rightarrow> (Snapshot, goerr option) rop" where
  "buildOrPatchCronJob E owner snapshot pvcName configMap =
     (let opts = cronJobOpts snapshot pvcName configMap
      in case BuildCronJob (re_lib E) opts owner snapshot of
           Inl err \<Rightarrow> ret (Some (ErrV ''error building cronJob: '' err))
         | Inr cronJob \<Rightarrow> do {
             r \<leftarrow> r_GetCronJob E (cjo_Key opts);
             case r of
               Inl err \<Rightarrow>
                 if \<not> IsNotFound err then ret (Some (ErrV ''error getting CronJob: '' err))
                 else do {
                   e \<leftarrow> r_CreateCronJob E cronJob;
                   ret (map_option (ErrV ''error creating CronJob: '') e)
                 }
             | Inr existing \<Rightarrow> do {
                 e \<leftarrow> r_PatchCronJob E existing (existing\<lparr>cj_spec := cj_spec cronJob\<rparr>);
                 ret (map_option (ErrV ''error patching CronJob: '') e)
               }
           })"

definition snapshotClaim :: "resource_env \<Rightarrow> DoltDB \<Rightarrow> Snapshot \<Rightarrow> string \<Rightarrow> (Snapshot, goerr option) rop" where
  "snapshotClaim E owner snapshot pvcName =
     (case jsonToYamlMarshal E (BuildExternalSnapshot pvcName owner) of
        Inl err \<Rightarrow> ret (Some err)
      | Inr yamlData \<Rightarrow> do {
          r \<leftarrow> buildOrPatchConfigMap E owner snapshot yamlData pvcName;
          case r of
            Inl err \<Rightarrow> ret (Some err)
          | Inr configMap \<Rightarrow>
              (case re_CronParse E (sspec_FrequencySchedule (snapshot_spec snapshot)) of
                 Inl err \<Rightarrow> ret (Some (ErrV ''invalid cron expression for FrequencySchedule: '' err))
               | Inr _ \<Rightarrow> buildOrPatchCronJob E owner snapshot pvcName configMap)
        })"

fun snapshot_loop :: "resource_env \<Rightarrow> DoltDB \<Rightarrow> Snapshot \<Rightarrow> string list \<Rightarrow> (Snapshot, goerr option) rop" where
  "snapshot_loop E owner snapshot [] = ret None"
| "snapshot_loop E owner snapshot (pvcName # names) = do {
     e \<leftarrow> snapshotClaim E owner snapshot pvcName;
     case e of
       Some err \<Rightarrow> ret (Some err)
     | None \<Rightarrow> snapshot_loop E owner snapshot names
   }"

definition VolumeSnapshot_Reconcile :: "resource_env \<Rightarrow> DoltDB \<Rightarrow> (Snapshot, goerr option) rop" where
  "VolumeSnapshot_Reconcile E owner = do {
     snapshot \<leftarrow> get_obj;
     (r, _) \<leftarrow> via_base E () (\<lambda>B. k_ListPVCs B (om_namespace (db_meta owner)) (DoltSelector owner));
     case r of
       Inl err \<Rightarrow> ret (Some (ErrV ''error getting PVC for doltdb: '' err))
     | Inr items \<Rightarrow> snapshot_loop E owner snapshot (map (\<lambda>p. om_name (pvc_meta p)) items)
   }"

section \<open>The controller\<close>

definition PatchSnapshotStatus ::
    "resource_env \<Rightarrow> (SnapshotStatus \<Rightarrow> SnapshotStatus) \<Rightarrow> (Snapshot, goerr option) rop" where
  "PatchSnapshotStatus E patcher =
     patch_object (r_PatchSnapshotStatus E) (\<lambda>d. d\<lparr>snapshot_status := patcher (snapshot_status d)\<rparr>)"

abbreviation set_snapshot :: "resource_env \<Rightarrow> SnapshotStatus set_condition" where
  "set_snapshot E \<equiv> Snapshot_SetCondition (re_lib E)"

definition SnapshotReconciler_PatchStatus ::
    "resource_env \<Rightarrow> (SnapshotStatus \<Rightarrow> SnapshotStatus) \<Rightarrow> (Snapshot, goerr option) rop" where
  "SnapshotReconciler_PatchStatus E patcher = do {
     e \<leftarrow> patch_object (r_PatchSnapshotStatus E) (\<lambda>d. d\<lparr>snapshot_status := patcher (snapshot_status d)\<rparr>);
     ret (map_option (ErrV ''error patching Snapshot status: '') e)
   }"

text \<open>The part of \<open>Reconcile\<close> after the wait for the DoltDB.\<close>

definition reconcileReadySnapshot :: "resource_env \<Rightarrow> DoltDB \<Rightarrow> (Snapshot, outcome) rop" where
  "reconcileReadySnapshot E doltdb = do {
     e \<leftarrow> VolumeSnapshot_Reconcile E doltdb;
     case e of
       Some err \<Rightarrow> do {
         snapshot \<leftarrow> get_obj;
         patchErr \<leftarrow> SnapshotReconciler_PatchStatus E (Ready_PatcherFailed
           (''Error creating snapshot '' @ om_name (snapshot_meta snapshot) @ '': '' @ errText err) (set_snapshot E));
         ret (ResultRequeue, errors_Join [Some err, patchErr])
       }
     | None \<Rightarrow> do {
         e \<leftarrow> PatchSnapshotStatus E (SetReadyWithSnapshotJobCreated (set_snapshot E));
         ret (case e of
                Some err \<Rightarrow> (ResultRequeue, Some (ErrV ''error patching status: '' err))
              | None \<Rightarrow> (ResultZero, None))
       }
   }"

definition Snapshot_Reconcile :: "resource_env \<Rightarrow> namespaced_name \<Rightarrow> (Snapshot, outcome) rop" where
  "Snapshot_Reconcile E req = do {
     r \<leftarrow> r_GetSnapshot E req;
     case r of
       Inl err \<Rightarrow> ret (ResultZero, IgnoreNotFound err)
     | Inr snapshot \<Rightarrow> do {
     put_obj snapshot;
     e \<leftarrow> PatchSnapshotStatus E (SetReadyWithSnapshotJobCreated (set_snapshot E));
     case e of
       Some err \<Rightarrow> ret (ResultRequeue, Some (ErrV ''error patching status: '' err))
     | None \<Rightarrow> do {
     snapshot \<leftarrow> get_obj;
     d \<leftarrow> resolve_doltdb E (Snapshot_DoltDBRef snapshot) (om_namespace (snapshot_meta snapshot));
     case d of
       Inl err \<Rightarrow> ret (ResultZero, Some (ErrV ''error getting DoltDB: '' err))
     | Inr doltdb \<Rightarrow> do {
     (result, err) \<leftarrow> resource_wait E doltdb;
     case err of
       Some werr \<Rightarrow> do {
         patchErr \<leftarrow> SnapshotReconciler_PatchStatus E (Ready_PatcherWithError err (set_snapshot E));
         ret (result, map_option (ErrV ''error waiting for DoltDB: '') (errors_Join [err, patchErr]))
       }
     | None \<Rightarrow>
         if \<not> IsZero result then ret (result, None) else reconcileReadySnapshot E doltdb
     } } }
   }"

end
