(* ===== verification/Snapshot_Properties.thy ===== *)
theory Snapshot_Properties
  imports Snapshots Resource_Rules
begin

text \<open>
  The properties of volume snapshots: which objects a pass over a snapshot leaves for each claim.
\<close>

section \<open>The objects of one claim\<close>

definition claim_config :: "resource_env \<Rightarrow> DoltDB \<Rightarrow> Snapshot \<Rightarrow> string \<Rightarrow> config_map \<Rightarrow> bool" where
  "claim_config E owner sn name cm \<longleftrightarrow> (\<exists>yaml. jsonToYamlMarshal E (BuildExternalSnapshot name owner) = Inr yaml \<and>
     BuildConfigMap (re_lib E) (Snapshot_ConfigMapKey sn name) (Some (snapshot_object_meta sn))
       [(ConfigmapKey, yaml)] owner = Inr cm)"

definition claim_job :: "resource_env \<Rightarrow> DoltDB \<Rightarrow> Snapshot \<Rightarrow> string \<Rightarrow> cron_job \<Rightarrow> bool" where
  "claim_job E owner sn name j \<longleftrightarrow> (\<exists>cm sched. claim_config E owner sn name cm \<and>
     re_CronParse E (sspec_FrequencySchedule (snapshot_spec sn)) = Inr sched \<and>
     BuildCronJob (re_lib E) (cronJobOpts sn name cm) owner sn = Inr j)"

text \<open>
  The four requests that leave a claim with its config map and its cron job, and the replies: an
  object that is not there is created, one that is there is patched.
\<close>

definition config_write :: "config_map \<Rightarrow> goerr + config_map \<Rightarrow> call \<Rightarrow> bool" where
  "config_write cm reply w = (case reply of
      Inl err \<Rightarrow> IsNotFound err \<and> w = CCreateConfigMap cm
    | Inr old \<Rightarrow> w = CPatchConfigMap old (old\<lparr>cm_data := cm_data cm\<rparr>))"

definition job_write :: "resource_env \<Rightarrow> rcall list \<Rightarrow> cron_job \<Rightarrow> goerr + cron_job \<Rightarrow> rcall \<Rightarrow> bool" where
  "job_write E h j reply w = (case reply of
      Inl err \<Rightarrow> IsNotFound err \<and> w = RCreateCronJob j \<and> re_CreateCronJob E h j = None
    | Inr old \<Rightarrow> w = RPatchCronJob old (old\<lparr>cj_spec := cj_spec j\<rparr>) \<and>
        re_PatchCronJob E h old (old\<lparr>cj_spec := cj_spec j\<rparr>) = None)"

definition claim_done :: "resource_env \<Rightarrow> DoltDB \<Rightarrow> Snapshot \<Rightarrow> string \<Rightarrow> rcall list \<Rightarrow> rcall list \<Rightarrow> bool" where
  "claim_done E owner sn name h t \<longleftrightarrow>
     (let ckey = Snapshot_ConfigMapKey sn name; jkey = Snapshot_CronJobKey sn name; B = re_base E h in
      \<exists>cm j w v. claim_config E owner sn name cm \<and> claim_job E owner sn name j \<and>
        BuildCronJob (re_lib E) (cronJobOpts sn name cm) owner sn = Inr j \<and>
        t = [KCall (CGetConfigMap ckey), KCall w, RGetCronJob jkey, v] \<and>
        config_write cm (env_GetConfigMap B [] ckey) w \<and> env_Write B [CGetConfigMap ckey] w = None \<and>
        job_write E (h @ take 3 t) j (re_GetCronJob E (h @ take 2 t) jkey) v)"

text \<open>The requests about a claim that are made at all.\<close>

definition about_claim :: "resource_env \<Rightarrow> DoltDB \<Rightarrow> Snapshot \<Rightarrow> string \<Rightarrow> rcall \<Rightarrow> bool" where
  "about_claim E owner sn name c = (case c of
      KCall (CGetConfigMap k) \<Rightarrow> k = Snapshot_ConfigMapKey sn name
    | KCall (CCreateConfigMap cm) \<Rightarrow> claim_config E owner sn name cm
    | KCall (CPatchConfigMap old new) \<Rightarrow> \<exists>cm. claim_config E owner sn name cm \<and> new = old\<lparr>cm_data := cm_data cm\<rparr>
    | RGetCronJob k \<Rightarrow> k = Snapshot_CronJobKey sn name
    | RCreateCronJob j \<Rightarrow> claim_job E owner sn name j
    | RPatchCronJob old new \<Rightarrow> \<exists>j. claim_job E owner sn name j \<and> new = old\<lparr>cj_spec := cj_spec j\<rparr>
    | _ \<Rightarrow> False)"

lemma config_runs:
  assumes yaml: "jsonToYamlMarshal E (BuildExternalSnapshot name owner) = Inr yaml"
  shows "runs (\<lambda>h r t. list_all (about_claim E owner sn name) t \<and> (\<forall>cm. r = Inr cm \<longrightarrow> claim_config E owner sn name cm \<and>
      (let ckey = Snapshot_ConfigMapKey sn name; B = re_base E h in
       \<exists>w. t = [KCall (CGetConfigMap ckey), KCall w] \<and> config_write cm (env_GetConfigMap B [] ckey) w \<and>
         env_Write B [CGetConfigMap ckey] w = None))) (buildOrPatchConfigMap E owner sn yaml name)"
proof -
  have "claim_config E owner sn name cm"
    if "BuildConfigMap (re_lib E) (Snapshot_ConfigMapKey sn name) (Some (snapshot_object_meta sn))
       [(ConfigmapKey, yaml)] owner = Inr cm" for cm
    using that yaml by (auto simp: claim_config_def)
  then show ?thesis
    unfolding runs_def buildOrPatchConfigMap_def createOrPatchConfigMap_def
    by (auto simp: wp_simps Let_def about_claim_def config_write_def split: sum.splits option.splits)
qed

lemma job_runs:
  assumes "claim_config E owner sn name cm"
    and "re_CronParse E (sspec_FrequencySchedule (snapshot_spec sn)) = Inr sched"
  shows "runs (\<lambda>h e t. list_all (about_claim E owner sn name) t \<and> (e = None \<longrightarrow>
      (let jkey = Snapshot_CronJobKey sn name in \<exists>j v. claim_job E owner sn name j \<and>
         BuildCronJob (re_lib E) (cronJobOpts sn name cm) owner sn = Inr j \<and>
         t = [RGetCronJob jkey, v] \<and> job_write E (h @ take 1 t) j (re_GetCronJob E h jkey) v)))
    (buildOrPatchCronJob E owner sn name cm)"
proof -
  have "claim_job E owner sn name j" if "BuildCronJob (re_lib E) (cronJobOpts sn name cm) owner sn = Inr j" for j
    using that assms by (auto simp: claim_job_def)
  moreover have "cjo_Key (cronJobOpts sn name cm) = Snapshot_CronJobKey sn name"
    by (simp add: cronJobOpts_def)
  ultimately show ?thesis
    unfolding runs_def buildOrPatchCronJob_def
    by (auto simp: wp_simps Let_def about_claim_def job_write_def split: sum.splits option.splits)
qed

lemma claim_runs:
  "runs (\<lambda>h e t. list_all (about_claim E owner sn name) t \<and> (e = None \<longrightarrow> claim_done E owner sn name h t))
     (snapshotClaim E owner sn name)"
proof (cases "jsonToYamlMarshal E (BuildExternalSnapshot name owner)")
  case (Inl err)
  then show ?thesis
    by (simp add: runs_def snapshotClaim_def wp_return)
next
  case (Inr yaml)
  let ?P = "\<lambda>s e s'. \<exists>t. trace s' = trace s @ t \<and> obj s' = obj s \<and> list_all (about_claim E owner sn name) t \<and>
      (e = None \<longrightarrow> claim_done E owner sn name (trace s) t)"
  have job: "wp (buildOrPatchCronJob E owner sn name cm) (?P s) s1"
    if "re_CronParse E (sspec_FrequencySchedule (snapshot_spec sn)) = Inr sched" "claim_config E owner sn name cm"
      "trace s1 = trace s @ [KCall (CGetConfigMap (Snapshot_ConfigMapKey sn name)), KCall w]" "obj s1 = obj s"
      "config_write cm (env_GetConfigMap (re_base E (trace s)) [] (Snapshot_ConfigMapKey sn name)) w"
      "env_Write (re_base E (trace s)) [CGetConfigMap (Snapshot_ConfigMapKey sn name)] w = None"
      "list_all (about_claim E owner sn name) [KCall (CGetConfigMap (Snapshot_ConfigMapKey sn name)), KCall w]"
    for cm sched w s s1
    by (rule runs_wp [OF job_runs [OF that(2,1)]])
      (use that in \<open>auto simp: claim_done_def Let_def\<close>)
  show ?thesis
    unfolding runs_def snapshotClaim_def Inr sum.case wp_bind
  proof (intro allI, rule runs_wp [OF config_runs [OF Inr]], goal_cases)
    case (1 s r s1 t)
    then show ?case
      using job [of _ _ s1 s]
      by (auto simp: wp_return Let_def split: sum.split)
  qed
qed

section \<open>All claims\<close>

fun claims_done :: "resource_env \<Rightarrow> DoltDB \<Rightarrow> Snapshot \<Rightarrow> rcall list \<Rightarrow> string list \<Rightarrow> rcall list \<Rightarrow> bool" where
  "claims_done E owner sn h [] t \<longleftrightarrow> t = []"
| "claims_done E owner sn h (n # ns) t \<longleftrightarrow>
     (\<exists>u v. t = u @ v \<and> claim_done E owner sn n h u \<and> claims_done E owner sn (h @ u) ns v)"

lemma claims_done_Cons:
  "claim_done E owner sn n h t \<Longrightarrow> claims_done E owner sn (h @ t) ns u \<Longrightarrow> claims_done E owner sn h (n # ns) (t @ u)"
  by auto

definition claims_cut :: "resource_env \<Rightarrow> DoltDB \<Rightarrow> Snapshot \<Rightarrow> rcall list \<Rightarrow> string list \<Rightarrow> rcall list \<Rightarrow> bool" where
  "claims_cut E owner sn h names t \<longleftrightarrow> (\<exists>before n after u v. names = before @ n # after \<and> t = u @ v \<and>
     claims_done E owner sn h before u \<and> list_all (about_claim E owner sn n) v)"

lemma claims_cut_here: "list_all (about_claim E owner sn n) t \<Longrightarrow> claims_cut E owner sn h (n # ns) t"
  unfolding claims_cut_def
  by (intro exI [of _ "[]"] exI [of _ n] exI [of _ ns] exI [of _ "[]"] exI [of _ t]) simp

lemma claims_cut_later:
  assumes "claim_done E owner sn n h t" and "claims_cut E owner sn (h @ t) ns u"
  shows "claims_cut E owner sn h (n # ns) (t @ u)"
proof -
  obtain before m after x y where "ns = before @ m # after" "u = x @ y" "claims_done E owner sn (h @ t) before x"
    "list_all (about_claim E owner sn m) y"
    using assms(2) by (auto simp: claims_cut_def)
  with assms(1) show ?thesis
    unfolding claims_cut_def
    by (intro exI [of _ "n # before"] exI [of _ m] exI [of _ after] exI [of _ "t @ x"] exI [of _ y]) auto
qed

lemma loop_runs:
  "runs (\<lambda>h e t. if e = None then claims_done E owner sn h names t else claims_cut E owner sn h names t)
     (snapshot_loop E owner sn names)"
proof (induction names)
  case Nil
  show ?case
    by (simp add: runs_def wp_return)
next
  case (Cons n ns)
  show ?case
    unfolding runs_def snapshot_loop.simps wp_bind
  proof (intro allI, rule runs_wp [OF claim_runs], goal_cases)
    case (1 s e s1 t)
    show ?case
    proof (cases e)
      case None
      with 1 have "wp (snapshot_loop E owner sn ns) (\<lambda>e s'. \<exists>u. trace s' = trace s @ u \<and> obj s' = obj s \<and>
          (if e = None then claims_done E owner sn (trace s) (n # ns) u else claims_cut E owner sn (trace s) (n # ns) u)) s1"
        by (intro runs_wp [OF Cons.IH]) (auto simp del: claims_done.simps(2) intro: claims_done_Cons claims_cut_later)
      with None show ?thesis
        by simp
    next
      case (Some err)
      with 1 show ?thesis
        by (auto simp: wp_return intro: claims_cut_here)
    qed
  qed
qed

text \<open>
  C40: a snapshot covers the claims.  The reconciler lists the claims of the DoltDB and reports success
  only when each of them, in order, was left with the config map that holds its manifest and the
  cron job that mounts it, both acknowledged by the server; when it reports an error, the claims
  before some claim are complete, and no request is made about a claim behind that one.
\<close>

theorem snapshot_covers_claims:
  "let c = KCall (CListPVCs (om_namespace (db_meta owner)) (DoltSelector owner)) in
   wp (VolumeSnapshot_Reconcile E owner) (\<lambda>e s'. \<exists>t. trace s' = trace s @ c # t \<and> obj s' = obj s \<and>
     (case env_ListPVCs (re_base E (trace s)) [] (om_namespace (db_meta owner)) (DoltSelector owner) of
        Inl err \<Rightarrow> e \<noteq> None \<and> t = []
      | Inr claims \<Rightarrow> (if e = None then claims_done else claims_cut) E owner (obj s) (trace s @ [c])
          (map (\<lambda>p. om_name (pvc_meta p)) claims) t)) s"
proof -
  let ?c = "KCall (CListPVCs (om_namespace (db_meta owner)) (DoltSelector owner))"
  have "wp (snapshot_loop E owner (obj s) names) (\<lambda>e s'. \<exists>t. trace s' = trace s @ ?c # t \<and> obj s' = obj s \<and>
      (if e = None then claims_done else claims_cut) E owner (obj s) (trace s @ [?c]) names t)
      (s\<lparr>trace := trace s @ [?c]\<rparr>)" for names
    by (rule runs_wp [OF loop_runs]) auto
  then show ?thesis
    by (simp add: VolumeSnapshot_Reconcile_def wp_simps Let_def split: sum.split)
qed

end
