(* ===== verification/Watches.thy ===== *)
theory Watches
  imports Failover Resource_Types
begin

text \<open>
  Which events wake a controller: the event filters (\<open>src/pkg/predicate/predicate.go\<close>) and the
  mapping from a watched object to the objects that refer to it (\<open>src/pkg/watch/watch.go\<close>).
\<close>

section \<open>Event filters\<close>

text \<open>
  The events of the package \<open>event\<close>; an update carries the old and the new object.  The filters look
  at the metadata of an object, which the first argument extracts.
\<close>

datatype 'o watch_event =
    CreateEvent 'o
  | UpdateEvent 'o 'o
  | DeleteEvent 'o
  | GenericEvent 'o

definition hasAnnotations :: "object_meta \<Rightarrow> string list \<Rightarrow> bool" where
  "hasAnnotations m annotations \<longleftrightarrow> list_all (\<lambda>a. map_of (om_annotations m) a \<noteq> None) annotations"

definition hasLabel :: "object_meta \<Rightarrow> string \<Rightarrow> bool" where
  "hasLabel m label \<longleftrightarrow> map_of (om_labels m) label \<noteq> None"

definition PredicateWithLabel :: "('o \<Rightarrow> object_meta) \<Rightarrow> string \<Rightarrow> 'o watch_event \<Rightarrow> bool" where
  "PredicateWithLabel meta label e =
     (case e of
        CreateEvent x \<Rightarrow> hasLabel (meta x) label
      | DeleteEvent x \<Rightarrow> hasLabel (meta x) label
      | UpdateEvent old new \<Rightarrow> hasLabel (meta new) label
      | GenericEvent x \<Rightarrow> hasLabel (meta x) label)"

definition PredicateChangedWithAnnotations ::
    "('o \<Rightarrow> object_meta) \<Rightarrow> string list \<Rightarrow> ('o \<Rightarrow> 'o \<Rightarrow> bool) \<Rightarrow> 'o watch_event \<Rightarrow> bool" where
  "PredicateChangedWithAnnotations meta annotations hasChanged e =
     (case e of
        CreateEvent x \<Rightarrow> hasAnnotations (meta x) annotations
      | DeleteEvent x \<Rightarrow> False
      | UpdateEvent old new \<Rightarrow>
          if \<not> hasAnnotations (meta old) annotations \<or> \<not> hasAnnotations (meta new) annotations then False
          else hasChanged old new
      | GenericEvent x \<Rightarrow> hasAnnotations (meta x) annotations)"

definition PredicateWithAnnotations :: "('o \<Rightarrow> object_meta) \<Rightarrow> string list \<Rightarrow> 'o watch_event \<Rightarrow> bool" where
  "PredicateWithAnnotations meta annotations = PredicateChangedWithAnnotations meta annotations (\<lambda>old new. True)"

text \<open>The filter of the pod controller, with the annotations it is constructed with.\<close>

definition podEvents :: "string list \<Rightarrow> pod watch_event \<Rightarrow> bool" where
  "podEvents podAnnotations = PredicateChangedWithAnnotations pod_meta podAnnotations podHasChanged"

section \<open>Watched objects\<close>

text \<open>
  \<open>list\<close> is the client's \<open>List\<close> with a namespace and a field selector; an error maps to no request.
\<close>

definition mapWatchedObjectToRequests ::
    "(string \<Rightarrow> string \<times> string \<Rightarrow> goerr + 'i list) \<Rightarrow> ('i \<Rightarrow> namespaced_name) \<Rightarrow> string \<Rightarrow> object_meta \<Rightarrow>
     namespaced_name list" where
  "mapWatchedObjectToRequests list key fieldPath m =
     (case list (om_namespace m) (fieldPath, om_name m) of
        Inl err \<Rightarrow> []
      | Inr items \<Rightarrow> map key items)"

section \<open>What wakes the controllers\<close>

text \<open>
  A pod that fails or recovers wakes the pod controller when it belongs to a cluster, before and
  after; a pod that is deleted does not.
\<close>

lemma pod_events:
  "podEvents as (UpdateEvent old new) \<longleftrightarrow>
     hasAnnotations (pod_meta old) as \<and> hasAnnotations (pod_meta new) as \<and> PodReady old \<noteq> PodReady new"
  "\<not> podEvents as (DeleteEvent p)"
  by (auto simp: podEvents_def PredicateChangedWithAnnotations_def podHasChanged_def)

text \<open>
  An index over stored objects, as the manager's cache keeps one: the objects of the namespace for
  which the index function yields the value.
\<close>

definition indexed :: "('i \<Rightarrow> namespaced_name) \<Rightarrow> ('i \<Rightarrow> string list) \<Rightarrow> 'i list \<Rightarrow> string \<Rightarrow> string \<times> string \<Rightarrow> goerr + 'i list" where
  "indexed key index items ns sel = Inr (filter (\<lambda>i. nn_namespace (key i) = ns \<and> snd sel \<in> set (index i)) items)"

abbreviation grant_key :: "Grant \<Rightarrow> namespaced_name" where
  "grant_key g \<equiv> nn (om_name (grant_meta g)) (om_namespace (grant_meta g))"

abbreviation user_key :: "User \<Rightarrow> namespaced_name" where
  "user_key u \<equiv> nn (om_name (user_meta u)) (om_namespace (user_meta u))"

text \<open>
  A User wakes the grants in its namespace whose user name is the name of the User object, not the
  name of its account.
\<close>

lemma user_wakes_grants:
  assumes "Grant_IndexerFuncForFieldPath GrantUsernameFieldPath = Inr index" and "om_name (user_meta u) \<noteq> []"
  shows "set (mapWatchedObjectToRequests (indexed grant_key index gs) grant_key GrantUsernameFieldPath
      (object_meta.truncate (user_meta u))) =
    grant_key ` {g \<in> set gs. om_namespace (grant_meta g) = om_namespace (user_meta u) \<and>
      gspec_Username (grant_spec g) = om_name (user_meta u)}"
  using assms by (auto simp: mapWatchedObjectToRequests_def indexed_def Grant_IndexerFuncForFieldPath_def
      object_meta.defs split: if_splits)

text \<open>A password secret wakes the users in its namespace that take their password from it.\<close>

lemma secret_wakes_users:
  assumes "User_IndexerFuncForFieldPath UserPasswordSecretFieldPath = Inr index" and "om_name m \<noteq> []"
  shows "set (mapWatchedObjectToRequests (indexed user_key index us) user_key UserPasswordSecretFieldPath m) =
    user_key ` {u \<in> set us. om_namespace (user_meta u) = om_namespace m \<and>
      map_option sr_name (uspec_PasswordSecretKeyRef (user_spec u)) = Some (om_name m)}"
proof -
  have "om_name m \<in> set (index u) \<longleftrightarrow> map_option sr_name (uspec_PasswordSecretKeyRef (user_spec u)) = Some (om_name m)" for u
    using assms by (cases "uspec_PasswordSecretKeyRef (user_spec u)") (auto simp: User_IndexerFuncForFieldPath_def)
  then show ?thesis
    by (simp add: mapWatchedObjectToRequests_def indexed_def)
qed

end
