(* ===== verification/Operator_Setup.thy ===== *)
theory Operator_Setup
  imports Watches Sql_Resources
begin

text \<open>
  The start of the operator: the flags and the manager options of \<open>src/cmd/main.go\<close>, the constructors
  it calls, the \<open>SetupWithManager\<close> functions of the eight controllers under
  \<open>src/internal/controller/\<close> and \<open>Watch\<close> of \<open>src/pkg/watch/watch.go\<close>.  The manager of the controller
  runtime is outside: what it answers to a call is a parameter that may depend on the calls before.
\<close>

section \<open>Flags\<close>

record Flags =
  fl_metricsAddr :: string
  fl_probeAddr :: string
  fl_enableLeaderElection :: bool
  fl_leaderElectionID :: string
  fl_leaderElectionNamespace :: string
  fl_secureMetrics :: bool
  fl_enableHTTP2 :: bool
  fl_maxConcurrentReconciles :: int
  fl_maxDoltDBMaxConcurrentReconciles :: int
  fl_logDevMode :: bool
  fl_logSql :: bool
  fl_requeueSql :: int
  fl_watchNamespaces :: string

text \<open>Declaring a flag stores its default in the variable.\<close>

definition defaultFlags :: Flags where
  "defaultFlags =
     \<lparr>fl_metricsAddr = ''0'', fl_probeAddr = '':8081'', fl_enableLeaderElection = False,
      fl_leaderElectionID = ''k8s.dolthub.com'', fl_leaderElectionNamespace = [], fl_secureMetrics = True,
      fl_enableHTTP2 = False, fl_maxConcurrentReconciles = 1, fl_maxDoltDBMaxConcurrentReconciles = 10,
      fl_logDevMode = True, fl_logSql = False, fl_requeueSql = 30 * Second, fl_watchNamespaces = []\<rparr>"

text \<open>A flag of the command line whose value the package \<open>flag\<close> has read.\<close>

datatype flag_setting =
    MetricsBindAddress string
  | HealthProbeBindAddress string
  | LeaderElect bool
  | LeaderElectionId string
  | LeaderElectionNamespace string
  | MetricsSecure bool
  | EnableHttp2 bool
  | MaxConcurrentReconciles int
  | MaxDoltdbConcurrentReconciles int
  | LogDevMode bool
  | LogSqlFlag bool
  | RequeueSql int
  | WatchNamespaces string

fun setFlag :: "flag_setting \<Rightarrow> Flags \<Rightarrow> Flags" where
  "setFlag (MetricsBindAddress v) fl = fl\<lparr>fl_metricsAddr := v\<rparr>"
| "setFlag (HealthProbeBindAddress v) fl = fl\<lparr>fl_probeAddr := v\<rparr>"
| "setFlag (LeaderElect v) fl = fl\<lparr>fl_enableLeaderElection := v\<rparr>"
| "setFlag (LeaderElectionId v) fl = fl\<lparr>fl_leaderElectionID := v\<rparr>"
| "setFlag (LeaderElectionNamespace v) fl = fl\<lparr>fl_leaderElectionNamespace := v\<rparr>"
| "setFlag (MetricsSecure v) fl = fl\<lparr>fl_secureMetrics := v\<rparr>"
| "setFlag (EnableHttp2 v) fl = fl\<lparr>fl_enableHTTP2 := v\<rparr>"
| "setFlag (MaxConcurrentReconciles v) fl = fl\<lparr>fl_maxConcurrentReconciles := v\<rparr>"
| "setFlag (MaxDoltdbConcurrentReconciles v) fl = fl\<lparr>fl_maxDoltDBMaxConcurrentReconciles := v\<rparr>"
| "setFlag (LogDevMode v) fl = fl\<lparr>fl_logDevMode := v\<rparr>"
| "setFlag (LogSqlFlag v) fl = fl\<lparr>fl_logSql := v\<rparr>"
| "setFlag (RequeueSql v) fl = fl\<lparr>fl_requeueSql := v\<rparr>"
| "setFlag (WatchNamespaces v) fl = fl\<lparr>fl_watchNamespaces := v\<rparr>"

text \<open>\<open>flag.Parse\<close>: the settings in their order, the last one of a flag wins.\<close>

definition flag_Parse :: "flag_setting list \<Rightarrow> Flags \<Rightarrow> Flags" where
  "flag_Parse args fl = fold setFlag args fl"

section \<open>Options of the manager\<close>

text \<open>A function on the TLS configuration, of which only the protocols offered are kept.\<close>

type_synonym tls_opt = "string list \<Rightarrow> string list"

definition disableHTTP2 :: tls_opt where
  "disableHTTP2 nextProtos = [''http/1.1'']"

record MetricsOptions =
  mso_BindAddress :: string
  mso_SecureServing :: bool
  mso_TLSOpts :: "tls_opt list"
  mso_Authenticated :: bool

record ManagerOptions =
  mo_HealthProbeBindAddress :: string
  mo_LeaderElection :: bool
  mo_LeaderElectionID :: string
  mo_LeaderElectionNamespace :: string
  mo_MaxConcurrentReconciles :: int
  mo_Metrics :: MetricsOptions
  mo_WebhookTLSOpts :: "tls_opt list"
  mo_DefaultNamespaces :: "string set option"

definition tlsOptions :: "Flags \<Rightarrow> tls_opt list" where
  "tlsOptions fl = (if \<not> fl_enableHTTP2 fl then [disableHTTP2] else [])"

text \<open>The keys of the map of namespaces; \<open>None\<close> is the nil map, with which every namespace is cached.\<close>

definition cacheNamespaces :: "Flags \<Rightarrow> string set option" where
  "cacheNamespaces fl =
     (if fl_watchNamespaces fl \<noteq> []
      then Some (fold insert (split_on (CHR '','') (fl_watchNamespaces fl)) {})
      else None)"

definition managerOptions :: "Flags \<Rightarrow> ManagerOptions" where
  "managerOptions fl =
     \<lparr>mo_HealthProbeBindAddress = fl_probeAddr fl,
      mo_LeaderElection = fl_enableLeaderElection fl,
      mo_LeaderElectionID = fl_leaderElectionID fl,
      mo_LeaderElectionNamespace =
        (if fl_leaderElectionNamespace fl \<noteq> [] then fl_leaderElectionNamespace fl else []),
      mo_MaxConcurrentReconciles = fl_maxConcurrentReconciles fl,
      mo_Metrics =
        \<lparr>mso_BindAddress = fl_metricsAddr fl, mso_SecureServing = fl_secureMetrics fl,
         mso_TLSOpts = tlsOptions fl, mso_Authenticated = fl_secureMetrics fl\<rparr>,
      mo_WebhookTLSOpts = tlsOptions fl,
      mo_DefaultNamespaces = cacheNamespaces fl\<rparr>"

section \<open>Calls of the manager\<close>

datatype kind =
    KDoltDB | KPod | KSnapshot | KDatabase | KUser | KGrant | KBackup | KBackupSchedule
  | KConfigMap | KService | KEvent | KServiceAccount | KStatefulSet | KDeployment
  | KPodDisruptionBudget | KRole | KRoleBinding | KSecret

text \<open>
  An object as an event filter sees it: the filters look at the metadata, and the pod controller's
  asks whether the object is a pod.
\<close>

datatype client_object = PodObject pod | OtherObject object_meta

fun client_meta :: "client_object \<Rightarrow> object_meta" where
  "client_meta (PodObject p) = pod_meta p"
| "client_meta (OtherObject m) = m"

type_synonym event_filter = "client_object watch_event \<Rightarrow> bool"

text \<open>The index functions of the two kinds that are indexed.\<close>

datatype indexer_func = UserIndex "User \<Rightarrow> string list" | GrantIndex "Grant \<Rightarrow> string list"

text \<open>A watch maps an object to the listed objects whose indexed field is its name.\<close>

record watch_spec =
  ws_Object :: kind
  ws_List :: kind
  ws_FieldPath :: string
  ws_Predicate :: event_filter

text \<open>The reconcilers, by what distinguishes one instance from another.\<close>

record PodController =
  pctl_name :: string
  pctl_podAnnotations :: "string list"

datatype reconciler =
    DoltDBReconciler
  | PodReconciler PodController
  | SnapshotReconciler
  | DatabaseReconciler "SqlOpt list"
  | UserReconciler "SqlOpt list"
  | GrantReconciler "SqlOpt list"
  | BackupReconciler
  | BackupScheduleReconciler

text \<open>
  What the controller builder collects; without a name the controller is called after its kind, and
  without options the limit of the manager applies.
\<close>

record controller_spec =
  cs_Name :: "string option"
  cs_For :: kind
  cs_Owns :: "kind list"
  cs_Watches :: "watch_spec list"
  cs_EventFilter :: "event_filter option"
  cs_MaxConcurrentReconciles :: "int option"

definition NewControllerManagedBy :: "kind \<Rightarrow> controller_spec" where
  "NewControllerManagedBy k =
     \<lparr>cs_Name = None, cs_For = k, cs_Owns = [], cs_Watches = [], cs_EventFilter = None,
      cs_MaxConcurrentReconciles = None\<rparr>"

datatype manager_call =
    GetConfigOrDie
  | NewManager ManagerOptions
  | IndexField kind string indexer_func
  | Complete controller_spec reconciler
  | AddHealthzCheck string
  | AddReadyzCheck string
  | StartManager

text \<open>The manager answers a call with an error or with nothing, given the calls before it.\<close>

type_synonym manager = "manager_call list \<Rightarrow> manager_call \<Rightarrow> goerr option"

type_synonym setup_step = "manager \<Rightarrow> manager_call list \<Rightarrow> goerr option \<times> manager_call list"

definition call_manager :: "manager_call \<Rightarrow> setup_step" where
  "call_manager c M h = (M h c, h @ [c])"

section \<open>Constructors\<close>

text \<open>
  The client, the builder and the resolver are stored as they are passed, so the constructors are
  modelled by the arguments that differ between controllers.
\<close>

definition NewPodController :: "string \<Rightarrow> string list \<Rightarrow> PodController" where
  "NewPodController name podAnnotations = \<lparr>pctl_name = name, pctl_podAnnotations = podAnnotations\<rparr>"

definition NewDatabaseReconciler :: "SqlOpt list \<Rightarrow> reconciler" where
  "NewDatabaseReconciler sqlOpts = DatabaseReconciler sqlOpts"

definition NewUserReconciler :: "SqlOpt list \<Rightarrow> reconciler" where
  "NewUserReconciler dbOpts = UserReconciler dbOpts"

definition NewGrantReconciler :: "SqlOpt list \<Rightarrow> reconciler" where
  "NewGrantReconciler sqlOpts = GrantReconciler sqlOpts"

text \<open>
  The replication reconciler takes its collaborators as options and makes those that are missing.
  The kinds of the collaborators are type variables: \<open>'c\<close> the client, \<open>'b\<close> the builder, \<open>'r\<close> the
  resolver, \<open>'m\<close> and \<open>'s\<close> the config map and service reconcilers.
\<close>

record ('c, 'b, 'r, 'm, 's) ReplicationReconciler =
  rr_Client :: 'c
  rr_builder :: 'b
  rr_refResolver :: "'r option"
  rr_configMapreconciler :: "'m option"
  rr_serviceReconciler :: "'s option"

definition WithRefResolver ::
    "'r \<Rightarrow> ('c, 'b, 'r, 'm, 's) ReplicationReconciler \<Rightarrow> ('c, 'b, 'r, 'm, 's) ReplicationReconciler" where
  "WithRefResolver rr r = r\<lparr>rr_refResolver := Some rr\<rparr>"

definition WithServiceReconciler ::
    "'s \<Rightarrow> ('c, 'b, 'r, 'm, 's) ReplicationReconciler \<Rightarrow> ('c, 'b, 'r, 'm, 's) ReplicationReconciler" where
  "WithServiceReconciler sr r = r\<lparr>rr_serviceReconciler := Some sr\<rparr>"

definition NewReplicationReconciler ::
    "('c \<Rightarrow> 'r) \<Rightarrow> ('c \<Rightarrow> 'b \<Rightarrow> 'm) \<Rightarrow> ('c \<Rightarrow> 's) \<Rightarrow> 'c \<Rightarrow> 'b \<Rightarrow>
     (('c, 'b, 'r, 'm, 's) ReplicationReconciler \<Rightarrow> ('c, 'b, 'r, 'm, 's) ReplicationReconciler) list \<Rightarrow>
     goerr + ('c, 'b, 'r, 'm, 's) ReplicationReconciler" where
  "NewReplicationReconciler newResolver newConfigMap newService client builder opts =
     (let r = fold (\<lambda>setOpt r. setOpt r) opts
            \<lparr>rr_Client = client, rr_builder = builder, rr_refResolver = None,
             rr_configMapreconciler = None, rr_serviceReconciler = None\<rparr>;
          r = (if rr_refResolver r = None then r\<lparr>rr_refResolver := Some (newResolver client)\<rparr> else r);
          r = (if rr_configMapreconciler r = None
               then r\<lparr>rr_configMapreconciler := Some (newConfigMap client builder)\<rparr> else r);
          r = (if rr_serviceReconciler r = None
               then r\<lparr>rr_serviceReconciler := Some (newService client)\<rparr> else r)
      in Inr r)"

section \<open>Registration of the controllers\<close>

text \<open>
  \<open>Watch\<close> gets the index function, registers the index and adds the watch to the builder, which it
  changes in place.
\<close>

definition Watch ::
    "kind \<Rightarrow> kind \<Rightarrow> kind \<Rightarrow> (string \<Rightarrow> goerr + indexer_func) \<Rightarrow> string \<Rightarrow> event_filter \<Rightarrow>
     controller_spec \<Rightarrow> manager \<Rightarrow> manager_call list \<Rightarrow> (goerr + controller_spec) \<times> manager_call list" where
  "Watch watched indexer indexerList IndexerFuncForFieldPath indexerFieldPath pred builder M h =
     (case IndexerFuncForFieldPath indexerFieldPath of
        Inl err \<Rightarrow> (Inl (ErrV ''error getting indexer func: '' err), h)
      | Inr indexerFn \<Rightarrow>
          (case call_manager (IndexField indexer indexerFieldPath indexerFn) M h of
             (Some err, h') \<Rightarrow> (Inl (ErrV (''error indexing '' @ quoted indexerFieldPath @ '' field: '') err), h')
           | (None, h') \<Rightarrow>
               (Inr (builder\<lparr>cs_Watches := cs_Watches builder @
                  [\<lparr>ws_Object = watched, ws_List = indexerList, ws_FieldPath = indexerFieldPath,
                    ws_Predicate = pred\<rparr>]\<rparr>), h')))"

definition builder_Complete :: "reconciler \<Rightarrow> controller_spec \<Rightarrow> setup_step" where
  "builder_Complete r builder = call_manager (Complete builder r)"

definition DoltDB_SetupWithManager :: "reconciler \<Rightarrow> int \<Rightarrow> setup_step" where
  "DoltDB_SetupWithManager r maxConcurrent =
     builder_Complete r ((NewControllerManagedBy KDoltDB)
       \<lparr>cs_Owns := [KConfigMap, KService, KEvent, KServiceAccount, KStatefulSet, KDeployment,
                    KPodDisruptionBudget, KRole, KRoleBinding],
        cs_MaxConcurrentReconciles := Some maxConcurrent\<rparr>)"

text \<open>The change the pod filter looks for, on objects that need not be pods.\<close>

definition podObjectHasChanged :: "client_object \<Rightarrow> client_object \<Rightarrow> bool" where
  "podObjectHasChanged old new =
     (case old of
        PodObject oldPod \<Rightarrow> (case new of PodObject newPod \<Rightarrow> podHasChanged oldPod newPod | _ \<Rightarrow> False)
      | _ \<Rightarrow> False)"

definition Pod_SetupWithManager :: "PodController \<Rightarrow> setup_step" where
  "Pod_SetupWithManager r =
     builder_Complete (PodReconciler r) ((NewControllerManagedBy KPod)
       \<lparr>cs_Name := Some (pctl_name r),
        cs_EventFilter := Some (PredicateChangedWithAnnotations client_meta (pctl_podAnnotations r) podObjectHasChanged)\<rparr>)"

definition Snapshot_SetupWithManager :: "reconciler \<Rightarrow> setup_step" where
  "Snapshot_SetupWithManager r = builder_Complete r (NewControllerManagedBy KSnapshot)"

definition Database_SetupWithManager :: "reconciler \<Rightarrow> setup_step" where
  "Database_SetupWithManager r = builder_Complete r (NewControllerManagedBy KDatabase)"

definition WatchLabel :: string where
  "WatchLabel = ''k8s.dolthub.com/watch''"

definition User_SetupWithManager :: "reconciler \<Rightarrow> setup_step" where
  "User_SetupWithManager r M h =
     (case Watch KSecret KUser KUser (\<lambda>p. map_sum id UserIndex (User_IndexerFuncForFieldPath p))
         UserPasswordSecretFieldPath (PredicateWithLabel client_meta WatchLabel)
         (NewControllerManagedBy KUser) M h of
        (Inl err, h') \<Rightarrow> (Some (ErrV ''error watching: '' err), h')
      | (Inr builder, h') \<Rightarrow> builder_Complete r builder M h')"

text \<open>
  The filter of the watched users sets one of the four functions of \<open>predicate.Funcs\<close>; a function
  that is not set lets the event pass.
\<close>

definition grantUserEvents :: event_filter where
  "grantUserEvents e = (case e of CreateEvent x \<Rightarrow> True | _ \<Rightarrow> True)"

definition Grant_SetupWithManager :: "reconciler \<Rightarrow> setup_step" where
  "Grant_SetupWithManager r M h =
     (case Watch KUser KGrant KGrant (\<lambda>p. map_sum id GrantIndex (Grant_IndexerFuncForFieldPath p))
         GrantUsernameFieldPath grantUserEvents (NewControllerManagedBy KGrant) M h of
        (Inl err, h') \<Rightarrow> (Some (ErrV ''error watching grants: '' err), h')
      | (Inr builder, h') \<Rightarrow> builder_Complete r builder M h')"

definition Backup_SetupWithManager :: "reconciler \<Rightarrow> setup_step" where
  "Backup_SetupWithManager r = builder_Complete r (NewControllerManagedBy KBackup)"

definition BackupSchedule_SetupWithManager :: "reconciler \<Rightarrow> setup_step" where
  "BackupSchedule_SetupWithManager r = builder_Complete r (NewControllerManagedBy KBackupSchedule)"

section \<open>The process\<close>

text \<open>
  The outcome: the process ends with a logged message, the controller it names and the error, or
  after the manager has stopped.
\<close>

datatype process_end = Exited string string goerr | Stopped

fun exit_code :: "process_end \<Rightarrow> int" where
  "exit_code (Exited _ _ _) = 1"
| "exit_code Stopped = 0"

definition or_exit ::
    "string \<Rightarrow> string \<Rightarrow> setup_step \<Rightarrow> (manager \<Rightarrow> manager_call list \<Rightarrow> process_end \<times> manager_call list) \<Rightarrow>
     manager \<Rightarrow> manager_call list \<Rightarrow> process_end \<times> manager_call list" where
  "or_exit msg controller act k M h =
     (case act M h of
        (Some err, h') \<Rightarrow> (Exited msg controller err, h')
      | (None, h') \<Rightarrow> k M h')"

definition sqlOptions :: "Flags \<Rightarrow> SqlOpt list" where
  "sqlOptions fl = [WithRequeueInterval (fl_requeueSql fl), WithLogSql (fl_logSql fl)]"

definition podAnnotationKeys :: "string list" where
  "podAnnotationKeys = [Annotation, ReplicationAnnotation]"

text \<open>
  \<open>main\<close> after the flags are parsed.  The constructor of the replication reconciler is called with
  references of which only their presence matters; its error would end the process too.
\<close>

definition start_operator :: "Flags \<Rightarrow> manager \<Rightarrow> process_end \<times> manager_call list" where
  "start_operator fl M =
     or_exit [] [] (call_manager GetConfigOrDie)
    (or_exit ''unable to start manager'' [] (call_manager (NewManager (managerOptions fl)))
    (case NewReplicationReconciler (\<lambda>_. ()) (\<lambda>_ _. ()) (\<lambda>_. ()) () () [WithRefResolver (), WithServiceReconciler ()] of
       Inl err \<Rightarrow> (\<lambda>M h. (Exited ''Error creating Replication reconciler'' [] err, h))
     | Inr replicationReconciler \<Rightarrow>
    (or_exit ''unable to create controller'' ''DoltDB''
       (DoltDB_SetupWithManager DoltDBReconciler (fl_maxDoltDBMaxConcurrentReconciles fl))
    (or_exit ''Unable to create controller'' ''PodReplication''
       (Pod_SetupWithManager (NewPodController ''pod-replication'' podAnnotationKeys))
    (or_exit ''unable to create controller'' ''Snapshot'' (Snapshot_SetupWithManager SnapshotReconciler)
    (or_exit ''Unable to create controller'' ''Database''
       (Database_SetupWithManager (NewDatabaseReconciler (sqlOptions fl)))
    (or_exit ''Unable to create controller'' ''User''
       (User_SetupWithManager (NewUserReconciler (sqlOptions fl)))
    (or_exit ''Unable to create controller'' ''Grant''
       (Grant_SetupWithManager (NewGrantReconciler (sqlOptions fl)))
    (or_exit ''unable to create controller'' ''Backup'' (Backup_SetupWithManager BackupReconciler)
    (or_exit ''unable to create controller'' ''BackupSchedule''
       (BackupSchedule_SetupWithManager BackupScheduleReconciler)
    (or_exit ''unable to set up health check'' [] (call_manager (AddHealthzCheck ''healthz''))
    (or_exit ''unable to set up ready check'' [] (call_manager (AddReadyzCheck ''readyz''))
    (or_exit ''problem running manager'' [] (call_manager StartManager)
    (\<lambda>M h. (Stopped, h))))))))))))))) M []"

text \<open>
  The beginning of \<open>main\<close>: the flags are declared, the options of the logger are filled, and then the
  command line is parsed.  The result is whether the logger is in development mode, as long as the
  flags of the logging library do not change it, and the flags.
\<close>

definition main_flags :: "flag_setting list \<Rightarrow> bool \<times> Flags" where
  "main_flags args =
     (let declared = defaultFlags;
          development = fl_logDevMode declared;
          parsed = flag_Parse args declared
      in (development, parsed))"

definition main_process :: "flag_setting list \<Rightarrow> manager \<Rightarrow> process_end \<times> manager_call list" where
  "main_process args M = start_operator (snd (main_flags args)) M"

section \<open>The start as a list of calls\<close>

text \<open>
  A reference for the start: make the calls of a list one after the other until the manager refuses
  one.
\<close>

fun attempt :: "manager \<Rightarrow> manager_call list \<Rightarrow> manager_call list \<Rightarrow> bool \<times> manager_call list" where
  "attempt M h [] = (True, h)"
| "attempt M h (c # cs) = (if M h c = None then attempt M (h @ [c]) cs else (False, h @ [c]))"

fun accepts :: "manager \<Rightarrow> manager_call list \<Rightarrow> manager_call list \<Rightarrow> bool" where
  "accepts M h [] \<longleftrightarrow> True"
| "accepts M h (c # cs) \<longleftrightarrow> M h c = None \<and> accepts M (h @ [c]) cs"

lemma attempt_append:
  "attempt M h (p @ q) = (case attempt M h p of (True, h') \<Rightarrow> attempt M h' q | (False, h') \<Rightarrow> (False, h'))"
  by (induction p arbitrary: h) auto

lemma attempt_accepts: "attempt M h cs = (True, h') \<longleftrightarrow> accepts M h cs \<and> h' = h @ cs"
  by (induction cs arbitrary: h) auto

lemma attempt_refused:
  "attempt M h cs = (False, h') \<Longrightarrow>
     \<exists>p c q. cs = p @ c # q \<and> h' = h @ p @ [c] \<and> accepts M h p \<and> M (h @ p) c \<noteq> None"
proof (induction cs arbitrary: h)
  case (Cons c cs)
  show ?case
  proof (cases "M h c = None")
    case True
    with Cons.prems have "attempt M (h @ [c]) cs = (False, h')" by simp
    from Cons.IH [OF this] obtain p d q where
      "cs = p @ d # q" "h' = (h @ [c]) @ p @ [d]" "accepts M (h @ [c]) p" "M ((h @ [c]) @ p) d \<noteq> None"
      by blast
    then show ?thesis
      using True by (intro exI [of _ "c # p"] exI [of _ d] exI [of _ q]) simp
  next
    case False
    then show ?thesis
      using Cons.prems by (intro exI [of _ "[]"] exI [of _ c] exI [of _ cs]) auto
  qed
qed simp

text \<open>
  The contract of a step of the start: it makes the calls of its plan, and it fails exactly when one
  of them is refused, whatever it makes of the error.
\<close>

locale setup_contract =
  fixes act :: setup_step and plan :: "manager_call list"
  assumes follows: "map_prod (\<lambda>e. e = None) id (act M h) = attempt M h plan"
begin

lemma outcome: "fst (act M h) = None \<longleftrightarrow> fst (attempt M h plan)" "snd (act M h) = snd (attempt M h plan)"
  by (simp_all flip: follows)

lemma or_exit_follows:
  assumes "\<And>M h. map_prod (\<lambda>r. r = Stopped) id (k M h) = attempt M h rest"
  shows "map_prod (\<lambda>r. r = Stopped) id (or_exit msg controller act k M h) = attempt M h (plan @ rest)"
  using outcome [of M h] assms
  by (auto simp: or_exit_def attempt_append split: prod.split option.split bool.split)

end

lemma call_manager_contract: "setup_contract (call_manager c) [c]"
  by unfold_locales (auto simp: call_manager_def)

interpretation get_config: setup_contract "call_manager GetConfigOrDie" "[GetConfigOrDie]"
  by (rule call_manager_contract)

interpretation new_manager: setup_contract "call_manager (NewManager opts)" "[NewManager opts]" for opts
  by (rule call_manager_contract)

interpretation healthz: setup_contract "call_manager (AddHealthzCheck n)" "[AddHealthzCheck n]" for n
  by (rule call_manager_contract)

interpretation readyz: setup_contract "call_manager (AddReadyzCheck n)" "[AddReadyzCheck n]" for n
  by (rule call_manager_contract)

interpretation start_mgr: setup_contract "call_manager StartManager" "[StartManager]"
  by (rule call_manager_contract)

text \<open>The controllers as they are registered.\<close>

definition doltdb_controller :: "int \<Rightarrow> controller_spec" where
  "doltdb_controller n = (NewControllerManagedBy KDoltDB)
     \<lparr>cs_Owns := [KConfigMap, KService, KEvent, KServiceAccount, KStatefulSet, KDeployment,
                  KPodDisruptionBudget, KRole, KRoleBinding],
      cs_MaxConcurrentReconciles := Some n\<rparr>"

definition pod_controller :: "PodController \<Rightarrow> controller_spec" where
  "pod_controller r = (NewControllerManagedBy KPod)
     \<lparr>cs_Name := Some (pctl_name r),
      cs_EventFilter := Some (PredicateChangedWithAnnotations client_meta (pctl_podAnnotations r) podObjectHasChanged)\<rparr>"

definition user_index :: "User \<Rightarrow> string list" where
  "user_index u = (case uspec_PasswordSecretKeyRef (user_spec u) of
     Some r \<Rightarrow> if sr_name r \<noteq> [] then [sr_name r] else [] | None \<Rightarrow> [])"

definition grant_index :: "Grant \<Rightarrow> string list" where
  "grant_index g = (if gspec_Username (grant_spec g) \<noteq> [] then [gspec_Username (grant_spec g)] else [])"

definition user_controller :: controller_spec where
  "user_controller = (NewControllerManagedBy KUser)
     \<lparr>cs_Watches := [\<lparr>ws_Object = KSecret, ws_List = KUser, ws_FieldPath = UserPasswordSecretFieldPath,
        ws_Predicate = PredicateWithLabel client_meta WatchLabel\<rparr>]\<rparr>"

definition grant_controller :: controller_spec where
  "grant_controller = (NewControllerManagedBy KGrant)
     \<lparr>cs_Watches := [\<lparr>ws_Object = KUser, ws_List = KGrant, ws_FieldPath = GrantUsernameFieldPath,
        ws_Predicate = (\<lambda>_. True)\<rparr>]\<rparr>"

interpretation doltdb_setup: setup_contract "DoltDB_SetupWithManager r n" "[Complete (doltdb_controller n) r]" for r n
  unfolding DoltDB_SetupWithManager_def builder_Complete_def doltdb_controller_def
  by (rule call_manager_contract)

interpretation pod_setup: setup_contract "Pod_SetupWithManager r" "[Complete (pod_controller r) (PodReconciler r)]" for r
  unfolding Pod_SetupWithManager_def builder_Complete_def pod_controller_def
  by (rule call_manager_contract)

interpretation snapshot_setup: setup_contract "Snapshot_SetupWithManager r"
    "[Complete (NewControllerManagedBy KSnapshot) r]" for r
  unfolding Snapshot_SetupWithManager_def builder_Complete_def by (rule call_manager_contract)

interpretation database_setup: setup_contract "Database_SetupWithManager r"
    "[Complete (NewControllerManagedBy KDatabase) r]" for r
  unfolding Database_SetupWithManager_def builder_Complete_def by (rule call_manager_contract)

interpretation backup_setup: setup_contract "Backup_SetupWithManager r"
    "[Complete (NewControllerManagedBy KBackup) r]" for r
  unfolding Backup_SetupWithManager_def builder_Complete_def by (rule call_manager_contract)

interpretation schedule_setup: setup_contract "BackupSchedule_SetupWithManager r"
    "[Complete (NewControllerManagedBy KBackupSchedule) r]" for r
  unfolding BackupSchedule_SetupWithManager_def builder_Complete_def by (rule call_manager_contract)

interpretation user_setup: setup_contract "User_SetupWithManager r"
    "[IndexField KUser UserPasswordSecretFieldPath (UserIndex user_index), Complete user_controller r]" for r
  by unfold_locales (auto simp: User_SetupWithManager_def Watch_def builder_Complete_def call_manager_def
      User_IndexerFuncForFieldPath_def user_index_def [abs_def] user_controller_def NewControllerManagedBy_def
      split: option.split)

lemma grantUserEvents_all: "grantUserEvents = (\<lambda>_. True)"
  by (rule ext) (simp add: grantUserEvents_def split: watch_event.split)

interpretation grant_setup: setup_contract "Grant_SetupWithManager r"
    "[IndexField KGrant GrantUsernameFieldPath (GrantIndex grant_index), Complete grant_controller r]" for r
  by unfold_locales (auto simp: Grant_SetupWithManager_def Watch_def builder_Complete_def call_manager_def
      Grant_IndexerFuncForFieldPath_def grant_index_def [abs_def] grant_controller_def grantUserEvents_all
      NewControllerManagedBy_def split: option.split)

section \<open>The whole start\<close>

definition startup_plan :: "Flags \<Rightarrow> manager_call list" where
  "startup_plan fl =
     [GetConfigOrDie, NewManager (managerOptions fl),
      Complete (doltdb_controller (fl_maxDoltDBMaxConcurrentReconciles fl)) DoltDBReconciler,
      Complete (pod_controller (NewPodController ''pod-replication'' podAnnotationKeys))
        (PodReconciler (NewPodController ''pod-replication'' podAnnotationKeys)),
      Complete (NewControllerManagedBy KSnapshot) SnapshotReconciler,
      Complete (NewControllerManagedBy KDatabase) (NewDatabaseReconciler (sqlOptions fl)),
      IndexField KUser UserPasswordSecretFieldPath (UserIndex user_index),
      Complete user_controller (NewUserReconciler (sqlOptions fl)),
      IndexField KGrant GrantUsernameFieldPath (GrantIndex grant_index),
      Complete grant_controller (NewGrantReconciler (sqlOptions fl)),
      Complete (NewControllerManagedBy KBackup) BackupReconciler,
      Complete (NewControllerManagedBy KBackupSchedule) BackupScheduleReconciler,
      AddHealthzCheck ''healthz'', AddReadyzCheck ''readyz'', StartManager]"

text \<open>The replication reconciler is built with the collaborators it is given; the constructor does not fail.\<close>

lemma NewReplicationReconciler_result:
  "NewReplicationReconciler nr nm ns client builder [WithRefResolver rr, WithServiceReconciler sr] =
     Inr \<lparr>rr_Client = client, rr_builder = builder, rr_refResolver = Some rr,
          rr_configMapreconciler = Some (nm client builder), rr_serviceReconciler = Some sr\<rparr>"
  by (simp add: NewReplicationReconciler_def WithRefResolver_def WithServiceReconciler_def Let_def)

lemma start_follows_plan:
  "map_prod (\<lambda>r. r = Stopped) id (start_operator fl M) = attempt M [] (startup_plan fl)"
proof -
  have stop: "map_prod (\<lambda>r. r = Stopped) id ((\<lambda>M h. (Stopped, h)) M h) = attempt M h []" for M h
    by simp
  note steps = start_mgr.or_exit_follows readyz.or_exit_follows healthz.or_exit_follows
    schedule_setup.or_exit_follows backup_setup.or_exit_follows grant_setup.or_exit_follows
    user_setup.or_exit_follows database_setup.or_exit_follows snapshot_setup.or_exit_follows
    pod_setup.or_exit_follows doltdb_setup.or_exit_follows new_manager.or_exit_follows get_config.or_exit_follows
  show ?thesis
    unfolding start_operator_def NewReplicationReconciler_result sum.case startup_plan_def
    by (rule trans, (rule steps stop)+) simp
qed

section \<open>What the flags do\<close>

text \<open>The flag for development logs is read before it is parsed: it has no effect.\<close>

lemma log_dev_mode_ignored: "fst (main_flags args) = True"
  by (simp add: main_flags_def Let_def defaultFlags_def)

text \<open>The SQL controllers get the requeue interval and the logging of statements from the flags.\<close>

lemma sqlOptions_of_flags:
  "NewSqlOptions (sqlOptions fl) = \<lparr>sqlo_RequeueInterval = fl_requeueSql fl, sqlo_LogSql = fl_logSql fl\<rparr>"
  by (simp add: NewSqlOptions_def sqlOptions_def WithRequeueInterval_def WithLogSql_def)

text \<open>Unless HTTP/2 is enabled, the metrics and webhook servers offer HTTP/1.1 only.\<close>

lemma http2_disabled:
  "\<not> fl_enableHTTP2 fl \<Longrightarrow> fold (\<lambda>f. f) (mo_WebhookTLSOpts (managerOptions fl)) protos = [''http/1.1'']"
  "\<not> fl_enableHTTP2 fl \<Longrightarrow> fold (\<lambda>f. f) (mso_TLSOpts (mo_Metrics (managerOptions fl))) protos = [''http/1.1'']"
  by (simp_all add: managerOptions_def tlsOptions_def disableHTTP2_def)

text \<open>A list of namespaces joined by commas is read back; the order and repetitions do not matter.\<close>

lemma split_on_join:
  "ws \<noteq> [] \<Longrightarrow> \<forall>w \<in> set ws. d \<notin> set w \<Longrightarrow> split_on d (str_join [d] ws) = ws"
proof (induction "[d]" ws rule: str_join.induct)
  case (3 x y ws)
  have "split_on d (x @ d # t) = x # split_on d t" if "d \<notin> set x" for x t
    using that by (induction x) auto
  with 3 show ?case by simp
qed (simp_all add: split_on_no_sep)

lemma cacheNamespaces_joined:
  assumes "fl_watchNamespaces fl = str_join '','' ws" and "\<forall>w \<in> set ws. CHR '','' \<notin> set w" and "ws \<noteq> [[]]"
  shows "cacheNamespaces fl = (if ws = [] then None else Some (set ws))"
proof (cases "ws = []")
  case False
  have "str_join '','' ws \<noteq> []"
    using False assms(3) by (induction "'',''" ws rule: str_join.induct) auto
  with False assms show ?thesis
    by (simp add: cacheNamespaces_def split_on_join flip: union_set_fold)
qed (simp add: assms(1) cacheNamespaces_def)

section \<open>What the registered watches do\<close>

text \<open>
  A password secret with the label wakes, through the registered watch and index, exactly the users
  of its namespace that take their password from it; a secret without the label wakes none.
\<close>

lemma registered_indexes:
  "User_IndexerFuncForFieldPath UserPasswordSecretFieldPath = Inr user_index"
  "Grant_IndexerFuncForFieldPath GrantUsernameFieldPath = Inr grant_index"
  by (simp_all add: User_IndexerFuncForFieldPath_def Grant_IndexerFuncForFieldPath_def user_index_def [abs_def]
      grant_index_def [abs_def])

lemma secret_change_reaches_users:
  assumes "w \<in> set (cs_Watches user_controller)" and "om_name m \<noteq> []"
  shows "ws_Predicate w (UpdateEvent (OtherObject old) (OtherObject m)) \<longleftrightarrow> hasLabel m WatchLabel"
    and "set (mapWatchedObjectToRequests (indexed user_key user_index us) user_key (ws_FieldPath w) m) =
      user_key ` {u \<in> set us. om_namespace (user_meta u) = om_namespace m \<and>
        map_option sr_name (uspec_PasswordSecretKeyRef (user_spec u)) = Some (om_name m)}"
proof -
  have w: "w = \<lparr>ws_Object = KSecret, ws_List = KUser, ws_FieldPath = UserPasswordSecretFieldPath,
      ws_Predicate = PredicateWithLabel client_meta WatchLabel\<rparr>"
    using assms(1) by (simp add: user_controller_def)
  show "ws_Predicate w (UpdateEvent (OtherObject old) (OtherObject m)) \<longleftrightarrow> hasLabel m WatchLabel"
    by (simp add: w PredicateWithLabel_def)
  show "set (mapWatchedObjectToRequests (indexed user_key user_index us) user_key (ws_FieldPath w) m) =
      user_key ` {u \<in> set us. om_namespace (user_meta u) = om_namespace m \<and>
        map_option sr_name (uspec_PasswordSecretKeyRef (user_spec u)) = Some (om_name m)}"
    using secret_wakes_users [OF registered_indexes(1) assms(2)] by (simp add: w)
qed

text \<open>Every event of a User wakes the grants of its namespace that name the User object.\<close>

lemma user_change_reaches_grants:
  assumes "w \<in> set (cs_Watches grant_controller)" and "om_name (user_meta u) \<noteq> []"
  shows "ws_Predicate w e"
    and "set (mapWatchedObjectToRequests (indexed grant_key grant_index gs) grant_key (ws_FieldPath w)
        (object_meta.truncate (user_meta u))) =
      grant_key ` {g \<in> set gs. om_namespace (grant_meta g) = om_namespace (user_meta u) \<and>
        gspec_Username (grant_spec g) = om_name (user_meta u)}"
  using user_wakes_grants [OF registered_indexes(2) assms(2)] assms(1) by (simp_all add: grant_controller_def)

end
