(* ===== verification/Setup_Properties.thy ===== *)
theory Setup_Properties
  imports Operator_Setup Failover_Properties Objects_Properties
begin

text \<open>
  The properties of the start of the operator and of the way from a pod that fails to the request for
  another primary, which leads through the built stateful set, the registered event filter and the pod
  controller.
\<close>

section \<open>The order of the start\<close>

fun completed :: "manager_call list \<Rightarrow> controller_spec list" where
  "completed [] = []"
| "completed (Complete s r # cs) = s # completed cs"
| "completed (_ # cs) = completed cs"

text \<open>Every watch of a registered controller lists by a field whose index was registered before.\<close>

fun watches_indexed :: "(kind \<times> string) set \<Rightarrow> manager_call list \<Rightarrow> bool" where
  "watches_indexed I [] \<longleftrightarrow> True"
| "watches_indexed I (IndexField k path f # cs) \<longleftrightarrow> watches_indexed (insert (k, path) I) cs"
| "watches_indexed I (Complete s r # cs) \<longleftrightarrow>
     list_all (\<lambda>w. (ws_List w, ws_FieldPath w) \<in> I) (cs_Watches s) \<and> watches_indexed I cs"
| "watches_indexed I (_ # cs) \<longleftrightarrow> watches_indexed I cs"

lemma watches_indexed_prefix: "watches_indexed I (p @ q) \<Longrightarrow> watches_indexed I p"
  by (induction I p rule: watches_indexed.induct) auto

lemma startup_plan_indexed: "watches_indexed I (startup_plan fl)"
  by (simp add: startup_plan_def doltdb_controller_def pod_controller_def user_controller_def
      grant_controller_def NewControllerManagedBy_def)

lemma startup_plan_completed:
  "map cs_For (completed (startup_plan fl)) =
     [KDoltDB, KPod, KSnapshot, KDatabase, KUser, KGrant, KBackup, KBackupSchedule]"
  by (simp add: startup_plan_def doltdb_controller_def pod_controller_def user_controller_def
      grant_controller_def NewControllerManagedBy_def)

lemma startup_plan_start: "startup_plan fl = p @ c # q \<Longrightarrow> StartManager \<in> set (p @ [c]) \<Longrightarrow> q = []"
proof -
  assume plan: "startup_plan fl = p @ c # q" and start: "StartManager \<in> set (p @ [c])"
  have "startup_plan fl = butlast (startup_plan fl) @ [StartManager]" "StartManager \<notin> set (butlast (startup_plan fl))"
    by (simp_all add: startup_plan_def)
  with plan start show "q = []"
    by (cases q rule: rev_cases) (auto simp: butlast_append)
qed

section \<open>Pods of a built stateful set\<close>

lemma distinct_merge_map: "distinct (map fst dst) \<Longrightarrow> distinct (map fst (merge_map dst src))"
  unfolding merge_map_def by (induction src arbitrary: dst) (auto simp: distinct_update)

lemma map_of_merge_distinct:
  "distinct (map fst src) \<Longrightarrow> map_of (merge_map dst src) = map_of dst ++ map_of src"
  by (simp add: map_of_merge_map map_of_rev_distinct)

lemma template_annotations:
  assumes "BuildDoltStatefulSet L key d hash = Inr ss" and "Annotation \<notin> fst ` set (spec_PodAnnotations (db_spec d))"
  shows "map_of (om_annotations (pt_meta (sts_template ss))) Annotation = Some (nn_name key)"
    and "map_of (om_annotations (pt_meta (sts_template ss))) ReplicationAnnotation \<noteq> None"
proof -
  let ?own = "AList.update ReplicationAnnotation (show_bool (ReplEnabled d)) [(Annotation, nn_name key)]"
  let ?base = "merge_map (merge_map [] (om_annotations (db_meta d))) ?own"
  let ?user = "merge_map [] (spec_PodAnnotations (db_spec d))"
  obtain h where ann: "om_annotations (pt_meta (sts_template ss)) = merge_map (merge_map [] ?base)
      (if h \<noteq> [] then AList.update ConfigMapHashAnnotation h ?user else ?user)"
    using assms(1) by (auto simp: BuildDoltStatefulSet_def withOwner_def Let_def doltPodTemplate_def ownedMeta_def
        MetaWithAnnotations_def MetaWithLabels_def MetaWithMetadata_def NewMetadataBuilder_def zero_meta_def
        split: sum.splits)
  have keys: "Annotation \<noteq> ReplicationAnnotation" "Annotation \<noteq> ConfigMapHashAnnotation"
      "ReplicationAnnotation \<noteq> ConfigMapHashAnnotation"
    by (simp_all add: Annotation_def ReplicationAnnotation_def ConfigMapHashAnnotation_def)
  have base: "map_of (merge_map [] ?base) = map_of (merge_map [] (om_annotations (db_meta d))) ++ map_of ?own"
    by (simp add: map_of_merge_distinct distinct_merge_map distinct_update del: update.simps)
  have user: "map_of ?user Annotation = None"
    using assms(2) by (simp add: map_of_merge_map map_of_eq_None_iff)
  have dist: "distinct (map fst (if h \<noteq> [] then AList.update ConfigMapHashAnnotation h ?user else ?user))"
    by (simp add: distinct_merge_map distinct_update)
  show "map_of (om_annotations (pt_meta (sts_template ss))) Annotation = Some (nn_name key)"
    using keys user by (simp add: ann map_of_merge_distinct [OF dist] base map_add_def del: update.simps)
  show "map_of (om_annotations (pt_meta (sts_template ss))) ReplicationAnnotation \<noteq> None"
    using keys by (auto simp: ann map_of_merge_distinct [OF dist] base map_add_def simp del: update.simps split: option.splits)
qed

text \<open>
  A pod of the set carries the annotations of the template, whatever was added later; its events pass
  the filter that the start registers exactly when it becomes ready or stops being ready.
\<close>

definition pod_of_set :: "sts \<Rightarrow> pod \<Rightarrow> bool" where
  "pod_of_set ss p \<longleftrightarrow> map_of (om_annotations (pt_meta (sts_template ss))) \<subseteq>\<^sub>m map_of (om_annotations (pod_meta p))"

lemma pod_of_set_annotation: "pod_of_set ss p \<Longrightarrow>
    map_of (om_annotations (pt_meta (sts_template ss))) k = Some v \<Longrightarrow> map_of (om_annotations (pod_meta p)) k = Some v"
  by (metis domI map_le_def pod_of_set_def)

lemma registered_pod_filter:
  assumes "Complete c (PodReconciler r) \<in> set (startup_plan fl)"
  shows "cs_EventFilter c = Some (PredicateChangedWithAnnotations client_meta podAnnotationKeys podObjectHasChanged)"
  using assms
  by (auto simp: startup_plan_def NewDatabaseReconciler_def NewUserReconciler_def NewGrantReconciler_def
      pod_controller_def NewControllerManagedBy_def NewPodController_def)

lemma pod_filter_passes:
  "PredicateChangedWithAnnotations client_meta ks podObjectHasChanged (UpdateEvent (PodObject old) (PodObject new)) \<longleftrightarrow>
     podEvents ks (UpdateEvent old new)"
  by (simp add: podEvents_def PredicateChangedWithAnnotations_def podObjectHasChanged_def)

text \<open>A failover request does not touch the condition that tells of a resize, so the switchover is due.\<close>

lemma switching_patch_resizing:
  assumes "condition_library E"
  shows "IsResizingStorage E (switching_patch E d) = IsResizingStorage E d"
proof -
  have "ConditionTypeStorageResized \<notin> {ConditionTypeReady, ConditionTypePrimarySwitched}"
    by (simp add: ConditionTypeStorageResized_def ConditionTypeReady_def ConditionTypePrimarySwitched_def)
  then show ?thesis
    by (simp add: IsResizingStorage_def switching_patch_def condition_library.lib_is_false [OF assms]
        condition_library.condition_facts [OF assms])
qed

lemma requestFailover_resizing:
  assumes "condition_library E" and "echoes_patches E"
  shows "wp (requestFailover E i j) (\<lambda>_ s'. IsResizingStorage E (the_db (obj s')) = IsResizingStorage E (the_db (obj s))) s"
  using assms(2)
  by (simp add: requestFailover_defs PatchDoltDB_def wp_simps echoes_patches_def errors_Join_two
      switching_patch_resizing [OF assms(1)]) (simp add: IsResizingStorage_def)

lemma ReconcilePodNotReady_resizing:
  assumes "condition_library E" and "echoes_patches E"
  shows "wp (ReconcilePodNotReady E p)
    (\<lambda>_ s'. IsResizingStorage E (the_db (obj s')) = IsResizingStorage E (the_db (obj s))) s"
proof -
  let ?s = "s\<lparr>obj := (obj s)\<lparr>the_db := Replication_fill (the_db (obj s))\<rparr>\<rparr>"
  have same: "IsResizingStorage E d' = IsResizingStorage E d" if "db_status d' = db_status d" for d d'
    using that by (simp add: IsResizingStorage_def)
  have fill: "IsResizingStorage E (Replication_fill d) = IsResizingStorage E d" for d
    by (simp add: IsResizingStorage_def)
  have target: "wp (failoverTarget E) (\<lambda>_ s'. db_status (the_db (obj s')) = db_status (the_db (obj s))) ?s"
    if "status_CurrentPrimaryPodIndex (db_status (the_db (obj s))) = Some i" for i
    by (rule wp_mono [OF failoverTarget_told [of ?s i]]) (use that in \<open>auto dest: framedD(2)\<close>)
  have request: "wp (requestFailover E i j)
      (\<lambda>_ s'. IsResizingStorage E (the_db (obj s')) = IsResizingStorage E (the_db (obj s))) s1"
    if "db_status (the_db (obj s1)) = db_status (the_db (obj s))" for i j s1
    using requestFailover_resizing [OF assms, of i j s1] same [OF that] by simp
  show ?thesis
    unfolding ReconcilePodNotReady_def shouldReconcile_def
    by (auto simp: wp_simps fill split: option.split sum.split intro!: wp_mono [OF target] request same)
qed

lemma Pod_Reconcile_failover:
  assumes "condition_library E" and "echoes_patches E" and "failover_due p d"
    and "status_CurrentPrimaryPodIndex (db_status d) = Some i" and "lists_standby E d i"
    and "\<not> PodReady p" and "\<And>h. env_GetPod E h req = Inr p"
    and "map_of (om_annotations (pod_meta p)) Annotation = Some n"
    and "\<And>h. env_GetDoltDB E h (nn n (om_namespace (pod_meta p))) = Inr d"
    and "\<not> IsResizingStorage E d"
  shows "wp (Pod_Reconcile E req)
    (\<lambda>r s'. r = (ResultZero, None) \<and> IsSwitchingPrimary E (the_db (obj s')) \<and>
       switchover_needed E (the_db (obj s'))) s"
proof -
  have request: "wp (ReconcilePodNotReady E p)
      (\<lambda>r s'. r = None \<and> IsSwitchingPrimary E (the_db (obj s')) \<and> switchover_needed E (the_db (obj s'))) s1"
    if "the_db (obj s1) = d" for s1
    by (rule wp_mono [OF wp_conj [OF ReconcilePodNotReady_result ReconcilePodNotReady_resizing [OF assms(1,2)]]])
      (use assms that in \<open>auto simp: switchover_needed_def\<close>)
  show ?thesis
    unfolding Pod_Reconcile_def DoltDBFromAnnotation_def
    by (auto simp: wp_simps assms(6-9) intro!: wp_mono [OF request])
qed

section \<open>Properties\<close>

text \<open>
  C20: The start is all or nothing, and in order.  The process makes the calls of a fixed list until
  the manager refuses one, at which it exits with code 1; it runs until the manager stops exactly when
  every call is accepted.  A controller is registered only after the indexes of its watches, and when
  the manager is started, all eight controllers have been registered, each of them once.
\<close>

theorem operator_start:
  assumes "main_process args M = (out, calls)"
  shows "(exit_code out = 0 \<longleftrightarrow> accepts M [] (startup_plan (flag_Parse args defaultFlags))) \<and>
     (if exit_code out = 0 then calls = startup_plan (flag_Parse args defaultFlags)
      else exit_code out = 1 \<and> (\<exists>p c q. startup_plan (flag_Parse args defaultFlags) = p @ c # q \<and>
        calls = p @ [c] \<and> accepts M [] p \<and> M p c \<noteq> None)) \<and>
     watches_indexed {} calls \<and>
     (StartManager \<in> set calls \<longrightarrow> map cs_For (completed calls) =
        [KDoltDB, KPod, KSnapshot, KDatabase, KUser, KGrant, KBackup, KBackupSchedule])"
proof -
  let ?plan = "startup_plan (flag_Parse args defaultFlags)"
  have run: "attempt M [] ?plan = (out = Stopped, calls)"
    using start_follows_plan [of "flag_Parse args defaultFlags" M] assms
    by (simp add: main_process_def main_flags_def Let_def)
  have code: "exit_code out = 0 \<longleftrightarrow> out = Stopped" "out \<noteq> Stopped \<Longrightarrow> exit_code out = 1"
    by (cases out; simp)+
  show ?thesis
  proof (cases "out = Stopped")
    case True
    with run have "accepts M [] ?plan" "calls = ?plan" by (simp_all add: attempt_accepts)
    with True show ?thesis by (simp add: startup_plan_indexed startup_plan_completed)
  next
    case False
    with run have refused: "attempt M [] ?plan = (False, calls)" by simp
    from attempt_refused [OF this] obtain p c q
      where p: "?plan = p @ c # q" "calls = p @ [c]" "accepts M [] p" "M p c \<noteq> None" by auto
    have "watches_indexed {} calls"
      using startup_plan_indexed [of "{}" "flag_Parse args defaultFlags"] watches_indexed_prefix [of "{}" calls q]
      by (simp add: p(1,2))
    moreover have "map cs_For (completed calls) =
        [KDoltDB, KPod, KSnapshot, KDatabase, KUser, KGrant, KBackup, KBackupSchedule]" if "StartManager \<in> set calls"
      using startup_plan_start [OF p(1)] that p(1,2) startup_plan_completed [of "flag_Parse args defaultFlags"] by simp
    moreover have "\<not> accepts M [] ?plan"
      using refused attempt_accepts [of M "[]" ?plan] by auto
    ultimately show ?thesis
      using p False code by (simp del: append.simps)
  qed
qed

theorem operator_start_witness:
  "\<exists>out. main_process [LogDevMode False] (\<lambda>h c. if h = [] then None else Some (ErrNew ''refused'')) =
     (out, [GetConfigOrDie, NewManager (managerOptions (flag_Parse [LogDevMode False] defaultFlags))]) \<and> exit_code out = 1"
proof -
  let ?M = "\<lambda>h c. if h = [] then None else Some (ErrNew ''refused'')"
  obtain out calls where run: "main_process [LogDevMode False] ?M = (out, calls)"
    by (metis surj_pair)
  have "\<not> accepts ?M [] (startup_plan fl)" for fl
    by (simp add: startup_plan_def)
  with operator_start [OF run] have out: "exit_code out = 1"
    by (auto split: if_splits)
  have "calls = [GetConfigOrDie, NewManager (managerOptions (flag_Parse [LogDevMode False] defaultFlags))]"
    using run start_follows_plan [of "flag_Parse [LogDevMode False] defaultFlags" ?M]
    by (simp add: main_process_def main_flags_def Let_def startup_plan_def)
  with run out show ?thesis by blast
qed

text \<open>
  C13: A failed primary leads to a failover request.  Take a stateful set built for a DoltDB whose pod
  annotations leave the operator's key alone, and one of its pods that was ready and is not any more.
  Let a failover be due for the pod: it is the recorded primary, replication and automatic failover are
  on, and replication is configured; let the API server list a ready standby and apply the patches, and
  let no resize be under way.  Then the event passes the filter with which the start registers the pod
  controller, and the pass over that pod, which finds the DoltDB by the annotation, returns without an
  error and leaves the DoltDB marked as switching, in a state in which the replication controller
  starts a switchover: another primary is desired than the one recorded.
\<close>

theorem failed_primary_is_replaced:
  assumes built: "BuildDoltStatefulSet L (ObjectKeyFromObject b) b hash = Inr ss"
    and user: "Annotation \<notin> fst ` set (spec_PodAnnotations (db_spec b))"
    and pods: "pod_of_set ss old" "pod_of_set ss p" "om_namespace (pod_meta p) = om_namespace (db_meta b)"
    and failed: "PodReady old" "\<not> PodReady p"
    and registered: "Complete c (PodReconciler r) \<in> set (startup_plan fl)"
    and server: "\<And>h. env_GetPod E h req = Inr p" "\<And>h. env_GetDoltDB E h (ObjectKeyFromObject b) = Inr d"
      "condition_library E" "echoes_patches E" "lists_standby E d i"
    and due: "failover_due p d" "status_CurrentPrimaryPodIndex (db_status d) = Some i" "\<not> IsResizingStorage E d"
    and run: "run_state (Pod_Reconcile E req) s = (res, s')"
  shows "(\<exists>f. cs_EventFilter c = Some f \<and> f (UpdateEvent (PodObject old) (PodObject p))) \<and>
     res = (ResultZero, None) \<and> IsSwitchingPrimary E (the_db (obj s')) \<and> switchover_needed E (the_db (obj s'))"
proof -
  note template = template_annotations [OF built user]
  have keys: "hasAnnotations (pod_meta x) podAnnotationKeys" if "pod_of_set ss x" for x
    using template pod_of_set_annotation [OF that]
    by (auto simp: hasAnnotations_def podAnnotationKeys_def)
  have passes: "\<exists>f. cs_EventFilter c = Some f \<and> f (UpdateEvent (PodObject old) (PodObject p))"
    using keys pods failed
    by (simp add: registered_pod_filter [OF registered] pod_filter_passes pod_events)
  have name: "map_of (om_annotations (pod_meta p)) Annotation = Some (om_name (db_meta b))"
    using pod_of_set_annotation [OF pods(2) template(1)] by (simp add: ObjectKeyFromObject_def)
  have "env_GetDoltDB E h (nn (om_name (db_meta b)) (om_namespace (pod_meta p))) = Inr d" for h
    using server(2) pods(3) by (simp add: ObjectKeyFromObject_def)
  from wpI [OF Pod_Reconcile_failover [OF server(3,4) due(1,2) server(5) failed(2) server(1) name this due(3)] run]
  show ?thesis using passes by simp
qed

text \<open>A pod as it is made from the template.\<close>

definition pod_from :: "sts \<Rightarrow> pod \<Rightarrow> pod" where
  "pod_from ss p = p\<lparr>pod_meta := (pod_meta p)\<lparr>om_annotations := om_annotations (pt_meta (sts_template ss))\<rparr>\<rparr>"

theorem failed_primary_is_replaced_witness:
  "\<exists>ss s'. BuildDoltStatefulSet ref_env (nn ''dolt'' ''ns'') failover_db ''h'' = Inr ss \<and>
     run_state (Pod_Reconcile (ref_env\<lparr>env_GetPod := (\<lambda>h k. Inr (pod_from ss failed_pod)),
         env_GetDoltDB := (\<lambda>h k. Inr failover_db)\<rparr>) (nn ''dolt-0'' ''ns'')) (ref_cfg ref_db) = ((ResultZero, None), s') \<and>
     switchover_needed ref_env (the_db (obj s'))"
proof -
  have key: "ObjectKeyFromObject failover_db = nn ''dolt'' ''ns''"
    by (simp add: failover_db_def ref_db_def ref_meta_def ObjectKeyFromObject_def)
  obtain ss where ss: "BuildDoltStatefulSet ref_env (ObjectKeyFromObject failover_db) failover_db ''h'' = Inr ss"
    by (simp add: BuildDoltStatefulSet_def withOwner_def ref_env_def Let_def)
  let ?p = "pod_from ss failed_pod" and ?old = "pod_from ss (ref_pod ''dolt-0'')"
  let ?E = "ref_env\<lparr>env_GetPod := (\<lambda>h k. Inr ?p), env_GetDoltDB := (\<lambda>h k. Inr failover_db)\<rparr>"
  obtain res s' where run: "run_state (Pod_Reconcile ?E (nn ''dolt-0'' ''ns'')) (ref_cfg ref_db) = (res, s')"
    by (cases "run_state (Pod_Reconcile ?E (nn ''dolt-0'' ''ns'')) (ref_cfg ref_db)")
  let ?r = "NewPodController ''pod-replication'' podAnnotationKeys"
  have pods: "pod_of_set ss ?old" "pod_of_set ss ?p" "om_namespace (pod_meta ?p) = om_namespace (db_meta failover_db)"
      "PodReady ?old" "\<not> PodReady ?p"
    by (simp_all add: pod_of_set_def pod_from_def failed_pod_def ref_pod_def ref_meta_def PodReady_def
        failover_db_def ref_db_def)
  have server: "condition_library ?E" "echoes_patches ?E" "lists_standby ?E failover_db 0"
    using ref_env_contract failover_db_facts(2,3)
    by (simp_all add: condition_library_def echoes_patches_def lists_standby_def)
  have due: "failover_due ?p failover_db" "\<not> IsResizingStorage ?E failover_db"
    using failover_db_facts(1)
    by (simp_all add: failover_due_def pod_from_def IsResizingStorage_def failover_db_def ref_status_def ref_env_def ref_is_def)
  have user: "Annotation \<notin> fst ` set (spec_PodAnnotations (db_spec failover_db))"
    by (simp add: failover_db_def ref_db_def ref_spec_def)
  have registered: "Complete (pod_controller ?r) (PodReconciler ?r) \<in> set (startup_plan defaultFlags)"
    by (simp add: startup_plan_def)
  have "res = (ResultZero, None) \<and> switchover_needed ?E (the_db (obj s'))"
    using failed_primary_is_replaced [OF ss user pods registered _ _ server due(1) failover_db_facts(4) due(2) run] by simp
  then have "res = (ResultZero, None) \<and> switchover_needed ref_env (the_db (obj s'))"
    by (simp add: switchover_needed_def IsResizingStorage_def)
  with run ss key show ?thesis by auto
qed

end
