(* ===== verification/Deviations.thy ===== *)
theory Deviations
  imports Backup_Properties Schedule_Properties Controller_Properties Objects_Properties
begin

text \<open>
  Behaviour of the code that differs from what it means to do, as lemmas about the definitions of the
  components: what happens, and under which replies of the API server it happens.
\<close>

section \<open>Backups\<close>

text \<open>
  \<open>handleFailure\<close>, at the last attempt and with patches that are rejected, returns neither an error
  nor a request for another pass; the server has not been told that the backup failed.
\<close>

lemma rejected_failure_forgotten:
  assumes "\<And>h b n. \<exists>e. re_PatchBackupStatus E h b n = Inl e"
    and "Backup_GetBackoffLimit (obj s) \<le> wrap32 (bstatus_RetryCount (backup_status (obj s)) + 1)"
  shows "wp (handleFailure E err) (\<lambda>r s'. r = (ResultZero, None) \<and> (\<exists>t. trace s' = trace s @ t \<and>
      list_all (\<lambda>c. \<exists>b n. c = RPatchBackupStatus b n) t)) s"
proof -
  have limit: "Backup_GetBackoffLimit (b\<lparr>backup_status := st\<rparr>) = Backup_GetBackoffLimit b" for b st
    by (simp add: Backup_GetBackoffLimit_def)
  obtain reject where "\<And>h b n. re_PatchBackupStatus E h b n = Inl (reject h b n)"
    using assms(1) by metis
  then show ?thesis
    using assms(2)
    by (simp add: handleFailure_def PatchBackupStatus_def patch_object_def wp_simps retriedStatus_def
        ShouldRetry_def limit Let_def)
qed

text \<open>
  A backup that is listed as running, whether or not any pass still works on it, keeps every other
  backup of the DoltDB waiting: such a pass only queries and changes nothing.
\<close>

lemma ensureReady_waits: "wp (ensureReady E r ns) (\<lambda>x _. x \<noteq> Inl (ResultZero, None)) s"
  unfolding ensureReady_def wp_bind
proof (rule wp_any)
  fix d s1
  show "wp (case d of Inl err \<Rightarrow> ret (Inl (ResultZero, Some (ErrW ''error resolving DoltDB: '' err)))
      | Inr doltdb \<Rightarrow> State_Monad.bind (resource_wait E doltdb) (\<lambda>(result, err).
          ret (if err \<noteq> None \<or> \<not> IsZero result then Inl (result, err) else Inr doltdb)))
    (\<lambda>x _. x \<noteq> Inl (ResultZero, None)) s1"
    by (cases d) (auto simp: wp_bind wp_return IsZero_def intro!: wp_any [where p = "resource_wait E db" for db])
qed

lemma running_backup_blocks:
  assumes "bstatus_Phase (backup_status (obj s)) \<noteq> []"
    and "\<And>h. \<exists>items. re_ListBackups E h (om_namespace (backup_meta (obj s))) = Inr items \<and> list_ex (blocks (obj s)) items"
  shows "wp (processBackup E) (\<lambda>r s'. r \<noteq> (ResultZero, None) \<and> obj s' = obj s \<and> follows (\<lambda>_. ambient) s s') s"
proof -
  let ?still = "\<lambda>s'. obj s' = obj s \<and> follows (\<lambda>_. ambient) s s'"
  have running: "wp (hasRunningBackup E) (\<lambda>r s'. r = Inr True \<and> ?still s') s1" if s1: "?still s1" for s1
  proof (rule wp_conj [THEN wp_mono])
    show "wp (hasRunningBackup E) (\<lambda>r _. r = Inr True) s1"
      using assms(2) [of "trace s1"] by (auto simp: hasRunningBackup_def wp_simps s1)
    show "wp (hasRunningBackup E) (\<lambda>_ s'. follows (\<lambda>_. ambient) s1 s' \<and> obj s' = obj s1) s1"
      using calm_running by (simp add: calm_def)
  qed (use s1 follows_trans [of "\<lambda>_. ambient"] in auto)
  have ready: "wp (ensureReady E r ns) (\<lambda>x s'. x \<noteq> Inl (ResultZero, None) \<and> ?still s') s" for r ns
    using wp_conj [OF ensureReady_waits calm_ready [unfolded calm_def, rule_format]]
    by (rule wp_mono) auto
  show ?thesis
    using assms(1) unfolding processBackup_def ensurePending_def
    by (auto simp: wp_simps ResultZero_def ResultAfter_def Second_def split: sum.split intro!: wp_mono [OF ready] wp_mono [OF running])
qed

section \<open>Schedules\<close>

text \<open>
  When the backup of a tick exists already, as after a status patch that was rejected, the pass ends
  without recording the tick: the object is unchanged, and so the next pass finds the same tick due.
\<close>

lemma existing_backup_unrecorded:
  assumes "\<And>h b. \<exists>m. re_CreateBackup E h b = Some (ApiErr AlreadyExists m)"
    and "BuildBackup (re_lib E) (obj s) now = Inr b"
  shows "wp (createScheduled E now requeueAfter)
    (\<lambda>r s'. r = (ResultAfter requeueAfter, None) \<and> obj s' = obj s \<and> trace s' = trace s @ [RCreateBackup b]) s"
  using assms(1) [of "trace s" b] assms(2)
  by (auto simp: createScheduled_def wp_simps IsAlreadyExists_def)

section \<open>The order of the pods\<close>

text \<open>
  Pods are sorted by their names as strings.  With pods 2 and 10 ready and pod 0 the primary, the
  first healthy replica is pod 10.
\<close>

lemma pods_sorted_as_strings:
  "healthy_replica_loop 0 (sortPodList [ref_pod ''dolt-2'', ref_pod ''dolt-10'']) = Inr 10"
  by code_simp

text \<open>A pod of another stateful set whose name starts with the name of this one passes the check.\<close>

lemma foreign_name_accepted: "ValidPodName (ref_meta ''dolt'') 3 ''dolthub-1'' = None"
  by code_simp

section \<open>Services and cluster status\<close>

text \<open>A step that asks for another pass without an error becomes an error, and the request is lost.\<close>

lemma service_requeue_becomes_error:
  assumes "wp step (\<lambda>r _. r = (ResultRequeue, None)) s"
  shows "wp (serviceStep msg step continue) (\<lambda>r _. r = (ResultZero, Some (errorf msg None))) s"
  unfolding serviceStep_def wp_bind
  by (rule wp_mono [OF assms]) (simp add: wp_simps IsZero_def ResultZero_def ResultRequeue_def)

text \<open>The error that ends a result set is replaced by one that does not depend on it.\<close>

lemma cluster_status_cause_lost:
  assumes "env_ClusterStatus E (trace s) c = Inr (rows, Some cause)" and "scan_rows rows = Inr states"
  shows "wp (GetClusterStatus E c) (\<lambda>r _. r = Inl (ErrNew ''error loading dolt_cluster_status rows: %!w(<nil>)'')) s"
  by (simp add: GetClusterStatus_def wp_simps assms)

end
