(* ===== verification/Spec2Isabelle.thy ===== *)
theory Spec2Isabelle
  imports Failover_Properties Election_Properties Storage_Properties Objects_Properties Controller_Properties
    Sql_Properties Backup_Properties Schedule_Properties Snapshot_Properties Setup_Properties Deviations
begin

text \<open>
  The DoltDB operator, modelled and verified.

  The operator is a set of Kubernetes controllers that run clusters of Dolt SQL servers.  A cluster
  is a \<open>DoltDB\<close> custom resource: a stateful set of pods, one of them the primary, the others standbys
  that replicate from it, with services, configuration and access rights around it.  Further custom
  resources describe databases, users and grants inside a cluster, backups and their schedules, and
  volume snapshots.  A controller is a function that is called with the key of an object, reads the
  state of the world from the Kubernetes API server and the SQL servers, makes the requests it thinks
  necessary, and returns a result that says whether and when to call it again.

  \<^bold>\<open>The model.\<close>  Every reconcile function is a computation in the state monad over the trace of the
  requests made so far and the object in memory (theory \<open>Prelude\<close>: \<open>cfg\<close>, \<open>prog\<close>, \<open>perform\<close>, and the
  weakest precondition \<open>wp\<close>).  A reply is a function of the whole trace, so a theorem about an
  arbitrary environment covers failures, other writers and servers that change their mind.  What is
  not code of the repository is a field of such an environment: \<open>lib\<close> and \<open>env\<close> in \<open>Kube_Client\<close> for
  the controllers of a DoltDB, \<open>resource_env\<close> in \<open>Resource_Client\<close> for those of the other resources,
  which embeds the first through \<open>via_base\<close>.  A theorem that needs more than an arbitrary environment
  says so in a named predicate, and its witness applies it in the concrete environments of
  \<open>Reference_Env\<close> and \<open>Reference_Resources\<close>.  Go errors are the datatype \<open>goerr\<close> with the wrapping the
  code applies; a fallible function returns \<open>goerr option\<close> or \<open>goerr + 'a\<close>.  Go's \<open>int\<close> and \<open>int32\<close>
  are integers, with \<open>wrap64\<close> and \<open>wrap32\<close> where a sum is stored; times are nanoseconds.

  \<^bold>\<open>Theories and sources.\<close>  File names are relative to \<open>src/\<close>.
  \<^item> \<open>Prelude\<close>: strings, numbers, maps, errors, results, computations with requests.
  \<^item> \<open>Objects\<close>, \<open>Naming\<close>: the Kubernetes objects; \<open>pkg/statefulset\<close>, \<open>pkg/pod\<close>, \<open>pkg/pvc\<close>.
  \<^item> \<open>Api_Types\<close>, \<open>Conditions\<close>: \<open>api/v1alpha\<close> for the DoltDB, \<open>pkg/conditions\<close>, \<open>pkg/patch\<close>.
  \<^item> \<open>Kube_Client\<close>, \<open>Frame_Rules\<close>, \<open>Request_Rules\<close>: requests and replies, and the calculi that bound
    which requests an operation makes.
  \<^item> \<open>Dolt_Model\<close>, \<open>Health\<close>, \<open>Dolt_Sql\<close>: \<open>pkg/dolt\<close>, labels and metadata, \<open>pkg/health\<close>,
    \<open>pkg/refresolver\<close>, and \<open>pkg/dolt/sql\<close> as far as replication uses it.
  \<^item> \<open>Switchover\<close>, \<open>Replication_Controller\<close>, \<open>Failover\<close>: \<open>pkg/controller/replication\<close> and
    \<open>internal/controller/pod_controller.go\<close>.
  \<^item> \<open>Builders\<close>, \<open>Owned_Objects\<close>: \<open>pkg/builder\<close>, \<open>pkg/controller/service\<close>, \<open>configmap\<close>, \<open>rbac\<close>.
  \<^item> \<open>Stateful_Set\<close>, \<open>Storage\<close>, \<open>Cluster_Status\<close>: \<open>pkg/controller/statefulset\<close>, \<open>pkg/wait\<close>,
    \<open>pkg/controller/storage\<close>, \<open>pkg/controller/status\<close>.
  \<^item> \<open>Doltdb_Controller\<close>: \<open>internal/controller/doltdb_controller.go\<close>, the ten phases of a pass.
  \<^item> \<open>Resource_Types\<close>, \<open>Resource_Client\<close>: the other custom resources of \<open>api/v1alpha\<close>, and the requests
    of their controllers.
  \<^item> \<open>Sql_Statements\<close>, \<open>Sql_Resources\<close>: \<open>pkg/dolt/sql\<close> for databases, users and grants,
    \<open>pkg/controller/database\<close> and \<open>internal/controller/database_controller.go\<close>, \<open>user_controller.go\<close>,
    \<open>grant_controller.go\<close>.
  \<^item> \<open>Backup_Controller\<close>, \<open>Backup_Schedule\<close>, \<open>Snapshots\<close>: \<open>pkg/dolt/sql/backup.go\<close>,
    \<open>pkg/controller/backup\<close>, \<open>backupschedule\<close>, \<open>volumesnapshot\<close> and their controllers in
    \<open>internal/controller\<close>; the builders of cron jobs and volume snapshots.
  \<^item> \<open>Watches\<close>: \<open>pkg/predicate\<close> and \<open>pkg/watch\<close>, which events wake which controller.
  \<^item> \<open>Operator_Setup\<close>: \<open>cmd/main.go\<close>, the flags and the start of the process, and what each
    \<open>SetupWithManager\<close> registers.  The manager of the controller runtime is a function from the calls
    made so far and the next call to an error or nothing.

  \<^bold>\<open>What is proved.\<close>
  \<^item> Switchover and failover (\<open>Switchover_Properties\<close>, \<open>Failover_Properties\<close>): a switchover refines an
    abstract protocol in which the cluster is marked as switching, the old primary is released before
    the new one is promoted, at one epoch, and recorded after it acknowledged; every role statement
    carries an epoch above all reported ones; against servers that answer it completes.  The failover
    controller acts only when a failover of the DoltDB that the pod names is due, and picks the
    freshest standby.  A switchover does not finish while the pod it started from is not ready.
  \<^item> Elections and configuration (\<open>Election_Properties\<close>): names and ordinals read back, complete
    configuration files, who is primary, who is promoted next.
  \<^item> Status, updates, storage (\<open>Status_Properties\<close>, \<open>Update_Properties\<close>, \<open>Storage_Properties\<close>): what a
    status pass may write, at most one restarted pod per pass with the primary last, claims only grow,
    a waiting resize ends, and three situations in which the code gets stuck or promotes the wrong
    pod: in any cluster with primary 0 an update promotes the pod it demoted when the first standby is
    the one that has caught up; a failover during a waiting resize leaves the resize and the
    switchover waiting for each other; and a resize whose last mark was lost is never finished.
  \<^item> Objects and the whole pass (\<open>Objects_Properties\<close>, \<open>Operator_Writes\<close>, \<open>Controller_Properties\<close>): services
    route by role, stateful sets are well formed, foreign bindings are refused, every request of a
    pass changes only what is the operator's to change, and a scale-down that removes the primary
    never proceeds.
  \<^item> SQL resources (\<open>Sql_Lifecycle\<close>, \<open>Sql_Properties\<close>): the shared reconciler and finalizer are verified
    once in the locale \<open>sql_resource\<close>, interpreted for databases, users and grants; names in
    statements read back; two errors of the cleanup and of the creation.
  \<^item> Backups, schedules, snapshots (\<open>Resource_Rules\<close>, \<open>Backup_Properties\<close>, \<open>Schedule_Properties\<close>,
    \<open>Snapshot_Properties\<close>): against an API server that applies merge patches and may reject any of
    them, the recorded phase of a backup moves along an abstract machine and ends; the backups of a
    schedule are those of an abstract scheduler; a snapshot covers every claim or stops at one.
  \<^item> The start and the way to a failover (\<open>Operator_Setup\<close>, \<open>Setup_Properties\<close>): the start is a fixed list
    of calls that ends at the first one refused, with indexes before the controllers that need them;
    a pod of a built stateful set that fails passes the registered filter, is traced to its DoltDB and
    leads to the request for another primary; which secrets and users wake which users and grants.
  \<^item> \<open>Deviations\<close>: smaller situations in which the code does not do what it means to.
  The interfaces are locales: \<open>conditioner\<close> and \<open>condition_library\<close> (conditions), the predicates on
  requests in \<open>Request_Rules\<close>, \<open>sql_resource\<close>, and \<open>setup_contract\<close> for the steps of the start; each is
  interpreted on the definitions of the model.

  \<^bold>\<open>Bounds.\<close>  A Go poll with a deadline asks \<open>env_PollRounds\<close> or \<open>re_PollRounds\<close> times; both are
  arbitrary, and no theorem bounds them from above, so a result holds for every deadline; they may
  even be 0, although a poll of the code asks at least once, so the model allows more runs.  No other
  loop needs fuel: all loops run over lists.  A sequence of passes (\<open>passes\<close>, \<open>schedule_passes\<close>) is
  indexed by its length.

  \<^bold>\<open>Not modelled.\<close>  Generated deep copies (values are immutable here); the scheme, signal handling and the
  parsing of flag values at the start; constructors that only store shared references; metrics, log lines and event messages that no
  decision reads; conversions between equal types.  Go's scheduler: the passes of one controller are
  sequential by the contract of the runtime, and what other controllers do between two requests is
  covered by replies that depend on the trace.  Serialisation (YAML, JSON), hashing, cron expressions
  and the string form of quantities are parameters.  The reply of an operation that runs inside
  \<open>via_base\<close> depends on the requests before the operation and on its own, which is every history
  there is.
\<close>

end
